(* ===== verification/Prelude.thy ===== *)
theory Prelude
  imports Main "HOL-Library.Word"
begin

text \<open>
  Shared vocabulary of the development: the types that every component uses, the ways a C++
  routine can leave normal execution, and the generic lemmas and theorem collections on which
  the component proofs rest.

  A \<open>std::string\<close> is a list of 8-bit characters, so HOL's \<open>string\<close> serves both for text and
  for raw byte buffers. Integers of a fixed width are words. A routine that can fail returns
  \<open>fault + 'a\<close>: \<open>Inl\<close> says why it did not return.
\<close>

unbundle bit_operations_syntax

type_synonym bytes = string
type_synonym int32 = "32 word"
type_synonym uint16 = "16 word"

section \<open>Faults\<close>

text \<open>
  \<open>Thrown\<close> is a C++ exception with its \<open>what()\<close> text; the others are undefined behaviour that
  the source does not guard against: dereferencing a null pointer, indexing outside a container,
  copying outside a buffer, overwriting a live pointer, dividing by zero, and a failing \<open>assert\<close>. \<open>ProcessExit\<close> is a call of \<open>exit\<close>.
\<close>

datatype fault =
    Thrown string
  | NullDereference
  | IndexOutOfRange
  | BufferOverrun
  | CorruptedPointer
  | DivisionByZero
  | AssertFailed
  | ProcessExit

type_synonym 'a result = "fault + 'a"

definition bind_result :: "'a result \<Rightarrow> ('a \<Rightarrow> 'b result) \<Rightarrow> 'b result" where
  "bind_result r f = (case r of Inl e \<Rightarrow> Inl e | Inr x \<Rightarrow> f x)"

lemma bind_result_simps [simp]:
  "bind_result (Inl e) f = Inl e"
  "bind_result (Inr x) f = f x"
  by (simp_all add: bind_result_def)

lemma bind_result_Inr_iff:
  "bind_result r f = Inr y \<longleftrightarrow> (\<exists>x. r = Inr x \<and> f x = Inr y)"
  by (cases r) auto

lemma bind_result_assoc:
  "bind_result (bind_result r f) g = bind_result r (\<lambda>x. bind_result (f x) g)"
  by (cases r) auto

text \<open>A routine with a loop that may go on for ever: \<open>None\<close> means that it never returns.\<close>

type_synonym 'a run = "'a result option"

definition bind_run :: "'a run \<Rightarrow> ('a \<Rightarrow> 'b run) \<Rightarrow> 'b run" where
  "bind_run r f = (case r of None \<Rightarrow> None | Some (Inl e) \<Rightarrow> Some (Inl e) | Some (Inr x) \<Rightarrow> f x)"

lemma bind_run_simps [simp]:
  "bind_run None f = None"
  "bind_run (Some (Inl e)) f = Some (Inl e)"
  "bind_run (Some (Inr x)) f = f x"
  by (simp_all add: bind_run_def)

lemma bind_run_Some_Inr_iff:
  "bind_run r f = Some (Inr y) \<longleftrightarrow> (\<exists>x. r = Some (Inr x) \<and> f x = Some (Inr y))"
  by (auto simp: bind_run_def split: option.splits sum.splits)

section \<open>Text\<close>

text \<open>\<open>std::to_string\<close> of an \<open>int\<close>.\<close>

fun digits :: "nat \<Rightarrow> string" where
  "digits n =
     (if n < 10 then [char_of (48 + n)] else digits (n div 10) @ [char_of (48 + n mod 10)])"

declare digits.simps [simp del]

definition to_string :: "int \<Rightarrow> string" where
  "to_string i = (if i < 0 then ''-'' @ digits (nat (- i)) else digits (nat i))"

lemma digits_not_empty: "digits n \<noteq> []"
  by (subst digits.simps) simp

lemma char_of_digit: "m < (10::nat) \<Longrightarrow> of_char (char_of (48 + m) :: char) = 48 + m"
  by (simp add: of_char_of)

lemma digits_inject: "digits m = digits n \<longleftrightarrow> m = n"
proof
  have "foldl (\<lambda>a c. 10 * a + (of_char c - 48)) 0 (digits k) = k" for k
  proof (induction k rule: digits.induct)
    case (1 k)
    show ?case
    proof (cases "k < 10")
      case True
      then show ?thesis by (subst digits.simps) (simp add: char_of_digit)
    next
      case False
      with 1 show ?thesis by (subst digits.simps) (simp add: char_of_digit)
    qed
  qed
  then show "digits m = digits n \<Longrightarrow> m = n" by metis
qed simp

lemma digits_no_null: "CHR 0x00 \<notin> set (digits n)"
proof (induction n rule: digits.induct)
  case (1 n)
  have "CHR 0x00 \<noteq> char_of (48 + m)" if "m < (10::nat)" for m
  proof
    assume "CHR 0x00 = char_of (48 + m)"
    then have "of_char (CHR 0x00) = (of_char (char_of (48 + m) :: char) :: nat)" by simp
    with char_of_digit [OF that] show False by simp
  qed
  with 1 show ?case by (subst digits.simps) simp
qed

lemma to_string_inject: "0 \<le> i \<Longrightarrow> 0 \<le> j \<Longrightarrow> to_string i = to_string j \<longleftrightarrow> i = j"
  by (auto simp: to_string_def digits_inject)

text \<open>
  What a C function sees of a string it is handed as \<open>c_str()\<close>: the characters before the first
  null character.
\<close>

definition c_str :: "bytes \<Rightarrow> bytes" where
  "c_str str = takeWhile (\<lambda>c. c \<noteq> CHR 0x00) str"

lemma c_str_id: "CHR 0x00 \<notin> set str \<Longrightarrow> c_str str = str"
  unfolding c_str_def by (rule takeWhile_eq_all_conv [THEN iffD2]) auto

text \<open>Reading a container by index, with the failure of \<open>operator[]\<close> out of range made explicit.\<close>

definition index :: "'a list \<Rightarrow> nat \<Rightarrow> 'a result" where
  "index xs i = (if i < length xs then Inr (xs ! i) else Inl IndexOutOfRange)"

lemma index_Nil [simp]: "index [] i = Inl IndexOutOfRange"
  by (simp add: index_def)

lemma index_Cons_0 [simp]: "index (x # xs) 0 = Inr x"
  by (simp add: index_def)

lemma index_Cons_Suc [simp]: "index (x # xs) (Suc i) = index xs i"
  by (simp add: index_def)

lemma index_eq_Inr: "index xs i = Inr x \<longleftrightarrow> i < length xs \<and> xs ! i = x"
  by (simp add: index_def)

section \<open>Collections of facts\<close>

named_theorems accessors "definitions of the generated field accessors"

section \<open>Optional values and lists\<close>

text \<open>The contribution of an optional field to a byte sequence or to a size.\<close>

definition opt_bytes :: "('a \<Rightarrow> bytes) \<Rightarrow> 'a option \<Rightarrow> bytes" where
  "opt_bytes f v = (case v of None \<Rightarrow> [] | Some x \<Rightarrow> f x)"

definition opt_size :: "('a \<Rightarrow> nat) \<Rightarrow> 'a option \<Rightarrow> nat" where
  "opt_size f v = (case v of None \<Rightarrow> 0 | Some x \<Rightarrow> f x)"

lemma opt_bytes_simps [simp]:
  "opt_bytes f None = []"
  "opt_bytes f (Some x) = f x"
  by (simp_all add: opt_bytes_def)

lemma opt_size_simps [simp]:
  "opt_size f None = 0"
  "opt_size f (Some x) = f x"
  by (simp_all add: opt_size_def)

definition opt_write :: "('a \<Rightarrow> bytes \<Rightarrow> bytes) \<Rightarrow> 'a option \<Rightarrow> bytes \<Rightarrow> bytes" where
  "opt_write f v t = (case v of None \<Rightarrow> t | Some x \<Rightarrow> f x t)"

lemma opt_write_simps [simp]:
  "opt_write f None t = t"
  "opt_write f (Some x) t = f x t"
  by (simp_all add: opt_write_def)

lemma length_opt_bytes: "length (opt_bytes f v) = opt_size (\<lambda>x. length (f x)) v"
  by (cases v) simp_all

lemma opt_size_cong: "(\<And>x. v = Some x \<Longrightarrow> f x = g x) \<Longrightarrow> opt_size f v = opt_size g v"
  by (cases v) simp_all

lemma length_concat_map: "length (concat (map f xs)) = sum_list (map (\<lambda>x. length (f x)) xs)"
  by (induction xs) simp_all

lemma member_le_length_concat_map:
  "x \<in> set xs \<Longrightarrow> length (f x) \<le> length (concat (map f xs))"
  by (induction xs) auto

end
