(* ===== verification/ProtoWire.thy ===== *)
theory ProtoWire
  imports Prelude
begin

text \<open>
  The wire layer under the generated protocol-buffer classes of \<open>volodb-common/ProtoBuf\<close>.

  The primitives of the protocol-buffer runtime (\<open>WireFormatLite\<close>, \<open>CodedInputStream\<close>,
  \<open>MessageLite\<close>) are not part of the repository. They are the fields of a record \<open>pb_lib\<close>, and
  every definition takes that record as an argument. The locale \<open>protobuf_wire\<close> states the
  documented behaviour the generated code relies on; the theory \<open>ProtoReference\<close> gives the base-128
  encoding of the documentation as one concrete instance.

  The generated \<open>MergePartialFromCodedStream\<close> methods share one loop, \<open>parse_loop\<close>; each class
  contributes only its \<open>switch\<close> (the theories whose names end in \<open>Proto\<close>).
\<close>

section \<open>The runtime as a parameter\<close>

text \<open>What an \<open>UnknownFieldSet\<close> holds: field number and the value as it was on the wire.\<close>

datatype unknown_field =
    UnknownVarint nat "64 word"
  | UnknownFixed64 nat bytes
  | UnknownLengthDelimited nat bytes
  | UnknownFixed32 nat bytes

record pb_lib =
  WriteTag :: "nat \<Rightarrow> nat \<Rightarrow> bytes"
  WriteVarint32 :: "nat \<Rightarrow> bytes"
  WriteEnumNoTag :: "int32 \<Rightarrow> bytes"
  WriteBoolNoTag :: "bool \<Rightarrow> bytes"
  WriteInt32NoTag :: "int32 \<Rightarrow> bytes"
  WriteEnum :: "nat \<Rightarrow> int32 \<Rightarrow> bytes"
  WriteBool :: "nat \<Rightarrow> bool \<Rightarrow> bytes"
  WriteInt32 :: "nat \<Rightarrow> int32 \<Rightarrow> bytes"
  WriteBytes :: "nat \<Rightarrow> bytes \<Rightarrow> bytes"
  WriteString :: "nat \<Rightarrow> bytes \<Rightarrow> bytes"
  WriteMessage :: "nat \<Rightarrow> nat \<Rightarrow> bytes \<Rightarrow> bytes" \<comment> \<open>field number, cached size, body\<close>
  SerializeUnknownFields :: "unknown_field list \<Rightarrow> bytes"
  WriteEnumToArray :: "nat \<Rightarrow> int32 \<Rightarrow> bytes \<Rightarrow> bytes" \<comment> \<open>the array up to \<open>target\<close>\<close>
  WriteBoolToArray :: "nat \<Rightarrow> bool \<Rightarrow> bytes \<Rightarrow> bytes"
  WriteInt32ToArray :: "nat \<Rightarrow> int32 \<Rightarrow> bytes \<Rightarrow> bytes"
  WriteBytesToArray :: "nat \<Rightarrow> bytes \<Rightarrow> bytes \<Rightarrow> bytes"
  WriteStringToArray :: "nat \<Rightarrow> bytes \<Rightarrow> bytes \<Rightarrow> bytes"
  WriteMessageToArray :: "nat \<Rightarrow> nat \<Rightarrow> (bytes \<Rightarrow> bytes) \<Rightarrow> bytes \<Rightarrow> bytes"
  SerializeUnknownFieldsToArray :: "unknown_field list \<Rightarrow> bytes \<Rightarrow> bytes"
  EnumSize :: "int32 \<Rightarrow> nat"
  Int32Size :: "int32 \<Rightarrow> nat"
  BytesSize :: "bytes \<Rightarrow> nat"
  StringSize :: "bytes \<Rightarrow> nat"
  MessageSize :: "nat \<Rightarrow> nat" \<comment> \<open>from the \<open>ByteSize()\<close> of the nested message\<close>
  ComputeUnknownFieldsSize :: "unknown_field list \<Rightarrow> nat"
  ReadTagWithCutoff :: "bytes \<Rightarrow> (nat \<times> bool) \<times> bytes"
  ExpectTag :: "nat \<Rightarrow> bytes \<Rightarrow> bytes option"
  ExpectAtEnd :: "bytes \<Rightarrow> bool"
  ReadEnum :: "bytes \<Rightarrow> (int32 \<times> bytes) option"
  ReadBool :: "bytes \<Rightarrow> (bool \<times> bytes) option"
  ReadInt32 :: "bytes \<Rightarrow> (int32 \<times> bytes) option"
  ReadBytes :: "bytes \<Rightarrow> (bytes \<times> bytes) option"
  ReadString :: "bytes \<Rightarrow> (bytes \<times> bytes) option"
  PushMessage :: "bytes \<Rightarrow> (bytes \<times> bytes) option" \<comment> \<open>length prefix read, limit pushed\<close>
  ConsumedEntireMessage :: "bytes \<Rightarrow> bool" \<comment> \<open>of what is left below the limit\<close>
  SkipField :: "nat \<Rightarrow> bytes \<Rightarrow> (unknown_field list \<times> bytes) option"
  SerializeOutcome :: "nat \<Rightarrow> bool \<Rightarrow> bytes \<Rightarrow> bytes option"
    \<comment> \<open>\<open>SerializeToString\<close>, from \<open>ByteSize()\<close>, \<open>IsInitialized()\<close> and the serialised fields\<close>
  ParseOutcome :: "bytes \<Rightarrow> bool \<Rightarrow> bool"
    \<comment> \<open>\<open>ParseFromString\<close> after a merge, from what is left and \<open>IsInitialized()\<close>\<close>

text \<open>
  \<open>CodedInputStream\<close> refuses input beyond its documented default limit of 64 megabytes; what the
  code relies on is stated for messages below it.
\<close>

definition total_bytes_limit :: nat where
  "total_bytes_limit = 2 ^ 26"

definition GetTagFieldNumber :: "nat \<Rightarrow> nat" where
  "GetTagFieldNumber tag = tag div 8"

definition GetTagWireType :: "nat \<Rightarrow> nat" where
  "GetTagWireType tag = tag mod 8"

definition AddVarint :: "nat \<Rightarrow> int32 \<Rightarrow> unknown_field" where
  "AddVarint n v = UnknownVarint n (word_of_int (sint v))"

section \<open>The parse loop of the generated classes\<close>

text \<open>
  The outcome of a class's \<open>switch\<close> on one tag: a failed read (\<open>goto failure\<close>), a tag the class
  does not know (\<open>goto handle_unusual\<close>), or a field that was read. In the last case the generated
  code tries the tags it expects next, in order, and jumps to the field's code when one is there
  (\<open>if (input->ExpectTag(t)) goto parse_x\<close>); the flag says whether it then tries \<open>ExpectAtEnd\<close>.
\<close>

datatype 'm switch_result =
    ReadFailed
  | Unusual
  | FieldRead 'm bytes "nat list" bool

datatype 'm parse_result =
    OutOfFuel
  | ParseFailed
  | Parsed 'm bytes

fun expect_tags :: "pb_lib \<Rightarrow> nat list \<Rightarrow> bytes \<Rightarrow> (nat \<times> bytes) option" where
  "expect_tags L [] inp = None"
| "expect_tags L (t # ts) inp =
     (case ExpectTag L t inp of Some r \<Rightarrow> Some (t, r) | None \<Rightarrow> expect_tags L ts inp)"

text \<open>
  One run of the \<open>for(;;)\<close> loop. The argument \<open>g\<close> is \<open>Some t\<close> when the code has jumped to the
  field of tag \<open>t\<close>, whose tag is already consumed. Fuel bounds the iterations; the lemma
  \<open>parse_loop_enough\<close> below shows that one unit per input byte and one more always suffice.
\<close>

fun parse_loop ::
  "pb_lib \<Rightarrow> (nat \<Rightarrow> 'm \<Rightarrow> bytes \<Rightarrow> 'm switch_result) \<Rightarrow> (unknown_field list \<Rightarrow> 'm \<Rightarrow> 'm)
   \<Rightarrow> nat \<Rightarrow> nat option \<Rightarrow> 'm \<Rightarrow> bytes \<Rightarrow> 'm parse_result" where
  "parse_loop L sw addu 0 g m inp = OutOfFuel"
| "parse_loop L sw addu (Suc n) g m inp =
     (let ((tag, known), inp1) =
        (case g of Some t \<Rightarrow> ((t, True), inp) | None \<Rightarrow> ReadTagWithCutoff L inp)
      in case (if known then sw tag m inp1 else Unusual) of
           ReadFailed \<Rightarrow> ParseFailed
         | Unusual \<Rightarrow>
             (if tag = 0 \<or> GetTagWireType tag = 4 then Parsed m inp1
              else case SkipField L tag inp1 of
                     None \<Rightarrow> ParseFailed
                   | Some (us, inp2) \<Rightarrow> parse_loop L sw addu n None (addu us m) inp2)
         | FieldRead m' inp2 next at_end \<Rightarrow>
             (case expect_tags L next inp2 of
                Some (t, inp3) \<Rightarrow> parse_loop L sw addu n (Some t) m' inp3
              | None \<Rightarrow>
                  if at_end \<and> ExpectAtEnd L inp2 then Parsed m' inp2
                  else parse_loop L sw addu n None m' inp2))"

definition merge_partial ::
  "pb_lib \<Rightarrow> (nat \<Rightarrow> 'm \<Rightarrow> bytes \<Rightarrow> 'm switch_result) \<Rightarrow> (unknown_field list \<Rightarrow> 'm \<Rightarrow> 'm)
   \<Rightarrow> 'm \<Rightarrow> bytes \<Rightarrow> 'm parse_result" where
  "merge_partial L sw addu m inp = parse_loop L sw addu (Suc (length inp)) None m inp"

text \<open>
  \<open>ReadMessageNoVirtual\<close>: the length prefix delimits the body, the nested class merges it, and
  all of it must have been consumed.
\<close>

definition read_message ::
  "pb_lib \<Rightarrow> ('m \<Rightarrow> bytes \<Rightarrow> 'm parse_result) \<Rightarrow> 'm \<Rightarrow> bytes \<Rightarrow> ('m \<times> bytes) option" where
  "read_message L merge m inp =
     (case PushMessage L inp of
        None \<Rightarrow> None
      | Some (body, rest) \<Rightarrow>
          (case merge m body of
             Parsed m' left \<Rightarrow> if ConsumedEntireMessage L left then Some (m', rest) else None
           | _ \<Rightarrow> None))"

definition parse_from_string ::
  "pb_lib \<Rightarrow> ('m \<Rightarrow> bytes \<Rightarrow> 'm parse_result) \<Rightarrow> ('m \<Rightarrow> bool) \<Rightarrow> 'm \<Rightarrow> bytes \<Rightarrow> 'm option" where
  "parse_from_string L merge is_init m bs =
     (case merge m bs of
        Parsed m' left \<Rightarrow> if ParseOutcome L left (is_init m') then Some m' else None
      | _ \<Rightarrow> None)"

section \<open>What the generated code relies on\<close>

text \<open>A \<open>switch\<close> never gives back more input than it was given, and expects only one-byte tags.\<close>

definition switch_ok :: "(nat \<Rightarrow> 'm \<Rightarrow> bytes \<Rightarrow> 'm switch_result) \<Rightarrow> bool" where
  "switch_ok sw \<longleftrightarrow>
     (\<forall>tag m inp m' r ts e. sw tag m inp = FieldRead m' r ts e \<longrightarrow>
        length r \<le> length inp \<and> (\<forall>t \<in> set ts. 0 < t \<and> t \<le> 127))"

lemma switch_okI:
  assumes "\<And>tag m inp m' r ts e. sw tag m inp = FieldRead m' r ts e \<Longrightarrow>
    length r \<le> length inp \<and> (\<forall>t \<in> set ts. 0 < t \<and> t \<le> 127)"
  shows "switch_ok sw"
  using assms unfolding switch_ok_def by blast

lemma switch_okD:
  assumes "switch_ok sw" "sw tag m inp = FieldRead m' r ts e"
  shows "length r \<le> length inp" "\<forall>t \<in> set ts. 0 < t \<and> t \<le> 127"
  using assms unfolding switch_ok_def by blast+

locale protobuf_wire =
  fixes L :: pb_lib
  assumes length_tag: "0 < f \<Longrightarrow> f < 16 \<Longrightarrow> w < 6 \<Longrightarrow> length (WriteTag L f w) = 1"
    and write_enum: "WriteEnum L f v = WriteTag L f 0 @ WriteEnumNoTag L v"
    and write_bool: "WriteBool L f b = WriteTag L f 0 @ WriteBoolNoTag L b"
    and write_int32: "WriteInt32 L f v = WriteTag L f 0 @ WriteInt32NoTag L v"
    and write_bytes: "WriteBytes L f s = WriteTag L f 2 @ WriteVarint32 L (length s) @ s"
    and write_string: "WriteString L f s = WriteTag L f 2 @ WriteVarint32 L (length s) @ s"
    and write_message: "WriteMessage L f n body = WriteTag L f 2 @ WriteVarint32 L n @ body"
    and enum_to_array: "WriteEnumToArray L f v tgt = tgt @ WriteEnum L f v"
    and bool_to_array: "WriteBoolToArray L f b tgt = tgt @ WriteBool L f b"
    and int32_to_array: "WriteInt32ToArray L f v tgt = tgt @ WriteInt32 L f v"
    and bytes_to_array: "WriteBytesToArray L f s tgt = tgt @ WriteBytes L f s"
    and string_to_array: "WriteStringToArray L f s tgt = tgt @ WriteString L f s"
    and message_to_array:
      "WriteMessageToArray L f n writer tgt = writer (tgt @ WriteTag L f 2 @ WriteVarint32 L n)"
    and unknown_to_array: "SerializeUnknownFieldsToArray L us tgt = tgt @ SerializeUnknownFields L us"
    and enum_size: "EnumSize L v = length (WriteEnumNoTag L v)"
    and bool_size: "length (WriteBoolNoTag L b) = 1"
    and int32_size: "Int32Size L v = length (WriteInt32NoTag L v)"
    and bytes_size: "BytesSize L s = length (WriteVarint32 L (length s)) + length s"
    and string_size: "StringSize L s = length (WriteVarint32 L (length s)) + length s"
    and message_size: "MessageSize L n = length (WriteVarint32 L n) + n"
    and unknown_size: "ComputeUnknownFieldsSize L us = length (SerializeUnknownFields L us)"
    and read_tag: "0 < f \<Longrightarrow> f < 16 \<Longrightarrow> w < 6 \<Longrightarrow>
      ReadTagWithCutoff L (WriteTag L f w @ r) = ((8 * f + w, True), r)"
    and read_tag_end: "ReadTagWithCutoff L [] = ((0, False), [])"
    and read_tag_consumes: "ReadTagWithCutoff L inp = ((t, known), r) \<Longrightarrow>
      length r \<le> length inp \<and> (t \<noteq> 0 \<longrightarrow> length r < length inp)"
    and read_tag_known: "ReadTagWithCutoff L inp = ((t, True), r) \<Longrightarrow> t \<noteq> 0"
    and expect_tag: "0 < t \<Longrightarrow> t \<le> 127 \<Longrightarrow> ExpectTag L t inp = Some r \<Longrightarrow>
      ReadTagWithCutoff L inp = ((t, True), r)"
    and expect_at_end: "ExpectAtEnd L inp \<Longrightarrow> inp = []"
    and read_enum: "ReadEnum L (WriteEnumNoTag L v @ r) = Some (v, r)"
    and read_bool: "ReadBool L (WriteBoolNoTag L b @ r) = Some (b, r)"
    and read_int32: "ReadInt32 L (WriteInt32NoTag L v @ r) = Some (v, r)"
    and read_bytes: "length s + length r < total_bytes_limit \<Longrightarrow>
      ReadBytes L (WriteVarint32 L (length s) @ s @ r) = Some (s, r)"
    and read_string: "length s + length r < total_bytes_limit \<Longrightarrow>
      ReadString L (WriteVarint32 L (length s) @ s @ r) = Some (s, r)"
    and push_message: "length body + length r < total_bytes_limit \<Longrightarrow>
      PushMessage L (WriteVarint32 L (length body) @ body @ r) = Some (body, r)"
    and consumed: "ConsumedEntireMessage L left \<longleftrightarrow> left = []"
    and enum_consumes: "ReadEnum L inp = Some (v, r) \<Longrightarrow> length r \<le> length inp"
    and bool_consumes: "ReadBool L inp = Some (b, r) \<Longrightarrow> length r \<le> length inp"
    and int32_consumes: "ReadInt32 L inp = Some (v, r) \<Longrightarrow> length r \<le> length inp"
    and bytes_consumes: "ReadBytes L inp = Some (s, r) \<Longrightarrow> length r \<le> length inp"
    and string_consumes: "ReadString L inp = Some (s, r) \<Longrightarrow> length r \<le> length inp"
    and push_consumes: "PushMessage L inp = Some (body, r) \<Longrightarrow>
      length r \<le> length inp \<and> length body \<le> length inp"
    and skip_consumes: "SkipField L t inp = Some (us, r) \<Longrightarrow> length r \<le> length inp"
    and serialize_outcome: "n = length s \<Longrightarrow> n < total_bytes_limit \<Longrightarrow> SerializeOutcome L n True s = Some s"
    and parse_outcome: "ParseOutcome L left init \<longleftrightarrow> left = [] \<and> init"
begin

lemma expect_tags_read:
  assumes "expect_tags L ts inp = Some (t, r)" "\<forall>t \<in> set ts. 0 < t \<and> t \<le> 127"
  shows "ReadTagWithCutoff L inp = ((t, True), r)"
  using assms
proof (induction ts)
  case Nil
  then show ?case by simp
next
  case (Cons u ts)
  show ?case
  proof (cases "ExpectTag L u inp")
    case None
    with Cons show ?thesis by simp
  next
    case (Some r')
    with Cons.prems have "t = u" "r = r'" "0 < u" "u \<le> 127" by simp_all
    with Some show ?thesis using expect_tag by blast
  qed
qed

text \<open>
  The jump to an expected field is only a shortcut: it behaves as going round the loop and
  reading the tag there.
\<close>

lemma parse_loop_jump:
  assumes "expect_tags L ts inp = Some (t, r)" "\<forall>t \<in> set ts. 0 < t \<and> t \<le> 127"
  shows "parse_loop L sw addu n (Some t) m r = parse_loop L sw addu n None m inp"
  using expect_tags_read [OF assms] by (cases n) simp_all

lemma parse_loop_enough_aux:
  assumes sw: "switch_ok sw"
  shows "length inp < n \<Longrightarrow> parse_loop L sw addu n None m inp \<noteq> OutOfFuel"
proof (induction n arbitrary: m inp)
  case 0
  then show ?case by simp
next
  case (Suc n)
  obtain tag known inp1 where rt: "ReadTagWithCutoff L inp = ((tag, known), inp1)"
    by (metis surj_pair)
  have shorter: "tag \<noteq> 0 \<Longrightarrow> length inp1 < n"
    using read_tag_consumes [OF rt] Suc.prems by simp
  show ?case
  proof (cases "if known then sw tag m inp1 else Unusual")
    case ReadFailed
    then show ?thesis by (simp add: rt)
  next
    case Unusual
    have "parse_loop L sw addu n None (addu us m) inp2 \<noteq> OutOfFuel"
      if "tag \<noteq> 0" "SkipField L tag inp1 = Some (us, inp2)" for us inp2
      using skip_consumes [OF that(2)] shorter [OF that(1)] by (intro Suc.IH) simp
    with Unusual show ?thesis by (auto simp: rt Let_def split: option.splits)
  next
    case (FieldRead m' inp2 ts e)
    then have known: known and swr: "sw tag m inp1 = FieldRead m' inp2 ts e"
      by (auto split: if_splits)
    with rt have "tag \<noteq> 0" using read_tag_known by simp
    with switch_okD(1) [OF sw swr] shorter have "length inp2 < n" by simp
    then have IH: "parse_loop L sw addu n None m' inp2 \<noteq> OutOfFuel" by (rule Suc.IH)
    then have "parse_loop L sw addu n (Some t) m' r \<noteq> OutOfFuel"
      if "expect_tags L ts inp2 = Some (t, r)" for t r
      by (simp add: parse_loop_jump [OF that switch_okD(2) [OF sw swr]])
    with FieldRead IH show ?thesis by (auto simp: rt Let_def split: option.splits)
  qed
qed

lemma parse_loop_fuel:
  assumes sw: "switch_ok sw"
  shows "length inp < n \<Longrightarrow> length inp < k \<Longrightarrow>
    parse_loop L sw addu n None m inp = parse_loop L sw addu k None m inp"
proof (induction n arbitrary: k m inp)
  case 0
  then show ?case by simp
next
  case (Suc n)
  then obtain k' where k: "k = Suc k'" by (cases k) simp_all
  obtain tag known inp1 where rt: "ReadTagWithCutoff L inp = ((tag, known), inp1)"
    by (metis surj_pair)
  have shorter: "tag \<noteq> 0 \<Longrightarrow> length inp1 < n" "tag \<noteq> 0 \<Longrightarrow> length inp1 < k'"
    using read_tag_consumes [OF rt] Suc.prems k by simp_all
  show ?case
  proof (cases "if known then sw tag m inp1 else Unusual")
    case ReadFailed
    then show ?thesis by (simp add: rt k)
  next
    case Unusual
    have "parse_loop L sw addu n None (addu us m) inp2 = parse_loop L sw addu k' None (addu us m) inp2"
      if "tag \<noteq> 0" "SkipField L tag inp1 = Some (us, inp2)" for us inp2
      using skip_consumes [OF that(2)] shorter that(1) by (intro Suc.IH) simp_all
    with Unusual show ?thesis by (auto simp: rt k Let_def split: option.splits)
  next
    case (FieldRead m' inp2 ts e)
    then have known: known and swr: "sw tag m inp1 = FieldRead m' inp2 ts e"
      by (auto split: if_splits)
    with rt have "tag \<noteq> 0" using read_tag_known by simp
    with switch_okD(1) [OF sw swr] shorter have "length inp2 < n" "length inp2 < k'" by simp_all
    then have IH: "parse_loop L sw addu n None m' inp2 = parse_loop L sw addu k' None m' inp2"
      by (rule Suc.IH)
    then have "parse_loop L sw addu n (Some t) m' r = parse_loop L sw addu k' (Some t) m' r"
      if "expect_tags L ts inp2 = Some (t, r)" for t r
      by (simp add: parse_loop_jump [OF that switch_okD(2) [OF sw swr]])
    with FieldRead IH show ?thesis by (auto simp: rt k Let_def split: option.splits)
  qed
qed

lemma merge_partial_total: "switch_ok sw \<Longrightarrow> merge_partial L sw addu m inp \<noteq> OutOfFuel"
  unfolding merge_partial_def by (rule parse_loop_enough_aux) simp_all

text \<open>The loop without fuel: the end of the input, and one field at a time.\<close>

lemma merge_partial_end [simp]: "merge_partial L sw addu m [] = Parsed m []"
  by (simp add: merge_partial_def read_tag_end)

lemma merge_partial_field:
  assumes sw: "switch_ok sw"
    and rt: "ReadTagWithCutoff L inp = ((tag, True), inp1)"
    and swr: "sw tag m inp1 = FieldRead m' inp2 ts e"
  shows "merge_partial L sw addu m inp = merge_partial L sw addu m' inp2"
proof -
  have "tag \<noteq> 0" using read_tag_known rt by simp
  with read_tag_consumes [OF rt] switch_okD(1) [OF sw swr] have "length inp2 < length inp" by simp
  then have loop: "parse_loop L sw addu (length inp) None m' inp2 = merge_partial L sw addu m' inp2"
    unfolding merge_partial_def by (intro parse_loop_fuel sw) simp_all
  have jump: "parse_loop L sw addu (length inp) (Some t) m' r = merge_partial L sw addu m' inp2"
    if "expect_tags L ts inp2 = Some (t, r)" for t r
    by (simp add: parse_loop_jump [OF that switch_okD(2) [OF sw swr]] loop)
  have stop: "merge_partial L sw addu m' inp2 = Parsed m' inp2" if "ExpectAtEnd L inp2"
    using expect_at_end [OF that] by simp
  show ?thesis
    unfolding merge_partial_def [of _ _ _ m inp]
    using loop jump stop by (auto simp: rt swr split: option.splits)
qed

lemma merge_partial_write:
  assumes "switch_ok sw" "0 < f" "f < 16" "w < 6"
    and "sw (8 * f + w) m (body @ r) = FieldRead m' r ts e"
  shows "merge_partial L sw addu m (WriteTag L f w @ body @ r) = merge_partial L sw addu m' r"
  using assms by (intro merge_partial_field [OF assms(1) read_tag]) simp_all

lemma read_message_write:
  assumes "length body + length r < total_bytes_limit" "merge m body = Parsed m' []"
  shows "read_message L merge m (WriteVarint32 L (length body) @ body @ r) = Some (m', r)"
  using assms by (simp add: read_message_def push_message consumed)

lemma read_message_consumes:
  "read_message L merge m inp = Some (m', r) \<Longrightarrow> length r \<le> length inp"
  by (auto simp: read_message_def dest: push_consumes split: option.splits parse_result.splits if_splits)

text \<open>A run of a repeated message field is consumed item by item.\<close>

lemma merge_partial_repeated:
  assumes step: "\<And>x m r. x \<in> set xs \<Longrightarrow>
      merge_partial L sw addu m (chunk x @ r) = merge_partial L sw addu (add x m) r"
  shows "merge_partial L sw addu m (concat (map chunk xs) @ r) =
         merge_partial L sw addu (fold add xs m) r"
  using step
proof (induction xs arbitrary: m)
  case Nil
  then show ?case by simp
next
  case (Cons x xs)
  then show ?case by simp
qed

lemma merge_partial_optional:
  assumes "\<And>x. v = Some x \<Longrightarrow>
      merge_partial L sw addu m (chunk x @ r) = merge_partial L sw addu (put x m) r"
  shows "merge_partial L sw addu m (opt_bytes chunk v @ r) =
         merge_partial L sw addu (case v of None \<Rightarrow> m | Some x \<Rightarrow> put x m) r"
  using assms by (cases v) simp_all

lemmas consumes = enum_consumes bool_consumes int32_consumes bytes_consumes string_consumes
  read_message_consumes

lemma parse_from_string_merge:
  "merge m bs = Parsed m' [] \<Longrightarrow> is_init m' \<Longrightarrow> parse_from_string L merge is_init m bs = Some m'"
  by (simp add: parse_from_string_def parse_outcome)

lemma parse_from_string_init:
  "parse_from_string L merge is_init m bs = Some m' \<Longrightarrow> is_init m'"
  by (auto simp: parse_from_string_def parse_outcome split: parse_result.splits if_splits)

lemma write_sizes:
  assumes "0 < f" "f < 16"
  shows "length (WriteEnum L f v) = Suc (EnumSize L v)"
    and "length (WriteBool L f b) = Suc (Suc 0)"
    and "length (WriteInt32 L f v) = Suc (Int32Size L v)"
    and "length (WriteBytes L f s) = Suc (BytesSize L s)"
    and "length (WriteString L f s) = Suc (StringSize L s)"
    and "length (WriteMessage L f (length body) body) = Suc (MessageSize L (length body))"
  using assms
  by (simp_all add: write_enum write_bool write_int32 write_bytes write_string write_message
      length_tag enum_size bool_size int32_size bytes_size string_size message_size)

lemma to_array:
  "opt_write (WriteBoolToArray L f) v1 t = t @ opt_bytes (WriteBool L f) v1"
  "opt_write (WriteInt32ToArray L f) v2 t = t @ opt_bytes (WriteInt32 L f) v2"
  "opt_write (WriteBytesToArray L f) v3 t = t @ opt_bytes (WriteBytes L f) v3"
  "opt_write (WriteStringToArray L f) v3 t = t @ opt_bytes (WriteString L f) v3"
  "opt_write (\<lambda>x. WriteEnumToArray L f (h x)) v4 t = t @ opt_bytes (\<lambda>x. WriteEnum L f (h x)) v4"
  "opt_write (\<lambda>x. WriteMessageToArray L f (n x) (\<lambda>t. t @ c x)) v4 t =
     t @ opt_bytes (\<lambda>x. WriteMessage L f (n x) (c x)) v4"
  "fold (\<lambda>x. WriteMessageToArray L f (n x) (\<lambda>t. t @ c x)) xs t =
     t @ concat (map (\<lambda>x. WriteMessage L f (n x) (c x)) xs)"
  "SerializeUnknownFieldsToArray L us t = t @ SerializeUnknownFields L us"
proof -
  show "fold (\<lambda>x. WriteMessageToArray L f (n x) (\<lambda>t. t @ c x)) xs t =
     t @ concat (map (\<lambda>x. WriteMessage L f (n x) (c x)) xs)"
    by (induction xs arbitrary: t) (simp_all add: message_to_array write_message)
qed (simp_all add: opt_write_def bool_to_array int32_to_array bytes_to_array string_to_array
    enum_to_array message_to_array write_message unknown_to_array split: option.split)

lemma length_write_string: "length s \<le> length (WriteString L f s)"
  by (simp add: write_string)

lemma length_write_bytes: "length s \<le> length (WriteBytes L f s)"
  by (simp add: write_bytes)

lemma length_write_message: "length b \<le> length (WriteMessage L f n b)"
  by (simp add: write_message)

end

end
