(* ===== verification/ProtoReference.thy ===== *)
theory ProtoReference
  imports ProtoWire
begin

text \<open>
  The encoding of the protocol-buffer documentation as a concrete \<open>pb_lib\<close>: base-128 varints,
  keys of the form \<open>8 * field + wire type\<close>, length-delimited strings and messages, and negative
  integers sign-extended to 64 bits. The interpretation at the end discharges every assumption of
  \<open>protobuf_wire\<close>, so the properties that assume the locale predicate are about something.
  Groups, which this schema never uses, are rejected by \<open>ref_SkipField\<close>.
\<close>

section \<open>Varints\<close>

fun varint :: "nat \<Rightarrow> bytes" where
  "varint n = (if n < 128 then [char_of n] else char_of (n mod 128 + 128) # varint (n div 128))"

declare varint.simps [simp del]

fun read_varint :: "nat \<Rightarrow> bytes \<Rightarrow> (nat \<times> bytes) option" where
  "read_varint 0 cs = None"
| "read_varint (Suc k) [] = None"
| "read_varint (Suc k) (c # cs) =
     (let b = of_char c in
      if b < 128 then Some (b, cs)
      else case read_varint k cs of None \<Rightarrow> None | Some (v, r) \<Rightarrow> Some (b - 128 + 128 * v, r))"

lemma varint_not_Nil [simp]: "varint n \<noteq> []"
  by (subst varint.simps) simp

lemma read_varint_varint: "n < 128 ^ Suc k \<Longrightarrow> read_varint (Suc k) (varint n @ r) = Some (n, r)"
proof (induction k arbitrary: n)
  case 0
  then show ?case by (subst varint.simps) simp
next
  case (Suc k)
  show ?case
  proof (cases "n < 128")
    case True
    then show ?thesis by (subst varint.simps) simp
  next
    case False
    have "n div 128 < 128 ^ Suc k"
      using Suc.prems by (intro less_mult_imp_div_less) (simp add: mult.commute)
    then have IH: "read_varint (Suc k) (varint (n div 128) @ r) = Some (n div 128, r)"
      by (rule Suc.IH)
    have byte: "(n mod 128 + 128) mod 256 = n mod 128 + 128" by simp
    show ?thesis
      using False by (subst varint.simps) (simp add: byte IH)
  qed
qed

lemma read_varint_consumes:
  "read_varint k cs = Some (v, r) \<Longrightarrow> length r < length cs"
proof (induction k cs arbitrary: v rule: read_varint.induct)
  case (3 k c cs)
  show ?case
  proof (cases "of_char c < (128::nat)")
    case True
    with "3.prems" show ?thesis by simp
  next
    case False
    with "3.prems" obtain v' where "read_varint k cs = Some (v', r)"
      by (auto split: option.splits)
    with "3.IH" False have "length r < length cs" by simp
    then show ?thesis by simp
  qed
qed simp_all

lemma read_varint_Nil [simp]: "read_varint k [] = None"
  by (cases k) simp_all

lemma read_varint_one: "0 < k \<Longrightarrow> of_char c < (128::nat) \<Longrightarrow> read_varint k (c # cs) = Some (of_char c, cs)"
  by (cases k) simp_all

lemma length_varint_small: "n < 128 \<Longrightarrow> varint n = [char_of n]"
  by (subst varint.simps) simp

section \<open>The primitives\<close>

definition ref_int32 :: "int32 \<Rightarrow> bytes" where
  "ref_int32 v = varint (unat (scast v :: 64 word))"

definition ref_read_int32 :: "bytes \<Rightarrow> (int32 \<times> bytes) option" where
  "ref_read_int32 inp =
     (case read_varint 10 inp of None \<Rightarrow> None | Some (n, r) \<Rightarrow> Some (word_of_nat n, r))"

definition ref_tag :: "nat \<Rightarrow> nat \<Rightarrow> bytes" where
  "ref_tag f w = varint (8 * f + w)"

definition ref_delimited :: "bytes \<Rightarrow> bytes" where
  "ref_delimited s = varint (length s) @ s"

definition ref_read_bool :: "bytes \<Rightarrow> (bool \<times> bytes) option" where
  "ref_read_bool inp =
     (case read_varint 10 inp of None \<Rightarrow> None | Some (n, r) \<Rightarrow> Some (n \<noteq> 0, r))"

definition ref_read_delimited :: "bytes \<Rightarrow> (bytes \<times> bytes) option" where
  "ref_read_delimited inp =
     (case read_varint 5 inp of
        None \<Rightarrow> None
      | Some (n, r) \<Rightarrow> if n < 2 ^ 31 \<and> n \<le> length r then Some (take n r, drop n r) else None)"

definition ref_take :: "nat \<Rightarrow> bytes \<Rightarrow> (bytes \<times> bytes) option" where
  "ref_take n inp = (if n \<le> length inp then Some (take n inp, drop n inp) else None)"

definition ref_read_tag :: "bytes \<Rightarrow> (nat \<times> bool) \<times> bytes" where
  "ref_read_tag inp =
     (case read_varint 5 inp of
        None \<Rightarrow> ((0, False), inp)
      | Some (n, r) \<Rightarrow> ((n, 0 < n \<and> n \<le> 127), r))"

definition ref_expect_tag :: "nat \<Rightarrow> bytes \<Rightarrow> bytes option" where
  "ref_expect_tag t inp =
     (case inp of
        [] \<Rightarrow> None
      | c # cs \<Rightarrow> if t < 128 \<and> of_char c = t then Some cs else None)"

definition ref_skip_field :: "nat \<Rightarrow> bytes \<Rightarrow> (unknown_field list \<times> bytes) option" where
  "ref_skip_field tag inp =
     (let f = GetTagFieldNumber tag; w = GetTagWireType tag in
      if w = 0 then map_option (\<lambda>(n, r). ([UnknownVarint f (word_of_nat n)], r)) (read_varint 10 inp)
      else if w = 1 then map_option (\<lambda>(b, r). ([UnknownFixed64 f b], r)) (ref_take 8 inp)
      else if w = 2 then
        map_option (\<lambda>(b, r). ([UnknownLengthDelimited f b], r)) (ref_read_delimited inp)
      else if w = 5 then map_option (\<lambda>(b, r). ([UnknownFixed32 f b], r)) (ref_take 4 inp)
      else None)"

fun ref_unknown :: "unknown_field \<Rightarrow> bytes" where
  "ref_unknown (UnknownVarint f v) = ref_tag f 0 @ varint (unat v)"
| "ref_unknown (UnknownFixed64 f b) = ref_tag f 1 @ b"
| "ref_unknown (UnknownLengthDelimited f b) = ref_tag f 2 @ ref_delimited b"
| "ref_unknown (UnknownFixed32 f b) = ref_tag f 5 @ b"

definition ref_lib :: pb_lib where
  "ref_lib =
     \<lparr>WriteTag = ref_tag,
      WriteVarint32 = varint,
      WriteEnumNoTag = ref_int32,
      WriteBoolNoTag = (\<lambda>b. varint (if b then 1 else 0)),
      WriteInt32NoTag = ref_int32,
      WriteEnum = (\<lambda>f v. ref_tag f 0 @ ref_int32 v),
      WriteBool = (\<lambda>f b. ref_tag f 0 @ varint (if b then 1 else 0)),
      WriteInt32 = (\<lambda>f v. ref_tag f 0 @ ref_int32 v),
      WriteBytes = (\<lambda>f s. ref_tag f 2 @ ref_delimited s),
      WriteString = (\<lambda>f s. ref_tag f 2 @ ref_delimited s),
      WriteMessage = (\<lambda>f n body. ref_tag f 2 @ varint n @ body),
      SerializeUnknownFields = (\<lambda>us. concat (map ref_unknown us)),
      WriteEnumToArray = (\<lambda>f v t. t @ ref_tag f 0 @ ref_int32 v),
      WriteBoolToArray = (\<lambda>f b t. t @ ref_tag f 0 @ varint (if b then 1 else 0)),
      WriteInt32ToArray = (\<lambda>f v t. t @ ref_tag f 0 @ ref_int32 v),
      WriteBytesToArray = (\<lambda>f s t. t @ ref_tag f 2 @ ref_delimited s),
      WriteStringToArray = (\<lambda>f s t. t @ ref_tag f 2 @ ref_delimited s),
      WriteMessageToArray = (\<lambda>f n body t. body (t @ ref_tag f 2 @ varint n)),
      SerializeUnknownFieldsToArray = (\<lambda>us t. t @ concat (map ref_unknown us)),
      EnumSize = (\<lambda>v. length (ref_int32 v)),
      Int32Size = (\<lambda>v. length (ref_int32 v)),
      BytesSize = (\<lambda>s. length (ref_delimited s)),
      StringSize = (\<lambda>s. length (ref_delimited s)),
      MessageSize = (\<lambda>n. length (varint n) + n),
      ComputeUnknownFieldsSize = (\<lambda>us. length (concat (map ref_unknown us))),
      ReadTagWithCutoff = ref_read_tag,
      ExpectTag = ref_expect_tag,
      ExpectAtEnd = (\<lambda>inp. inp = []),
      ReadEnum = ref_read_int32,
      ReadBool = ref_read_bool,
      ReadInt32 = ref_read_int32,
      ReadBytes = ref_read_delimited,
      ReadString = ref_read_delimited,
      PushMessage = ref_read_delimited,
      ConsumedEntireMessage = (\<lambda>left. left = []),
      SkipField = ref_skip_field,
      SerializeOutcome = (\<lambda>n init s. if init \<and> n = length s \<and> n < 2 ^ 31 then Some s else None),
      ParseOutcome = (\<lambda>left init. left = [] \<and> init)\<rparr>"

section \<open>They behave as documented\<close>

lemma ref_read_int32_write: "ref_read_int32 (ref_int32 v @ r) = Some (v, r)"
proof -
  have "unat (scast v :: 64 word) < 2 ^ 64" using unsigned_less [of "scast v :: 64 word"] by simp
  then have "unat (scast v :: 64 word) < 128 ^ Suc 9" by (rule less_trans) simp
  then have "read_varint (Suc 9) (ref_int32 v @ r) = Some (unat (scast v :: 64 word), r)"
    unfolding ref_int32_def by (rule read_varint_varint)
  moreover have "(word_of_nat (unat (scast v :: 64 word)) :: int32) = v"
  proof -
    have "(word_of_nat (unat (scast v :: 64 word)) :: int32) = ucast (scast v :: 64 word)"
      by simp
    also have "\<dots> = v"
      by (rule bit_word_eqI) (simp add: bit_simps)
    finally show ?thesis .
  qed
  ultimately show ?thesis by (simp add: ref_read_int32_def)
qed

lemma ref_read_delimited_write:
  assumes "length s + length r < total_bytes_limit"
  shows "ref_read_delimited (varint (length s) @ s @ r) = Some (s, r)"
proof -
  from assms have len: "length s < 2 ^ 31" by (simp add: total_bytes_limit_def)
  then have "length s < 128 ^ Suc 4" by (rule less_trans) simp
  then have "read_varint (Suc 4) (varint (length s) @ s @ r) = Some (length s, s @ r)"
    by (rule read_varint_varint)
  with len show ?thesis by (simp add: ref_read_delimited_def)
qed

lemma ref_read_delimited_consumes:
  "ref_read_delimited inp = Some (s, r) \<Longrightarrow> length r \<le> length inp \<and> length s \<le> length inp"
  by (auto simp: ref_read_delimited_def dest!: read_varint_consumes split: option.splits if_splits)

lemma ref_take_consumes: "ref_take n inp = Some (s, r) \<Longrightarrow> length r \<le> length inp"
  by (auto simp: ref_take_def split: if_splits)

lemma ref_read_tag_write:
  assumes "0 < f" "f < 16" "w < 6"
  shows "ref_read_tag (ref_tag f w @ r) = ((8 * f + w, True), r)"
proof -
  have "8 * f + w < 128 ^ Suc 4" using assms by simp
  then have "read_varint (Suc 4) (ref_tag f w @ r) = Some (8 * f + w, r)"
    unfolding ref_tag_def by (rule read_varint_varint)
  with assms show ?thesis by (simp add: ref_read_tag_def)
qed

lemma ref_skip_field_consumes:
  "ref_skip_field t inp = Some (us, r) \<Longrightarrow> length r \<le> length inp"
  by (auto simp: ref_skip_field_def Let_def split: if_splits
      dest!: read_varint_consumes ref_take_consumes ref_read_delimited_consumes)

lemma ref_expect_tag_read:
  "0 < t \<Longrightarrow> t \<le> 127 \<Longrightarrow> ref_expect_tag t inp = Some r \<Longrightarrow> ref_read_tag inp = ((t, True), r)"
  by (auto simp: ref_expect_tag_def ref_read_tag_def read_varint_one split: list.splits if_splits)

lemma length_ref_tag: "f < 16 \<Longrightarrow> w < 6 \<Longrightarrow> length (ref_tag f w) = 1"
  by (simp add: ref_tag_def length_varint_small)

interpretation reference: protobuf_wire ref_lib
proof
  show "ReadBool ref_lib (WriteBoolNoTag ref_lib b @ r) = Some (b, r)" for b r
    using read_varint_varint [of "if b then 1 else 0" 9 r] by (simp add: ref_lib_def ref_read_bool_def)
  show "ReadTagWithCutoff ref_lib inp = ((t, known), r) \<Longrightarrow>
      length r \<le> length inp \<and> (t \<noteq> 0 \<longrightarrow> length r < length inp)" for inp t known r
    by (auto simp: ref_lib_def ref_read_tag_def dest!: read_varint_consumes split: option.splits)
  show "ReadTagWithCutoff ref_lib inp = ((t, True), r) \<Longrightarrow> t \<noteq> 0" for inp t r
    by (auto simp: ref_lib_def ref_read_tag_def split: option.splits)
  show "ReadTagWithCutoff ref_lib [] = ((0, False), [])"
    by (simp add: ref_lib_def ref_read_tag_def)
  show "ReadEnum ref_lib inp = Some (v, r) \<Longrightarrow> length r \<le> length inp" for inp v r
    by (auto simp: ref_lib_def ref_read_int32_def dest!: read_varint_consumes split: option.splits)
  show "ReadInt32 ref_lib inp = Some (v, r) \<Longrightarrow> length r \<le> length inp" for inp v r
    by (auto simp: ref_lib_def ref_read_int32_def dest!: read_varint_consumes split: option.splits)
  show "ReadBool ref_lib inp = Some (b, r) \<Longrightarrow> length r \<le> length inp" for inp b r
    by (auto simp: ref_lib_def ref_read_bool_def dest!: read_varint_consumes split: option.splits)
qed (simp_all add: ref_lib_def ref_read_int32_write ref_read_delimited_write ref_read_tag_write
    ref_delimited_def ref_expect_tag_read ref_skip_field_consumes ref_read_delimited_consumes
    length_varint_small length_ref_tag total_bytes_limit_def)

text \<open>What evaluating an encoded message unfolds.\<close>

lemma ref_lib_fields:
  "WriteTag ref_lib = ref_tag"
  "WriteVarint32 ref_lib = varint"
  "WriteEnumNoTag ref_lib = ref_int32"
  "WriteBoolNoTag ref_lib = (\<lambda>b. varint (if b then 1 else 0))"
  "WriteInt32NoTag ref_lib = ref_int32"
  "WriteEnum ref_lib = (\<lambda>f v. ref_tag f 0 @ ref_int32 v)"
  "WriteBool ref_lib = (\<lambda>f b. ref_tag f 0 @ varint (if b then 1 else 0))"
  "WriteInt32 ref_lib = (\<lambda>f v. ref_tag f 0 @ ref_int32 v)"
  "WriteBytes ref_lib = (\<lambda>f s. ref_tag f 2 @ ref_delimited s)"
  "WriteString ref_lib = (\<lambda>f s. ref_tag f 2 @ ref_delimited s)"
  "WriteMessage ref_lib = (\<lambda>f n body. ref_tag f 2 @ varint n @ body)"
  "EnumSize ref_lib = (\<lambda>v. length (ref_int32 v))"
  "Int32Size ref_lib = (\<lambda>v. length (ref_int32 v))"
  "BytesSize ref_lib = (\<lambda>s. length (ref_delimited s))"
  "StringSize ref_lib = (\<lambda>s. length (ref_delimited s))"
  "MessageSize ref_lib = (\<lambda>n. length (varint n) + n)"
  by (simp_all add: ref_lib_def)

lemmas reference_eval = ref_lib_fields ref_tag_def ref_delimited_def ref_int32_def
  length_varint_small

end
