(* ===== verification/OperationProto.thy ===== *)
theory OperationProto
  imports ProtoWire
begin

text \<open>
  The message classes of \<open>volodb-common/ProtoBuf/Operation.pb.cc\<close>: one record per class, an
  optional or required field as an option (the has-bit and the value), a repeated field as a list,
  and the fields the schema does not know. Per class: \<open>new\<close>, \<open>Clear\<close>, the \<open>switch\<close> of
  \<open>MergePartialFromCodedStream\<close> with the tags it expects next, \<open>SerializeWithCachedSizes\<close>,
  \<open>ByteSize\<close>, \<open>IsInitialized\<close>, \<open>MergeFrom\<close> and \<open>CopyFrom\<close>. The lemmas show that the cached size
  is the length of what is written and that a message without unknown fields is read back.
\<close>

section \<open>StoreInfo\<close>

record store_info =
  si_store_name :: "bytes option"
  si_unknown :: "unknown_field list"

definition StoreInfo_new :: store_info where
  "StoreInfo_new = \<lparr>si_store_name = None, si_unknown = []\<rparr>"

definition StoreInfo_Clear :: "store_info \<Rightarrow> store_info" where
  "StoreInfo_Clear m = m\<lparr>si_store_name := None, si_unknown := []\<rparr>"

definition StoreInfo_has_store_name :: "store_info \<Rightarrow> bool" where
  [accessors]: "StoreInfo_has_store_name m \<longleftrightarrow> si_store_name m \<noteq> None"

definition StoreInfo_clear_store_name :: "store_info \<Rightarrow> store_info" where
  [accessors]: "StoreInfo_clear_store_name m = m\<lparr>si_store_name := None\<rparr>"

definition StoreInfo_store_name :: "store_info \<Rightarrow> bytes" where
  [accessors]: "StoreInfo_store_name m = (case si_store_name m of None \<Rightarrow> [] | Some x \<Rightarrow> x)"

definition StoreInfo_set_store_name :: "bytes \<Rightarrow> store_info \<Rightarrow> store_info" where
  [accessors]: "StoreInfo_set_store_name x m = m\<lparr>si_store_name := Some x\<rparr>"

definition StoreInfo_add_unknown :: "unknown_field list \<Rightarrow> store_info \<Rightarrow> store_info" where
  "StoreInfo_add_unknown us m = m\<lparr>si_unknown := si_unknown m @ us\<rparr>"

definition StoreInfo_switch :: "pb_lib \<Rightarrow> nat \<Rightarrow> store_info \<Rightarrow> bytes \<Rightarrow> store_info switch_result" where
  "StoreInfo_switch L tag m inp =
     (if GetTagFieldNumber tag = 2 then
        (if tag = 18 then
           (case ReadString L inp of
              None \<Rightarrow> ReadFailed
            | Some (x, r) \<Rightarrow> FieldRead (m\<lparr>si_store_name := Some x\<rparr>) r [] True)
         else Unusual)
      else Unusual)"

definition StoreInfo_MergePartial :: "pb_lib \<Rightarrow> store_info \<Rightarrow> bytes \<Rightarrow> store_info parse_result" where
  "StoreInfo_MergePartial L = merge_partial L (StoreInfo_switch L) StoreInfo_add_unknown"

definition StoreInfo_Serialize :: "pb_lib \<Rightarrow> store_info \<Rightarrow> bytes" where
  "StoreInfo_Serialize L m =
     opt_bytes (WriteString L 2) (si_store_name m) @
     (if si_unknown m = [] then [] else SerializeUnknownFields L (si_unknown m))"

definition StoreInfo_SerializeToArray :: "pb_lib \<Rightarrow> store_info \<Rightarrow> bytes \<Rightarrow> bytes" where
  "StoreInfo_SerializeToArray L m target0 =
     (let
        target1 = opt_write (WriteStringToArray L 2) (si_store_name m) target0;
        target2 = (if si_unknown m = [] then target1 else SerializeUnknownFieldsToArray L (si_unknown m) target1)
      in target2)"

definition StoreInfo_ByteSize :: "pb_lib \<Rightarrow> store_info \<Rightarrow> nat" where
  "StoreInfo_ByteSize L m =
     opt_size (\<lambda>x. 1 + StringSize L x) (si_store_name m) +
     (if si_unknown m = [] then 0 else ComputeUnknownFieldsSize L (si_unknown m))"

definition StoreInfo_IsInitialized :: "store_info \<Rightarrow> bool" where
  "StoreInfo_IsInitialized m \<longleftrightarrow> si_store_name m \<noteq> None"

definition StoreInfo_MergeFrom :: "store_info \<Rightarrow> store_info \<Rightarrow> store_info" where
  "StoreInfo_MergeFrom m src =
     m\<lparr>si_store_name := (case si_store_name src of None \<Rightarrow> si_store_name m | Some x \<Rightarrow> Some x),
       si_unknown := si_unknown m @ si_unknown src\<rparr>"

definition StoreInfo_CopyFrom :: "store_info \<Rightarrow> store_info \<Rightarrow> store_info" where
  "StoreInfo_CopyFrom m src = StoreInfo_MergeFrom (StoreInfo_Clear m) src"

text \<open>No field outside the schema, here and in nested messages.\<close>

definition StoreInfo_known :: "store_info \<Rightarrow> bool" where
  "StoreInfo_known m \<longleftrightarrow> si_unknown m = []"

lemma StoreInfo_MergeFrom_new: "StoreInfo_MergeFrom StoreInfo_new m = m"
  by (cases m) (simp add: StoreInfo_MergeFrom_def StoreInfo_new_def split: option.splits)

lemma StoreInfo_Clear_new: "StoreInfo_Clear m = StoreInfo_new"
  by (cases m) (simp add: StoreInfo_Clear_def StoreInfo_new_def)

lemma StoreInfo_CopyFrom_copy: "StoreInfo_CopyFrom m src = src"
  by (simp add: StoreInfo_CopyFrom_def StoreInfo_Clear_new StoreInfo_MergeFrom_new)

context protobuf_wire
begin

lemma StoreInfo_switch_ok: "switch_ok (StoreInfo_switch L)"
  by (rule switch_okI)
    (auto simp: StoreInfo_switch_def dest!: consumes split: if_splits option.splits)

lemma StoreInfo_merge_total: "StoreInfo_MergePartial L m inp \<noteq> OutOfFuel"
  by (simp add: StoreInfo_MergePartial_def merge_partial_total StoreInfo_switch_ok)

lemma StoreInfo_size: "StoreInfo_ByteSize L m = length (StoreInfo_Serialize L m)"
  by (simp add: StoreInfo_ByteSize_def StoreInfo_Serialize_def length_opt_bytes length_concat_map sum_list_Suc
      write_sizes unknown_size)

lemma StoreInfo_to_array: "StoreInfo_SerializeToArray L m = (\<lambda>target. target @ StoreInfo_Serialize L m)"
  by (rule ext) (simp add: StoreInfo_SerializeToArray_def StoreInfo_Serialize_def Let_def to_array)

lemma StoreInfo_step_store_name:
  assumes "si_store_name m = None"
    and "length (opt_bytes (WriteString L 2) v @ r) < total_bytes_limit"
  shows "StoreInfo_MergePartial L m (opt_bytes (WriteString L 2) v @ r) =
    StoreInfo_MergePartial L (m\<lparr>si_store_name := v\<rparr>) r"
proof (cases v)
  case None
  with assms(1) show ?thesis by (cases m) simp
next
  case (Some x)
  with assms(2) have len: "length x + length r < total_bytes_limit"
    using length_write_string [of x 2] by simp
  have sw: "StoreInfo_switch L (8 * 2 + 2) m ((WriteVarint32 L (length x) @ x) @ r) =
      FieldRead (m\<lparr>si_store_name := Some x\<rparr>) r [] True"
    using assms Some len by (simp add: StoreInfo_switch_def GetTagFieldNumber_def read_string)
  show ?thesis
    using merge_partial_write [OF StoreInfo_switch_ok _ _ _ sw]
    by (simp add: Some StoreInfo_MergePartial_def write_string)
qed

lemma StoreInfo_roundtrip:
  assumes known: "StoreInfo_known m" and size: "length (StoreInfo_Serialize L m) < total_bytes_limit"
  shows "StoreInfo_MergePartial L StoreInfo_new (StoreInfo_Serialize L m) = Parsed m []"
proof -
  have "StoreInfo_MergePartial L StoreInfo_new (StoreInfo_Serialize L m) = StoreInfo_MergePartial L StoreInfo_new
      (opt_bytes (WriteString L 2) (si_store_name m) @
        [])"
    using known by (simp add: StoreInfo_Serialize_def StoreInfo_known_def)
  also have "\<dots> = StoreInfo_MergePartial L (StoreInfo_new\<lparr>si_store_name := si_store_name m\<rparr>)
      ([])"
    using known size by (subst StoreInfo_step_store_name) (simp_all add: StoreInfo_new_def StoreInfo_Serialize_def StoreInfo_known_def)
  also have "\<dots> = Parsed m []"
    using known by (cases m) (simp add: StoreInfo_MergePartial_def StoreInfo_known_def StoreInfo_new_def)
  finally show ?thesis .
qed

end

end
