(* ===== verification/ColumnProto.thy ===== *)
theory ColumnProto
  imports ProtoWire
begin

text \<open>
  The message classes of \<open>volodb-common/ProtoBuf/Column.pb.cc\<close>: one record per class, an
  optional or required field as an option (the has-bit and the value), a repeated field as a list,
  and the fields the schema does not know. Per class: \<open>new\<close>, \<open>Clear\<close>, the \<open>switch\<close> of
  \<open>MergePartialFromCodedStream\<close> with the tags it expects next, \<open>SerializeWithCachedSizes\<close>,
  \<open>ByteSize\<close>, \<open>IsInitialized\<close>, \<open>MergeFrom\<close> and \<open>CopyFrom\<close>. The lemmas show that the cached size
  is the length of what is written and that a message without unknown fields is read back.
\<close>

section \<open>The enumeration Column_Type\<close>

datatype column_type =
    Column_Type_BOOL
  | Column_Type_INT32
  | Column_Type_UINT32
  | Column_Type_INT64
  | Column_Type_UINT64
  | Column_Type_FLOAT
  | Column_Type_DOUBLE
  | Column_Type_CHAR
  | Column_Type_VARCHAR
  | Column_Type_VARBINARY

fun Column_Type_value :: "column_type \<Rightarrow> int32" where
  "Column_Type_value Column_Type_BOOL = 1"
| "Column_Type_value Column_Type_INT32 = 7"
| "Column_Type_value Column_Type_UINT32 = 8"
| "Column_Type_value Column_Type_INT64 = 9"
| "Column_Type_value Column_Type_UINT64 = 10"
| "Column_Type_value Column_Type_FLOAT = 11"
| "Column_Type_value Column_Type_DOUBLE = 12"
| "Column_Type_value Column_Type_CHAR = 14"
| "Column_Type_value Column_Type_VARCHAR = 23"
| "Column_Type_value Column_Type_VARBINARY = 24"

definition Column_Type_of :: "int32 \<Rightarrow> column_type option" where
  "Column_Type_of v =
     (if v = 1 then Some Column_Type_BOOL
      else if v = 7 then Some Column_Type_INT32
      else if v = 8 then Some Column_Type_UINT32
      else if v = 9 then Some Column_Type_INT64
      else if v = 10 then Some Column_Type_UINT64
      else if v = 11 then Some Column_Type_FLOAT
      else if v = 12 then Some Column_Type_DOUBLE
      else if v = 14 then Some Column_Type_CHAR
      else if v = 23 then Some Column_Type_VARCHAR
      else if v = 24 then Some Column_Type_VARBINARY
      else None)"

lemma Column_Type_of_value [simp]: "Column_Type_of (Column_Type_value t) = Some t"
  by (cases t) (simp_all add: Column_Type_of_def)

section \<open>ColumnInfo\<close>

record column_info =
  ci_name :: "bytes option"
  ci_type :: "column_type option"
  ci_primary_key :: "bool option"
  ci_distribution_key :: "bool option"
  ci_length :: "int32 option"
  ci_unknown :: "unknown_field list"

definition ColumnInfo_new :: column_info where
  "ColumnInfo_new = \<lparr>ci_name = None, ci_type = None, ci_primary_key = None, ci_distribution_key = None, ci_length = None, ci_unknown = []\<rparr>"

definition ColumnInfo_Clear :: "column_info \<Rightarrow> column_info" where
  "ColumnInfo_Clear m = m\<lparr>ci_name := None, ci_type := None, ci_primary_key := None, ci_distribution_key := None, ci_length := None, ci_unknown := []\<rparr>"

definition ColumnInfo_has_name :: "column_info \<Rightarrow> bool" where
  [accessors]: "ColumnInfo_has_name m \<longleftrightarrow> ci_name m \<noteq> None"

definition ColumnInfo_clear_name :: "column_info \<Rightarrow> column_info" where
  [accessors]: "ColumnInfo_clear_name m = m\<lparr>ci_name := None\<rparr>"

definition ColumnInfo_name :: "column_info \<Rightarrow> bytes" where
  [accessors]: "ColumnInfo_name m = (case ci_name m of None \<Rightarrow> [] | Some x \<Rightarrow> x)"

definition ColumnInfo_set_name :: "bytes \<Rightarrow> column_info \<Rightarrow> column_info" where
  [accessors]: "ColumnInfo_set_name x m = m\<lparr>ci_name := Some x\<rparr>"

definition ColumnInfo_has_type :: "column_info \<Rightarrow> bool" where
  [accessors]: "ColumnInfo_has_type m \<longleftrightarrow> ci_type m \<noteq> None"

definition ColumnInfo_clear_type :: "column_info \<Rightarrow> column_info" where
  [accessors]: "ColumnInfo_clear_type m = m\<lparr>ci_type := None\<rparr>"

definition ColumnInfo_type :: "column_info \<Rightarrow> column_type" where
  [accessors]: "ColumnInfo_type m = (case ci_type m of None \<Rightarrow> Column_Type_BOOL | Some x \<Rightarrow> x)"

definition ColumnInfo_set_type :: "column_type \<Rightarrow> column_info \<Rightarrow> column_info" where
  [accessors]: "ColumnInfo_set_type x m = m\<lparr>ci_type := Some x\<rparr>"

definition ColumnInfo_has_primary_key :: "column_info \<Rightarrow> bool" where
  [accessors]: "ColumnInfo_has_primary_key m \<longleftrightarrow> ci_primary_key m \<noteq> None"

definition ColumnInfo_clear_primary_key :: "column_info \<Rightarrow> column_info" where
  [accessors]: "ColumnInfo_clear_primary_key m = m\<lparr>ci_primary_key := None\<rparr>"

definition ColumnInfo_primary_key :: "column_info \<Rightarrow> bool" where
  [accessors]: "ColumnInfo_primary_key m = (case ci_primary_key m of None \<Rightarrow> False | Some x \<Rightarrow> x)"

definition ColumnInfo_set_primary_key :: "bool \<Rightarrow> column_info \<Rightarrow> column_info" where
  [accessors]: "ColumnInfo_set_primary_key x m = m\<lparr>ci_primary_key := Some x\<rparr>"

definition ColumnInfo_has_distribution_key :: "column_info \<Rightarrow> bool" where
  [accessors]: "ColumnInfo_has_distribution_key m \<longleftrightarrow> ci_distribution_key m \<noteq> None"

definition ColumnInfo_clear_distribution_key :: "column_info \<Rightarrow> column_info" where
  [accessors]: "ColumnInfo_clear_distribution_key m = m\<lparr>ci_distribution_key := None\<rparr>"

definition ColumnInfo_distribution_key :: "column_info \<Rightarrow> bool" where
  [accessors]: "ColumnInfo_distribution_key m = (case ci_distribution_key m of None \<Rightarrow> False | Some x \<Rightarrow> x)"

definition ColumnInfo_set_distribution_key :: "bool \<Rightarrow> column_info \<Rightarrow> column_info" where
  [accessors]: "ColumnInfo_set_distribution_key x m = m\<lparr>ci_distribution_key := Some x\<rparr>"

definition ColumnInfo_has_length :: "column_info \<Rightarrow> bool" where
  [accessors]: "ColumnInfo_has_length m \<longleftrightarrow> ci_length m \<noteq> None"

definition ColumnInfo_clear_length :: "column_info \<Rightarrow> column_info" where
  [accessors]: "ColumnInfo_clear_length m = m\<lparr>ci_length := None\<rparr>"

definition ColumnInfo_length :: "column_info \<Rightarrow> int32" where
  [accessors]: "ColumnInfo_length m = (case ci_length m of None \<Rightarrow> 0 | Some x \<Rightarrow> x)"

definition ColumnInfo_set_length :: "int32 \<Rightarrow> column_info \<Rightarrow> column_info" where
  [accessors]: "ColumnInfo_set_length x m = m\<lparr>ci_length := Some x\<rparr>"

definition ColumnInfo_add_unknown :: "unknown_field list \<Rightarrow> column_info \<Rightarrow> column_info" where
  "ColumnInfo_add_unknown us m = m\<lparr>ci_unknown := ci_unknown m @ us\<rparr>"

definition ColumnInfo_switch :: "pb_lib \<Rightarrow> nat \<Rightarrow> column_info \<Rightarrow> bytes \<Rightarrow> column_info switch_result" where
  "ColumnInfo_switch L tag m inp =
     (if GetTagFieldNumber tag = 1 then
        (if tag = 10 then
           (case ReadString L inp of
              None \<Rightarrow> ReadFailed
            | Some (x, r) \<Rightarrow> FieldRead (m\<lparr>ci_name := Some x\<rparr>) r [16] False)
         else Unusual)
      else if GetTagFieldNumber tag = 2 then
        (if tag = 16 then
           (case ReadEnum L inp of
              None \<Rightarrow> ReadFailed
            | Some (v, r) \<Rightarrow>
                (case Column_Type_of v of
                   Some t \<Rightarrow> FieldRead (m\<lparr>ci_type := Some t\<rparr>) r [24] False
                 | None \<Rightarrow> FieldRead (ColumnInfo_add_unknown [AddVarint 2 v] m) r [24] False))
         else Unusual)
      else if GetTagFieldNumber tag = 3 then
        (if tag = 24 then
           (case ReadBool L inp of
              None \<Rightarrow> ReadFailed
            | Some (x, r) \<Rightarrow> FieldRead (m\<lparr>ci_primary_key := Some x\<rparr>) r [32] False)
         else Unusual)
      else if GetTagFieldNumber tag = 4 then
        (if tag = 32 then
           (case ReadBool L inp of
              None \<Rightarrow> ReadFailed
            | Some (x, r) \<Rightarrow> FieldRead (m\<lparr>ci_distribution_key := Some x\<rparr>) r [48] False)
         else Unusual)
      else if GetTagFieldNumber tag = 6 then
        (if tag = 48 then
           (case ReadInt32 L inp of
              None \<Rightarrow> ReadFailed
            | Some (x, r) \<Rightarrow> FieldRead (m\<lparr>ci_length := Some x\<rparr>) r [] True)
         else Unusual)
      else Unusual)"

definition ColumnInfo_MergePartial :: "pb_lib \<Rightarrow> column_info \<Rightarrow> bytes \<Rightarrow> column_info parse_result" where
  "ColumnInfo_MergePartial L = merge_partial L (ColumnInfo_switch L) ColumnInfo_add_unknown"

definition ColumnInfo_Serialize :: "pb_lib \<Rightarrow> column_info \<Rightarrow> bytes" where
  "ColumnInfo_Serialize L m =
     opt_bytes (WriteString L 1) (ci_name m) @
     opt_bytes (\<lambda>x. WriteEnum L 2 (Column_Type_value x)) (ci_type m) @
     opt_bytes (WriteBool L 3) (ci_primary_key m) @
     opt_bytes (WriteBool L 4) (ci_distribution_key m) @
     opt_bytes (WriteInt32 L 6) (ci_length m) @
     (if ci_unknown m = [] then [] else SerializeUnknownFields L (ci_unknown m))"

definition ColumnInfo_SerializeToArray :: "pb_lib \<Rightarrow> column_info \<Rightarrow> bytes \<Rightarrow> bytes" where
  "ColumnInfo_SerializeToArray L m target0 =
     (let
        target1 = opt_write (WriteStringToArray L 1) (ci_name m) target0;
        target2 = opt_write (\<lambda>x. WriteEnumToArray L 2 (Column_Type_value x)) (ci_type m) target1;
        target3 = opt_write (WriteBoolToArray L 3) (ci_primary_key m) target2;
        target4 = opt_write (WriteBoolToArray L 4) (ci_distribution_key m) target3;
        target5 = opt_write (WriteInt32ToArray L 6) (ci_length m) target4;
        target6 = (if ci_unknown m = [] then target5 else SerializeUnknownFieldsToArray L (ci_unknown m) target5)
      in target6)"

definition ColumnInfo_ByteSize :: "pb_lib \<Rightarrow> column_info \<Rightarrow> nat" where
  "ColumnInfo_ByteSize L m =
     opt_size (\<lambda>x. 1 + StringSize L x) (ci_name m) +
     opt_size (\<lambda>x. 1 + EnumSize L (Column_Type_value x)) (ci_type m) +
     opt_size (\<lambda>x. 1 + 1) (ci_primary_key m) +
     opt_size (\<lambda>x. 1 + 1) (ci_distribution_key m) +
     opt_size (\<lambda>x. 1 + Int32Size L x) (ci_length m) +
     (if ci_unknown m = [] then 0 else ComputeUnknownFieldsSize L (ci_unknown m))"

definition ColumnInfo_IsInitialized :: "column_info \<Rightarrow> bool" where
  "ColumnInfo_IsInitialized m \<longleftrightarrow> ci_name m \<noteq> None \<and>
     ci_type m \<noteq> None"

definition ColumnInfo_MergeFrom :: "column_info \<Rightarrow> column_info \<Rightarrow> column_info" where
  "ColumnInfo_MergeFrom m src =
     m\<lparr>ci_name := (case ci_name src of None \<Rightarrow> ci_name m | Some x \<Rightarrow> Some x),
       ci_type := (case ci_type src of None \<Rightarrow> ci_type m | Some x \<Rightarrow> Some x),
       ci_primary_key := (case ci_primary_key src of None \<Rightarrow> ci_primary_key m | Some x \<Rightarrow> Some x),
       ci_distribution_key := (case ci_distribution_key src of None \<Rightarrow> ci_distribution_key m | Some x \<Rightarrow> Some x),
       ci_length := (case ci_length src of None \<Rightarrow> ci_length m | Some x \<Rightarrow> Some x),
       ci_unknown := ci_unknown m @ ci_unknown src\<rparr>"

definition ColumnInfo_CopyFrom :: "column_info \<Rightarrow> column_info \<Rightarrow> column_info" where
  "ColumnInfo_CopyFrom m src = ColumnInfo_MergeFrom (ColumnInfo_Clear m) src"

text \<open>No field outside the schema, here and in nested messages.\<close>

definition ColumnInfo_known :: "column_info \<Rightarrow> bool" where
  "ColumnInfo_known m \<longleftrightarrow> ci_unknown m = []"

lemma ColumnInfo_MergeFrom_new: "ColumnInfo_MergeFrom ColumnInfo_new m = m"
  by (cases m) (simp add: ColumnInfo_MergeFrom_def ColumnInfo_new_def split: option.splits)

lemma ColumnInfo_Clear_new: "ColumnInfo_Clear m = ColumnInfo_new"
  by (cases m) (simp add: ColumnInfo_Clear_def ColumnInfo_new_def)

lemma ColumnInfo_CopyFrom_copy: "ColumnInfo_CopyFrom m src = src"
  by (simp add: ColumnInfo_CopyFrom_def ColumnInfo_Clear_new ColumnInfo_MergeFrom_new)

context protobuf_wire
begin

lemma ColumnInfo_switch_ok: "switch_ok (ColumnInfo_switch L)"
  by (rule switch_okI)
    (auto simp: ColumnInfo_switch_def dest!: consumes split: if_splits option.splits)

lemma ColumnInfo_merge_total: "ColumnInfo_MergePartial L m inp \<noteq> OutOfFuel"
  by (simp add: ColumnInfo_MergePartial_def merge_partial_total ColumnInfo_switch_ok)

lemma ColumnInfo_size: "ColumnInfo_ByteSize L m = length (ColumnInfo_Serialize L m)"
  by (simp add: ColumnInfo_ByteSize_def ColumnInfo_Serialize_def length_opt_bytes length_concat_map sum_list_Suc
      write_sizes unknown_size)

lemma ColumnInfo_to_array: "ColumnInfo_SerializeToArray L m = (\<lambda>target. target @ ColumnInfo_Serialize L m)"
  by (rule ext) (simp add: ColumnInfo_SerializeToArray_def ColumnInfo_Serialize_def Let_def to_array)

lemma ColumnInfo_step_name:
  assumes "ci_name m = None"
    and "length (opt_bytes (WriteString L 1) v @ r) < total_bytes_limit"
  shows "ColumnInfo_MergePartial L m (opt_bytes (WriteString L 1) v @ r) =
    ColumnInfo_MergePartial L (m\<lparr>ci_name := v\<rparr>) r"
proof (cases v)
  case None
  with assms(1) show ?thesis by (cases m) simp
next
  case (Some x)
  with assms(2) have len: "length x + length r < total_bytes_limit"
    using length_write_string [of x 1] by simp
  have sw: "ColumnInfo_switch L (8 * 1 + 2) m ((WriteVarint32 L (length x) @ x) @ r) =
      FieldRead (m\<lparr>ci_name := Some x\<rparr>) r [16] False"
    using assms Some len by (simp add: ColumnInfo_switch_def GetTagFieldNumber_def read_string)
  show ?thesis
    using merge_partial_write [OF ColumnInfo_switch_ok _ _ _ sw]
    by (simp add: Some ColumnInfo_MergePartial_def write_string)
qed

lemma ColumnInfo_step_type:
  assumes "ci_type m = None"
  shows "ColumnInfo_MergePartial L m (opt_bytes (\<lambda>x. WriteEnum L 2 (Column_Type_value x)) v @ r) =
    ColumnInfo_MergePartial L (m\<lparr>ci_type := v\<rparr>) r"
proof (cases v)
  case None
  with assms(1) show ?thesis by (cases m) simp
next
  case (Some x)
  have sw: "ColumnInfo_switch L (8 * 2 + 0) m ((WriteEnumNoTag L (Column_Type_value x)) @ r) =
      FieldRead (m\<lparr>ci_type := Some x\<rparr>) r [24] False"
    using assms Some by (simp add: ColumnInfo_switch_def GetTagFieldNumber_def read_enum)
  show ?thesis
    using merge_partial_write [OF ColumnInfo_switch_ok _ _ _ sw]
    by (simp add: Some ColumnInfo_MergePartial_def write_enum)
qed

lemma ColumnInfo_step_primary_key:
  assumes "ci_primary_key m = None"
  shows "ColumnInfo_MergePartial L m (opt_bytes (WriteBool L 3) v @ r) =
    ColumnInfo_MergePartial L (m\<lparr>ci_primary_key := v\<rparr>) r"
proof (cases v)
  case None
  with assms(1) show ?thesis by (cases m) simp
next
  case (Some x)
  have sw: "ColumnInfo_switch L (8 * 3 + 0) m ((WriteBoolNoTag L x) @ r) =
      FieldRead (m\<lparr>ci_primary_key := Some x\<rparr>) r [32] False"
    using assms Some by (simp add: ColumnInfo_switch_def GetTagFieldNumber_def read_bool)
  show ?thesis
    using merge_partial_write [OF ColumnInfo_switch_ok _ _ _ sw]
    by (simp add: Some ColumnInfo_MergePartial_def write_bool)
qed

lemma ColumnInfo_step_distribution_key:
  assumes "ci_distribution_key m = None"
  shows "ColumnInfo_MergePartial L m (opt_bytes (WriteBool L 4) v @ r) =
    ColumnInfo_MergePartial L (m\<lparr>ci_distribution_key := v\<rparr>) r"
proof (cases v)
  case None
  with assms(1) show ?thesis by (cases m) simp
next
  case (Some x)
  have sw: "ColumnInfo_switch L (8 * 4 + 0) m ((WriteBoolNoTag L x) @ r) =
      FieldRead (m\<lparr>ci_distribution_key := Some x\<rparr>) r [48] False"
    using assms Some by (simp add: ColumnInfo_switch_def GetTagFieldNumber_def read_bool)
  show ?thesis
    using merge_partial_write [OF ColumnInfo_switch_ok _ _ _ sw]
    by (simp add: Some ColumnInfo_MergePartial_def write_bool)
qed

lemma ColumnInfo_step_length:
  assumes "ci_length m = None"
  shows "ColumnInfo_MergePartial L m (opt_bytes (WriteInt32 L 6) v @ r) =
    ColumnInfo_MergePartial L (m\<lparr>ci_length := v\<rparr>) r"
proof (cases v)
  case None
  with assms(1) show ?thesis by (cases m) simp
next
  case (Some x)
  have sw: "ColumnInfo_switch L (8 * 6 + 0) m ((WriteInt32NoTag L x) @ r) =
      FieldRead (m\<lparr>ci_length := Some x\<rparr>) r [] True"
    using assms Some by (simp add: ColumnInfo_switch_def GetTagFieldNumber_def read_int32)
  show ?thesis
    using merge_partial_write [OF ColumnInfo_switch_ok _ _ _ sw]
    by (simp add: Some ColumnInfo_MergePartial_def write_int32)
qed

lemma ColumnInfo_roundtrip:
  assumes known: "ColumnInfo_known m" and size: "length (ColumnInfo_Serialize L m) < total_bytes_limit"
  shows "ColumnInfo_MergePartial L ColumnInfo_new (ColumnInfo_Serialize L m) = Parsed m []"
proof -
  have "ColumnInfo_MergePartial L ColumnInfo_new (ColumnInfo_Serialize L m) = ColumnInfo_MergePartial L ColumnInfo_new
      (opt_bytes (WriteString L 1) (ci_name m) @
        opt_bytes (\<lambda>x. WriteEnum L 2 (Column_Type_value x)) (ci_type m) @
        opt_bytes (WriteBool L 3) (ci_primary_key m) @
        opt_bytes (WriteBool L 4) (ci_distribution_key m) @
        opt_bytes (WriteInt32 L 6) (ci_length m) @
        [])"
    using known by (simp add: ColumnInfo_Serialize_def ColumnInfo_known_def)
  also have "\<dots> = ColumnInfo_MergePartial L (ColumnInfo_new\<lparr>ci_name := ci_name m\<rparr>)
      (opt_bytes (\<lambda>x. WriteEnum L 2 (Column_Type_value x)) (ci_type m) @
        opt_bytes (WriteBool L 3) (ci_primary_key m) @
        opt_bytes (WriteBool L 4) (ci_distribution_key m) @
        opt_bytes (WriteInt32 L 6) (ci_length m) @
        [])"
    using known size by (subst ColumnInfo_step_name) (simp_all add: ColumnInfo_new_def ColumnInfo_Serialize_def ColumnInfo_known_def)
  also have "\<dots> = ColumnInfo_MergePartial L (ColumnInfo_new\<lparr>ci_name := ci_name m, ci_type := ci_type m\<rparr>)
      (opt_bytes (WriteBool L 3) (ci_primary_key m) @
        opt_bytes (WriteBool L 4) (ci_distribution_key m) @
        opt_bytes (WriteInt32 L 6) (ci_length m) @
        [])"
    by (subst ColumnInfo_step_type) (simp_all add: ColumnInfo_new_def)
  also have "\<dots> = ColumnInfo_MergePartial L (ColumnInfo_new\<lparr>ci_name := ci_name m, ci_type := ci_type m, ci_primary_key := ci_primary_key m\<rparr>)
      (opt_bytes (WriteBool L 4) (ci_distribution_key m) @
        opt_bytes (WriteInt32 L 6) (ci_length m) @
        [])"
    by (subst ColumnInfo_step_primary_key) (simp_all add: ColumnInfo_new_def)
  also have "\<dots> = ColumnInfo_MergePartial L (ColumnInfo_new\<lparr>ci_name := ci_name m, ci_type := ci_type m, ci_primary_key := ci_primary_key m, ci_distribution_key := ci_distribution_key m\<rparr>)
      (opt_bytes (WriteInt32 L 6) (ci_length m) @
        [])"
    by (subst ColumnInfo_step_distribution_key) (simp_all add: ColumnInfo_new_def)
  also have "\<dots> = ColumnInfo_MergePartial L (ColumnInfo_new\<lparr>ci_name := ci_name m, ci_type := ci_type m, ci_primary_key := ci_primary_key m, ci_distribution_key := ci_distribution_key m, ci_length := ci_length m\<rparr>)
      ([])"
    by (subst ColumnInfo_step_length) (simp_all add: ColumnInfo_new_def)
  also have "\<dots> = Parsed m []"
    using known by (cases m) (simp add: ColumnInfo_MergePartial_def ColumnInfo_known_def ColumnInfo_new_def)
  finally show ?thesis .
qed

end

section \<open>ColumnValue\<close>

record column_value =
  cv_name :: "bytes option"
  cv_type :: "column_type option"
  cv_primary_key :: "bool option"
  cv_distribution_key :: "bool option"
  cv_value :: "bytes option"
  cv_unknown :: "unknown_field list"

definition ColumnValue_new :: column_value where
  "ColumnValue_new = \<lparr>cv_name = None, cv_type = None, cv_primary_key = None, cv_distribution_key = None, cv_value = None, cv_unknown = []\<rparr>"

definition ColumnValue_Clear :: "column_value \<Rightarrow> column_value" where
  "ColumnValue_Clear m = m\<lparr>cv_name := None, cv_type := None, cv_primary_key := None, cv_distribution_key := None, cv_value := None, cv_unknown := []\<rparr>"

definition ColumnValue_has_name :: "column_value \<Rightarrow> bool" where
  [accessors]: "ColumnValue_has_name m \<longleftrightarrow> cv_name m \<noteq> None"

definition ColumnValue_clear_name :: "column_value \<Rightarrow> column_value" where
  [accessors]: "ColumnValue_clear_name m = m\<lparr>cv_name := None\<rparr>"

definition ColumnValue_name :: "column_value \<Rightarrow> bytes" where
  [accessors]: "ColumnValue_name m = (case cv_name m of None \<Rightarrow> [] | Some x \<Rightarrow> x)"

definition ColumnValue_set_name :: "bytes \<Rightarrow> column_value \<Rightarrow> column_value" where
  [accessors]: "ColumnValue_set_name x m = m\<lparr>cv_name := Some x\<rparr>"

definition ColumnValue_has_type :: "column_value \<Rightarrow> bool" where
  [accessors]: "ColumnValue_has_type m \<longleftrightarrow> cv_type m \<noteq> None"

definition ColumnValue_clear_type :: "column_value \<Rightarrow> column_value" where
  [accessors]: "ColumnValue_clear_type m = m\<lparr>cv_type := None\<rparr>"

definition ColumnValue_type :: "column_value \<Rightarrow> column_type" where
  [accessors]: "ColumnValue_type m = (case cv_type m of None \<Rightarrow> Column_Type_BOOL | Some x \<Rightarrow> x)"

definition ColumnValue_set_type :: "column_type \<Rightarrow> column_value \<Rightarrow> column_value" where
  [accessors]: "ColumnValue_set_type x m = m\<lparr>cv_type := Some x\<rparr>"

definition ColumnValue_has_primary_key :: "column_value \<Rightarrow> bool" where
  [accessors]: "ColumnValue_has_primary_key m \<longleftrightarrow> cv_primary_key m \<noteq> None"

definition ColumnValue_clear_primary_key :: "column_value \<Rightarrow> column_value" where
  [accessors]: "ColumnValue_clear_primary_key m = m\<lparr>cv_primary_key := None\<rparr>"

definition ColumnValue_primary_key :: "column_value \<Rightarrow> bool" where
  [accessors]: "ColumnValue_primary_key m = (case cv_primary_key m of None \<Rightarrow> False | Some x \<Rightarrow> x)"

definition ColumnValue_set_primary_key :: "bool \<Rightarrow> column_value \<Rightarrow> column_value" where
  [accessors]: "ColumnValue_set_primary_key x m = m\<lparr>cv_primary_key := Some x\<rparr>"

definition ColumnValue_has_distribution_key :: "column_value \<Rightarrow> bool" where
  [accessors]: "ColumnValue_has_distribution_key m \<longleftrightarrow> cv_distribution_key m \<noteq> None"

definition ColumnValue_clear_distribution_key :: "column_value \<Rightarrow> column_value" where
  [accessors]: "ColumnValue_clear_distribution_key m = m\<lparr>cv_distribution_key := None\<rparr>"

definition ColumnValue_distribution_key :: "column_value \<Rightarrow> bool" where
  [accessors]: "ColumnValue_distribution_key m = (case cv_distribution_key m of None \<Rightarrow> False | Some x \<Rightarrow> x)"

definition ColumnValue_set_distribution_key :: "bool \<Rightarrow> column_value \<Rightarrow> column_value" where
  [accessors]: "ColumnValue_set_distribution_key x m = m\<lparr>cv_distribution_key := Some x\<rparr>"

definition ColumnValue_has_value :: "column_value \<Rightarrow> bool" where
  [accessors]: "ColumnValue_has_value m \<longleftrightarrow> cv_value m \<noteq> None"

definition ColumnValue_clear_value :: "column_value \<Rightarrow> column_value" where
  [accessors]: "ColumnValue_clear_value m = m\<lparr>cv_value := None\<rparr>"

definition ColumnValue_value :: "column_value \<Rightarrow> bytes" where
  [accessors]: "ColumnValue_value m = (case cv_value m of None \<Rightarrow> [] | Some x \<Rightarrow> x)"

definition ColumnValue_set_value :: "bytes \<Rightarrow> column_value \<Rightarrow> column_value" where
  [accessors]: "ColumnValue_set_value x m = m\<lparr>cv_value := Some x\<rparr>"

definition ColumnValue_add_unknown :: "unknown_field list \<Rightarrow> column_value \<Rightarrow> column_value" where
  "ColumnValue_add_unknown us m = m\<lparr>cv_unknown := cv_unknown m @ us\<rparr>"

definition ColumnValue_switch :: "pb_lib \<Rightarrow> nat \<Rightarrow> column_value \<Rightarrow> bytes \<Rightarrow> column_value switch_result" where
  "ColumnValue_switch L tag m inp =
     (if GetTagFieldNumber tag = 1 then
        (if tag = 10 then
           (case ReadString L inp of
              None \<Rightarrow> ReadFailed
            | Some (x, r) \<Rightarrow> FieldRead (m\<lparr>cv_name := Some x\<rparr>) r [16] False)
         else Unusual)
      else if GetTagFieldNumber tag = 2 then
        (if tag = 16 then
           (case ReadEnum L inp of
              None \<Rightarrow> ReadFailed
            | Some (v, r) \<Rightarrow>
                (case Column_Type_of v of
                   Some t \<Rightarrow> FieldRead (m\<lparr>cv_type := Some t\<rparr>) r [24] False
                 | None \<Rightarrow> FieldRead (ColumnValue_add_unknown [AddVarint 2 v] m) r [24] False))
         else Unusual)
      else if GetTagFieldNumber tag = 3 then
        (if tag = 24 then
           (case ReadBool L inp of
              None \<Rightarrow> ReadFailed
            | Some (x, r) \<Rightarrow> FieldRead (m\<lparr>cv_primary_key := Some x\<rparr>) r [32] False)
         else Unusual)
      else if GetTagFieldNumber tag = 4 then
        (if tag = 32 then
           (case ReadBool L inp of
              None \<Rightarrow> ReadFailed
            | Some (x, r) \<Rightarrow> FieldRead (m\<lparr>cv_distribution_key := Some x\<rparr>) r [42] False)
         else Unusual)
      else if GetTagFieldNumber tag = 5 then
        (if tag = 42 then
           (case ReadBytes L inp of
              None \<Rightarrow> ReadFailed
            | Some (x, r) \<Rightarrow> FieldRead (m\<lparr>cv_value := Some x\<rparr>) r [] True)
         else Unusual)
      else Unusual)"

definition ColumnValue_MergePartial :: "pb_lib \<Rightarrow> column_value \<Rightarrow> bytes \<Rightarrow> column_value parse_result" where
  "ColumnValue_MergePartial L = merge_partial L (ColumnValue_switch L) ColumnValue_add_unknown"

definition ColumnValue_Serialize :: "pb_lib \<Rightarrow> column_value \<Rightarrow> bytes" where
  "ColumnValue_Serialize L m =
     opt_bytes (WriteString L 1) (cv_name m) @
     opt_bytes (\<lambda>x. WriteEnum L 2 (Column_Type_value x)) (cv_type m) @
     opt_bytes (WriteBool L 3) (cv_primary_key m) @
     opt_bytes (WriteBool L 4) (cv_distribution_key m) @
     opt_bytes (WriteBytes L 5) (cv_value m) @
     (if cv_unknown m = [] then [] else SerializeUnknownFields L (cv_unknown m))"

definition ColumnValue_SerializeToArray :: "pb_lib \<Rightarrow> column_value \<Rightarrow> bytes \<Rightarrow> bytes" where
  "ColumnValue_SerializeToArray L m target0 =
     (let
        target1 = opt_write (WriteStringToArray L 1) (cv_name m) target0;
        target2 = opt_write (\<lambda>x. WriteEnumToArray L 2 (Column_Type_value x)) (cv_type m) target1;
        target3 = opt_write (WriteBoolToArray L 3) (cv_primary_key m) target2;
        target4 = opt_write (WriteBoolToArray L 4) (cv_distribution_key m) target3;
        target5 = opt_write (WriteBytesToArray L 5) (cv_value m) target4;
        target6 = (if cv_unknown m = [] then target5 else SerializeUnknownFieldsToArray L (cv_unknown m) target5)
      in target6)"

definition ColumnValue_ByteSize :: "pb_lib \<Rightarrow> column_value \<Rightarrow> nat" where
  "ColumnValue_ByteSize L m =
     opt_size (\<lambda>x. 1 + StringSize L x) (cv_name m) +
     opt_size (\<lambda>x. 1 + EnumSize L (Column_Type_value x)) (cv_type m) +
     opt_size (\<lambda>x. 1 + 1) (cv_primary_key m) +
     opt_size (\<lambda>x. 1 + 1) (cv_distribution_key m) +
     opt_size (\<lambda>x. 1 + BytesSize L x) (cv_value m) +
     (if cv_unknown m = [] then 0 else ComputeUnknownFieldsSize L (cv_unknown m))"

definition ColumnValue_IsInitialized :: "column_value \<Rightarrow> bool" where
  "ColumnValue_IsInitialized m \<longleftrightarrow> cv_name m \<noteq> None \<and>
     cv_value m \<noteq> None"

definition ColumnValue_MergeFrom :: "column_value \<Rightarrow> column_value \<Rightarrow> column_value" where
  "ColumnValue_MergeFrom m src =
     m\<lparr>cv_name := (case cv_name src of None \<Rightarrow> cv_name m | Some x \<Rightarrow> Some x),
       cv_type := (case cv_type src of None \<Rightarrow> cv_type m | Some x \<Rightarrow> Some x),
       cv_primary_key := (case cv_primary_key src of None \<Rightarrow> cv_primary_key m | Some x \<Rightarrow> Some x),
       cv_distribution_key := (case cv_distribution_key src of None \<Rightarrow> cv_distribution_key m | Some x \<Rightarrow> Some x),
       cv_value := (case cv_value src of None \<Rightarrow> cv_value m | Some x \<Rightarrow> Some x),
       cv_unknown := cv_unknown m @ cv_unknown src\<rparr>"

definition ColumnValue_CopyFrom :: "column_value \<Rightarrow> column_value \<Rightarrow> column_value" where
  "ColumnValue_CopyFrom m src = ColumnValue_MergeFrom (ColumnValue_Clear m) src"

text \<open>No field outside the schema, here and in nested messages.\<close>

definition ColumnValue_known :: "column_value \<Rightarrow> bool" where
  "ColumnValue_known m \<longleftrightarrow> cv_unknown m = []"

lemma ColumnValue_MergeFrom_new: "ColumnValue_MergeFrom ColumnValue_new m = m"
  by (cases m) (simp add: ColumnValue_MergeFrom_def ColumnValue_new_def split: option.splits)

lemma ColumnValue_Clear_new: "ColumnValue_Clear m = ColumnValue_new"
  by (cases m) (simp add: ColumnValue_Clear_def ColumnValue_new_def)

lemma ColumnValue_CopyFrom_copy: "ColumnValue_CopyFrom m src = src"
  by (simp add: ColumnValue_CopyFrom_def ColumnValue_Clear_new ColumnValue_MergeFrom_new)

context protobuf_wire
begin

lemma ColumnValue_switch_ok: "switch_ok (ColumnValue_switch L)"
  by (rule switch_okI)
    (auto simp: ColumnValue_switch_def dest!: consumes split: if_splits option.splits)

lemma ColumnValue_merge_total: "ColumnValue_MergePartial L m inp \<noteq> OutOfFuel"
  by (simp add: ColumnValue_MergePartial_def merge_partial_total ColumnValue_switch_ok)

lemma ColumnValue_size: "ColumnValue_ByteSize L m = length (ColumnValue_Serialize L m)"
  by (simp add: ColumnValue_ByteSize_def ColumnValue_Serialize_def length_opt_bytes length_concat_map sum_list_Suc
      write_sizes unknown_size)

lemma ColumnValue_to_array: "ColumnValue_SerializeToArray L m = (\<lambda>target. target @ ColumnValue_Serialize L m)"
  by (rule ext) (simp add: ColumnValue_SerializeToArray_def ColumnValue_Serialize_def Let_def to_array)

lemma ColumnValue_step_name:
  assumes "cv_name m = None"
    and "length (opt_bytes (WriteString L 1) v @ r) < total_bytes_limit"
  shows "ColumnValue_MergePartial L m (opt_bytes (WriteString L 1) v @ r) =
    ColumnValue_MergePartial L (m\<lparr>cv_name := v\<rparr>) r"
proof (cases v)
  case None
  with assms(1) show ?thesis by (cases m) simp
next
  case (Some x)
  with assms(2) have len: "length x + length r < total_bytes_limit"
    using length_write_string [of x 1] by simp
  have sw: "ColumnValue_switch L (8 * 1 + 2) m ((WriteVarint32 L (length x) @ x) @ r) =
      FieldRead (m\<lparr>cv_name := Some x\<rparr>) r [16] False"
    using assms Some len by (simp add: ColumnValue_switch_def GetTagFieldNumber_def read_string)
  show ?thesis
    using merge_partial_write [OF ColumnValue_switch_ok _ _ _ sw]
    by (simp add: Some ColumnValue_MergePartial_def write_string)
qed

lemma ColumnValue_step_type:
  assumes "cv_type m = None"
  shows "ColumnValue_MergePartial L m (opt_bytes (\<lambda>x. WriteEnum L 2 (Column_Type_value x)) v @ r) =
    ColumnValue_MergePartial L (m\<lparr>cv_type := v\<rparr>) r"
proof (cases v)
  case None
  with assms(1) show ?thesis by (cases m) simp
next
  case (Some x)
  have sw: "ColumnValue_switch L (8 * 2 + 0) m ((WriteEnumNoTag L (Column_Type_value x)) @ r) =
      FieldRead (m\<lparr>cv_type := Some x\<rparr>) r [24] False"
    using assms Some by (simp add: ColumnValue_switch_def GetTagFieldNumber_def read_enum)
  show ?thesis
    using merge_partial_write [OF ColumnValue_switch_ok _ _ _ sw]
    by (simp add: Some ColumnValue_MergePartial_def write_enum)
qed

lemma ColumnValue_step_primary_key:
  assumes "cv_primary_key m = None"
  shows "ColumnValue_MergePartial L m (opt_bytes (WriteBool L 3) v @ r) =
    ColumnValue_MergePartial L (m\<lparr>cv_primary_key := v\<rparr>) r"
proof (cases v)
  case None
  with assms(1) show ?thesis by (cases m) simp
next
  case (Some x)
  have sw: "ColumnValue_switch L (8 * 3 + 0) m ((WriteBoolNoTag L x) @ r) =
      FieldRead (m\<lparr>cv_primary_key := Some x\<rparr>) r [32] False"
    using assms Some by (simp add: ColumnValue_switch_def GetTagFieldNumber_def read_bool)
  show ?thesis
    using merge_partial_write [OF ColumnValue_switch_ok _ _ _ sw]
    by (simp add: Some ColumnValue_MergePartial_def write_bool)
qed

lemma ColumnValue_step_distribution_key:
  assumes "cv_distribution_key m = None"
  shows "ColumnValue_MergePartial L m (opt_bytes (WriteBool L 4) v @ r) =
    ColumnValue_MergePartial L (m\<lparr>cv_distribution_key := v\<rparr>) r"
proof (cases v)
  case None
  with assms(1) show ?thesis by (cases m) simp
next
  case (Some x)
  have sw: "ColumnValue_switch L (8 * 4 + 0) m ((WriteBoolNoTag L x) @ r) =
      FieldRead (m\<lparr>cv_distribution_key := Some x\<rparr>) r [42] False"
    using assms Some by (simp add: ColumnValue_switch_def GetTagFieldNumber_def read_bool)
  show ?thesis
    using merge_partial_write [OF ColumnValue_switch_ok _ _ _ sw]
    by (simp add: Some ColumnValue_MergePartial_def write_bool)
qed

lemma ColumnValue_step_value:
  assumes "cv_value m = None"
    and "length (opt_bytes (WriteBytes L 5) v @ r) < total_bytes_limit"
  shows "ColumnValue_MergePartial L m (opt_bytes (WriteBytes L 5) v @ r) =
    ColumnValue_MergePartial L (m\<lparr>cv_value := v\<rparr>) r"
proof (cases v)
  case None
  with assms(1) show ?thesis by (cases m) simp
next
  case (Some x)
  with assms(2) have len: "length x + length r < total_bytes_limit"
    using length_write_bytes [of x 5] by simp
  have sw: "ColumnValue_switch L (8 * 5 + 2) m ((WriteVarint32 L (length x) @ x) @ r) =
      FieldRead (m\<lparr>cv_value := Some x\<rparr>) r [] True"
    using assms Some len by (simp add: ColumnValue_switch_def GetTagFieldNumber_def read_bytes)
  show ?thesis
    using merge_partial_write [OF ColumnValue_switch_ok _ _ _ sw]
    by (simp add: Some ColumnValue_MergePartial_def write_bytes)
qed

lemma ColumnValue_roundtrip:
  assumes known: "ColumnValue_known m" and size: "length (ColumnValue_Serialize L m) < total_bytes_limit"
  shows "ColumnValue_MergePartial L ColumnValue_new (ColumnValue_Serialize L m) = Parsed m []"
proof -
  have "ColumnValue_MergePartial L ColumnValue_new (ColumnValue_Serialize L m) = ColumnValue_MergePartial L ColumnValue_new
      (opt_bytes (WriteString L 1) (cv_name m) @
        opt_bytes (\<lambda>x. WriteEnum L 2 (Column_Type_value x)) (cv_type m) @
        opt_bytes (WriteBool L 3) (cv_primary_key m) @
        opt_bytes (WriteBool L 4) (cv_distribution_key m) @
        opt_bytes (WriteBytes L 5) (cv_value m) @
        [])"
    using known by (simp add: ColumnValue_Serialize_def ColumnValue_known_def)
  also have "\<dots> = ColumnValue_MergePartial L (ColumnValue_new\<lparr>cv_name := cv_name m\<rparr>)
      (opt_bytes (\<lambda>x. WriteEnum L 2 (Column_Type_value x)) (cv_type m) @
        opt_bytes (WriteBool L 3) (cv_primary_key m) @
        opt_bytes (WriteBool L 4) (cv_distribution_key m) @
        opt_bytes (WriteBytes L 5) (cv_value m) @
        [])"
    using known size by (subst ColumnValue_step_name) (simp_all add: ColumnValue_new_def ColumnValue_Serialize_def ColumnValue_known_def)
  also have "\<dots> = ColumnValue_MergePartial L (ColumnValue_new\<lparr>cv_name := cv_name m, cv_type := cv_type m\<rparr>)
      (opt_bytes (WriteBool L 3) (cv_primary_key m) @
        opt_bytes (WriteBool L 4) (cv_distribution_key m) @
        opt_bytes (WriteBytes L 5) (cv_value m) @
        [])"
    by (subst ColumnValue_step_type) (simp_all add: ColumnValue_new_def)
  also have "\<dots> = ColumnValue_MergePartial L (ColumnValue_new\<lparr>cv_name := cv_name m, cv_type := cv_type m, cv_primary_key := cv_primary_key m\<rparr>)
      (opt_bytes (WriteBool L 4) (cv_distribution_key m) @
        opt_bytes (WriteBytes L 5) (cv_value m) @
        [])"
    by (subst ColumnValue_step_primary_key) (simp_all add: ColumnValue_new_def)
  also have "\<dots> = ColumnValue_MergePartial L (ColumnValue_new\<lparr>cv_name := cv_name m, cv_type := cv_type m, cv_primary_key := cv_primary_key m, cv_distribution_key := cv_distribution_key m\<rparr>)
      (opt_bytes (WriteBytes L 5) (cv_value m) @
        [])"
    by (subst ColumnValue_step_distribution_key) (simp_all add: ColumnValue_new_def)
  also have "\<dots> = ColumnValue_MergePartial L (ColumnValue_new\<lparr>cv_name := cv_name m, cv_type := cv_type m, cv_primary_key := cv_primary_key m, cv_distribution_key := cv_distribution_key m, cv_value := cv_value m\<rparr>)
      ([])"
    using known size by (subst ColumnValue_step_value) (simp_all add: ColumnValue_new_def ColumnValue_Serialize_def ColumnValue_known_def)
  also have "\<dots> = Parsed m []"
    using known by (cases m) (simp add: ColumnValue_MergePartial_def ColumnValue_known_def ColumnValue_new_def)
  finally show ?thesis .
qed

end

end
