(* ===== verification/DefinitionProto.thy ===== *)
theory DefinitionProto
  imports OperationProto ColumnProto
begin

text \<open>
  The message classes of \<open>volodb-common/ProtoBuf/DefinitionOperation.pb.cc\<close>: one record per class, an
  optional or required field as an option (the has-bit and the value), a repeated field as a list,
  and the fields the schema does not know. Per class: \<open>new\<close>, \<open>Clear\<close>, the \<open>switch\<close> of
  \<open>MergePartialFromCodedStream\<close> with the tags it expects next, \<open>SerializeWithCachedSizes\<close>,
  \<open>ByteSize\<close>, \<open>IsInitialized\<close>, \<open>MergeFrom\<close> and \<open>CopyFrom\<close>. The lemmas show that the cached size
  is the length of what is written and that a message without unknown fields is read back.
\<close>

section \<open>CreateDatabaseOperation\<close>

record create_database_operation =
  cdb_database_name :: "bytes option"
  cdb_unknown :: "unknown_field list"

definition CreateDatabaseOperation_new :: create_database_operation where
  "CreateDatabaseOperation_new = \<lparr>cdb_database_name = None, cdb_unknown = []\<rparr>"

definition CreateDatabaseOperation_Clear :: "create_database_operation \<Rightarrow> create_database_operation" where
  "CreateDatabaseOperation_Clear m = m\<lparr>cdb_database_name := None, cdb_unknown := []\<rparr>"

definition CreateDatabaseOperation_has_database_name :: "create_database_operation \<Rightarrow> bool" where
  [accessors]: "CreateDatabaseOperation_has_database_name m \<longleftrightarrow> cdb_database_name m \<noteq> None"

definition CreateDatabaseOperation_clear_database_name :: "create_database_operation \<Rightarrow> create_database_operation" where
  [accessors]: "CreateDatabaseOperation_clear_database_name m = m\<lparr>cdb_database_name := None\<rparr>"

definition CreateDatabaseOperation_database_name :: "create_database_operation \<Rightarrow> bytes" where
  [accessors]: "CreateDatabaseOperation_database_name m = (case cdb_database_name m of None \<Rightarrow> [] | Some x \<Rightarrow> x)"

definition CreateDatabaseOperation_set_database_name :: "bytes \<Rightarrow> create_database_operation \<Rightarrow> create_database_operation" where
  [accessors]: "CreateDatabaseOperation_set_database_name x m = m\<lparr>cdb_database_name := Some x\<rparr>"

definition CreateDatabaseOperation_add_unknown :: "unknown_field list \<Rightarrow> create_database_operation \<Rightarrow> create_database_operation" where
  "CreateDatabaseOperation_add_unknown us m = m\<lparr>cdb_unknown := cdb_unknown m @ us\<rparr>"

definition CreateDatabaseOperation_switch :: "pb_lib \<Rightarrow> nat \<Rightarrow> create_database_operation \<Rightarrow> bytes \<Rightarrow> create_database_operation switch_result" where
  "CreateDatabaseOperation_switch L tag m inp =
     (if GetTagFieldNumber tag = 1 then
        (if tag = 10 then
           (case ReadString L inp of
              None \<Rightarrow> ReadFailed
            | Some (x, r) \<Rightarrow> FieldRead (m\<lparr>cdb_database_name := Some x\<rparr>) r [] True)
         else Unusual)
      else Unusual)"

definition CreateDatabaseOperation_MergePartial :: "pb_lib \<Rightarrow> create_database_operation \<Rightarrow> bytes \<Rightarrow> create_database_operation parse_result" where
  "CreateDatabaseOperation_MergePartial L = merge_partial L (CreateDatabaseOperation_switch L) CreateDatabaseOperation_add_unknown"

definition CreateDatabaseOperation_Serialize :: "pb_lib \<Rightarrow> create_database_operation \<Rightarrow> bytes" where
  "CreateDatabaseOperation_Serialize L m =
     opt_bytes (WriteString L 1) (cdb_database_name m) @
     (if cdb_unknown m = [] then [] else SerializeUnknownFields L (cdb_unknown m))"

definition CreateDatabaseOperation_SerializeToArray :: "pb_lib \<Rightarrow> create_database_operation \<Rightarrow> bytes \<Rightarrow> bytes" where
  "CreateDatabaseOperation_SerializeToArray L m target0 =
     (let
        target1 = opt_write (WriteStringToArray L 1) (cdb_database_name m) target0;
        target2 = (if cdb_unknown m = [] then target1 else SerializeUnknownFieldsToArray L (cdb_unknown m) target1)
      in target2)"

definition CreateDatabaseOperation_ByteSize :: "pb_lib \<Rightarrow> create_database_operation \<Rightarrow> nat" where
  "CreateDatabaseOperation_ByteSize L m =
     opt_size (\<lambda>x. 1 + StringSize L x) (cdb_database_name m) +
     (if cdb_unknown m = [] then 0 else ComputeUnknownFieldsSize L (cdb_unknown m))"

definition CreateDatabaseOperation_IsInitialized :: "create_database_operation \<Rightarrow> bool" where
  "CreateDatabaseOperation_IsInitialized m \<longleftrightarrow> cdb_database_name m \<noteq> None"

definition CreateDatabaseOperation_MergeFrom :: "create_database_operation \<Rightarrow> create_database_operation \<Rightarrow> create_database_operation" where
  "CreateDatabaseOperation_MergeFrom m src =
     m\<lparr>cdb_database_name := (case cdb_database_name src of None \<Rightarrow> cdb_database_name m | Some x \<Rightarrow> Some x),
       cdb_unknown := cdb_unknown m @ cdb_unknown src\<rparr>"

definition CreateDatabaseOperation_CopyFrom :: "create_database_operation \<Rightarrow> create_database_operation \<Rightarrow> create_database_operation" where
  "CreateDatabaseOperation_CopyFrom m src = CreateDatabaseOperation_MergeFrom (CreateDatabaseOperation_Clear m) src"

text \<open>No field outside the schema, here and in nested messages.\<close>

definition CreateDatabaseOperation_known :: "create_database_operation \<Rightarrow> bool" where
  "CreateDatabaseOperation_known m \<longleftrightarrow> cdb_unknown m = []"

lemma CreateDatabaseOperation_MergeFrom_new: "CreateDatabaseOperation_MergeFrom CreateDatabaseOperation_new m = m"
  by (cases m) (simp add: CreateDatabaseOperation_MergeFrom_def CreateDatabaseOperation_new_def split: option.splits)

lemma CreateDatabaseOperation_Clear_new: "CreateDatabaseOperation_Clear m = CreateDatabaseOperation_new"
  by (cases m) (simp add: CreateDatabaseOperation_Clear_def CreateDatabaseOperation_new_def)

lemma CreateDatabaseOperation_CopyFrom_copy: "CreateDatabaseOperation_CopyFrom m src = src"
  by (simp add: CreateDatabaseOperation_CopyFrom_def CreateDatabaseOperation_Clear_new CreateDatabaseOperation_MergeFrom_new)

context protobuf_wire
begin

lemma CreateDatabaseOperation_switch_ok: "switch_ok (CreateDatabaseOperation_switch L)"
  by (rule switch_okI)
    (auto simp: CreateDatabaseOperation_switch_def dest!: consumes split: if_splits option.splits)

lemma CreateDatabaseOperation_merge_total: "CreateDatabaseOperation_MergePartial L m inp \<noteq> OutOfFuel"
  by (simp add: CreateDatabaseOperation_MergePartial_def merge_partial_total CreateDatabaseOperation_switch_ok)

lemma CreateDatabaseOperation_size: "CreateDatabaseOperation_ByteSize L m = length (CreateDatabaseOperation_Serialize L m)"
  by (simp add: CreateDatabaseOperation_ByteSize_def CreateDatabaseOperation_Serialize_def length_opt_bytes length_concat_map sum_list_Suc
      write_sizes unknown_size)

lemma CreateDatabaseOperation_to_array: "CreateDatabaseOperation_SerializeToArray L m = (\<lambda>target. target @ CreateDatabaseOperation_Serialize L m)"
  by (rule ext) (simp add: CreateDatabaseOperation_SerializeToArray_def CreateDatabaseOperation_Serialize_def Let_def to_array)

lemma CreateDatabaseOperation_step_database_name:
  assumes "cdb_database_name m = None"
    and "length (opt_bytes (WriteString L 1) v @ r) < total_bytes_limit"
  shows "CreateDatabaseOperation_MergePartial L m (opt_bytes (WriteString L 1) v @ r) =
    CreateDatabaseOperation_MergePartial L (m\<lparr>cdb_database_name := v\<rparr>) r"
proof (cases v)
  case None
  with assms(1) show ?thesis by (cases m) simp
next
  case (Some x)
  with assms(2) have len: "length x + length r < total_bytes_limit"
    using length_write_string [of x 1] by simp
  have sw: "CreateDatabaseOperation_switch L (8 * 1 + 2) m ((WriteVarint32 L (length x) @ x) @ r) =
      FieldRead (m\<lparr>cdb_database_name := Some x\<rparr>) r [] True"
    using assms Some len by (simp add: CreateDatabaseOperation_switch_def GetTagFieldNumber_def read_string)
  show ?thesis
    using merge_partial_write [OF CreateDatabaseOperation_switch_ok _ _ _ sw]
    by (simp add: Some CreateDatabaseOperation_MergePartial_def write_string)
qed

lemma CreateDatabaseOperation_roundtrip:
  assumes known: "CreateDatabaseOperation_known m" and size: "length (CreateDatabaseOperation_Serialize L m) < total_bytes_limit"
  shows "CreateDatabaseOperation_MergePartial L CreateDatabaseOperation_new (CreateDatabaseOperation_Serialize L m) = Parsed m []"
proof -
  have "CreateDatabaseOperation_MergePartial L CreateDatabaseOperation_new (CreateDatabaseOperation_Serialize L m) = CreateDatabaseOperation_MergePartial L CreateDatabaseOperation_new
      (opt_bytes (WriteString L 1) (cdb_database_name m) @
        [])"
    using known by (simp add: CreateDatabaseOperation_Serialize_def CreateDatabaseOperation_known_def)
  also have "\<dots> = CreateDatabaseOperation_MergePartial L (CreateDatabaseOperation_new\<lparr>cdb_database_name := cdb_database_name m\<rparr>)
      ([])"
    using known size by (subst CreateDatabaseOperation_step_database_name) (simp_all add: CreateDatabaseOperation_new_def CreateDatabaseOperation_Serialize_def CreateDatabaseOperation_known_def)
  also have "\<dots> = Parsed m []"
    using known by (cases m) (simp add: CreateDatabaseOperation_MergePartial_def CreateDatabaseOperation_known_def CreateDatabaseOperation_new_def)
  finally show ?thesis .
qed

end

section \<open>DropDatabaseOperation\<close>

record drop_database_operation =
  ddb_database_name :: "bytes option"
  ddb_unknown :: "unknown_field list"

definition DropDatabaseOperation_new :: drop_database_operation where
  "DropDatabaseOperation_new = \<lparr>ddb_database_name = None, ddb_unknown = []\<rparr>"

definition DropDatabaseOperation_Clear :: "drop_database_operation \<Rightarrow> drop_database_operation" where
  "DropDatabaseOperation_Clear m = m\<lparr>ddb_database_name := None, ddb_unknown := []\<rparr>"

definition DropDatabaseOperation_has_database_name :: "drop_database_operation \<Rightarrow> bool" where
  [accessors]: "DropDatabaseOperation_has_database_name m \<longleftrightarrow> ddb_database_name m \<noteq> None"

definition DropDatabaseOperation_clear_database_name :: "drop_database_operation \<Rightarrow> drop_database_operation" where
  [accessors]: "DropDatabaseOperation_clear_database_name m = m\<lparr>ddb_database_name := None\<rparr>"

definition DropDatabaseOperation_database_name :: "drop_database_operation \<Rightarrow> bytes" where
  [accessors]: "DropDatabaseOperation_database_name m = (case ddb_database_name m of None \<Rightarrow> [] | Some x \<Rightarrow> x)"

definition DropDatabaseOperation_set_database_name :: "bytes \<Rightarrow> drop_database_operation \<Rightarrow> drop_database_operation" where
  [accessors]: "DropDatabaseOperation_set_database_name x m = m\<lparr>ddb_database_name := Some x\<rparr>"

definition DropDatabaseOperation_add_unknown :: "unknown_field list \<Rightarrow> drop_database_operation \<Rightarrow> drop_database_operation" where
  "DropDatabaseOperation_add_unknown us m = m\<lparr>ddb_unknown := ddb_unknown m @ us\<rparr>"

definition DropDatabaseOperation_switch :: "pb_lib \<Rightarrow> nat \<Rightarrow> drop_database_operation \<Rightarrow> bytes \<Rightarrow> drop_database_operation switch_result" where
  "DropDatabaseOperation_switch L tag m inp =
     (if GetTagFieldNumber tag = 1 then
        (if tag = 10 then
           (case ReadString L inp of
              None \<Rightarrow> ReadFailed
            | Some (x, r) \<Rightarrow> FieldRead (m\<lparr>ddb_database_name := Some x\<rparr>) r [] True)
         else Unusual)
      else Unusual)"

definition DropDatabaseOperation_MergePartial :: "pb_lib \<Rightarrow> drop_database_operation \<Rightarrow> bytes \<Rightarrow> drop_database_operation parse_result" where
  "DropDatabaseOperation_MergePartial L = merge_partial L (DropDatabaseOperation_switch L) DropDatabaseOperation_add_unknown"

definition DropDatabaseOperation_Serialize :: "pb_lib \<Rightarrow> drop_database_operation \<Rightarrow> bytes" where
  "DropDatabaseOperation_Serialize L m =
     opt_bytes (WriteString L 1) (ddb_database_name m) @
     (if ddb_unknown m = [] then [] else SerializeUnknownFields L (ddb_unknown m))"

definition DropDatabaseOperation_SerializeToArray :: "pb_lib \<Rightarrow> drop_database_operation \<Rightarrow> bytes \<Rightarrow> bytes" where
  "DropDatabaseOperation_SerializeToArray L m target0 =
     (let
        target1 = opt_write (WriteStringToArray L 1) (ddb_database_name m) target0;
        target2 = (if ddb_unknown m = [] then target1 else SerializeUnknownFieldsToArray L (ddb_unknown m) target1)
      in target2)"

definition DropDatabaseOperation_ByteSize :: "pb_lib \<Rightarrow> drop_database_operation \<Rightarrow> nat" where
  "DropDatabaseOperation_ByteSize L m =
     opt_size (\<lambda>x. 1 + StringSize L x) (ddb_database_name m) +
     (if ddb_unknown m = [] then 0 else ComputeUnknownFieldsSize L (ddb_unknown m))"

definition DropDatabaseOperation_IsInitialized :: "drop_database_operation \<Rightarrow> bool" where
  "DropDatabaseOperation_IsInitialized m \<longleftrightarrow> ddb_database_name m \<noteq> None"

definition DropDatabaseOperation_MergeFrom :: "drop_database_operation \<Rightarrow> drop_database_operation \<Rightarrow> drop_database_operation" where
  "DropDatabaseOperation_MergeFrom m src =
     m\<lparr>ddb_database_name := (case ddb_database_name src of None \<Rightarrow> ddb_database_name m | Some x \<Rightarrow> Some x),
       ddb_unknown := ddb_unknown m @ ddb_unknown src\<rparr>"

definition DropDatabaseOperation_CopyFrom :: "drop_database_operation \<Rightarrow> drop_database_operation \<Rightarrow> drop_database_operation" where
  "DropDatabaseOperation_CopyFrom m src = DropDatabaseOperation_MergeFrom (DropDatabaseOperation_Clear m) src"

text \<open>No field outside the schema, here and in nested messages.\<close>

definition DropDatabaseOperation_known :: "drop_database_operation \<Rightarrow> bool" where
  "DropDatabaseOperation_known m \<longleftrightarrow> ddb_unknown m = []"

lemma DropDatabaseOperation_MergeFrom_new: "DropDatabaseOperation_MergeFrom DropDatabaseOperation_new m = m"
  by (cases m) (simp add: DropDatabaseOperation_MergeFrom_def DropDatabaseOperation_new_def split: option.splits)

lemma DropDatabaseOperation_Clear_new: "DropDatabaseOperation_Clear m = DropDatabaseOperation_new"
  by (cases m) (simp add: DropDatabaseOperation_Clear_def DropDatabaseOperation_new_def)

lemma DropDatabaseOperation_CopyFrom_copy: "DropDatabaseOperation_CopyFrom m src = src"
  by (simp add: DropDatabaseOperation_CopyFrom_def DropDatabaseOperation_Clear_new DropDatabaseOperation_MergeFrom_new)

context protobuf_wire
begin

lemma DropDatabaseOperation_switch_ok: "switch_ok (DropDatabaseOperation_switch L)"
  by (rule switch_okI)
    (auto simp: DropDatabaseOperation_switch_def dest!: consumes split: if_splits option.splits)

lemma DropDatabaseOperation_merge_total: "DropDatabaseOperation_MergePartial L m inp \<noteq> OutOfFuel"
  by (simp add: DropDatabaseOperation_MergePartial_def merge_partial_total DropDatabaseOperation_switch_ok)

lemma DropDatabaseOperation_size: "DropDatabaseOperation_ByteSize L m = length (DropDatabaseOperation_Serialize L m)"
  by (simp add: DropDatabaseOperation_ByteSize_def DropDatabaseOperation_Serialize_def length_opt_bytes length_concat_map sum_list_Suc
      write_sizes unknown_size)

lemma DropDatabaseOperation_to_array: "DropDatabaseOperation_SerializeToArray L m = (\<lambda>target. target @ DropDatabaseOperation_Serialize L m)"
  by (rule ext) (simp add: DropDatabaseOperation_SerializeToArray_def DropDatabaseOperation_Serialize_def Let_def to_array)

lemma DropDatabaseOperation_step_database_name:
  assumes "ddb_database_name m = None"
    and "length (opt_bytes (WriteString L 1) v @ r) < total_bytes_limit"
  shows "DropDatabaseOperation_MergePartial L m (opt_bytes (WriteString L 1) v @ r) =
    DropDatabaseOperation_MergePartial L (m\<lparr>ddb_database_name := v\<rparr>) r"
proof (cases v)
  case None
  with assms(1) show ?thesis by (cases m) simp
next
  case (Some x)
  with assms(2) have len: "length x + length r < total_bytes_limit"
    using length_write_string [of x 1] by simp
  have sw: "DropDatabaseOperation_switch L (8 * 1 + 2) m ((WriteVarint32 L (length x) @ x) @ r) =
      FieldRead (m\<lparr>ddb_database_name := Some x\<rparr>) r [] True"
    using assms Some len by (simp add: DropDatabaseOperation_switch_def GetTagFieldNumber_def read_string)
  show ?thesis
    using merge_partial_write [OF DropDatabaseOperation_switch_ok _ _ _ sw]
    by (simp add: Some DropDatabaseOperation_MergePartial_def write_string)
qed

lemma DropDatabaseOperation_roundtrip:
  assumes known: "DropDatabaseOperation_known m" and size: "length (DropDatabaseOperation_Serialize L m) < total_bytes_limit"
  shows "DropDatabaseOperation_MergePartial L DropDatabaseOperation_new (DropDatabaseOperation_Serialize L m) = Parsed m []"
proof -
  have "DropDatabaseOperation_MergePartial L DropDatabaseOperation_new (DropDatabaseOperation_Serialize L m) = DropDatabaseOperation_MergePartial L DropDatabaseOperation_new
      (opt_bytes (WriteString L 1) (ddb_database_name m) @
        [])"
    using known by (simp add: DropDatabaseOperation_Serialize_def DropDatabaseOperation_known_def)
  also have "\<dots> = DropDatabaseOperation_MergePartial L (DropDatabaseOperation_new\<lparr>ddb_database_name := ddb_database_name m\<rparr>)
      ([])"
    using known size by (subst DropDatabaseOperation_step_database_name) (simp_all add: DropDatabaseOperation_new_def DropDatabaseOperation_Serialize_def DropDatabaseOperation_known_def)
  also have "\<dots> = Parsed m []"
    using known by (cases m) (simp add: DropDatabaseOperation_MergePartial_def DropDatabaseOperation_known_def DropDatabaseOperation_new_def)
  finally show ?thesis .
qed

end

section \<open>CreateStoreOperation\<close>

record create_store_operation =
  cs_store_info :: "store_info option"
  cs_column :: "column_info list"
  cs_unknown :: "unknown_field list"

definition CreateStoreOperation_new :: create_store_operation where
  "CreateStoreOperation_new = \<lparr>cs_store_info = None, cs_column = [], cs_unknown = []\<rparr>"

definition CreateStoreOperation_Clear :: "create_store_operation \<Rightarrow> create_store_operation" where
  "CreateStoreOperation_Clear m = m\<lparr>cs_store_info := None, cs_column := [], cs_unknown := []\<rparr>"

definition CreateStoreOperation_has_store_info :: "create_store_operation \<Rightarrow> bool" where
  [accessors]: "CreateStoreOperation_has_store_info m \<longleftrightarrow> cs_store_info m \<noteq> None"

definition CreateStoreOperation_clear_store_info :: "create_store_operation \<Rightarrow> create_store_operation" where
  [accessors]: "CreateStoreOperation_clear_store_info m = m\<lparr>cs_store_info := None\<rparr>"

definition CreateStoreOperation_store_info :: "create_store_operation \<Rightarrow> store_info" where
  [accessors]: "CreateStoreOperation_store_info m = (case cs_store_info m of None \<Rightarrow> StoreInfo_new | Some x \<Rightarrow> x)"

definition CreateStoreOperation_mutable_store_info :: "(store_info \<Rightarrow> store_info) \<Rightarrow> create_store_operation \<Rightarrow> create_store_operation" where
  [accessors]: "CreateStoreOperation_mutable_store_info h m = m\<lparr>cs_store_info := Some (h (case cs_store_info m of None \<Rightarrow> StoreInfo_new | Some x \<Rightarrow> x))\<rparr>"

definition CreateStoreOperation_column_size :: "create_store_operation \<Rightarrow> nat" where
  [accessors]: "CreateStoreOperation_column_size m = length (cs_column m)"

definition CreateStoreOperation_clear_column :: "create_store_operation \<Rightarrow> create_store_operation" where
  [accessors]: "CreateStoreOperation_clear_column m = m\<lparr>cs_column := []\<rparr>"

definition CreateStoreOperation_column :: "create_store_operation \<Rightarrow> nat \<Rightarrow> column_info result" where
  [accessors]: "CreateStoreOperation_column m i = index (cs_column m) i"

definition CreateStoreOperation_add_column :: "(column_info \<Rightarrow> column_info) \<Rightarrow> create_store_operation \<Rightarrow> create_store_operation" where
  [accessors]: "CreateStoreOperation_add_column h m = m\<lparr>cs_column := cs_column m @ [h ColumnInfo_new]\<rparr>"

definition CreateStoreOperation_add_unknown :: "unknown_field list \<Rightarrow> create_store_operation \<Rightarrow> create_store_operation" where
  "CreateStoreOperation_add_unknown us m = m\<lparr>cs_unknown := cs_unknown m @ us\<rparr>"

definition CreateStoreOperation_switch :: "pb_lib \<Rightarrow> nat \<Rightarrow> create_store_operation \<Rightarrow> bytes \<Rightarrow> create_store_operation switch_result" where
  "CreateStoreOperation_switch L tag m inp =
     (if GetTagFieldNumber tag = 1 then
        (if tag = 10 then
           (case read_message L (StoreInfo_MergePartial L)
                   (case cs_store_info m of None \<Rightarrow> StoreInfo_new | Some x \<Rightarrow> x) inp of
              None \<Rightarrow> ReadFailed
            | Some (x, r) \<Rightarrow> FieldRead (m\<lparr>cs_store_info := Some x\<rparr>) r [18] False)
         else Unusual)
      else if GetTagFieldNumber tag = 2 then
        (if tag = 18 then
           (case read_message L (ColumnInfo_MergePartial L) ColumnInfo_new inp of
              None \<Rightarrow> ReadFailed
            | Some (x, r) \<Rightarrow> FieldRead (m\<lparr>cs_column := cs_column m @ [x]\<rparr>) r [18] True)
         else Unusual)
      else Unusual)"

definition CreateStoreOperation_MergePartial :: "pb_lib \<Rightarrow> create_store_operation \<Rightarrow> bytes \<Rightarrow> create_store_operation parse_result" where
  "CreateStoreOperation_MergePartial L = merge_partial L (CreateStoreOperation_switch L) CreateStoreOperation_add_unknown"

definition CreateStoreOperation_Serialize :: "pb_lib \<Rightarrow> create_store_operation \<Rightarrow> bytes" where
  "CreateStoreOperation_Serialize L m =
     opt_bytes (\<lambda>x. WriteMessage L 1 (StoreInfo_ByteSize L x) (StoreInfo_Serialize L x)) (cs_store_info m) @
     concat (map (\<lambda>x. WriteMessage L 2 (ColumnInfo_ByteSize L x) (ColumnInfo_Serialize L x)) (cs_column m)) @
     (if cs_unknown m = [] then [] else SerializeUnknownFields L (cs_unknown m))"

definition CreateStoreOperation_SerializeToArray :: "pb_lib \<Rightarrow> create_store_operation \<Rightarrow> bytes \<Rightarrow> bytes" where
  "CreateStoreOperation_SerializeToArray L m target0 =
     (let
        target1 = opt_write (\<lambda>x. WriteMessageToArray L 1 (StoreInfo_ByteSize L x) (StoreInfo_SerializeToArray L x)) (cs_store_info m) target0;
        target2 = fold (\<lambda>x. WriteMessageToArray L 2 (ColumnInfo_ByteSize L x) (ColumnInfo_SerializeToArray L x)) (cs_column m) target1;
        target3 = (if cs_unknown m = [] then target2 else SerializeUnknownFieldsToArray L (cs_unknown m) target2)
      in target3)"

definition CreateStoreOperation_ByteSize :: "pb_lib \<Rightarrow> create_store_operation \<Rightarrow> nat" where
  "CreateStoreOperation_ByteSize L m =
     opt_size (\<lambda>x. 1 + MessageSize L (StoreInfo_ByteSize L x)) (cs_store_info m) +
     1 * length (cs_column m) +
     sum_list (map (\<lambda>x. MessageSize L (ColumnInfo_ByteSize L x)) (cs_column m)) +
     (if cs_unknown m = [] then 0 else ComputeUnknownFieldsSize L (cs_unknown m))"

definition CreateStoreOperation_IsInitialized :: "create_store_operation \<Rightarrow> bool" where
  "CreateStoreOperation_IsInitialized m \<longleftrightarrow> cs_store_info m \<noteq> None \<and>
     (case cs_store_info m of None \<Rightarrow> True | Some x \<Rightarrow> StoreInfo_IsInitialized x) \<and>
     list_all ColumnInfo_IsInitialized (cs_column m)"

definition CreateStoreOperation_MergeFrom :: "create_store_operation \<Rightarrow> create_store_operation \<Rightarrow> create_store_operation" where
  "CreateStoreOperation_MergeFrom m src =
     m\<lparr>cs_store_info := (case cs_store_info src of None \<Rightarrow> cs_store_info m | Some x \<Rightarrow>
        Some (StoreInfo_MergeFrom (case cs_store_info m of None \<Rightarrow> StoreInfo_new | Some y \<Rightarrow> y) x)),
       cs_column := cs_column m @ cs_column src,
       cs_unknown := cs_unknown m @ cs_unknown src\<rparr>"

definition CreateStoreOperation_CopyFrom :: "create_store_operation \<Rightarrow> create_store_operation \<Rightarrow> create_store_operation" where
  "CreateStoreOperation_CopyFrom m src = CreateStoreOperation_MergeFrom (CreateStoreOperation_Clear m) src"

text \<open>No field outside the schema, here and in nested messages.\<close>

definition CreateStoreOperation_known :: "create_store_operation \<Rightarrow> bool" where
  "CreateStoreOperation_known m \<longleftrightarrow> cs_unknown m = [] \<and> (case cs_store_info m of None \<Rightarrow> True | Some x \<Rightarrow> StoreInfo_known x) \<and> list_all ColumnInfo_known (cs_column m)"

lemma CreateStoreOperation_MergeFrom_new: "CreateStoreOperation_MergeFrom CreateStoreOperation_new m = m"
  by (cases m) (simp add: CreateStoreOperation_MergeFrom_def CreateStoreOperation_new_def StoreInfo_MergeFrom_new split: option.splits)

lemma CreateStoreOperation_Clear_new: "CreateStoreOperation_Clear m = CreateStoreOperation_new"
  by (cases m) (simp add: CreateStoreOperation_Clear_def CreateStoreOperation_new_def)

lemma CreateStoreOperation_CopyFrom_copy: "CreateStoreOperation_CopyFrom m src = src"
  by (simp add: CreateStoreOperation_CopyFrom_def CreateStoreOperation_Clear_new CreateStoreOperation_MergeFrom_new)

context protobuf_wire
begin

lemma CreateStoreOperation_switch_ok: "switch_ok (CreateStoreOperation_switch L)"
  by (rule switch_okI)
    (auto simp: CreateStoreOperation_switch_def dest!: consumes split: if_splits option.splits)

lemma CreateStoreOperation_merge_total: "CreateStoreOperation_MergePartial L m inp \<noteq> OutOfFuel"
  by (simp add: CreateStoreOperation_MergePartial_def merge_partial_total CreateStoreOperation_switch_ok)

lemma CreateStoreOperation_size: "CreateStoreOperation_ByteSize L m = length (CreateStoreOperation_Serialize L m)"
  by (simp add: CreateStoreOperation_ByteSize_def CreateStoreOperation_Serialize_def length_opt_bytes length_concat_map sum_list_Suc
      write_sizes unknown_size ColumnInfo_size StoreInfo_size)

lemma CreateStoreOperation_to_array: "CreateStoreOperation_SerializeToArray L m = (\<lambda>target. target @ CreateStoreOperation_Serialize L m)"
  by (rule ext) (simp add: CreateStoreOperation_SerializeToArray_def CreateStoreOperation_Serialize_def Let_def to_array ColumnInfo_to_array StoreInfo_to_array)

lemma CreateStoreOperation_step_store_info:
  assumes "cs_store_info m = None"
    and "length (opt_bytes (\<lambda>x. WriteMessage L 1 (StoreInfo_ByteSize L x) (StoreInfo_Serialize L x)) v @ r) < total_bytes_limit"
    and "case v of None \<Rightarrow> True | Some x \<Rightarrow> StoreInfo_known x"
  shows "CreateStoreOperation_MergePartial L m (opt_bytes (\<lambda>x. WriteMessage L 1 (StoreInfo_ByteSize L x) (StoreInfo_Serialize L x)) v @ r) =
    CreateStoreOperation_MergePartial L (m\<lparr>cs_store_info := v\<rparr>) r"
proof (cases v)
  case None
  with assms(1) show ?thesis by (cases m) simp
next
  case (Some x)
  with assms(2,3) have known: "StoreInfo_known x"
    and len: "length (StoreInfo_Serialize L x) + length r < total_bytes_limit"
    using length_write_message [of "StoreInfo_Serialize L x" 1 "StoreInfo_ByteSize L x"]
    by simp_all
  from len have ser: "length (StoreInfo_Serialize L x) < total_bytes_limit" by simp
  have sw: "CreateStoreOperation_switch L (8 * 1 + 2) m ((WriteVarint32 L (length (StoreInfo_Serialize L x)) @ StoreInfo_Serialize L x) @ r) =
      FieldRead (m\<lparr>cs_store_info := Some x\<rparr>) r [18] False"
    using assms Some read_message_write [of "StoreInfo_Serialize L x" r "StoreInfo_MergePartial L" StoreInfo_new, OF len StoreInfo_roundtrip [OF known ser]] by (simp add: CreateStoreOperation_switch_def GetTagFieldNumber_def)
  show ?thesis
    using merge_partial_write [OF CreateStoreOperation_switch_ok _ _ _ sw]
    by (simp add: Some CreateStoreOperation_MergePartial_def write_message StoreInfo_size)
qed

lemma CreateStoreOperation_item_column:
  assumes known: "ColumnInfo_known x" and len: "length (ColumnInfo_Serialize L x) + length r < total_bytes_limit"
  shows "CreateStoreOperation_MergePartial L m (WriteMessage L 2 (ColumnInfo_ByteSize L x) (ColumnInfo_Serialize L x) @ r) =
    CreateStoreOperation_MergePartial L (m\<lparr>cs_column := cs_column m @ [x]\<rparr>) r"
proof -
  from len have ser: "length (ColumnInfo_Serialize L x) < total_bytes_limit" by simp
  have sw: "CreateStoreOperation_switch L (8 * 2 + 2) m ((WriteVarint32 L (length (ColumnInfo_Serialize L x)) @ ColumnInfo_Serialize L x) @ r) =
      FieldRead (m\<lparr>cs_column := cs_column m @ [x]\<rparr>) r [18] True"
    using read_message_write [of "ColumnInfo_Serialize L x" r "ColumnInfo_MergePartial L" ColumnInfo_new, OF len ColumnInfo_roundtrip [OF known ser]] by (simp add: CreateStoreOperation_switch_def GetTagFieldNumber_def)
  show ?thesis
    using merge_partial_write [OF CreateStoreOperation_switch_ok _ _ _ sw]
    by (simp add: CreateStoreOperation_MergePartial_def write_message ColumnInfo_size)
qed

lemma CreateStoreOperation_step_column:
  assumes "list_all ColumnInfo_known xs"
    and "length (concat (map (\<lambda>x. WriteMessage L 2 (ColumnInfo_ByteSize L x) (ColumnInfo_Serialize L x)) xs) @ r) < total_bytes_limit"
  shows "CreateStoreOperation_MergePartial L m (concat (map (\<lambda>x. WriteMessage L 2 (ColumnInfo_ByteSize L x) (ColumnInfo_Serialize L x)) xs) @ r) =
    CreateStoreOperation_MergePartial L (m\<lparr>cs_column := cs_column m @ xs\<rparr>) r"
  using assms
proof (induction xs arbitrary: m)
  case Nil
  then show ?case by simp
next
  case (Cons x xs)
  then have known: "ColumnInfo_known x"
    and len: "length (ColumnInfo_Serialize L x) + length (concat (map (\<lambda>x. WriteMessage L 2 (ColumnInfo_ByteSize L x) (ColumnInfo_Serialize L x)) xs) @ r) < total_bytes_limit"
    using length_write_message [of "ColumnInfo_Serialize L x" 2 "ColumnInfo_ByteSize L x"]
    by simp_all
  from Cons show ?case by (simp add: CreateStoreOperation_item_column [OF known len] del: One_nat_def)
qed

lemma CreateStoreOperation_roundtrip:
  assumes known: "CreateStoreOperation_known m" and size: "length (CreateStoreOperation_Serialize L m) < total_bytes_limit"
  shows "CreateStoreOperation_MergePartial L CreateStoreOperation_new (CreateStoreOperation_Serialize L m) = Parsed m []"
proof -
  have "CreateStoreOperation_MergePartial L CreateStoreOperation_new (CreateStoreOperation_Serialize L m) = CreateStoreOperation_MergePartial L CreateStoreOperation_new
      (opt_bytes (\<lambda>x. WriteMessage L 1 (StoreInfo_ByteSize L x) (StoreInfo_Serialize L x)) (cs_store_info m) @
        concat (map (\<lambda>x. WriteMessage L 2 (ColumnInfo_ByteSize L x) (ColumnInfo_Serialize L x)) (cs_column m)) @
        [])"
    using known by (simp add: CreateStoreOperation_Serialize_def CreateStoreOperation_known_def)
  also have "\<dots> = CreateStoreOperation_MergePartial L (CreateStoreOperation_new\<lparr>cs_store_info := cs_store_info m\<rparr>)
      (concat (map (\<lambda>x. WriteMessage L 2 (ColumnInfo_ByteSize L x) (ColumnInfo_Serialize L x)) (cs_column m)) @
        [])"
    using known size by (subst CreateStoreOperation_step_store_info) (simp_all add: CreateStoreOperation_new_def CreateStoreOperation_Serialize_def CreateStoreOperation_known_def)
  also have "\<dots> = CreateStoreOperation_MergePartial L (CreateStoreOperation_new\<lparr>cs_store_info := cs_store_info m, cs_column := cs_column m\<rparr>)
      ([])"
    using known size by (subst CreateStoreOperation_step_column) (simp_all add: CreateStoreOperation_new_def CreateStoreOperation_Serialize_def CreateStoreOperation_known_def)
  also have "\<dots> = Parsed m []"
    using known by (cases m) (simp add: CreateStoreOperation_MergePartial_def CreateStoreOperation_known_def CreateStoreOperation_new_def)
  finally show ?thesis .
qed

end

section \<open>DropStoreOperation\<close>

record drop_store_operation =
  ds_store_info :: "store_info option"
  ds_unknown :: "unknown_field list"

definition DropStoreOperation_new :: drop_store_operation where
  "DropStoreOperation_new = \<lparr>ds_store_info = None, ds_unknown = []\<rparr>"

definition DropStoreOperation_Clear :: "drop_store_operation \<Rightarrow> drop_store_operation" where
  "DropStoreOperation_Clear m = m\<lparr>ds_store_info := None, ds_unknown := []\<rparr>"

definition DropStoreOperation_has_store_info :: "drop_store_operation \<Rightarrow> bool" where
  [accessors]: "DropStoreOperation_has_store_info m \<longleftrightarrow> ds_store_info m \<noteq> None"

definition DropStoreOperation_clear_store_info :: "drop_store_operation \<Rightarrow> drop_store_operation" where
  [accessors]: "DropStoreOperation_clear_store_info m = m\<lparr>ds_store_info := None\<rparr>"

definition DropStoreOperation_store_info :: "drop_store_operation \<Rightarrow> store_info" where
  [accessors]: "DropStoreOperation_store_info m = (case ds_store_info m of None \<Rightarrow> StoreInfo_new | Some x \<Rightarrow> x)"

definition DropStoreOperation_mutable_store_info :: "(store_info \<Rightarrow> store_info) \<Rightarrow> drop_store_operation \<Rightarrow> drop_store_operation" where
  [accessors]: "DropStoreOperation_mutable_store_info h m = m\<lparr>ds_store_info := Some (h (case ds_store_info m of None \<Rightarrow> StoreInfo_new | Some x \<Rightarrow> x))\<rparr>"

definition DropStoreOperation_add_unknown :: "unknown_field list \<Rightarrow> drop_store_operation \<Rightarrow> drop_store_operation" where
  "DropStoreOperation_add_unknown us m = m\<lparr>ds_unknown := ds_unknown m @ us\<rparr>"

definition DropStoreOperation_switch :: "pb_lib \<Rightarrow> nat \<Rightarrow> drop_store_operation \<Rightarrow> bytes \<Rightarrow> drop_store_operation switch_result" where
  "DropStoreOperation_switch L tag m inp =
     (if GetTagFieldNumber tag = 1 then
        (if tag = 10 then
           (case read_message L (StoreInfo_MergePartial L)
                   (case ds_store_info m of None \<Rightarrow> StoreInfo_new | Some x \<Rightarrow> x) inp of
              None \<Rightarrow> ReadFailed
            | Some (x, r) \<Rightarrow> FieldRead (m\<lparr>ds_store_info := Some x\<rparr>) r [] True)
         else Unusual)
      else Unusual)"

definition DropStoreOperation_MergePartial :: "pb_lib \<Rightarrow> drop_store_operation \<Rightarrow> bytes \<Rightarrow> drop_store_operation parse_result" where
  "DropStoreOperation_MergePartial L = merge_partial L (DropStoreOperation_switch L) DropStoreOperation_add_unknown"

definition DropStoreOperation_Serialize :: "pb_lib \<Rightarrow> drop_store_operation \<Rightarrow> bytes" where
  "DropStoreOperation_Serialize L m =
     opt_bytes (\<lambda>x. WriteMessage L 1 (StoreInfo_ByteSize L x) (StoreInfo_Serialize L x)) (ds_store_info m) @
     (if ds_unknown m = [] then [] else SerializeUnknownFields L (ds_unknown m))"

definition DropStoreOperation_SerializeToArray :: "pb_lib \<Rightarrow> drop_store_operation \<Rightarrow> bytes \<Rightarrow> bytes" where
  "DropStoreOperation_SerializeToArray L m target0 =
     (let
        target1 = opt_write (\<lambda>x. WriteMessageToArray L 1 (StoreInfo_ByteSize L x) (StoreInfo_SerializeToArray L x)) (ds_store_info m) target0;
        target2 = (if ds_unknown m = [] then target1 else SerializeUnknownFieldsToArray L (ds_unknown m) target1)
      in target2)"

definition DropStoreOperation_ByteSize :: "pb_lib \<Rightarrow> drop_store_operation \<Rightarrow> nat" where
  "DropStoreOperation_ByteSize L m =
     opt_size (\<lambda>x. 1 + MessageSize L (StoreInfo_ByteSize L x)) (ds_store_info m) +
     (if ds_unknown m = [] then 0 else ComputeUnknownFieldsSize L (ds_unknown m))"

definition DropStoreOperation_IsInitialized :: "drop_store_operation \<Rightarrow> bool" where
  "DropStoreOperation_IsInitialized m \<longleftrightarrow> ds_store_info m \<noteq> None \<and>
     (case ds_store_info m of None \<Rightarrow> True | Some x \<Rightarrow> StoreInfo_IsInitialized x)"

definition DropStoreOperation_MergeFrom :: "drop_store_operation \<Rightarrow> drop_store_operation \<Rightarrow> drop_store_operation" where
  "DropStoreOperation_MergeFrom m src =
     m\<lparr>ds_store_info := (case ds_store_info src of None \<Rightarrow> ds_store_info m | Some x \<Rightarrow>
        Some (StoreInfo_MergeFrom (case ds_store_info m of None \<Rightarrow> StoreInfo_new | Some y \<Rightarrow> y) x)),
       ds_unknown := ds_unknown m @ ds_unknown src\<rparr>"

definition DropStoreOperation_CopyFrom :: "drop_store_operation \<Rightarrow> drop_store_operation \<Rightarrow> drop_store_operation" where
  "DropStoreOperation_CopyFrom m src = DropStoreOperation_MergeFrom (DropStoreOperation_Clear m) src"

text \<open>No field outside the schema, here and in nested messages.\<close>

definition DropStoreOperation_known :: "drop_store_operation \<Rightarrow> bool" where
  "DropStoreOperation_known m \<longleftrightarrow> ds_unknown m = [] \<and> (case ds_store_info m of None \<Rightarrow> True | Some x \<Rightarrow> StoreInfo_known x)"

lemma DropStoreOperation_MergeFrom_new: "DropStoreOperation_MergeFrom DropStoreOperation_new m = m"
  by (cases m) (simp add: DropStoreOperation_MergeFrom_def DropStoreOperation_new_def StoreInfo_MergeFrom_new split: option.splits)

lemma DropStoreOperation_Clear_new: "DropStoreOperation_Clear m = DropStoreOperation_new"
  by (cases m) (simp add: DropStoreOperation_Clear_def DropStoreOperation_new_def)

lemma DropStoreOperation_CopyFrom_copy: "DropStoreOperation_CopyFrom m src = src"
  by (simp add: DropStoreOperation_CopyFrom_def DropStoreOperation_Clear_new DropStoreOperation_MergeFrom_new)

context protobuf_wire
begin

lemma DropStoreOperation_switch_ok: "switch_ok (DropStoreOperation_switch L)"
  by (rule switch_okI)
    (auto simp: DropStoreOperation_switch_def dest!: consumes split: if_splits option.splits)

lemma DropStoreOperation_merge_total: "DropStoreOperation_MergePartial L m inp \<noteq> OutOfFuel"
  by (simp add: DropStoreOperation_MergePartial_def merge_partial_total DropStoreOperation_switch_ok)

lemma DropStoreOperation_size: "DropStoreOperation_ByteSize L m = length (DropStoreOperation_Serialize L m)"
  by (simp add: DropStoreOperation_ByteSize_def DropStoreOperation_Serialize_def length_opt_bytes length_concat_map sum_list_Suc
      write_sizes unknown_size StoreInfo_size)

lemma DropStoreOperation_to_array: "DropStoreOperation_SerializeToArray L m = (\<lambda>target. target @ DropStoreOperation_Serialize L m)"
  by (rule ext) (simp add: DropStoreOperation_SerializeToArray_def DropStoreOperation_Serialize_def Let_def to_array StoreInfo_to_array)

lemma DropStoreOperation_step_store_info:
  assumes "ds_store_info m = None"
    and "length (opt_bytes (\<lambda>x. WriteMessage L 1 (StoreInfo_ByteSize L x) (StoreInfo_Serialize L x)) v @ r) < total_bytes_limit"
    and "case v of None \<Rightarrow> True | Some x \<Rightarrow> StoreInfo_known x"
  shows "DropStoreOperation_MergePartial L m (opt_bytes (\<lambda>x. WriteMessage L 1 (StoreInfo_ByteSize L x) (StoreInfo_Serialize L x)) v @ r) =
    DropStoreOperation_MergePartial L (m\<lparr>ds_store_info := v\<rparr>) r"
proof (cases v)
  case None
  with assms(1) show ?thesis by (cases m) simp
next
  case (Some x)
  with assms(2,3) have known: "StoreInfo_known x"
    and len: "length (StoreInfo_Serialize L x) + length r < total_bytes_limit"
    using length_write_message [of "StoreInfo_Serialize L x" 1 "StoreInfo_ByteSize L x"]
    by simp_all
  from len have ser: "length (StoreInfo_Serialize L x) < total_bytes_limit" by simp
  have sw: "DropStoreOperation_switch L (8 * 1 + 2) m ((WriteVarint32 L (length (StoreInfo_Serialize L x)) @ StoreInfo_Serialize L x) @ r) =
      FieldRead (m\<lparr>ds_store_info := Some x\<rparr>) r [] True"
    using assms Some read_message_write [of "StoreInfo_Serialize L x" r "StoreInfo_MergePartial L" StoreInfo_new, OF len StoreInfo_roundtrip [OF known ser]] by (simp add: DropStoreOperation_switch_def GetTagFieldNumber_def)
  show ?thesis
    using merge_partial_write [OF DropStoreOperation_switch_ok _ _ _ sw]
    by (simp add: Some DropStoreOperation_MergePartial_def write_message StoreInfo_size)
qed

lemma DropStoreOperation_roundtrip:
  assumes known: "DropStoreOperation_known m" and size: "length (DropStoreOperation_Serialize L m) < total_bytes_limit"
  shows "DropStoreOperation_MergePartial L DropStoreOperation_new (DropStoreOperation_Serialize L m) = Parsed m []"
proof -
  have "DropStoreOperation_MergePartial L DropStoreOperation_new (DropStoreOperation_Serialize L m) = DropStoreOperation_MergePartial L DropStoreOperation_new
      (opt_bytes (\<lambda>x. WriteMessage L 1 (StoreInfo_ByteSize L x) (StoreInfo_Serialize L x)) (ds_store_info m) @
        [])"
    using known by (simp add: DropStoreOperation_Serialize_def DropStoreOperation_known_def)
  also have "\<dots> = DropStoreOperation_MergePartial L (DropStoreOperation_new\<lparr>ds_store_info := ds_store_info m\<rparr>)
      ([])"
    using known size by (subst DropStoreOperation_step_store_info) (simp_all add: DropStoreOperation_new_def DropStoreOperation_Serialize_def DropStoreOperation_known_def)
  also have "\<dots> = Parsed m []"
    using known by (cases m) (simp add: DropStoreOperation_MergePartial_def DropStoreOperation_known_def DropStoreOperation_new_def)
  finally show ?thesis .
qed

end

end
