(* ===== verification/ManipulationProto.thy ===== *)
theory ManipulationProto
  imports OperationProto ColumnProto
begin

text \<open>
  The message classes of \<open>volodb-common/ProtoBuf/ManipulationOperations.pb.cc\<close>: one record per class, an
  optional or required field as an option (the has-bit and the value), a repeated field as a list,
  and the fields the schema does not know. Per class: \<open>new\<close>, \<open>Clear\<close>, the \<open>switch\<close> of
  \<open>MergePartialFromCodedStream\<close> with the tags it expects next, \<open>SerializeWithCachedSizes\<close>,
  \<open>ByteSize\<close>, \<open>IsInitialized\<close>, \<open>MergeFrom\<close> and \<open>CopyFrom\<close>. The lemmas show that the cached size
  is the length of what is written and that a message without unknown fields is read back.
\<close>

section \<open>SetOperation\<close>

record set_operation =
  so_store_info :: "store_info list"
  so_primary_key :: "column_value list"
  so_value :: "column_value list"
  so_unknown :: "unknown_field list"

definition SetOperation_new :: set_operation where
  "SetOperation_new = \<lparr>so_store_info = [], so_primary_key = [], so_value = [], so_unknown = []\<rparr>"

definition SetOperation_Clear :: "set_operation \<Rightarrow> set_operation" where
  "SetOperation_Clear m = m\<lparr>so_store_info := [], so_primary_key := [], so_value := [], so_unknown := []\<rparr>"

definition SetOperation_store_info_size :: "set_operation \<Rightarrow> nat" where
  [accessors]: "SetOperation_store_info_size m = length (so_store_info m)"

definition SetOperation_clear_store_info :: "set_operation \<Rightarrow> set_operation" where
  [accessors]: "SetOperation_clear_store_info m = m\<lparr>so_store_info := []\<rparr>"

definition SetOperation_store_info :: "set_operation \<Rightarrow> nat \<Rightarrow> store_info result" where
  [accessors]: "SetOperation_store_info m i = index (so_store_info m) i"

definition SetOperation_add_store_info :: "(store_info \<Rightarrow> store_info) \<Rightarrow> set_operation \<Rightarrow> set_operation" where
  [accessors]: "SetOperation_add_store_info h m = m\<lparr>so_store_info := so_store_info m @ [h StoreInfo_new]\<rparr>"

definition SetOperation_primary_key_size :: "set_operation \<Rightarrow> nat" where
  [accessors]: "SetOperation_primary_key_size m = length (so_primary_key m)"

definition SetOperation_clear_primary_key :: "set_operation \<Rightarrow> set_operation" where
  [accessors]: "SetOperation_clear_primary_key m = m\<lparr>so_primary_key := []\<rparr>"

definition SetOperation_primary_key :: "set_operation \<Rightarrow> nat \<Rightarrow> column_value result" where
  [accessors]: "SetOperation_primary_key m i = index (so_primary_key m) i"

definition SetOperation_add_primary_key :: "(column_value \<Rightarrow> column_value) \<Rightarrow> set_operation \<Rightarrow> set_operation" where
  [accessors]: "SetOperation_add_primary_key h m = m\<lparr>so_primary_key := so_primary_key m @ [h ColumnValue_new]\<rparr>"

definition SetOperation_value_size :: "set_operation \<Rightarrow> nat" where
  [accessors]: "SetOperation_value_size m = length (so_value m)"

definition SetOperation_clear_value :: "set_operation \<Rightarrow> set_operation" where
  [accessors]: "SetOperation_clear_value m = m\<lparr>so_value := []\<rparr>"

definition SetOperation_value :: "set_operation \<Rightarrow> nat \<Rightarrow> column_value result" where
  [accessors]: "SetOperation_value m i = index (so_value m) i"

definition SetOperation_add_value :: "(column_value \<Rightarrow> column_value) \<Rightarrow> set_operation \<Rightarrow> set_operation" where
  [accessors]: "SetOperation_add_value h m = m\<lparr>so_value := so_value m @ [h ColumnValue_new]\<rparr>"

definition SetOperation_add_unknown :: "unknown_field list \<Rightarrow> set_operation \<Rightarrow> set_operation" where
  "SetOperation_add_unknown us m = m\<lparr>so_unknown := so_unknown m @ us\<rparr>"

definition SetOperation_switch :: "pb_lib \<Rightarrow> nat \<Rightarrow> set_operation \<Rightarrow> bytes \<Rightarrow> set_operation switch_result" where
  "SetOperation_switch L tag m inp =
     (if GetTagFieldNumber tag = 1 then
        (if tag = 10 then
           (case read_message L (StoreInfo_MergePartial L) StoreInfo_new inp of
              None \<Rightarrow> ReadFailed
            | Some (x, r) \<Rightarrow> FieldRead (m\<lparr>so_store_info := so_store_info m @ [x]\<rparr>) r [10, 18] False)
         else Unusual)
      else if GetTagFieldNumber tag = 2 then
        (if tag = 18 then
           (case read_message L (ColumnValue_MergePartial L) ColumnValue_new inp of
              None \<Rightarrow> ReadFailed
            | Some (x, r) \<Rightarrow> FieldRead (m\<lparr>so_primary_key := so_primary_key m @ [x]\<rparr>) r [18, 26] False)
         else Unusual)
      else if GetTagFieldNumber tag = 3 then
        (if tag = 26 then
           (case read_message L (ColumnValue_MergePartial L) ColumnValue_new inp of
              None \<Rightarrow> ReadFailed
            | Some (x, r) \<Rightarrow> FieldRead (m\<lparr>so_value := so_value m @ [x]\<rparr>) r [26] True)
         else Unusual)
      else Unusual)"

definition SetOperation_MergePartial :: "pb_lib \<Rightarrow> set_operation \<Rightarrow> bytes \<Rightarrow> set_operation parse_result" where
  "SetOperation_MergePartial L = merge_partial L (SetOperation_switch L) SetOperation_add_unknown"

definition SetOperation_Serialize :: "pb_lib \<Rightarrow> set_operation \<Rightarrow> bytes" where
  "SetOperation_Serialize L m =
     concat (map (\<lambda>x. WriteMessage L 1 (StoreInfo_ByteSize L x) (StoreInfo_Serialize L x)) (so_store_info m)) @
     concat (map (\<lambda>x. WriteMessage L 2 (ColumnValue_ByteSize L x) (ColumnValue_Serialize L x)) (so_primary_key m)) @
     concat (map (\<lambda>x. WriteMessage L 3 (ColumnValue_ByteSize L x) (ColumnValue_Serialize L x)) (so_value m)) @
     (if so_unknown m = [] then [] else SerializeUnknownFields L (so_unknown m))"

definition SetOperation_SerializeToArray :: "pb_lib \<Rightarrow> set_operation \<Rightarrow> bytes \<Rightarrow> bytes" where
  "SetOperation_SerializeToArray L m target0 =
     (let
        target1 = fold (\<lambda>x. WriteMessageToArray L 1 (StoreInfo_ByteSize L x) (StoreInfo_SerializeToArray L x)) (so_store_info m) target0;
        target2 = fold (\<lambda>x. WriteMessageToArray L 2 (ColumnValue_ByteSize L x) (ColumnValue_SerializeToArray L x)) (so_primary_key m) target1;
        target3 = fold (\<lambda>x. WriteMessageToArray L 3 (ColumnValue_ByteSize L x) (ColumnValue_SerializeToArray L x)) (so_value m) target2;
        target4 = (if so_unknown m = [] then target3 else SerializeUnknownFieldsToArray L (so_unknown m) target3)
      in target4)"

definition SetOperation_ByteSize :: "pb_lib \<Rightarrow> set_operation \<Rightarrow> nat" where
  "SetOperation_ByteSize L m =
     1 * length (so_store_info m) +
     sum_list (map (\<lambda>x. MessageSize L (StoreInfo_ByteSize L x)) (so_store_info m)) +
     1 * length (so_primary_key m) +
     sum_list (map (\<lambda>x. MessageSize L (ColumnValue_ByteSize L x)) (so_primary_key m)) +
     1 * length (so_value m) +
     sum_list (map (\<lambda>x. MessageSize L (ColumnValue_ByteSize L x)) (so_value m)) +
     (if so_unknown m = [] then 0 else ComputeUnknownFieldsSize L (so_unknown m))"

definition SetOperation_IsInitialized :: "set_operation \<Rightarrow> bool" where
  "SetOperation_IsInitialized m \<longleftrightarrow> list_all StoreInfo_IsInitialized (so_store_info m) \<and>
     list_all ColumnValue_IsInitialized (so_primary_key m) \<and>
     list_all ColumnValue_IsInitialized (so_value m)"

definition SetOperation_MergeFrom :: "set_operation \<Rightarrow> set_operation \<Rightarrow> set_operation" where
  "SetOperation_MergeFrom m src =
     m\<lparr>so_store_info := so_store_info m @ so_store_info src,
       so_primary_key := so_primary_key m @ so_primary_key src,
       so_value := so_value m @ so_value src,
       so_unknown := so_unknown m @ so_unknown src\<rparr>"

definition SetOperation_CopyFrom :: "set_operation \<Rightarrow> set_operation \<Rightarrow> set_operation" where
  "SetOperation_CopyFrom m src = SetOperation_MergeFrom (SetOperation_Clear m) src"

text \<open>No field outside the schema, here and in nested messages.\<close>

definition SetOperation_known :: "set_operation \<Rightarrow> bool" where
  "SetOperation_known m \<longleftrightarrow> so_unknown m = [] \<and> list_all StoreInfo_known (so_store_info m) \<and> list_all ColumnValue_known (so_primary_key m) \<and> list_all ColumnValue_known (so_value m)"

lemma SetOperation_MergeFrom_new: "SetOperation_MergeFrom SetOperation_new m = m"
  by (cases m) (simp add: SetOperation_MergeFrom_def SetOperation_new_def split: option.splits)

lemma SetOperation_Clear_new: "SetOperation_Clear m = SetOperation_new"
  by (cases m) (simp add: SetOperation_Clear_def SetOperation_new_def)

lemma SetOperation_CopyFrom_copy: "SetOperation_CopyFrom m src = src"
  by (simp add: SetOperation_CopyFrom_def SetOperation_Clear_new SetOperation_MergeFrom_new)

context protobuf_wire
begin

lemma SetOperation_switch_ok: "switch_ok (SetOperation_switch L)"
  by (rule switch_okI)
    (auto simp: SetOperation_switch_def dest!: consumes split: if_splits option.splits)

lemma SetOperation_merge_total: "SetOperation_MergePartial L m inp \<noteq> OutOfFuel"
  by (simp add: SetOperation_MergePartial_def merge_partial_total SetOperation_switch_ok)

lemma SetOperation_size: "SetOperation_ByteSize L m = length (SetOperation_Serialize L m)"
  by (simp add: SetOperation_ByteSize_def SetOperation_Serialize_def length_opt_bytes length_concat_map sum_list_Suc
      write_sizes unknown_size ColumnValue_size StoreInfo_size)

lemma SetOperation_to_array: "SetOperation_SerializeToArray L m = (\<lambda>target. target @ SetOperation_Serialize L m)"
  by (rule ext) (simp add: SetOperation_SerializeToArray_def SetOperation_Serialize_def Let_def to_array ColumnValue_to_array StoreInfo_to_array)

lemma SetOperation_item_store_info:
  assumes known: "StoreInfo_known x" and len: "length (StoreInfo_Serialize L x) + length r < total_bytes_limit"
  shows "SetOperation_MergePartial L m (WriteMessage L 1 (StoreInfo_ByteSize L x) (StoreInfo_Serialize L x) @ r) =
    SetOperation_MergePartial L (m\<lparr>so_store_info := so_store_info m @ [x]\<rparr>) r"
proof -
  from len have ser: "length (StoreInfo_Serialize L x) < total_bytes_limit" by simp
  have sw: "SetOperation_switch L (8 * 1 + 2) m ((WriteVarint32 L (length (StoreInfo_Serialize L x)) @ StoreInfo_Serialize L x) @ r) =
      FieldRead (m\<lparr>so_store_info := so_store_info m @ [x]\<rparr>) r [10, 18] False"
    using read_message_write [of "StoreInfo_Serialize L x" r "StoreInfo_MergePartial L" StoreInfo_new, OF len StoreInfo_roundtrip [OF known ser]] by (simp add: SetOperation_switch_def GetTagFieldNumber_def)
  show ?thesis
    using merge_partial_write [OF SetOperation_switch_ok _ _ _ sw]
    by (simp add: SetOperation_MergePartial_def write_message StoreInfo_size)
qed

lemma SetOperation_step_store_info:
  assumes "list_all StoreInfo_known xs"
    and "length (concat (map (\<lambda>x. WriteMessage L 1 (StoreInfo_ByteSize L x) (StoreInfo_Serialize L x)) xs) @ r) < total_bytes_limit"
  shows "SetOperation_MergePartial L m (concat (map (\<lambda>x. WriteMessage L 1 (StoreInfo_ByteSize L x) (StoreInfo_Serialize L x)) xs) @ r) =
    SetOperation_MergePartial L (m\<lparr>so_store_info := so_store_info m @ xs\<rparr>) r"
  using assms
proof (induction xs arbitrary: m)
  case Nil
  then show ?case by simp
next
  case (Cons x xs)
  then have known: "StoreInfo_known x"
    and len: "length (StoreInfo_Serialize L x) + length (concat (map (\<lambda>x. WriteMessage L 1 (StoreInfo_ByteSize L x) (StoreInfo_Serialize L x)) xs) @ r) < total_bytes_limit"
    using length_write_message [of "StoreInfo_Serialize L x" 1 "StoreInfo_ByteSize L x"]
    by simp_all
  from Cons show ?case by (simp add: SetOperation_item_store_info [OF known len] del: One_nat_def)
qed

lemma SetOperation_item_primary_key:
  assumes known: "ColumnValue_known x" and len: "length (ColumnValue_Serialize L x) + length r < total_bytes_limit"
  shows "SetOperation_MergePartial L m (WriteMessage L 2 (ColumnValue_ByteSize L x) (ColumnValue_Serialize L x) @ r) =
    SetOperation_MergePartial L (m\<lparr>so_primary_key := so_primary_key m @ [x]\<rparr>) r"
proof -
  from len have ser: "length (ColumnValue_Serialize L x) < total_bytes_limit" by simp
  have sw: "SetOperation_switch L (8 * 2 + 2) m ((WriteVarint32 L (length (ColumnValue_Serialize L x)) @ ColumnValue_Serialize L x) @ r) =
      FieldRead (m\<lparr>so_primary_key := so_primary_key m @ [x]\<rparr>) r [18, 26] False"
    using read_message_write [of "ColumnValue_Serialize L x" r "ColumnValue_MergePartial L" ColumnValue_new, OF len ColumnValue_roundtrip [OF known ser]] by (simp add: SetOperation_switch_def GetTagFieldNumber_def)
  show ?thesis
    using merge_partial_write [OF SetOperation_switch_ok _ _ _ sw]
    by (simp add: SetOperation_MergePartial_def write_message ColumnValue_size)
qed

lemma SetOperation_step_primary_key:
  assumes "list_all ColumnValue_known xs"
    and "length (concat (map (\<lambda>x. WriteMessage L 2 (ColumnValue_ByteSize L x) (ColumnValue_Serialize L x)) xs) @ r) < total_bytes_limit"
  shows "SetOperation_MergePartial L m (concat (map (\<lambda>x. WriteMessage L 2 (ColumnValue_ByteSize L x) (ColumnValue_Serialize L x)) xs) @ r) =
    SetOperation_MergePartial L (m\<lparr>so_primary_key := so_primary_key m @ xs\<rparr>) r"
  using assms
proof (induction xs arbitrary: m)
  case Nil
  then show ?case by simp
next
  case (Cons x xs)
  then have known: "ColumnValue_known x"
    and len: "length (ColumnValue_Serialize L x) + length (concat (map (\<lambda>x. WriteMessage L 2 (ColumnValue_ByteSize L x) (ColumnValue_Serialize L x)) xs) @ r) < total_bytes_limit"
    using length_write_message [of "ColumnValue_Serialize L x" 2 "ColumnValue_ByteSize L x"]
    by simp_all
  from Cons show ?case by (simp add: SetOperation_item_primary_key [OF known len] del: One_nat_def)
qed

lemma SetOperation_item_value:
  assumes known: "ColumnValue_known x" and len: "length (ColumnValue_Serialize L x) + length r < total_bytes_limit"
  shows "SetOperation_MergePartial L m (WriteMessage L 3 (ColumnValue_ByteSize L x) (ColumnValue_Serialize L x) @ r) =
    SetOperation_MergePartial L (m\<lparr>so_value := so_value m @ [x]\<rparr>) r"
proof -
  from len have ser: "length (ColumnValue_Serialize L x) < total_bytes_limit" by simp
  have sw: "SetOperation_switch L (8 * 3 + 2) m ((WriteVarint32 L (length (ColumnValue_Serialize L x)) @ ColumnValue_Serialize L x) @ r) =
      FieldRead (m\<lparr>so_value := so_value m @ [x]\<rparr>) r [26] True"
    using read_message_write [of "ColumnValue_Serialize L x" r "ColumnValue_MergePartial L" ColumnValue_new, OF len ColumnValue_roundtrip [OF known ser]] by (simp add: SetOperation_switch_def GetTagFieldNumber_def)
  show ?thesis
    using merge_partial_write [OF SetOperation_switch_ok _ _ _ sw]
    by (simp add: SetOperation_MergePartial_def write_message ColumnValue_size)
qed

lemma SetOperation_step_value:
  assumes "list_all ColumnValue_known xs"
    and "length (concat (map (\<lambda>x. WriteMessage L 3 (ColumnValue_ByteSize L x) (ColumnValue_Serialize L x)) xs) @ r) < total_bytes_limit"
  shows "SetOperation_MergePartial L m (concat (map (\<lambda>x. WriteMessage L 3 (ColumnValue_ByteSize L x) (ColumnValue_Serialize L x)) xs) @ r) =
    SetOperation_MergePartial L (m\<lparr>so_value := so_value m @ xs\<rparr>) r"
  using assms
proof (induction xs arbitrary: m)
  case Nil
  then show ?case by simp
next
  case (Cons x xs)
  then have known: "ColumnValue_known x"
    and len: "length (ColumnValue_Serialize L x) + length (concat (map (\<lambda>x. WriteMessage L 3 (ColumnValue_ByteSize L x) (ColumnValue_Serialize L x)) xs) @ r) < total_bytes_limit"
    using length_write_message [of "ColumnValue_Serialize L x" 3 "ColumnValue_ByteSize L x"]
    by simp_all
  from Cons show ?case by (simp add: SetOperation_item_value [OF known len] del: One_nat_def)
qed

lemma SetOperation_roundtrip:
  assumes known: "SetOperation_known m" and size: "length (SetOperation_Serialize L m) < total_bytes_limit"
  shows "SetOperation_MergePartial L SetOperation_new (SetOperation_Serialize L m) = Parsed m []"
proof -
  have "SetOperation_MergePartial L SetOperation_new (SetOperation_Serialize L m) = SetOperation_MergePartial L SetOperation_new
      (concat (map (\<lambda>x. WriteMessage L 1 (StoreInfo_ByteSize L x) (StoreInfo_Serialize L x)) (so_store_info m)) @
        concat (map (\<lambda>x. WriteMessage L 2 (ColumnValue_ByteSize L x) (ColumnValue_Serialize L x)) (so_primary_key m)) @
        concat (map (\<lambda>x. WriteMessage L 3 (ColumnValue_ByteSize L x) (ColumnValue_Serialize L x)) (so_value m)) @
        [])"
    using known by (simp add: SetOperation_Serialize_def SetOperation_known_def)
  also have "\<dots> = SetOperation_MergePartial L (SetOperation_new\<lparr>so_store_info := so_store_info m\<rparr>)
      (concat (map (\<lambda>x. WriteMessage L 2 (ColumnValue_ByteSize L x) (ColumnValue_Serialize L x)) (so_primary_key m)) @
        concat (map (\<lambda>x. WriteMessage L 3 (ColumnValue_ByteSize L x) (ColumnValue_Serialize L x)) (so_value m)) @
        [])"
    using known size by (subst SetOperation_step_store_info) (simp_all add: SetOperation_new_def SetOperation_Serialize_def SetOperation_known_def)
  also have "\<dots> = SetOperation_MergePartial L (SetOperation_new\<lparr>so_store_info := so_store_info m, so_primary_key := so_primary_key m\<rparr>)
      (concat (map (\<lambda>x. WriteMessage L 3 (ColumnValue_ByteSize L x) (ColumnValue_Serialize L x)) (so_value m)) @
        [])"
    using known size by (subst SetOperation_step_primary_key) (simp_all add: SetOperation_new_def SetOperation_Serialize_def SetOperation_known_def)
  also have "\<dots> = SetOperation_MergePartial L (SetOperation_new\<lparr>so_store_info := so_store_info m, so_primary_key := so_primary_key m, so_value := so_value m\<rparr>)
      ([])"
    using known size by (subst SetOperation_step_value) (simp_all add: SetOperation_new_def SetOperation_Serialize_def SetOperation_known_def)
  also have "\<dots> = Parsed m []"
    using known by (cases m) (simp add: SetOperation_MergePartial_def SetOperation_known_def SetOperation_new_def)
  finally show ?thesis .
qed

end

section \<open>DeleteOperation\<close>

record delete_operation =
  dl_store_info :: "store_info list"
  dl_primary_key :: "column_value list"
  dl_unknown :: "unknown_field list"

definition DeleteOperation_new :: delete_operation where
  "DeleteOperation_new = \<lparr>dl_store_info = [], dl_primary_key = [], dl_unknown = []\<rparr>"

definition DeleteOperation_Clear :: "delete_operation \<Rightarrow> delete_operation" where
  "DeleteOperation_Clear m = m\<lparr>dl_store_info := [], dl_primary_key := [], dl_unknown := []\<rparr>"

definition DeleteOperation_store_info_size :: "delete_operation \<Rightarrow> nat" where
  [accessors]: "DeleteOperation_store_info_size m = length (dl_store_info m)"

definition DeleteOperation_clear_store_info :: "delete_operation \<Rightarrow> delete_operation" where
  [accessors]: "DeleteOperation_clear_store_info m = m\<lparr>dl_store_info := []\<rparr>"

definition DeleteOperation_store_info :: "delete_operation \<Rightarrow> nat \<Rightarrow> store_info result" where
  [accessors]: "DeleteOperation_store_info m i = index (dl_store_info m) i"

definition DeleteOperation_add_store_info :: "(store_info \<Rightarrow> store_info) \<Rightarrow> delete_operation \<Rightarrow> delete_operation" where
  [accessors]: "DeleteOperation_add_store_info h m = m\<lparr>dl_store_info := dl_store_info m @ [h StoreInfo_new]\<rparr>"

definition DeleteOperation_primary_key_size :: "delete_operation \<Rightarrow> nat" where
  [accessors]: "DeleteOperation_primary_key_size m = length (dl_primary_key m)"

definition DeleteOperation_clear_primary_key :: "delete_operation \<Rightarrow> delete_operation" where
  [accessors]: "DeleteOperation_clear_primary_key m = m\<lparr>dl_primary_key := []\<rparr>"

definition DeleteOperation_primary_key :: "delete_operation \<Rightarrow> nat \<Rightarrow> column_value result" where
  [accessors]: "DeleteOperation_primary_key m i = index (dl_primary_key m) i"

definition DeleteOperation_add_primary_key :: "(column_value \<Rightarrow> column_value) \<Rightarrow> delete_operation \<Rightarrow> delete_operation" where
  [accessors]: "DeleteOperation_add_primary_key h m = m\<lparr>dl_primary_key := dl_primary_key m @ [h ColumnValue_new]\<rparr>"

definition DeleteOperation_add_unknown :: "unknown_field list \<Rightarrow> delete_operation \<Rightarrow> delete_operation" where
  "DeleteOperation_add_unknown us m = m\<lparr>dl_unknown := dl_unknown m @ us\<rparr>"

definition DeleteOperation_switch :: "pb_lib \<Rightarrow> nat \<Rightarrow> delete_operation \<Rightarrow> bytes \<Rightarrow> delete_operation switch_result" where
  "DeleteOperation_switch L tag m inp =
     (if GetTagFieldNumber tag = 1 then
        (if tag = 10 then
           (case read_message L (StoreInfo_MergePartial L) StoreInfo_new inp of
              None \<Rightarrow> ReadFailed
            | Some (x, r) \<Rightarrow> FieldRead (m\<lparr>dl_store_info := dl_store_info m @ [x]\<rparr>) r [10, 18] False)
         else Unusual)
      else if GetTagFieldNumber tag = 2 then
        (if tag = 18 then
           (case read_message L (ColumnValue_MergePartial L) ColumnValue_new inp of
              None \<Rightarrow> ReadFailed
            | Some (x, r) \<Rightarrow> FieldRead (m\<lparr>dl_primary_key := dl_primary_key m @ [x]\<rparr>) r [18] True)
         else Unusual)
      else Unusual)"

definition DeleteOperation_MergePartial :: "pb_lib \<Rightarrow> delete_operation \<Rightarrow> bytes \<Rightarrow> delete_operation parse_result" where
  "DeleteOperation_MergePartial L = merge_partial L (DeleteOperation_switch L) DeleteOperation_add_unknown"

definition DeleteOperation_Serialize :: "pb_lib \<Rightarrow> delete_operation \<Rightarrow> bytes" where
  "DeleteOperation_Serialize L m =
     concat (map (\<lambda>x. WriteMessage L 1 (StoreInfo_ByteSize L x) (StoreInfo_Serialize L x)) (dl_store_info m)) @
     concat (map (\<lambda>x. WriteMessage L 2 (ColumnValue_ByteSize L x) (ColumnValue_Serialize L x)) (dl_primary_key m)) @
     (if dl_unknown m = [] then [] else SerializeUnknownFields L (dl_unknown m))"

definition DeleteOperation_SerializeToArray :: "pb_lib \<Rightarrow> delete_operation \<Rightarrow> bytes \<Rightarrow> bytes" where
  "DeleteOperation_SerializeToArray L m target0 =
     (let
        target1 = fold (\<lambda>x. WriteMessageToArray L 1 (StoreInfo_ByteSize L x) (StoreInfo_SerializeToArray L x)) (dl_store_info m) target0;
        target2 = fold (\<lambda>x. WriteMessageToArray L 2 (ColumnValue_ByteSize L x) (ColumnValue_SerializeToArray L x)) (dl_primary_key m) target1;
        target3 = (if dl_unknown m = [] then target2 else SerializeUnknownFieldsToArray L (dl_unknown m) target2)
      in target3)"

definition DeleteOperation_ByteSize :: "pb_lib \<Rightarrow> delete_operation \<Rightarrow> nat" where
  "DeleteOperation_ByteSize L m =
     1 * length (dl_store_info m) +
     sum_list (map (\<lambda>x. MessageSize L (StoreInfo_ByteSize L x)) (dl_store_info m)) +
     1 * length (dl_primary_key m) +
     sum_list (map (\<lambda>x. MessageSize L (ColumnValue_ByteSize L x)) (dl_primary_key m)) +
     (if dl_unknown m = [] then 0 else ComputeUnknownFieldsSize L (dl_unknown m))"

definition DeleteOperation_IsInitialized :: "delete_operation \<Rightarrow> bool" where
  "DeleteOperation_IsInitialized m \<longleftrightarrow> list_all StoreInfo_IsInitialized (dl_store_info m) \<and>
     list_all ColumnValue_IsInitialized (dl_primary_key m)"

definition DeleteOperation_MergeFrom :: "delete_operation \<Rightarrow> delete_operation \<Rightarrow> delete_operation" where
  "DeleteOperation_MergeFrom m src =
     m\<lparr>dl_store_info := dl_store_info m @ dl_store_info src,
       dl_primary_key := dl_primary_key m @ dl_primary_key src,
       dl_unknown := dl_unknown m @ dl_unknown src\<rparr>"

definition DeleteOperation_CopyFrom :: "delete_operation \<Rightarrow> delete_operation \<Rightarrow> delete_operation" where
  "DeleteOperation_CopyFrom m src = DeleteOperation_MergeFrom (DeleteOperation_Clear m) src"

text \<open>No field outside the schema, here and in nested messages.\<close>

definition DeleteOperation_known :: "delete_operation \<Rightarrow> bool" where
  "DeleteOperation_known m \<longleftrightarrow> dl_unknown m = [] \<and> list_all StoreInfo_known (dl_store_info m) \<and> list_all ColumnValue_known (dl_primary_key m)"

lemma DeleteOperation_MergeFrom_new: "DeleteOperation_MergeFrom DeleteOperation_new m = m"
  by (cases m) (simp add: DeleteOperation_MergeFrom_def DeleteOperation_new_def split: option.splits)

lemma DeleteOperation_Clear_new: "DeleteOperation_Clear m = DeleteOperation_new"
  by (cases m) (simp add: DeleteOperation_Clear_def DeleteOperation_new_def)

lemma DeleteOperation_CopyFrom_copy: "DeleteOperation_CopyFrom m src = src"
  by (simp add: DeleteOperation_CopyFrom_def DeleteOperation_Clear_new DeleteOperation_MergeFrom_new)

context protobuf_wire
begin

lemma DeleteOperation_switch_ok: "switch_ok (DeleteOperation_switch L)"
  by (rule switch_okI)
    (auto simp: DeleteOperation_switch_def dest!: consumes split: if_splits option.splits)

lemma DeleteOperation_merge_total: "DeleteOperation_MergePartial L m inp \<noteq> OutOfFuel"
  by (simp add: DeleteOperation_MergePartial_def merge_partial_total DeleteOperation_switch_ok)

lemma DeleteOperation_size: "DeleteOperation_ByteSize L m = length (DeleteOperation_Serialize L m)"
  by (simp add: DeleteOperation_ByteSize_def DeleteOperation_Serialize_def length_opt_bytes length_concat_map sum_list_Suc
      write_sizes unknown_size ColumnValue_size StoreInfo_size)

lemma DeleteOperation_to_array: "DeleteOperation_SerializeToArray L m = (\<lambda>target. target @ DeleteOperation_Serialize L m)"
  by (rule ext) (simp add: DeleteOperation_SerializeToArray_def DeleteOperation_Serialize_def Let_def to_array ColumnValue_to_array StoreInfo_to_array)

lemma DeleteOperation_item_store_info:
  assumes known: "StoreInfo_known x" and len: "length (StoreInfo_Serialize L x) + length r < total_bytes_limit"
  shows "DeleteOperation_MergePartial L m (WriteMessage L 1 (StoreInfo_ByteSize L x) (StoreInfo_Serialize L x) @ r) =
    DeleteOperation_MergePartial L (m\<lparr>dl_store_info := dl_store_info m @ [x]\<rparr>) r"
proof -
  from len have ser: "length (StoreInfo_Serialize L x) < total_bytes_limit" by simp
  have sw: "DeleteOperation_switch L (8 * 1 + 2) m ((WriteVarint32 L (length (StoreInfo_Serialize L x)) @ StoreInfo_Serialize L x) @ r) =
      FieldRead (m\<lparr>dl_store_info := dl_store_info m @ [x]\<rparr>) r [10, 18] False"
    using read_message_write [of "StoreInfo_Serialize L x" r "StoreInfo_MergePartial L" StoreInfo_new, OF len StoreInfo_roundtrip [OF known ser]] by (simp add: DeleteOperation_switch_def GetTagFieldNumber_def)
  show ?thesis
    using merge_partial_write [OF DeleteOperation_switch_ok _ _ _ sw]
    by (simp add: DeleteOperation_MergePartial_def write_message StoreInfo_size)
qed

lemma DeleteOperation_step_store_info:
  assumes "list_all StoreInfo_known xs"
    and "length (concat (map (\<lambda>x. WriteMessage L 1 (StoreInfo_ByteSize L x) (StoreInfo_Serialize L x)) xs) @ r) < total_bytes_limit"
  shows "DeleteOperation_MergePartial L m (concat (map (\<lambda>x. WriteMessage L 1 (StoreInfo_ByteSize L x) (StoreInfo_Serialize L x)) xs) @ r) =
    DeleteOperation_MergePartial L (m\<lparr>dl_store_info := dl_store_info m @ xs\<rparr>) r"
  using assms
proof (induction xs arbitrary: m)
  case Nil
  then show ?case by simp
next
  case (Cons x xs)
  then have known: "StoreInfo_known x"
    and len: "length (StoreInfo_Serialize L x) + length (concat (map (\<lambda>x. WriteMessage L 1 (StoreInfo_ByteSize L x) (StoreInfo_Serialize L x)) xs) @ r) < total_bytes_limit"
    using length_write_message [of "StoreInfo_Serialize L x" 1 "StoreInfo_ByteSize L x"]
    by simp_all
  from Cons show ?case by (simp add: DeleteOperation_item_store_info [OF known len] del: One_nat_def)
qed

lemma DeleteOperation_item_primary_key:
  assumes known: "ColumnValue_known x" and len: "length (ColumnValue_Serialize L x) + length r < total_bytes_limit"
  shows "DeleteOperation_MergePartial L m (WriteMessage L 2 (ColumnValue_ByteSize L x) (ColumnValue_Serialize L x) @ r) =
    DeleteOperation_MergePartial L (m\<lparr>dl_primary_key := dl_primary_key m @ [x]\<rparr>) r"
proof -
  from len have ser: "length (ColumnValue_Serialize L x) < total_bytes_limit" by simp
  have sw: "DeleteOperation_switch L (8 * 2 + 2) m ((WriteVarint32 L (length (ColumnValue_Serialize L x)) @ ColumnValue_Serialize L x) @ r) =
      FieldRead (m\<lparr>dl_primary_key := dl_primary_key m @ [x]\<rparr>) r [18] True"
    using read_message_write [of "ColumnValue_Serialize L x" r "ColumnValue_MergePartial L" ColumnValue_new, OF len ColumnValue_roundtrip [OF known ser]] by (simp add: DeleteOperation_switch_def GetTagFieldNumber_def)
  show ?thesis
    using merge_partial_write [OF DeleteOperation_switch_ok _ _ _ sw]
    by (simp add: DeleteOperation_MergePartial_def write_message ColumnValue_size)
qed

lemma DeleteOperation_step_primary_key:
  assumes "list_all ColumnValue_known xs"
    and "length (concat (map (\<lambda>x. WriteMessage L 2 (ColumnValue_ByteSize L x) (ColumnValue_Serialize L x)) xs) @ r) < total_bytes_limit"
  shows "DeleteOperation_MergePartial L m (concat (map (\<lambda>x. WriteMessage L 2 (ColumnValue_ByteSize L x) (ColumnValue_Serialize L x)) xs) @ r) =
    DeleteOperation_MergePartial L (m\<lparr>dl_primary_key := dl_primary_key m @ xs\<rparr>) r"
  using assms
proof (induction xs arbitrary: m)
  case Nil
  then show ?case by simp
next
  case (Cons x xs)
  then have known: "ColumnValue_known x"
    and len: "length (ColumnValue_Serialize L x) + length (concat (map (\<lambda>x. WriteMessage L 2 (ColumnValue_ByteSize L x) (ColumnValue_Serialize L x)) xs) @ r) < total_bytes_limit"
    using length_write_message [of "ColumnValue_Serialize L x" 2 "ColumnValue_ByteSize L x"]
    by simp_all
  from Cons show ?case by (simp add: DeleteOperation_item_primary_key [OF known len] del: One_nat_def)
qed

lemma DeleteOperation_roundtrip:
  assumes known: "DeleteOperation_known m" and size: "length (DeleteOperation_Serialize L m) < total_bytes_limit"
  shows "DeleteOperation_MergePartial L DeleteOperation_new (DeleteOperation_Serialize L m) = Parsed m []"
proof -
  have "DeleteOperation_MergePartial L DeleteOperation_new (DeleteOperation_Serialize L m) = DeleteOperation_MergePartial L DeleteOperation_new
      (concat (map (\<lambda>x. WriteMessage L 1 (StoreInfo_ByteSize L x) (StoreInfo_Serialize L x)) (dl_store_info m)) @
        concat (map (\<lambda>x. WriteMessage L 2 (ColumnValue_ByteSize L x) (ColumnValue_Serialize L x)) (dl_primary_key m)) @
        [])"
    using known by (simp add: DeleteOperation_Serialize_def DeleteOperation_known_def)
  also have "\<dots> = DeleteOperation_MergePartial L (DeleteOperation_new\<lparr>dl_store_info := dl_store_info m\<rparr>)
      (concat (map (\<lambda>x. WriteMessage L 2 (ColumnValue_ByteSize L x) (ColumnValue_Serialize L x)) (dl_primary_key m)) @
        [])"
    using known size by (subst DeleteOperation_step_store_info) (simp_all add: DeleteOperation_new_def DeleteOperation_Serialize_def DeleteOperation_known_def)
  also have "\<dots> = DeleteOperation_MergePartial L (DeleteOperation_new\<lparr>dl_store_info := dl_store_info m, dl_primary_key := dl_primary_key m\<rparr>)
      ([])"
    using known size by (subst DeleteOperation_step_primary_key) (simp_all add: DeleteOperation_new_def DeleteOperation_Serialize_def DeleteOperation_known_def)
  also have "\<dots> = Parsed m []"
    using known by (cases m) (simp add: DeleteOperation_MergePartial_def DeleteOperation_known_def DeleteOperation_new_def)
  finally show ?thesis .
qed

end

section \<open>GetOperation\<close>

record get_operation =
  go_store_info :: "store_info list"
  go_primary_key :: "column_value list"
  go_value :: "column_value list"
  go_unknown :: "unknown_field list"

definition GetOperation_new :: get_operation where
  "GetOperation_new = \<lparr>go_store_info = [], go_primary_key = [], go_value = [], go_unknown = []\<rparr>"

definition GetOperation_Clear :: "get_operation \<Rightarrow> get_operation" where
  "GetOperation_Clear m = m\<lparr>go_store_info := [], go_primary_key := [], go_value := [], go_unknown := []\<rparr>"

definition GetOperation_store_info_size :: "get_operation \<Rightarrow> nat" where
  [accessors]: "GetOperation_store_info_size m = length (go_store_info m)"

definition GetOperation_clear_store_info :: "get_operation \<Rightarrow> get_operation" where
  [accessors]: "GetOperation_clear_store_info m = m\<lparr>go_store_info := []\<rparr>"

definition GetOperation_store_info :: "get_operation \<Rightarrow> nat \<Rightarrow> store_info result" where
  [accessors]: "GetOperation_store_info m i = index (go_store_info m) i"

definition GetOperation_add_store_info :: "(store_info \<Rightarrow> store_info) \<Rightarrow> get_operation \<Rightarrow> get_operation" where
  [accessors]: "GetOperation_add_store_info h m = m\<lparr>go_store_info := go_store_info m @ [h StoreInfo_new]\<rparr>"

definition GetOperation_primary_key_size :: "get_operation \<Rightarrow> nat" where
  [accessors]: "GetOperation_primary_key_size m = length (go_primary_key m)"

definition GetOperation_clear_primary_key :: "get_operation \<Rightarrow> get_operation" where
  [accessors]: "GetOperation_clear_primary_key m = m\<lparr>go_primary_key := []\<rparr>"

definition GetOperation_primary_key :: "get_operation \<Rightarrow> nat \<Rightarrow> column_value result" where
  [accessors]: "GetOperation_primary_key m i = index (go_primary_key m) i"

definition GetOperation_add_primary_key :: "(column_value \<Rightarrow> column_value) \<Rightarrow> get_operation \<Rightarrow> get_operation" where
  [accessors]: "GetOperation_add_primary_key h m = m\<lparr>go_primary_key := go_primary_key m @ [h ColumnValue_new]\<rparr>"

definition GetOperation_value_size :: "get_operation \<Rightarrow> nat" where
  [accessors]: "GetOperation_value_size m = length (go_value m)"

definition GetOperation_clear_value :: "get_operation \<Rightarrow> get_operation" where
  [accessors]: "GetOperation_clear_value m = m\<lparr>go_value := []\<rparr>"

definition GetOperation_value :: "get_operation \<Rightarrow> nat \<Rightarrow> column_value result" where
  [accessors]: "GetOperation_value m i = index (go_value m) i"

definition GetOperation_add_value :: "(column_value \<Rightarrow> column_value) \<Rightarrow> get_operation \<Rightarrow> get_operation" where
  [accessors]: "GetOperation_add_value h m = m\<lparr>go_value := go_value m @ [h ColumnValue_new]\<rparr>"

definition GetOperation_add_unknown :: "unknown_field list \<Rightarrow> get_operation \<Rightarrow> get_operation" where
  "GetOperation_add_unknown us m = m\<lparr>go_unknown := go_unknown m @ us\<rparr>"

definition GetOperation_switch :: "pb_lib \<Rightarrow> nat \<Rightarrow> get_operation \<Rightarrow> bytes \<Rightarrow> get_operation switch_result" where
  "GetOperation_switch L tag m inp =
     (if GetTagFieldNumber tag = 1 then
        (if tag = 10 then
           (case read_message L (StoreInfo_MergePartial L) StoreInfo_new inp of
              None \<Rightarrow> ReadFailed
            | Some (x, r) \<Rightarrow> FieldRead (m\<lparr>go_store_info := go_store_info m @ [x]\<rparr>) r [10, 18] False)
         else Unusual)
      else if GetTagFieldNumber tag = 2 then
        (if tag = 18 then
           (case read_message L (ColumnValue_MergePartial L) ColumnValue_new inp of
              None \<Rightarrow> ReadFailed
            | Some (x, r) \<Rightarrow> FieldRead (m\<lparr>go_primary_key := go_primary_key m @ [x]\<rparr>) r [18, 26] False)
         else Unusual)
      else if GetTagFieldNumber tag = 3 then
        (if tag = 26 then
           (case read_message L (ColumnValue_MergePartial L) ColumnValue_new inp of
              None \<Rightarrow> ReadFailed
            | Some (x, r) \<Rightarrow> FieldRead (m\<lparr>go_value := go_value m @ [x]\<rparr>) r [26] True)
         else Unusual)
      else Unusual)"

definition GetOperation_MergePartial :: "pb_lib \<Rightarrow> get_operation \<Rightarrow> bytes \<Rightarrow> get_operation parse_result" where
  "GetOperation_MergePartial L = merge_partial L (GetOperation_switch L) GetOperation_add_unknown"

definition GetOperation_Serialize :: "pb_lib \<Rightarrow> get_operation \<Rightarrow> bytes" where
  "GetOperation_Serialize L m =
     concat (map (\<lambda>x. WriteMessage L 1 (StoreInfo_ByteSize L x) (StoreInfo_Serialize L x)) (go_store_info m)) @
     concat (map (\<lambda>x. WriteMessage L 2 (ColumnValue_ByteSize L x) (ColumnValue_Serialize L x)) (go_primary_key m)) @
     concat (map (\<lambda>x. WriteMessage L 3 (ColumnValue_ByteSize L x) (ColumnValue_Serialize L x)) (go_value m)) @
     (if go_unknown m = [] then [] else SerializeUnknownFields L (go_unknown m))"

definition GetOperation_SerializeToArray :: "pb_lib \<Rightarrow> get_operation \<Rightarrow> bytes \<Rightarrow> bytes" where
  "GetOperation_SerializeToArray L m target0 =
     (let
        target1 = fold (\<lambda>x. WriteMessageToArray L 1 (StoreInfo_ByteSize L x) (StoreInfo_SerializeToArray L x)) (go_store_info m) target0;
        target2 = fold (\<lambda>x. WriteMessageToArray L 2 (ColumnValue_ByteSize L x) (ColumnValue_SerializeToArray L x)) (go_primary_key m) target1;
        target3 = fold (\<lambda>x. WriteMessageToArray L 3 (ColumnValue_ByteSize L x) (ColumnValue_SerializeToArray L x)) (go_value m) target2;
        target4 = (if go_unknown m = [] then target3 else SerializeUnknownFieldsToArray L (go_unknown m) target3)
      in target4)"

definition GetOperation_ByteSize :: "pb_lib \<Rightarrow> get_operation \<Rightarrow> nat" where
  "GetOperation_ByteSize L m =
     1 * length (go_store_info m) +
     sum_list (map (\<lambda>x. MessageSize L (StoreInfo_ByteSize L x)) (go_store_info m)) +
     1 * length (go_primary_key m) +
     sum_list (map (\<lambda>x. MessageSize L (ColumnValue_ByteSize L x)) (go_primary_key m)) +
     1 * length (go_value m) +
     sum_list (map (\<lambda>x. MessageSize L (ColumnValue_ByteSize L x)) (go_value m)) +
     (if go_unknown m = [] then 0 else ComputeUnknownFieldsSize L (go_unknown m))"

definition GetOperation_IsInitialized :: "get_operation \<Rightarrow> bool" where
  "GetOperation_IsInitialized m \<longleftrightarrow> list_all StoreInfo_IsInitialized (go_store_info m) \<and>
     list_all ColumnValue_IsInitialized (go_primary_key m) \<and>
     list_all ColumnValue_IsInitialized (go_value m)"

definition GetOperation_MergeFrom :: "get_operation \<Rightarrow> get_operation \<Rightarrow> get_operation" where
  "GetOperation_MergeFrom m src =
     m\<lparr>go_store_info := go_store_info m @ go_store_info src,
       go_primary_key := go_primary_key m @ go_primary_key src,
       go_value := go_value m @ go_value src,
       go_unknown := go_unknown m @ go_unknown src\<rparr>"

definition GetOperation_CopyFrom :: "get_operation \<Rightarrow> get_operation \<Rightarrow> get_operation" where
  "GetOperation_CopyFrom m src = GetOperation_MergeFrom (GetOperation_Clear m) src"

text \<open>No field outside the schema, here and in nested messages.\<close>

definition GetOperation_known :: "get_operation \<Rightarrow> bool" where
  "GetOperation_known m \<longleftrightarrow> go_unknown m = [] \<and> list_all StoreInfo_known (go_store_info m) \<and> list_all ColumnValue_known (go_primary_key m) \<and> list_all ColumnValue_known (go_value m)"

lemma GetOperation_MergeFrom_new: "GetOperation_MergeFrom GetOperation_new m = m"
  by (cases m) (simp add: GetOperation_MergeFrom_def GetOperation_new_def split: option.splits)

lemma GetOperation_Clear_new: "GetOperation_Clear m = GetOperation_new"
  by (cases m) (simp add: GetOperation_Clear_def GetOperation_new_def)

lemma GetOperation_CopyFrom_copy: "GetOperation_CopyFrom m src = src"
  by (simp add: GetOperation_CopyFrom_def GetOperation_Clear_new GetOperation_MergeFrom_new)

context protobuf_wire
begin

lemma GetOperation_switch_ok: "switch_ok (GetOperation_switch L)"
  by (rule switch_okI)
    (auto simp: GetOperation_switch_def dest!: consumes split: if_splits option.splits)

lemma GetOperation_merge_total: "GetOperation_MergePartial L m inp \<noteq> OutOfFuel"
  by (simp add: GetOperation_MergePartial_def merge_partial_total GetOperation_switch_ok)

lemma GetOperation_size: "GetOperation_ByteSize L m = length (GetOperation_Serialize L m)"
  by (simp add: GetOperation_ByteSize_def GetOperation_Serialize_def length_opt_bytes length_concat_map sum_list_Suc
      write_sizes unknown_size ColumnValue_size StoreInfo_size)

lemma GetOperation_to_array: "GetOperation_SerializeToArray L m = (\<lambda>target. target @ GetOperation_Serialize L m)"
  by (rule ext) (simp add: GetOperation_SerializeToArray_def GetOperation_Serialize_def Let_def to_array ColumnValue_to_array StoreInfo_to_array)

lemma GetOperation_item_store_info:
  assumes known: "StoreInfo_known x" and len: "length (StoreInfo_Serialize L x) + length r < total_bytes_limit"
  shows "GetOperation_MergePartial L m (WriteMessage L 1 (StoreInfo_ByteSize L x) (StoreInfo_Serialize L x) @ r) =
    GetOperation_MergePartial L (m\<lparr>go_store_info := go_store_info m @ [x]\<rparr>) r"
proof -
  from len have ser: "length (StoreInfo_Serialize L x) < total_bytes_limit" by simp
  have sw: "GetOperation_switch L (8 * 1 + 2) m ((WriteVarint32 L (length (StoreInfo_Serialize L x)) @ StoreInfo_Serialize L x) @ r) =
      FieldRead (m\<lparr>go_store_info := go_store_info m @ [x]\<rparr>) r [10, 18] False"
    using read_message_write [of "StoreInfo_Serialize L x" r "StoreInfo_MergePartial L" StoreInfo_new, OF len StoreInfo_roundtrip [OF known ser]] by (simp add: GetOperation_switch_def GetTagFieldNumber_def)
  show ?thesis
    using merge_partial_write [OF GetOperation_switch_ok _ _ _ sw]
    by (simp add: GetOperation_MergePartial_def write_message StoreInfo_size)
qed

lemma GetOperation_step_store_info:
  assumes "list_all StoreInfo_known xs"
    and "length (concat (map (\<lambda>x. WriteMessage L 1 (StoreInfo_ByteSize L x) (StoreInfo_Serialize L x)) xs) @ r) < total_bytes_limit"
  shows "GetOperation_MergePartial L m (concat (map (\<lambda>x. WriteMessage L 1 (StoreInfo_ByteSize L x) (StoreInfo_Serialize L x)) xs) @ r) =
    GetOperation_MergePartial L (m\<lparr>go_store_info := go_store_info m @ xs\<rparr>) r"
  using assms
proof (induction xs arbitrary: m)
  case Nil
  then show ?case by simp
next
  case (Cons x xs)
  then have known: "StoreInfo_known x"
    and len: "length (StoreInfo_Serialize L x) + length (concat (map (\<lambda>x. WriteMessage L 1 (StoreInfo_ByteSize L x) (StoreInfo_Serialize L x)) xs) @ r) < total_bytes_limit"
    using length_write_message [of "StoreInfo_Serialize L x" 1 "StoreInfo_ByteSize L x"]
    by simp_all
  from Cons show ?case by (simp add: GetOperation_item_store_info [OF known len] del: One_nat_def)
qed

lemma GetOperation_item_primary_key:
  assumes known: "ColumnValue_known x" and len: "length (ColumnValue_Serialize L x) + length r < total_bytes_limit"
  shows "GetOperation_MergePartial L m (WriteMessage L 2 (ColumnValue_ByteSize L x) (ColumnValue_Serialize L x) @ r) =
    GetOperation_MergePartial L (m\<lparr>go_primary_key := go_primary_key m @ [x]\<rparr>) r"
proof -
  from len have ser: "length (ColumnValue_Serialize L x) < total_bytes_limit" by simp
  have sw: "GetOperation_switch L (8 * 2 + 2) m ((WriteVarint32 L (length (ColumnValue_Serialize L x)) @ ColumnValue_Serialize L x) @ r) =
      FieldRead (m\<lparr>go_primary_key := go_primary_key m @ [x]\<rparr>) r [18, 26] False"
    using read_message_write [of "ColumnValue_Serialize L x" r "ColumnValue_MergePartial L" ColumnValue_new, OF len ColumnValue_roundtrip [OF known ser]] by (simp add: GetOperation_switch_def GetTagFieldNumber_def)
  show ?thesis
    using merge_partial_write [OF GetOperation_switch_ok _ _ _ sw]
    by (simp add: GetOperation_MergePartial_def write_message ColumnValue_size)
qed

lemma GetOperation_step_primary_key:
  assumes "list_all ColumnValue_known xs"
    and "length (concat (map (\<lambda>x. WriteMessage L 2 (ColumnValue_ByteSize L x) (ColumnValue_Serialize L x)) xs) @ r) < total_bytes_limit"
  shows "GetOperation_MergePartial L m (concat (map (\<lambda>x. WriteMessage L 2 (ColumnValue_ByteSize L x) (ColumnValue_Serialize L x)) xs) @ r) =
    GetOperation_MergePartial L (m\<lparr>go_primary_key := go_primary_key m @ xs\<rparr>) r"
  using assms
proof (induction xs arbitrary: m)
  case Nil
  then show ?case by simp
next
  case (Cons x xs)
  then have known: "ColumnValue_known x"
    and len: "length (ColumnValue_Serialize L x) + length (concat (map (\<lambda>x. WriteMessage L 2 (ColumnValue_ByteSize L x) (ColumnValue_Serialize L x)) xs) @ r) < total_bytes_limit"
    using length_write_message [of "ColumnValue_Serialize L x" 2 "ColumnValue_ByteSize L x"]
    by simp_all
  from Cons show ?case by (simp add: GetOperation_item_primary_key [OF known len] del: One_nat_def)
qed

lemma GetOperation_item_value:
  assumes known: "ColumnValue_known x" and len: "length (ColumnValue_Serialize L x) + length r < total_bytes_limit"
  shows "GetOperation_MergePartial L m (WriteMessage L 3 (ColumnValue_ByteSize L x) (ColumnValue_Serialize L x) @ r) =
    GetOperation_MergePartial L (m\<lparr>go_value := go_value m @ [x]\<rparr>) r"
proof -
  from len have ser: "length (ColumnValue_Serialize L x) < total_bytes_limit" by simp
  have sw: "GetOperation_switch L (8 * 3 + 2) m ((WriteVarint32 L (length (ColumnValue_Serialize L x)) @ ColumnValue_Serialize L x) @ r) =
      FieldRead (m\<lparr>go_value := go_value m @ [x]\<rparr>) r [26] True"
    using read_message_write [of "ColumnValue_Serialize L x" r "ColumnValue_MergePartial L" ColumnValue_new, OF len ColumnValue_roundtrip [OF known ser]] by (simp add: GetOperation_switch_def GetTagFieldNumber_def)
  show ?thesis
    using merge_partial_write [OF GetOperation_switch_ok _ _ _ sw]
    by (simp add: GetOperation_MergePartial_def write_message ColumnValue_size)
qed

lemma GetOperation_step_value:
  assumes "list_all ColumnValue_known xs"
    and "length (concat (map (\<lambda>x. WriteMessage L 3 (ColumnValue_ByteSize L x) (ColumnValue_Serialize L x)) xs) @ r) < total_bytes_limit"
  shows "GetOperation_MergePartial L m (concat (map (\<lambda>x. WriteMessage L 3 (ColumnValue_ByteSize L x) (ColumnValue_Serialize L x)) xs) @ r) =
    GetOperation_MergePartial L (m\<lparr>go_value := go_value m @ xs\<rparr>) r"
  using assms
proof (induction xs arbitrary: m)
  case Nil
  then show ?case by simp
next
  case (Cons x xs)
  then have known: "ColumnValue_known x"
    and len: "length (ColumnValue_Serialize L x) + length (concat (map (\<lambda>x. WriteMessage L 3 (ColumnValue_ByteSize L x) (ColumnValue_Serialize L x)) xs) @ r) < total_bytes_limit"
    using length_write_message [of "ColumnValue_Serialize L x" 3 "ColumnValue_ByteSize L x"]
    by simp_all
  from Cons show ?case by (simp add: GetOperation_item_value [OF known len] del: One_nat_def)
qed

lemma GetOperation_roundtrip:
  assumes known: "GetOperation_known m" and size: "length (GetOperation_Serialize L m) < total_bytes_limit"
  shows "GetOperation_MergePartial L GetOperation_new (GetOperation_Serialize L m) = Parsed m []"
proof -
  have "GetOperation_MergePartial L GetOperation_new (GetOperation_Serialize L m) = GetOperation_MergePartial L GetOperation_new
      (concat (map (\<lambda>x. WriteMessage L 1 (StoreInfo_ByteSize L x) (StoreInfo_Serialize L x)) (go_store_info m)) @
        concat (map (\<lambda>x. WriteMessage L 2 (ColumnValue_ByteSize L x) (ColumnValue_Serialize L x)) (go_primary_key m)) @
        concat (map (\<lambda>x. WriteMessage L 3 (ColumnValue_ByteSize L x) (ColumnValue_Serialize L x)) (go_value m)) @
        [])"
    using known by (simp add: GetOperation_Serialize_def GetOperation_known_def)
  also have "\<dots> = GetOperation_MergePartial L (GetOperation_new\<lparr>go_store_info := go_store_info m\<rparr>)
      (concat (map (\<lambda>x. WriteMessage L 2 (ColumnValue_ByteSize L x) (ColumnValue_Serialize L x)) (go_primary_key m)) @
        concat (map (\<lambda>x. WriteMessage L 3 (ColumnValue_ByteSize L x) (ColumnValue_Serialize L x)) (go_value m)) @
        [])"
    using known size by (subst GetOperation_step_store_info) (simp_all add: GetOperation_new_def GetOperation_Serialize_def GetOperation_known_def)
  also have "\<dots> = GetOperation_MergePartial L (GetOperation_new\<lparr>go_store_info := go_store_info m, go_primary_key := go_primary_key m\<rparr>)
      (concat (map (\<lambda>x. WriteMessage L 3 (ColumnValue_ByteSize L x) (ColumnValue_Serialize L x)) (go_value m)) @
        [])"
    using known size by (subst GetOperation_step_primary_key) (simp_all add: GetOperation_new_def GetOperation_Serialize_def GetOperation_known_def)
  also have "\<dots> = GetOperation_MergePartial L (GetOperation_new\<lparr>go_store_info := go_store_info m, go_primary_key := go_primary_key m, go_value := go_value m\<rparr>)
      ([])"
    using known size by (subst GetOperation_step_value) (simp_all add: GetOperation_new_def GetOperation_Serialize_def GetOperation_known_def)
  also have "\<dots> = Parsed m []"
    using known by (cases m) (simp add: GetOperation_MergePartial_def GetOperation_known_def GetOperation_new_def)
  finally show ?thesis .
qed

end

end
