(* ===== verification/FrameProto.thy ===== *)
theory FrameProto
  imports ProtoWire
begin

text \<open>
  The message classes of \<open>volodb-common/ProtoBuf/Frame.pb.cc\<close>: one record per class, an
  optional or required field as an option (the has-bit and the value), a repeated field as a list,
  and the fields the schema does not know. Per class: \<open>new\<close>, \<open>Clear\<close>, the \<open>switch\<close> of
  \<open>MergePartialFromCodedStream\<close> with the tags it expects next, \<open>SerializeWithCachedSizes\<close>,
  \<open>ByteSize\<close>, \<open>IsInitialized\<close>, \<open>MergeFrom\<close> and \<open>CopyFrom\<close>. The lemmas show that the cached size
  is the length of what is written and that a message without unknown fields is read back.
\<close>

section \<open>The enumeration FrameItem_Type\<close>

datatype frame_item_type =
    FrameItem_Type_NONE
  | FrameItem_Type_CREATE_DATABASE
  | FrameItem_Type_DROP_DATABASE
  | FrameItem_Type_CREATE_STORE
  | FrameItem_Type_DROP_STORE
  | FrameItem_Type_SET
  | FrameItem_Type_GET
  | FrameItem_Type_DELETE
  | FrameItem_Type_SERVER_RESPONSE

fun FrameItem_Type_value :: "frame_item_type \<Rightarrow> int32" where
  "FrameItem_Type_value FrameItem_Type_NONE = 1"
| "FrameItem_Type_value FrameItem_Type_CREATE_DATABASE = 2"
| "FrameItem_Type_value FrameItem_Type_DROP_DATABASE = 3"
| "FrameItem_Type_value FrameItem_Type_CREATE_STORE = 4"
| "FrameItem_Type_value FrameItem_Type_DROP_STORE = 5"
| "FrameItem_Type_value FrameItem_Type_SET = 6"
| "FrameItem_Type_value FrameItem_Type_GET = 7"
| "FrameItem_Type_value FrameItem_Type_DELETE = 8"
| "FrameItem_Type_value FrameItem_Type_SERVER_RESPONSE = 9"

definition FrameItem_Type_of :: "int32 \<Rightarrow> frame_item_type option" where
  "FrameItem_Type_of v =
     (if v = 1 then Some FrameItem_Type_NONE
      else if v = 2 then Some FrameItem_Type_CREATE_DATABASE
      else if v = 3 then Some FrameItem_Type_DROP_DATABASE
      else if v = 4 then Some FrameItem_Type_CREATE_STORE
      else if v = 5 then Some FrameItem_Type_DROP_STORE
      else if v = 6 then Some FrameItem_Type_SET
      else if v = 7 then Some FrameItem_Type_GET
      else if v = 8 then Some FrameItem_Type_DELETE
      else if v = 9 then Some FrameItem_Type_SERVER_RESPONSE
      else None)"

lemma FrameItem_Type_of_value [simp]: "FrameItem_Type_of (FrameItem_Type_value t) = Some t"
  by (cases t) (simp_all add: FrameItem_Type_of_def)

section \<open>FrameItem\<close>

record frame_item =
  fi_type :: "frame_item_type option"
  fi_data :: "bytes option"
  fi_identifier :: "bytes option"
  fi_unknown :: "unknown_field list"

definition FrameItem_new :: frame_item where
  "FrameItem_new = \<lparr>fi_type = None, fi_data = None, fi_identifier = None, fi_unknown = []\<rparr>"

definition FrameItem_Clear :: "frame_item \<Rightarrow> frame_item" where
  "FrameItem_Clear m = m\<lparr>fi_type := None, fi_data := None, fi_identifier := None, fi_unknown := []\<rparr>"

definition FrameItem_has_type :: "frame_item \<Rightarrow> bool" where
  [accessors]: "FrameItem_has_type m \<longleftrightarrow> fi_type m \<noteq> None"

definition FrameItem_clear_type :: "frame_item \<Rightarrow> frame_item" where
  [accessors]: "FrameItem_clear_type m = m\<lparr>fi_type := None\<rparr>"

definition FrameItem_type :: "frame_item \<Rightarrow> frame_item_type" where
  [accessors]: "FrameItem_type m = (case fi_type m of None \<Rightarrow> FrameItem_Type_NONE | Some x \<Rightarrow> x)"

definition FrameItem_set_type :: "frame_item_type \<Rightarrow> frame_item \<Rightarrow> frame_item" where
  [accessors]: "FrameItem_set_type x m = m\<lparr>fi_type := Some x\<rparr>"

definition FrameItem_has_data :: "frame_item \<Rightarrow> bool" where
  [accessors]: "FrameItem_has_data m \<longleftrightarrow> fi_data m \<noteq> None"

definition FrameItem_clear_data :: "frame_item \<Rightarrow> frame_item" where
  [accessors]: "FrameItem_clear_data m = m\<lparr>fi_data := None\<rparr>"

definition FrameItem_data :: "frame_item \<Rightarrow> bytes" where
  [accessors]: "FrameItem_data m = (case fi_data m of None \<Rightarrow> [] | Some x \<Rightarrow> x)"

definition FrameItem_set_data :: "bytes \<Rightarrow> frame_item \<Rightarrow> frame_item" where
  [accessors]: "FrameItem_set_data x m = m\<lparr>fi_data := Some x\<rparr>"

definition FrameItem_has_identifier :: "frame_item \<Rightarrow> bool" where
  [accessors]: "FrameItem_has_identifier m \<longleftrightarrow> fi_identifier m \<noteq> None"

definition FrameItem_clear_identifier :: "frame_item \<Rightarrow> frame_item" where
  [accessors]: "FrameItem_clear_identifier m = m\<lparr>fi_identifier := None\<rparr>"

definition FrameItem_identifier :: "frame_item \<Rightarrow> bytes" where
  [accessors]: "FrameItem_identifier m = (case fi_identifier m of None \<Rightarrow> [] | Some x \<Rightarrow> x)"

definition FrameItem_set_identifier :: "bytes \<Rightarrow> frame_item \<Rightarrow> frame_item" where
  [accessors]: "FrameItem_set_identifier x m = m\<lparr>fi_identifier := Some x\<rparr>"

definition FrameItem_add_unknown :: "unknown_field list \<Rightarrow> frame_item \<Rightarrow> frame_item" where
  "FrameItem_add_unknown us m = m\<lparr>fi_unknown := fi_unknown m @ us\<rparr>"

definition FrameItem_switch :: "pb_lib \<Rightarrow> nat \<Rightarrow> frame_item \<Rightarrow> bytes \<Rightarrow> frame_item switch_result" where
  "FrameItem_switch L tag m inp =
     (if GetTagFieldNumber tag = 1 then
        (if tag = 8 then
           (case ReadEnum L inp of
              None \<Rightarrow> ReadFailed
            | Some (v, r) \<Rightarrow>
                (case FrameItem_Type_of v of
                   Some t \<Rightarrow> FieldRead (m\<lparr>fi_type := Some t\<rparr>) r [18] False
                 | None \<Rightarrow> FieldRead (FrameItem_add_unknown [AddVarint 1 v] m) r [18] False))
         else Unusual)
      else if GetTagFieldNumber tag = 2 then
        (if tag = 18 then
           (case ReadBytes L inp of
              None \<Rightarrow> ReadFailed
            | Some (x, r) \<Rightarrow> FieldRead (m\<lparr>fi_data := Some x\<rparr>) r [26] False)
         else Unusual)
      else if GetTagFieldNumber tag = 3 then
        (if tag = 26 then
           (case ReadString L inp of
              None \<Rightarrow> ReadFailed
            | Some (x, r) \<Rightarrow> FieldRead (m\<lparr>fi_identifier := Some x\<rparr>) r [] True)
         else Unusual)
      else Unusual)"

definition FrameItem_MergePartial :: "pb_lib \<Rightarrow> frame_item \<Rightarrow> bytes \<Rightarrow> frame_item parse_result" where
  "FrameItem_MergePartial L = merge_partial L (FrameItem_switch L) FrameItem_add_unknown"

definition FrameItem_Serialize :: "pb_lib \<Rightarrow> frame_item \<Rightarrow> bytes" where
  "FrameItem_Serialize L m =
     opt_bytes (\<lambda>x. WriteEnum L 1 (FrameItem_Type_value x)) (fi_type m) @
     opt_bytes (WriteBytes L 2) (fi_data m) @
     opt_bytes (WriteString L 3) (fi_identifier m) @
     (if fi_unknown m = [] then [] else SerializeUnknownFields L (fi_unknown m))"

definition FrameItem_SerializeToArray :: "pb_lib \<Rightarrow> frame_item \<Rightarrow> bytes \<Rightarrow> bytes" where
  "FrameItem_SerializeToArray L m target0 =
     (let
        target1 = opt_write (\<lambda>x. WriteEnumToArray L 1 (FrameItem_Type_value x)) (fi_type m) target0;
        target2 = opt_write (WriteBytesToArray L 2) (fi_data m) target1;
        target3 = opt_write (WriteStringToArray L 3) (fi_identifier m) target2;
        target4 = (if fi_unknown m = [] then target3 else SerializeUnknownFieldsToArray L (fi_unknown m) target3)
      in target4)"

definition FrameItem_ByteSize :: "pb_lib \<Rightarrow> frame_item \<Rightarrow> nat" where
  "FrameItem_ByteSize L m =
     opt_size (\<lambda>x. 1 + EnumSize L (FrameItem_Type_value x)) (fi_type m) +
     opt_size (\<lambda>x. 1 + BytesSize L x) (fi_data m) +
     opt_size (\<lambda>x. 1 + StringSize L x) (fi_identifier m) +
     (if fi_unknown m = [] then 0 else ComputeUnknownFieldsSize L (fi_unknown m))"

definition FrameItem_IsInitialized :: "frame_item \<Rightarrow> bool" where
  "FrameItem_IsInitialized m \<longleftrightarrow> fi_type m \<noteq> None \<and>
     fi_data m \<noteq> None"

definition FrameItem_MergeFrom :: "frame_item \<Rightarrow> frame_item \<Rightarrow> frame_item" where
  "FrameItem_MergeFrom m src =
     m\<lparr>fi_type := (case fi_type src of None \<Rightarrow> fi_type m | Some x \<Rightarrow> Some x),
       fi_data := (case fi_data src of None \<Rightarrow> fi_data m | Some x \<Rightarrow> Some x),
       fi_identifier := (case fi_identifier src of None \<Rightarrow> fi_identifier m | Some x \<Rightarrow> Some x),
       fi_unknown := fi_unknown m @ fi_unknown src\<rparr>"

definition FrameItem_CopyFrom :: "frame_item \<Rightarrow> frame_item \<Rightarrow> frame_item" where
  "FrameItem_CopyFrom m src = FrameItem_MergeFrom (FrameItem_Clear m) src"

text \<open>No field outside the schema, here and in nested messages.\<close>

definition FrameItem_known :: "frame_item \<Rightarrow> bool" where
  "FrameItem_known m \<longleftrightarrow> fi_unknown m = []"

lemma FrameItem_MergeFrom_new: "FrameItem_MergeFrom FrameItem_new m = m"
  by (cases m) (simp add: FrameItem_MergeFrom_def FrameItem_new_def split: option.splits)

lemma FrameItem_Clear_new: "FrameItem_Clear m = FrameItem_new"
  by (cases m) (simp add: FrameItem_Clear_def FrameItem_new_def)

lemma FrameItem_CopyFrom_copy: "FrameItem_CopyFrom m src = src"
  by (simp add: FrameItem_CopyFrom_def FrameItem_Clear_new FrameItem_MergeFrom_new)

context protobuf_wire
begin

lemma FrameItem_switch_ok: "switch_ok (FrameItem_switch L)"
  by (rule switch_okI)
    (auto simp: FrameItem_switch_def dest!: consumes split: if_splits option.splits)

lemma FrameItem_merge_total: "FrameItem_MergePartial L m inp \<noteq> OutOfFuel"
  by (simp add: FrameItem_MergePartial_def merge_partial_total FrameItem_switch_ok)

lemma FrameItem_size: "FrameItem_ByteSize L m = length (FrameItem_Serialize L m)"
  by (simp add: FrameItem_ByteSize_def FrameItem_Serialize_def length_opt_bytes length_concat_map sum_list_Suc
      write_sizes unknown_size)

lemma FrameItem_to_array: "FrameItem_SerializeToArray L m = (\<lambda>target. target @ FrameItem_Serialize L m)"
  by (rule ext) (simp add: FrameItem_SerializeToArray_def FrameItem_Serialize_def Let_def to_array)

lemma FrameItem_step_type:
  assumes "fi_type m = None"
  shows "FrameItem_MergePartial L m (opt_bytes (\<lambda>x. WriteEnum L 1 (FrameItem_Type_value x)) v @ r) =
    FrameItem_MergePartial L (m\<lparr>fi_type := v\<rparr>) r"
proof (cases v)
  case None
  with assms(1) show ?thesis by (cases m) simp
next
  case (Some x)
  have sw: "FrameItem_switch L (8 * 1 + 0) m ((WriteEnumNoTag L (FrameItem_Type_value x)) @ r) =
      FieldRead (m\<lparr>fi_type := Some x\<rparr>) r [18] False"
    using assms Some by (simp add: FrameItem_switch_def GetTagFieldNumber_def read_enum)
  show ?thesis
    using merge_partial_write [OF FrameItem_switch_ok _ _ _ sw]
    by (simp add: Some FrameItem_MergePartial_def write_enum)
qed

lemma FrameItem_step_data:
  assumes "fi_data m = None"
    and "length (opt_bytes (WriteBytes L 2) v @ r) < total_bytes_limit"
  shows "FrameItem_MergePartial L m (opt_bytes (WriteBytes L 2) v @ r) =
    FrameItem_MergePartial L (m\<lparr>fi_data := v\<rparr>) r"
proof (cases v)
  case None
  with assms(1) show ?thesis by (cases m) simp
next
  case (Some x)
  with assms(2) have len: "length x + length r < total_bytes_limit"
    using length_write_bytes [of x 2] by simp
  have sw: "FrameItem_switch L (8 * 2 + 2) m ((WriteVarint32 L (length x) @ x) @ r) =
      FieldRead (m\<lparr>fi_data := Some x\<rparr>) r [26] False"
    using assms Some len by (simp add: FrameItem_switch_def GetTagFieldNumber_def read_bytes)
  show ?thesis
    using merge_partial_write [OF FrameItem_switch_ok _ _ _ sw]
    by (simp add: Some FrameItem_MergePartial_def write_bytes)
qed

lemma FrameItem_step_identifier:
  assumes "fi_identifier m = None"
    and "length (opt_bytes (WriteString L 3) v @ r) < total_bytes_limit"
  shows "FrameItem_MergePartial L m (opt_bytes (WriteString L 3) v @ r) =
    FrameItem_MergePartial L (m\<lparr>fi_identifier := v\<rparr>) r"
proof (cases v)
  case None
  with assms(1) show ?thesis by (cases m) simp
next
  case (Some x)
  with assms(2) have len: "length x + length r < total_bytes_limit"
    using length_write_string [of x 3] by simp
  have sw: "FrameItem_switch L (8 * 3 + 2) m ((WriteVarint32 L (length x) @ x) @ r) =
      FieldRead (m\<lparr>fi_identifier := Some x\<rparr>) r [] True"
    using assms Some len by (simp add: FrameItem_switch_def GetTagFieldNumber_def read_string)
  show ?thesis
    using merge_partial_write [OF FrameItem_switch_ok _ _ _ sw]
    by (simp add: Some FrameItem_MergePartial_def write_string)
qed

lemma FrameItem_roundtrip:
  assumes known: "FrameItem_known m" and size: "length (FrameItem_Serialize L m) < total_bytes_limit"
  shows "FrameItem_MergePartial L FrameItem_new (FrameItem_Serialize L m) = Parsed m []"
proof -
  have "FrameItem_MergePartial L FrameItem_new (FrameItem_Serialize L m) = FrameItem_MergePartial L FrameItem_new
      (opt_bytes (\<lambda>x. WriteEnum L 1 (FrameItem_Type_value x)) (fi_type m) @
        opt_bytes (WriteBytes L 2) (fi_data m) @
        opt_bytes (WriteString L 3) (fi_identifier m) @
        [])"
    using known by (simp add: FrameItem_Serialize_def FrameItem_known_def)
  also have "\<dots> = FrameItem_MergePartial L (FrameItem_new\<lparr>fi_type := fi_type m\<rparr>)
      (opt_bytes (WriteBytes L 2) (fi_data m) @
        opt_bytes (WriteString L 3) (fi_identifier m) @
        [])"
    by (subst FrameItem_step_type) (simp_all add: FrameItem_new_def)
  also have "\<dots> = FrameItem_MergePartial L (FrameItem_new\<lparr>fi_type := fi_type m, fi_data := fi_data m\<rparr>)
      (opt_bytes (WriteString L 3) (fi_identifier m) @
        [])"
    using known size by (subst FrameItem_step_data) (simp_all add: FrameItem_new_def FrameItem_Serialize_def FrameItem_known_def)
  also have "\<dots> = FrameItem_MergePartial L (FrameItem_new\<lparr>fi_type := fi_type m, fi_data := fi_data m, fi_identifier := fi_identifier m\<rparr>)
      ([])"
    using known size by (subst FrameItem_step_identifier) (simp_all add: FrameItem_new_def FrameItem_Serialize_def FrameItem_known_def)
  also have "\<dots> = Parsed m []"
    using known by (cases m) (simp add: FrameItem_MergePartial_def FrameItem_known_def FrameItem_new_def)
  finally show ?thesis .
qed

end

section \<open>Frame\<close>

record frame =
  fr_identifier :: "bytes option"
  fr_item :: "frame_item list"
  fr_unknown :: "unknown_field list"

definition Frame_new :: frame where
  "Frame_new = \<lparr>fr_identifier = None, fr_item = [], fr_unknown = []\<rparr>"

definition Frame_Clear :: "frame \<Rightarrow> frame" where
  "Frame_Clear m = m\<lparr>fr_identifier := None, fr_item := [], fr_unknown := []\<rparr>"

definition Frame_has_identifier :: "frame \<Rightarrow> bool" where
  [accessors]: "Frame_has_identifier m \<longleftrightarrow> fr_identifier m \<noteq> None"

definition Frame_clear_identifier :: "frame \<Rightarrow> frame" where
  [accessors]: "Frame_clear_identifier m = m\<lparr>fr_identifier := None\<rparr>"

definition Frame_identifier :: "frame \<Rightarrow> bytes" where
  [accessors]: "Frame_identifier m = (case fr_identifier m of None \<Rightarrow> [] | Some x \<Rightarrow> x)"

definition Frame_set_identifier :: "bytes \<Rightarrow> frame \<Rightarrow> frame" where
  [accessors]: "Frame_set_identifier x m = m\<lparr>fr_identifier := Some x\<rparr>"

definition Frame_item_size :: "frame \<Rightarrow> nat" where
  [accessors]: "Frame_item_size m = length (fr_item m)"

definition Frame_clear_item :: "frame \<Rightarrow> frame" where
  [accessors]: "Frame_clear_item m = m\<lparr>fr_item := []\<rparr>"

definition Frame_item :: "frame \<Rightarrow> nat \<Rightarrow> frame_item result" where
  [accessors]: "Frame_item m i = index (fr_item m) i"

definition Frame_add_item :: "(frame_item \<Rightarrow> frame_item) \<Rightarrow> frame \<Rightarrow> frame" where
  [accessors]: "Frame_add_item h m = m\<lparr>fr_item := fr_item m @ [h FrameItem_new]\<rparr>"

definition Frame_add_unknown :: "unknown_field list \<Rightarrow> frame \<Rightarrow> frame" where
  "Frame_add_unknown us m = m\<lparr>fr_unknown := fr_unknown m @ us\<rparr>"

definition Frame_switch :: "pb_lib \<Rightarrow> nat \<Rightarrow> frame \<Rightarrow> bytes \<Rightarrow> frame switch_result" where
  "Frame_switch L tag m inp =
     (if GetTagFieldNumber tag = 1 then
        (if tag = 10 then
           (case ReadString L inp of
              None \<Rightarrow> ReadFailed
            | Some (x, r) \<Rightarrow> FieldRead (m\<lparr>fr_identifier := Some x\<rparr>) r [18] False)
         else Unusual)
      else if GetTagFieldNumber tag = 2 then
        (if tag = 18 then
           (case read_message L (FrameItem_MergePartial L) FrameItem_new inp of
              None \<Rightarrow> ReadFailed
            | Some (x, r) \<Rightarrow> FieldRead (m\<lparr>fr_item := fr_item m @ [x]\<rparr>) r [18] True)
         else Unusual)
      else Unusual)"

definition Frame_MergePartial :: "pb_lib \<Rightarrow> frame \<Rightarrow> bytes \<Rightarrow> frame parse_result" where
  "Frame_MergePartial L = merge_partial L (Frame_switch L) Frame_add_unknown"

definition Frame_Serialize :: "pb_lib \<Rightarrow> frame \<Rightarrow> bytes" where
  "Frame_Serialize L m =
     opt_bytes (WriteString L 1) (fr_identifier m) @
     concat (map (\<lambda>x. WriteMessage L 2 (FrameItem_ByteSize L x) (FrameItem_Serialize L x)) (fr_item m)) @
     (if fr_unknown m = [] then [] else SerializeUnknownFields L (fr_unknown m))"

definition Frame_SerializeToArray :: "pb_lib \<Rightarrow> frame \<Rightarrow> bytes \<Rightarrow> bytes" where
  "Frame_SerializeToArray L m target0 =
     (let
        target1 = opt_write (WriteStringToArray L 1) (fr_identifier m) target0;
        target2 = fold (\<lambda>x. WriteMessageToArray L 2 (FrameItem_ByteSize L x) (FrameItem_SerializeToArray L x)) (fr_item m) target1;
        target3 = (if fr_unknown m = [] then target2 else SerializeUnknownFieldsToArray L (fr_unknown m) target2)
      in target3)"

definition Frame_ByteSize :: "pb_lib \<Rightarrow> frame \<Rightarrow> nat" where
  "Frame_ByteSize L m =
     opt_size (\<lambda>x. 1 + StringSize L x) (fr_identifier m) +
     1 * length (fr_item m) +
     sum_list (map (\<lambda>x. MessageSize L (FrameItem_ByteSize L x)) (fr_item m)) +
     (if fr_unknown m = [] then 0 else ComputeUnknownFieldsSize L (fr_unknown m))"

definition Frame_IsInitialized :: "frame \<Rightarrow> bool" where
  "Frame_IsInitialized m \<longleftrightarrow> list_all FrameItem_IsInitialized (fr_item m)"

definition Frame_MergeFrom :: "frame \<Rightarrow> frame \<Rightarrow> frame" where
  "Frame_MergeFrom m src =
     m\<lparr>fr_identifier := (case fr_identifier src of None \<Rightarrow> fr_identifier m | Some x \<Rightarrow> Some x),
       fr_item := fr_item m @ fr_item src,
       fr_unknown := fr_unknown m @ fr_unknown src\<rparr>"

definition Frame_CopyFrom :: "frame \<Rightarrow> frame \<Rightarrow> frame" where
  "Frame_CopyFrom m src = Frame_MergeFrom (Frame_Clear m) src"

text \<open>No field outside the schema, here and in nested messages.\<close>

definition Frame_known :: "frame \<Rightarrow> bool" where
  "Frame_known m \<longleftrightarrow> fr_unknown m = [] \<and> list_all FrameItem_known (fr_item m)"

lemma Frame_MergeFrom_new: "Frame_MergeFrom Frame_new m = m"
  by (cases m) (simp add: Frame_MergeFrom_def Frame_new_def split: option.splits)

lemma Frame_Clear_new: "Frame_Clear m = Frame_new"
  by (cases m) (simp add: Frame_Clear_def Frame_new_def)

lemma Frame_CopyFrom_copy: "Frame_CopyFrom m src = src"
  by (simp add: Frame_CopyFrom_def Frame_Clear_new Frame_MergeFrom_new)

context protobuf_wire
begin

lemma Frame_switch_ok: "switch_ok (Frame_switch L)"
  by (rule switch_okI)
    (auto simp: Frame_switch_def dest!: consumes split: if_splits option.splits)

lemma Frame_merge_total: "Frame_MergePartial L m inp \<noteq> OutOfFuel"
  by (simp add: Frame_MergePartial_def merge_partial_total Frame_switch_ok)

lemma Frame_size: "Frame_ByteSize L m = length (Frame_Serialize L m)"
  by (simp add: Frame_ByteSize_def Frame_Serialize_def length_opt_bytes length_concat_map sum_list_Suc
      write_sizes unknown_size FrameItem_size)

lemma Frame_to_array: "Frame_SerializeToArray L m = (\<lambda>target. target @ Frame_Serialize L m)"
  by (rule ext) (simp add: Frame_SerializeToArray_def Frame_Serialize_def Let_def to_array FrameItem_to_array)

lemma Frame_step_identifier:
  assumes "fr_identifier m = None"
    and "length (opt_bytes (WriteString L 1) v @ r) < total_bytes_limit"
  shows "Frame_MergePartial L m (opt_bytes (WriteString L 1) v @ r) =
    Frame_MergePartial L (m\<lparr>fr_identifier := v\<rparr>) r"
proof (cases v)
  case None
  with assms(1) show ?thesis by (cases m) simp
next
  case (Some x)
  with assms(2) have len: "length x + length r < total_bytes_limit"
    using length_write_string [of x 1] by simp
  have sw: "Frame_switch L (8 * 1 + 2) m ((WriteVarint32 L (length x) @ x) @ r) =
      FieldRead (m\<lparr>fr_identifier := Some x\<rparr>) r [18] False"
    using assms Some len by (simp add: Frame_switch_def GetTagFieldNumber_def read_string)
  show ?thesis
    using merge_partial_write [OF Frame_switch_ok _ _ _ sw]
    by (simp add: Some Frame_MergePartial_def write_string)
qed

lemma Frame_item_item:
  assumes known: "FrameItem_known x" and len: "length (FrameItem_Serialize L x) + length r < total_bytes_limit"
  shows "Frame_MergePartial L m (WriteMessage L 2 (FrameItem_ByteSize L x) (FrameItem_Serialize L x) @ r) =
    Frame_MergePartial L (m\<lparr>fr_item := fr_item m @ [x]\<rparr>) r"
proof -
  from len have ser: "length (FrameItem_Serialize L x) < total_bytes_limit" by simp
  have sw: "Frame_switch L (8 * 2 + 2) m ((WriteVarint32 L (length (FrameItem_Serialize L x)) @ FrameItem_Serialize L x) @ r) =
      FieldRead (m\<lparr>fr_item := fr_item m @ [x]\<rparr>) r [18] True"
    using read_message_write [of "FrameItem_Serialize L x" r "FrameItem_MergePartial L" FrameItem_new, OF len FrameItem_roundtrip [OF known ser]] by (simp add: Frame_switch_def GetTagFieldNumber_def)
  show ?thesis
    using merge_partial_write [OF Frame_switch_ok _ _ _ sw]
    by (simp add: Frame_MergePartial_def write_message FrameItem_size)
qed

lemma Frame_step_item:
  assumes "list_all FrameItem_known xs"
    and "length (concat (map (\<lambda>x. WriteMessage L 2 (FrameItem_ByteSize L x) (FrameItem_Serialize L x)) xs) @ r) < total_bytes_limit"
  shows "Frame_MergePartial L m (concat (map (\<lambda>x. WriteMessage L 2 (FrameItem_ByteSize L x) (FrameItem_Serialize L x)) xs) @ r) =
    Frame_MergePartial L (m\<lparr>fr_item := fr_item m @ xs\<rparr>) r"
  using assms
proof (induction xs arbitrary: m)
  case Nil
  then show ?case by simp
next
  case (Cons x xs)
  then have known: "FrameItem_known x"
    and len: "length (FrameItem_Serialize L x) + length (concat (map (\<lambda>x. WriteMessage L 2 (FrameItem_ByteSize L x) (FrameItem_Serialize L x)) xs) @ r) < total_bytes_limit"
    using length_write_message [of "FrameItem_Serialize L x" 2 "FrameItem_ByteSize L x"]
    by simp_all
  from Cons show ?case by (simp add: Frame_item_item [OF known len] del: One_nat_def)
qed

lemma Frame_roundtrip:
  assumes known: "Frame_known m" and size: "length (Frame_Serialize L m) < total_bytes_limit"
  shows "Frame_MergePartial L Frame_new (Frame_Serialize L m) = Parsed m []"
proof -
  have "Frame_MergePartial L Frame_new (Frame_Serialize L m) = Frame_MergePartial L Frame_new
      (opt_bytes (WriteString L 1) (fr_identifier m) @
        concat (map (\<lambda>x. WriteMessage L 2 (FrameItem_ByteSize L x) (FrameItem_Serialize L x)) (fr_item m)) @
        [])"
    using known by (simp add: Frame_Serialize_def Frame_known_def)
  also have "\<dots> = Frame_MergePartial L (Frame_new\<lparr>fr_identifier := fr_identifier m\<rparr>)
      (concat (map (\<lambda>x. WriteMessage L 2 (FrameItem_ByteSize L x) (FrameItem_Serialize L x)) (fr_item m)) @
        [])"
    using known size by (subst Frame_step_identifier) (simp_all add: Frame_new_def Frame_Serialize_def Frame_known_def)
  also have "\<dots> = Frame_MergePartial L (Frame_new\<lparr>fr_identifier := fr_identifier m, fr_item := fr_item m\<rparr>)
      ([])"
    using known size by (subst Frame_step_item) (simp_all add: Frame_new_def Frame_Serialize_def Frame_known_def)
  also have "\<dots> = Parsed m []"
    using known by (cases m) (simp add: Frame_MergePartial_def Frame_known_def Frame_new_def)
  finally show ?thesis .
qed

end

end
