(* ===== verification/ResultProto.thy ===== *)
theory ResultProto
  imports ColumnProto FrameProto
begin

text \<open>
  The message classes of \<open>volodb-common/ProtoBuf/Result.pb.cc\<close>: one record per class, an
  optional or required field as an option (the has-bit and the value), a repeated field as a list,
  and the fields the schema does not know. Per class: \<open>new\<close>, \<open>Clear\<close>, the \<open>switch\<close> of
  \<open>MergePartialFromCodedStream\<close> with the tags it expects next, \<open>SerializeWithCachedSizes\<close>,
  \<open>ByteSize\<close>, \<open>IsInitialized\<close>, \<open>MergeFrom\<close> and \<open>CopyFrom\<close>. The lemmas show that the cached size
  is the length of what is written and that a message without unknown fields is read back.
\<close>

section \<open>Row\<close>

record row =
  rw_column :: "column_value list"
  rw_unknown :: "unknown_field list"

definition Row_new :: row where
  "Row_new = \<lparr>rw_column = [], rw_unknown = []\<rparr>"

definition Row_Clear :: "row \<Rightarrow> row" where
  "Row_Clear m = m\<lparr>rw_column := [], rw_unknown := []\<rparr>"

definition Row_column_size :: "row \<Rightarrow> nat" where
  [accessors]: "Row_column_size m = length (rw_column m)"

definition Row_clear_column :: "row \<Rightarrow> row" where
  [accessors]: "Row_clear_column m = m\<lparr>rw_column := []\<rparr>"

definition Row_column :: "row \<Rightarrow> nat \<Rightarrow> column_value result" where
  [accessors]: "Row_column m i = index (rw_column m) i"

definition Row_add_column :: "(column_value \<Rightarrow> column_value) \<Rightarrow> row \<Rightarrow> row" where
  [accessors]: "Row_add_column h m = m\<lparr>rw_column := rw_column m @ [h ColumnValue_new]\<rparr>"

definition Row_add_unknown :: "unknown_field list \<Rightarrow> row \<Rightarrow> row" where
  "Row_add_unknown us m = m\<lparr>rw_unknown := rw_unknown m @ us\<rparr>"

definition Row_switch :: "pb_lib \<Rightarrow> nat \<Rightarrow> row \<Rightarrow> bytes \<Rightarrow> row switch_result" where
  "Row_switch L tag m inp =
     (if GetTagFieldNumber tag = 1 then
        (if tag = 10 then
           (case read_message L (ColumnValue_MergePartial L) ColumnValue_new inp of
              None \<Rightarrow> ReadFailed
            | Some (x, r) \<Rightarrow> FieldRead (m\<lparr>rw_column := rw_column m @ [x]\<rparr>) r [10] True)
         else Unusual)
      else Unusual)"

definition Row_MergePartial :: "pb_lib \<Rightarrow> row \<Rightarrow> bytes \<Rightarrow> row parse_result" where
  "Row_MergePartial L = merge_partial L (Row_switch L) Row_add_unknown"

definition Row_Serialize :: "pb_lib \<Rightarrow> row \<Rightarrow> bytes" where
  "Row_Serialize L m =
     concat (map (\<lambda>x. WriteMessage L 1 (ColumnValue_ByteSize L x) (ColumnValue_Serialize L x)) (rw_column m)) @
     (if rw_unknown m = [] then [] else SerializeUnknownFields L (rw_unknown m))"

definition Row_SerializeToArray :: "pb_lib \<Rightarrow> row \<Rightarrow> bytes \<Rightarrow> bytes" where
  "Row_SerializeToArray L m target0 =
     (let
        target1 = fold (\<lambda>x. WriteMessageToArray L 1 (ColumnValue_ByteSize L x) (ColumnValue_SerializeToArray L x)) (rw_column m) target0;
        target2 = (if rw_unknown m = [] then target1 else SerializeUnknownFieldsToArray L (rw_unknown m) target1)
      in target2)"

definition Row_ByteSize :: "pb_lib \<Rightarrow> row \<Rightarrow> nat" where
  "Row_ByteSize L m =
     1 * length (rw_column m) +
     sum_list (map (\<lambda>x. MessageSize L (ColumnValue_ByteSize L x)) (rw_column m)) +
     (if rw_unknown m = [] then 0 else ComputeUnknownFieldsSize L (rw_unknown m))"

definition Row_IsInitialized :: "row \<Rightarrow> bool" where
  "Row_IsInitialized m \<longleftrightarrow> list_all ColumnValue_IsInitialized (rw_column m)"

definition Row_MergeFrom :: "row \<Rightarrow> row \<Rightarrow> row" where
  "Row_MergeFrom m src =
     m\<lparr>rw_column := rw_column m @ rw_column src,
       rw_unknown := rw_unknown m @ rw_unknown src\<rparr>"

definition Row_CopyFrom :: "row \<Rightarrow> row \<Rightarrow> row" where
  "Row_CopyFrom m src = Row_MergeFrom (Row_Clear m) src"

text \<open>No field outside the schema, here and in nested messages.\<close>

definition Row_known :: "row \<Rightarrow> bool" where
  "Row_known m \<longleftrightarrow> rw_unknown m = [] \<and> list_all ColumnValue_known (rw_column m)"

lemma Row_MergeFrom_new: "Row_MergeFrom Row_new m = m"
  by (cases m) (simp add: Row_MergeFrom_def Row_new_def split: option.splits)

lemma Row_Clear_new: "Row_Clear m = Row_new"
  by (cases m) (simp add: Row_Clear_def Row_new_def)

lemma Row_CopyFrom_copy: "Row_CopyFrom m src = src"
  by (simp add: Row_CopyFrom_def Row_Clear_new Row_MergeFrom_new)

context protobuf_wire
begin

lemma Row_switch_ok: "switch_ok (Row_switch L)"
  by (rule switch_okI)
    (auto simp: Row_switch_def dest!: consumes split: if_splits option.splits)

lemma Row_merge_total: "Row_MergePartial L m inp \<noteq> OutOfFuel"
  by (simp add: Row_MergePartial_def merge_partial_total Row_switch_ok)

lemma Row_size: "Row_ByteSize L m = length (Row_Serialize L m)"
  by (simp add: Row_ByteSize_def Row_Serialize_def length_opt_bytes length_concat_map sum_list_Suc
      write_sizes unknown_size ColumnValue_size)

lemma Row_to_array: "Row_SerializeToArray L m = (\<lambda>target. target @ Row_Serialize L m)"
  by (rule ext) (simp add: Row_SerializeToArray_def Row_Serialize_def Let_def to_array ColumnValue_to_array)

lemma Row_item_column:
  assumes known: "ColumnValue_known x" and len: "length (ColumnValue_Serialize L x) + length r < total_bytes_limit"
  shows "Row_MergePartial L m (WriteMessage L 1 (ColumnValue_ByteSize L x) (ColumnValue_Serialize L x) @ r) =
    Row_MergePartial L (m\<lparr>rw_column := rw_column m @ [x]\<rparr>) r"
proof -
  from len have ser: "length (ColumnValue_Serialize L x) < total_bytes_limit" by simp
  have sw: "Row_switch L (8 * 1 + 2) m ((WriteVarint32 L (length (ColumnValue_Serialize L x)) @ ColumnValue_Serialize L x) @ r) =
      FieldRead (m\<lparr>rw_column := rw_column m @ [x]\<rparr>) r [10] True"
    using read_message_write [of "ColumnValue_Serialize L x" r "ColumnValue_MergePartial L" ColumnValue_new, OF len ColumnValue_roundtrip [OF known ser]] by (simp add: Row_switch_def GetTagFieldNumber_def)
  show ?thesis
    using merge_partial_write [OF Row_switch_ok _ _ _ sw]
    by (simp add: Row_MergePartial_def write_message ColumnValue_size)
qed

lemma Row_step_column:
  assumes "list_all ColumnValue_known xs"
    and "length (concat (map (\<lambda>x. WriteMessage L 1 (ColumnValue_ByteSize L x) (ColumnValue_Serialize L x)) xs) @ r) < total_bytes_limit"
  shows "Row_MergePartial L m (concat (map (\<lambda>x. WriteMessage L 1 (ColumnValue_ByteSize L x) (ColumnValue_Serialize L x)) xs) @ r) =
    Row_MergePartial L (m\<lparr>rw_column := rw_column m @ xs\<rparr>) r"
  using assms
proof (induction xs arbitrary: m)
  case Nil
  then show ?case by simp
next
  case (Cons x xs)
  then have known: "ColumnValue_known x"
    and len: "length (ColumnValue_Serialize L x) + length (concat (map (\<lambda>x. WriteMessage L 1 (ColumnValue_ByteSize L x) (ColumnValue_Serialize L x)) xs) @ r) < total_bytes_limit"
    using length_write_message [of "ColumnValue_Serialize L x" 1 "ColumnValue_ByteSize L x"]
    by simp_all
  from Cons show ?case by (simp add: Row_item_column [OF known len] del: One_nat_def)
qed

lemma Row_roundtrip:
  assumes known: "Row_known m" and size: "length (Row_Serialize L m) < total_bytes_limit"
  shows "Row_MergePartial L Row_new (Row_Serialize L m) = Parsed m []"
proof -
  have "Row_MergePartial L Row_new (Row_Serialize L m) = Row_MergePartial L Row_new
      (concat (map (\<lambda>x. WriteMessage L 1 (ColumnValue_ByteSize L x) (ColumnValue_Serialize L x)) (rw_column m)) @
        [])"
    using known by (simp add: Row_Serialize_def Row_known_def)
  also have "\<dots> = Row_MergePartial L (Row_new\<lparr>rw_column := rw_column m\<rparr>)
      ([])"
    using known size by (subst Row_step_column) (simp_all add: Row_new_def Row_Serialize_def Row_known_def)
  also have "\<dots> = Parsed m []"
    using known by (cases m) (simp add: Row_MergePartial_def Row_known_def Row_new_def)
  finally show ?thesis .
qed

end

section \<open>OperationResult\<close>

record operation_result =
  opr_row :: "row list"
  opr_type :: "frame_item_type option"
  opr_unknown :: "unknown_field list"

definition OperationResult_new :: operation_result where
  "OperationResult_new = \<lparr>opr_row = [], opr_type = None, opr_unknown = []\<rparr>"

definition OperationResult_Clear :: "operation_result \<Rightarrow> operation_result" where
  "OperationResult_Clear m = m\<lparr>opr_row := [], opr_type := None, opr_unknown := []\<rparr>"

definition OperationResult_row_size :: "operation_result \<Rightarrow> nat" where
  [accessors]: "OperationResult_row_size m = length (opr_row m)"

definition OperationResult_clear_row :: "operation_result \<Rightarrow> operation_result" where
  [accessors]: "OperationResult_clear_row m = m\<lparr>opr_row := []\<rparr>"

definition OperationResult_row :: "operation_result \<Rightarrow> nat \<Rightarrow> row result" where
  [accessors]: "OperationResult_row m i = index (opr_row m) i"

definition OperationResult_add_row :: "(row \<Rightarrow> row) \<Rightarrow> operation_result \<Rightarrow> operation_result" where
  [accessors]: "OperationResult_add_row h m = m\<lparr>opr_row := opr_row m @ [h Row_new]\<rparr>"

definition OperationResult_has_type :: "operation_result \<Rightarrow> bool" where
  [accessors]: "OperationResult_has_type m \<longleftrightarrow> opr_type m \<noteq> None"

definition OperationResult_clear_type :: "operation_result \<Rightarrow> operation_result" where
  [accessors]: "OperationResult_clear_type m = m\<lparr>opr_type := None\<rparr>"

definition OperationResult_type :: "operation_result \<Rightarrow> frame_item_type" where
  [accessors]: "OperationResult_type m = (case opr_type m of None \<Rightarrow> FrameItem_Type_NONE | Some x \<Rightarrow> x)"

definition OperationResult_set_type :: "frame_item_type \<Rightarrow> operation_result \<Rightarrow> operation_result" where
  [accessors]: "OperationResult_set_type x m = m\<lparr>opr_type := Some x\<rparr>"

definition OperationResult_add_unknown :: "unknown_field list \<Rightarrow> operation_result \<Rightarrow> operation_result" where
  "OperationResult_add_unknown us m = m\<lparr>opr_unknown := opr_unknown m @ us\<rparr>"

definition OperationResult_switch :: "pb_lib \<Rightarrow> nat \<Rightarrow> operation_result \<Rightarrow> bytes \<Rightarrow> operation_result switch_result" where
  "OperationResult_switch L tag m inp =
     (if GetTagFieldNumber tag = 1 then
        (if tag = 10 then
           (case read_message L (Row_MergePartial L) Row_new inp of
              None \<Rightarrow> ReadFailed
            | Some (x, r) \<Rightarrow> FieldRead (m\<lparr>opr_row := opr_row m @ [x]\<rparr>) r [10, 16] False)
         else Unusual)
      else if GetTagFieldNumber tag = 2 then
        (if tag = 16 then
           (case ReadEnum L inp of
              None \<Rightarrow> ReadFailed
            | Some (v, r) \<Rightarrow>
                (case FrameItem_Type_of v of
                   Some t \<Rightarrow> FieldRead (m\<lparr>opr_type := Some t\<rparr>) r [] True
                 | None \<Rightarrow> FieldRead (OperationResult_add_unknown [AddVarint 2 v] m) r [] True))
         else Unusual)
      else Unusual)"

definition OperationResult_MergePartial :: "pb_lib \<Rightarrow> operation_result \<Rightarrow> bytes \<Rightarrow> operation_result parse_result" where
  "OperationResult_MergePartial L = merge_partial L (OperationResult_switch L) OperationResult_add_unknown"

definition OperationResult_Serialize :: "pb_lib \<Rightarrow> operation_result \<Rightarrow> bytes" where
  "OperationResult_Serialize L m =
     concat (map (\<lambda>x. WriteMessage L 1 (Row_ByteSize L x) (Row_Serialize L x)) (opr_row m)) @
     opt_bytes (\<lambda>x. WriteEnum L 2 (FrameItem_Type_value x)) (opr_type m) @
     (if opr_unknown m = [] then [] else SerializeUnknownFields L (opr_unknown m))"

definition OperationResult_SerializeToArray :: "pb_lib \<Rightarrow> operation_result \<Rightarrow> bytes \<Rightarrow> bytes" where
  "OperationResult_SerializeToArray L m target0 =
     (let
        target1 = fold (\<lambda>x. WriteMessageToArray L 1 (Row_ByteSize L x) (Row_SerializeToArray L x)) (opr_row m) target0;
        target2 = opt_write (\<lambda>x. WriteEnumToArray L 2 (FrameItem_Type_value x)) (opr_type m) target1;
        target3 = (if opr_unknown m = [] then target2 else SerializeUnknownFieldsToArray L (opr_unknown m) target2)
      in target3)"

definition OperationResult_ByteSize :: "pb_lib \<Rightarrow> operation_result \<Rightarrow> nat" where
  "OperationResult_ByteSize L m =
     opt_size (\<lambda>x. 1 + EnumSize L (FrameItem_Type_value x)) (opr_type m) +
     1 * length (opr_row m) +
     sum_list (map (\<lambda>x. MessageSize L (Row_ByteSize L x)) (opr_row m)) +
     (if opr_unknown m = [] then 0 else ComputeUnknownFieldsSize L (opr_unknown m))"

definition OperationResult_IsInitialized :: "operation_result \<Rightarrow> bool" where
  "OperationResult_IsInitialized m \<longleftrightarrow> opr_type m \<noteq> None \<and>
     list_all Row_IsInitialized (opr_row m)"

definition OperationResult_MergeFrom :: "operation_result \<Rightarrow> operation_result \<Rightarrow> operation_result" where
  "OperationResult_MergeFrom m src =
     m\<lparr>opr_row := opr_row m @ opr_row src,
       opr_type := (case opr_type src of None \<Rightarrow> opr_type m | Some x \<Rightarrow> Some x),
       opr_unknown := opr_unknown m @ opr_unknown src\<rparr>"

definition OperationResult_CopyFrom :: "operation_result \<Rightarrow> operation_result \<Rightarrow> operation_result" where
  "OperationResult_CopyFrom m src = OperationResult_MergeFrom (OperationResult_Clear m) src"

text \<open>No field outside the schema, here and in nested messages.\<close>

definition OperationResult_known :: "operation_result \<Rightarrow> bool" where
  "OperationResult_known m \<longleftrightarrow> opr_unknown m = [] \<and> list_all Row_known (opr_row m)"

lemma OperationResult_MergeFrom_new: "OperationResult_MergeFrom OperationResult_new m = m"
  by (cases m) (simp add: OperationResult_MergeFrom_def OperationResult_new_def split: option.splits)

lemma OperationResult_Clear_new: "OperationResult_Clear m = OperationResult_new"
  by (cases m) (simp add: OperationResult_Clear_def OperationResult_new_def)

lemma OperationResult_CopyFrom_copy: "OperationResult_CopyFrom m src = src"
  by (simp add: OperationResult_CopyFrom_def OperationResult_Clear_new OperationResult_MergeFrom_new)

context protobuf_wire
begin

lemma OperationResult_switch_ok: "switch_ok (OperationResult_switch L)"
  by (rule switch_okI)
    (auto simp: OperationResult_switch_def dest!: consumes split: if_splits option.splits)

lemma OperationResult_merge_total: "OperationResult_MergePartial L m inp \<noteq> OutOfFuel"
  by (simp add: OperationResult_MergePartial_def merge_partial_total OperationResult_switch_ok)

lemma OperationResult_size: "OperationResult_ByteSize L m = length (OperationResult_Serialize L m)"
  by (simp add: OperationResult_ByteSize_def OperationResult_Serialize_def length_opt_bytes length_concat_map sum_list_Suc
      write_sizes unknown_size Row_size)

lemma OperationResult_to_array: "OperationResult_SerializeToArray L m = (\<lambda>target. target @ OperationResult_Serialize L m)"
  by (rule ext) (simp add: OperationResult_SerializeToArray_def OperationResult_Serialize_def Let_def to_array Row_to_array)

lemma OperationResult_item_row:
  assumes known: "Row_known x" and len: "length (Row_Serialize L x) + length r < total_bytes_limit"
  shows "OperationResult_MergePartial L m (WriteMessage L 1 (Row_ByteSize L x) (Row_Serialize L x) @ r) =
    OperationResult_MergePartial L (m\<lparr>opr_row := opr_row m @ [x]\<rparr>) r"
proof -
  from len have ser: "length (Row_Serialize L x) < total_bytes_limit" by simp
  have sw: "OperationResult_switch L (8 * 1 + 2) m ((WriteVarint32 L (length (Row_Serialize L x)) @ Row_Serialize L x) @ r) =
      FieldRead (m\<lparr>opr_row := opr_row m @ [x]\<rparr>) r [10, 16] False"
    using read_message_write [of "Row_Serialize L x" r "Row_MergePartial L" Row_new, OF len Row_roundtrip [OF known ser]] by (simp add: OperationResult_switch_def GetTagFieldNumber_def)
  show ?thesis
    using merge_partial_write [OF OperationResult_switch_ok _ _ _ sw]
    by (simp add: OperationResult_MergePartial_def write_message Row_size)
qed

lemma OperationResult_step_row:
  assumes "list_all Row_known xs"
    and "length (concat (map (\<lambda>x. WriteMessage L 1 (Row_ByteSize L x) (Row_Serialize L x)) xs) @ r) < total_bytes_limit"
  shows "OperationResult_MergePartial L m (concat (map (\<lambda>x. WriteMessage L 1 (Row_ByteSize L x) (Row_Serialize L x)) xs) @ r) =
    OperationResult_MergePartial L (m\<lparr>opr_row := opr_row m @ xs\<rparr>) r"
  using assms
proof (induction xs arbitrary: m)
  case Nil
  then show ?case by simp
next
  case (Cons x xs)
  then have known: "Row_known x"
    and len: "length (Row_Serialize L x) + length (concat (map (\<lambda>x. WriteMessage L 1 (Row_ByteSize L x) (Row_Serialize L x)) xs) @ r) < total_bytes_limit"
    using length_write_message [of "Row_Serialize L x" 1 "Row_ByteSize L x"]
    by simp_all
  from Cons show ?case by (simp add: OperationResult_item_row [OF known len] del: One_nat_def)
qed

lemma OperationResult_step_type:
  assumes "opr_type m = None"
  shows "OperationResult_MergePartial L m (opt_bytes (\<lambda>x. WriteEnum L 2 (FrameItem_Type_value x)) v @ r) =
    OperationResult_MergePartial L (m\<lparr>opr_type := v\<rparr>) r"
proof (cases v)
  case None
  with assms(1) show ?thesis by (cases m) simp
next
  case (Some x)
  have sw: "OperationResult_switch L (8 * 2 + 0) m ((WriteEnumNoTag L (FrameItem_Type_value x)) @ r) =
      FieldRead (m\<lparr>opr_type := Some x\<rparr>) r [] True"
    using assms Some by (simp add: OperationResult_switch_def GetTagFieldNumber_def read_enum)
  show ?thesis
    using merge_partial_write [OF OperationResult_switch_ok _ _ _ sw]
    by (simp add: Some OperationResult_MergePartial_def write_enum)
qed

lemma OperationResult_roundtrip:
  assumes known: "OperationResult_known m" and size: "length (OperationResult_Serialize L m) < total_bytes_limit"
  shows "OperationResult_MergePartial L OperationResult_new (OperationResult_Serialize L m) = Parsed m []"
proof -
  have "OperationResult_MergePartial L OperationResult_new (OperationResult_Serialize L m) = OperationResult_MergePartial L OperationResult_new
      (concat (map (\<lambda>x. WriteMessage L 1 (Row_ByteSize L x) (Row_Serialize L x)) (opr_row m)) @
        opt_bytes (\<lambda>x. WriteEnum L 2 (FrameItem_Type_value x)) (opr_type m) @
        [])"
    using known by (simp add: OperationResult_Serialize_def OperationResult_known_def)
  also have "\<dots> = OperationResult_MergePartial L (OperationResult_new\<lparr>opr_row := opr_row m\<rparr>)
      (opt_bytes (\<lambda>x. WriteEnum L 2 (FrameItem_Type_value x)) (opr_type m) @
        [])"
    using known size by (subst OperationResult_step_row) (simp_all add: OperationResult_new_def OperationResult_Serialize_def OperationResult_known_def)
  also have "\<dots> = OperationResult_MergePartial L (OperationResult_new\<lparr>opr_row := opr_row m, opr_type := opr_type m\<rparr>)
      ([])"
    by (subst OperationResult_step_type) (simp_all add: OperationResult_new_def)
  also have "\<dots> = Parsed m []"
    using known by (cases m) (simp add: OperationResult_MergePartial_def OperationResult_known_def OperationResult_new_def)
  finally show ?thesis .
qed

end

section \<open>Result\<close>

record server_result =
  rs_transaction_identifier :: "bytes option"
  rs_result :: "operation_result list"
  rs_error_code :: "int32 option"
  rs_error_description :: "bytes option"
  rs_unknown :: "unknown_field list"

definition Result_new :: server_result where
  "Result_new = \<lparr>rs_transaction_identifier = None, rs_result = [], rs_error_code = None, rs_error_description = None, rs_unknown = []\<rparr>"

definition Result_Clear :: "server_result \<Rightarrow> server_result" where
  "Result_Clear m = m\<lparr>rs_transaction_identifier := None, rs_result := [], rs_error_code := None, rs_error_description := None, rs_unknown := []\<rparr>"

definition Result_has_transaction_identifier :: "server_result \<Rightarrow> bool" where
  [accessors]: "Result_has_transaction_identifier m \<longleftrightarrow> rs_transaction_identifier m \<noteq> None"

definition Result_clear_transaction_identifier :: "server_result \<Rightarrow> server_result" where
  [accessors]: "Result_clear_transaction_identifier m = m\<lparr>rs_transaction_identifier := None\<rparr>"

definition Result_transaction_identifier :: "server_result \<Rightarrow> bytes" where
  [accessors]: "Result_transaction_identifier m = (case rs_transaction_identifier m of None \<Rightarrow> [] | Some x \<Rightarrow> x)"

definition Result_set_transaction_identifier :: "bytes \<Rightarrow> server_result \<Rightarrow> server_result" where
  [accessors]: "Result_set_transaction_identifier x m = m\<lparr>rs_transaction_identifier := Some x\<rparr>"

definition Result_result_size :: "server_result \<Rightarrow> nat" where
  [accessors]: "Result_result_size m = length (rs_result m)"

definition Result_clear_result :: "server_result \<Rightarrow> server_result" where
  [accessors]: "Result_clear_result m = m\<lparr>rs_result := []\<rparr>"

definition Result_result :: "server_result \<Rightarrow> nat \<Rightarrow> operation_result result" where
  [accessors]: "Result_result m i = index (rs_result m) i"

definition Result_add_result :: "(operation_result \<Rightarrow> operation_result) \<Rightarrow> server_result \<Rightarrow> server_result" where
  [accessors]: "Result_add_result h m = m\<lparr>rs_result := rs_result m @ [h OperationResult_new]\<rparr>"

definition Result_has_error_code :: "server_result \<Rightarrow> bool" where
  [accessors]: "Result_has_error_code m \<longleftrightarrow> rs_error_code m \<noteq> None"

definition Result_clear_error_code :: "server_result \<Rightarrow> server_result" where
  [accessors]: "Result_clear_error_code m = m\<lparr>rs_error_code := None\<rparr>"

definition Result_error_code :: "server_result \<Rightarrow> int32" where
  [accessors]: "Result_error_code m = (case rs_error_code m of None \<Rightarrow> 0 | Some x \<Rightarrow> x)"

definition Result_set_error_code :: "int32 \<Rightarrow> server_result \<Rightarrow> server_result" where
  [accessors]: "Result_set_error_code x m = m\<lparr>rs_error_code := Some x\<rparr>"

definition Result_has_error_description :: "server_result \<Rightarrow> bool" where
  [accessors]: "Result_has_error_description m \<longleftrightarrow> rs_error_description m \<noteq> None"

definition Result_clear_error_description :: "server_result \<Rightarrow> server_result" where
  [accessors]: "Result_clear_error_description m = m\<lparr>rs_error_description := None\<rparr>"

definition Result_error_description :: "server_result \<Rightarrow> bytes" where
  [accessors]: "Result_error_description m = (case rs_error_description m of None \<Rightarrow> [] | Some x \<Rightarrow> x)"

definition Result_set_error_description :: "bytes \<Rightarrow> server_result \<Rightarrow> server_result" where
  [accessors]: "Result_set_error_description x m = m\<lparr>rs_error_description := Some x\<rparr>"

definition Result_add_unknown :: "unknown_field list \<Rightarrow> server_result \<Rightarrow> server_result" where
  "Result_add_unknown us m = m\<lparr>rs_unknown := rs_unknown m @ us\<rparr>"

definition Result_switch :: "pb_lib \<Rightarrow> nat \<Rightarrow> server_result \<Rightarrow> bytes \<Rightarrow> server_result switch_result" where
  "Result_switch L tag m inp =
     (if GetTagFieldNumber tag = 1 then
        (if tag = 10 then
           (case ReadString L inp of
              None \<Rightarrow> ReadFailed
            | Some (x, r) \<Rightarrow> FieldRead (m\<lparr>rs_transaction_identifier := Some x\<rparr>) r [18] False)
         else Unusual)
      else if GetTagFieldNumber tag = 2 then
        (if tag = 18 then
           (case read_message L (OperationResult_MergePartial L) OperationResult_new inp of
              None \<Rightarrow> ReadFailed
            | Some (x, r) \<Rightarrow> FieldRead (m\<lparr>rs_result := rs_result m @ [x]\<rparr>) r [18, 24] False)
         else Unusual)
      else if GetTagFieldNumber tag = 3 then
        (if tag = 24 then
           (case ReadInt32 L inp of
              None \<Rightarrow> ReadFailed
            | Some (x, r) \<Rightarrow> FieldRead (m\<lparr>rs_error_code := Some x\<rparr>) r [34] False)
         else Unusual)
      else if GetTagFieldNumber tag = 4 then
        (if tag = 34 then
           (case ReadString L inp of
              None \<Rightarrow> ReadFailed
            | Some (x, r) \<Rightarrow> FieldRead (m\<lparr>rs_error_description := Some x\<rparr>) r [] True)
         else Unusual)
      else Unusual)"

definition Result_MergePartial :: "pb_lib \<Rightarrow> server_result \<Rightarrow> bytes \<Rightarrow> server_result parse_result" where
  "Result_MergePartial L = merge_partial L (Result_switch L) Result_add_unknown"

definition Result_Serialize :: "pb_lib \<Rightarrow> server_result \<Rightarrow> bytes" where
  "Result_Serialize L m =
     opt_bytes (WriteString L 1) (rs_transaction_identifier m) @
     concat (map (\<lambda>x. WriteMessage L 2 (OperationResult_ByteSize L x) (OperationResult_Serialize L x)) (rs_result m)) @
     opt_bytes (WriteInt32 L 3) (rs_error_code m) @
     opt_bytes (WriteString L 4) (rs_error_description m) @
     (if rs_unknown m = [] then [] else SerializeUnknownFields L (rs_unknown m))"

definition Result_SerializeToArray :: "pb_lib \<Rightarrow> server_result \<Rightarrow> bytes \<Rightarrow> bytes" where
  "Result_SerializeToArray L m target0 =
     (let
        target1 = opt_write (WriteStringToArray L 1) (rs_transaction_identifier m) target0;
        target2 = fold (\<lambda>x. WriteMessageToArray L 2 (OperationResult_ByteSize L x) (OperationResult_SerializeToArray L x)) (rs_result m) target1;
        target3 = opt_write (WriteInt32ToArray L 3) (rs_error_code m) target2;
        target4 = opt_write (WriteStringToArray L 4) (rs_error_description m) target3;
        target5 = (if rs_unknown m = [] then target4 else SerializeUnknownFieldsToArray L (rs_unknown m) target4)
      in target5)"

definition Result_ByteSize :: "pb_lib \<Rightarrow> server_result \<Rightarrow> nat" where
  "Result_ByteSize L m =
     opt_size (\<lambda>x. 1 + StringSize L x) (rs_transaction_identifier m) +
     opt_size (\<lambda>x. 1 + Int32Size L x) (rs_error_code m) +
     opt_size (\<lambda>x. 1 + StringSize L x) (rs_error_description m) +
     1 * length (rs_result m) +
     sum_list (map (\<lambda>x. MessageSize L (OperationResult_ByteSize L x)) (rs_result m)) +
     (if rs_unknown m = [] then 0 else ComputeUnknownFieldsSize L (rs_unknown m))"

definition Result_IsInitialized :: "server_result \<Rightarrow> bool" where
  "Result_IsInitialized m \<longleftrightarrow> rs_transaction_identifier m \<noteq> None \<and>
     list_all OperationResult_IsInitialized (rs_result m)"

definition Result_MergeFrom :: "server_result \<Rightarrow> server_result \<Rightarrow> server_result" where
  "Result_MergeFrom m src =
     m\<lparr>rs_transaction_identifier := (case rs_transaction_identifier src of None \<Rightarrow> rs_transaction_identifier m | Some x \<Rightarrow> Some x),
       rs_result := rs_result m @ rs_result src,
       rs_error_code := (case rs_error_code src of None \<Rightarrow> rs_error_code m | Some x \<Rightarrow> Some x),
       rs_error_description := (case rs_error_description src of None \<Rightarrow> rs_error_description m | Some x \<Rightarrow> Some x),
       rs_unknown := rs_unknown m @ rs_unknown src\<rparr>"

definition Result_CopyFrom :: "server_result \<Rightarrow> server_result \<Rightarrow> server_result" where
  "Result_CopyFrom m src = Result_MergeFrom (Result_Clear m) src"

text \<open>No field outside the schema, here and in nested messages.\<close>

definition Result_known :: "server_result \<Rightarrow> bool" where
  "Result_known m \<longleftrightarrow> rs_unknown m = [] \<and> list_all OperationResult_known (rs_result m)"

lemma Result_MergeFrom_new: "Result_MergeFrom Result_new m = m"
  by (cases m) (simp add: Result_MergeFrom_def Result_new_def split: option.splits)

lemma Result_Clear_new: "Result_Clear m = Result_new"
  by (cases m) (simp add: Result_Clear_def Result_new_def)

lemma Result_CopyFrom_copy: "Result_CopyFrom m src = src"
  by (simp add: Result_CopyFrom_def Result_Clear_new Result_MergeFrom_new)

context protobuf_wire
begin

lemma Result_switch_ok: "switch_ok (Result_switch L)"
  by (rule switch_okI)
    (auto simp: Result_switch_def dest!: consumes split: if_splits option.splits)

lemma Result_merge_total: "Result_MergePartial L m inp \<noteq> OutOfFuel"
  by (simp add: Result_MergePartial_def merge_partial_total Result_switch_ok)

lemma Result_size: "Result_ByteSize L m = length (Result_Serialize L m)"
  by (simp add: Result_ByteSize_def Result_Serialize_def length_opt_bytes length_concat_map sum_list_Suc
      write_sizes unknown_size OperationResult_size)

lemma Result_to_array: "Result_SerializeToArray L m = (\<lambda>target. target @ Result_Serialize L m)"
  by (rule ext) (simp add: Result_SerializeToArray_def Result_Serialize_def Let_def to_array OperationResult_to_array)

lemma Result_step_transaction_identifier:
  assumes "rs_transaction_identifier m = None"
    and "length (opt_bytes (WriteString L 1) v @ r) < total_bytes_limit"
  shows "Result_MergePartial L m (opt_bytes (WriteString L 1) v @ r) =
    Result_MergePartial L (m\<lparr>rs_transaction_identifier := v\<rparr>) r"
proof (cases v)
  case None
  with assms(1) show ?thesis by (cases m) simp
next
  case (Some x)
  with assms(2) have len: "length x + length r < total_bytes_limit"
    using length_write_string [of x 1] by simp
  have sw: "Result_switch L (8 * 1 + 2) m ((WriteVarint32 L (length x) @ x) @ r) =
      FieldRead (m\<lparr>rs_transaction_identifier := Some x\<rparr>) r [18] False"
    using assms Some len by (simp add: Result_switch_def GetTagFieldNumber_def read_string)
  show ?thesis
    using merge_partial_write [OF Result_switch_ok _ _ _ sw]
    by (simp add: Some Result_MergePartial_def write_string)
qed

lemma Result_item_result:
  assumes known: "OperationResult_known x" and len: "length (OperationResult_Serialize L x) + length r < total_bytes_limit"
  shows "Result_MergePartial L m (WriteMessage L 2 (OperationResult_ByteSize L x) (OperationResult_Serialize L x) @ r) =
    Result_MergePartial L (m\<lparr>rs_result := rs_result m @ [x]\<rparr>) r"
proof -
  from len have ser: "length (OperationResult_Serialize L x) < total_bytes_limit" by simp
  have sw: "Result_switch L (8 * 2 + 2) m ((WriteVarint32 L (length (OperationResult_Serialize L x)) @ OperationResult_Serialize L x) @ r) =
      FieldRead (m\<lparr>rs_result := rs_result m @ [x]\<rparr>) r [18, 24] False"
    using read_message_write [of "OperationResult_Serialize L x" r "OperationResult_MergePartial L" OperationResult_new, OF len OperationResult_roundtrip [OF known ser]] by (simp add: Result_switch_def GetTagFieldNumber_def)
  show ?thesis
    using merge_partial_write [OF Result_switch_ok _ _ _ sw]
    by (simp add: Result_MergePartial_def write_message OperationResult_size)
qed

lemma Result_step_result:
  assumes "list_all OperationResult_known xs"
    and "length (concat (map (\<lambda>x. WriteMessage L 2 (OperationResult_ByteSize L x) (OperationResult_Serialize L x)) xs) @ r) < total_bytes_limit"
  shows "Result_MergePartial L m (concat (map (\<lambda>x. WriteMessage L 2 (OperationResult_ByteSize L x) (OperationResult_Serialize L x)) xs) @ r) =
    Result_MergePartial L (m\<lparr>rs_result := rs_result m @ xs\<rparr>) r"
  using assms
proof (induction xs arbitrary: m)
  case Nil
  then show ?case by simp
next
  case (Cons x xs)
  then have known: "OperationResult_known x"
    and len: "length (OperationResult_Serialize L x) + length (concat (map (\<lambda>x. WriteMessage L 2 (OperationResult_ByteSize L x) (OperationResult_Serialize L x)) xs) @ r) < total_bytes_limit"
    using length_write_message [of "OperationResult_Serialize L x" 2 "OperationResult_ByteSize L x"]
    by simp_all
  from Cons show ?case by (simp add: Result_item_result [OF known len] del: One_nat_def)
qed

lemma Result_step_error_code:
  assumes "rs_error_code m = None"
  shows "Result_MergePartial L m (opt_bytes (WriteInt32 L 3) v @ r) =
    Result_MergePartial L (m\<lparr>rs_error_code := v\<rparr>) r"
proof (cases v)
  case None
  with assms(1) show ?thesis by (cases m) simp
next
  case (Some x)
  have sw: "Result_switch L (8 * 3 + 0) m ((WriteInt32NoTag L x) @ r) =
      FieldRead (m\<lparr>rs_error_code := Some x\<rparr>) r [34] False"
    using assms Some by (simp add: Result_switch_def GetTagFieldNumber_def read_int32)
  show ?thesis
    using merge_partial_write [OF Result_switch_ok _ _ _ sw]
    by (simp add: Some Result_MergePartial_def write_int32)
qed

lemma Result_step_error_description:
  assumes "rs_error_description m = None"
    and "length (opt_bytes (WriteString L 4) v @ r) < total_bytes_limit"
  shows "Result_MergePartial L m (opt_bytes (WriteString L 4) v @ r) =
    Result_MergePartial L (m\<lparr>rs_error_description := v\<rparr>) r"
proof (cases v)
  case None
  with assms(1) show ?thesis by (cases m) simp
next
  case (Some x)
  with assms(2) have len: "length x + length r < total_bytes_limit"
    using length_write_string [of x 4] by simp
  have sw: "Result_switch L (8 * 4 + 2) m ((WriteVarint32 L (length x) @ x) @ r) =
      FieldRead (m\<lparr>rs_error_description := Some x\<rparr>) r [] True"
    using assms Some len by (simp add: Result_switch_def GetTagFieldNumber_def read_string)
  show ?thesis
    using merge_partial_write [OF Result_switch_ok _ _ _ sw]
    by (simp add: Some Result_MergePartial_def write_string)
qed

lemma Result_roundtrip:
  assumes known: "Result_known m" and size: "length (Result_Serialize L m) < total_bytes_limit"
  shows "Result_MergePartial L Result_new (Result_Serialize L m) = Parsed m []"
proof -
  have "Result_MergePartial L Result_new (Result_Serialize L m) = Result_MergePartial L Result_new
      (opt_bytes (WriteString L 1) (rs_transaction_identifier m) @
        concat (map (\<lambda>x. WriteMessage L 2 (OperationResult_ByteSize L x) (OperationResult_Serialize L x)) (rs_result m)) @
        opt_bytes (WriteInt32 L 3) (rs_error_code m) @
        opt_bytes (WriteString L 4) (rs_error_description m) @
        [])"
    using known by (simp add: Result_Serialize_def Result_known_def)
  also have "\<dots> = Result_MergePartial L (Result_new\<lparr>rs_transaction_identifier := rs_transaction_identifier m\<rparr>)
      (concat (map (\<lambda>x. WriteMessage L 2 (OperationResult_ByteSize L x) (OperationResult_Serialize L x)) (rs_result m)) @
        opt_bytes (WriteInt32 L 3) (rs_error_code m) @
        opt_bytes (WriteString L 4) (rs_error_description m) @
        [])"
    using known size by (subst Result_step_transaction_identifier) (simp_all add: Result_new_def Result_Serialize_def Result_known_def)
  also have "\<dots> = Result_MergePartial L (Result_new\<lparr>rs_transaction_identifier := rs_transaction_identifier m, rs_result := rs_result m\<rparr>)
      (opt_bytes (WriteInt32 L 3) (rs_error_code m) @
        opt_bytes (WriteString L 4) (rs_error_description m) @
        [])"
    using known size by (subst Result_step_result) (simp_all add: Result_new_def Result_Serialize_def Result_known_def)
  also have "\<dots> = Result_MergePartial L (Result_new\<lparr>rs_transaction_identifier := rs_transaction_identifier m, rs_result := rs_result m, rs_error_code := rs_error_code m\<rparr>)
      (opt_bytes (WriteString L 4) (rs_error_description m) @
        [])"
    by (subst Result_step_error_code) (simp_all add: Result_new_def)
  also have "\<dots> = Result_MergePartial L (Result_new\<lparr>rs_transaction_identifier := rs_transaction_identifier m, rs_result := rs_result m, rs_error_code := rs_error_code m, rs_error_description := rs_error_description m\<rparr>)
      ([])"
    using known size by (subst Result_step_error_description) (simp_all add: Result_new_def Result_Serialize_def Result_known_def)
  also have "\<dots> = Parsed m []"
    using known by (cases m) (simp add: Result_MergePartial_def Result_known_def Result_new_def)
  finally show ?thesis .
qed

end

end
