(* ===== verification/Messages.thy ===== *)
theory Messages
  imports DefinitionProto ManipulationProto ResultProto
begin

text \<open>
  A \<open>google::protobuf::Message&\<close> of the sources: one constructor per generated class, and the
  virtual calls the code makes through that reference, dispatched on the class.
  \<open>SerializeToString\<close> and \<open>ParseFromString\<close> are the two entry points of \<open>MessageLite\<close>: the first
  writes with \<open>SerializeWithCachedSizesToArray\<close>, the second merges into a fresh object and
  requires it to be initialised.
\<close>

datatype message =
    StoreInfoMessage store_info
  | ColumnInfoMessage column_info
  | ColumnValueMessage column_value
  | CreateDatabaseMessage create_database_operation
  | DropDatabaseMessage drop_database_operation
  | CreateStoreMessage create_store_operation
  | DropStoreMessage drop_store_operation
  | SetMessage set_operation
  | DeleteMessage delete_operation
  | GetMessage get_operation
  | FrameItemMessage frame_item
  | FrameMessage frame
  | RowMessage row
  | OperationResultMessage operation_result
  | ResultMessage server_result

fun GetTypeName :: "message \<Rightarrow> string" where
  "GetTypeName (StoreInfoMessage m) = ''StoreInfo''"
| "GetTypeName (ColumnInfoMessage m) = ''ColumnInfo''"
| "GetTypeName (ColumnValueMessage m) = ''ColumnValue''"
| "GetTypeName (CreateDatabaseMessage m) = ''CreateDatabaseOperation''"
| "GetTypeName (DropDatabaseMessage m) = ''DropDatabaseOperation''"
| "GetTypeName (CreateStoreMessage m) = ''CreateStoreOperation''"
| "GetTypeName (DropStoreMessage m) = ''DropStoreOperation''"
| "GetTypeName (SetMessage m) = ''SetOperation''"
| "GetTypeName (DeleteMessage m) = ''DeleteOperation''"
| "GetTypeName (GetMessage m) = ''GetOperation''"
| "GetTypeName (FrameItemMessage m) = ''FrameItem''"
| "GetTypeName (FrameMessage m) = ''Frame''"
| "GetTypeName (RowMessage m) = ''Row''"
| "GetTypeName (OperationResultMessage m) = ''OperationResult''"
| "GetTypeName (ResultMessage m) = ''Result''"

fun message_ByteSize :: "pb_lib \<Rightarrow> message \<Rightarrow> nat" where
  "message_ByteSize L (StoreInfoMessage m) = StoreInfo_ByteSize L m"
| "message_ByteSize L (ColumnInfoMessage m) = ColumnInfo_ByteSize L m"
| "message_ByteSize L (ColumnValueMessage m) = ColumnValue_ByteSize L m"
| "message_ByteSize L (CreateDatabaseMessage m) = CreateDatabaseOperation_ByteSize L m"
| "message_ByteSize L (DropDatabaseMessage m) = DropDatabaseOperation_ByteSize L m"
| "message_ByteSize L (CreateStoreMessage m) = CreateStoreOperation_ByteSize L m"
| "message_ByteSize L (DropStoreMessage m) = DropStoreOperation_ByteSize L m"
| "message_ByteSize L (SetMessage m) = SetOperation_ByteSize L m"
| "message_ByteSize L (DeleteMessage m) = DeleteOperation_ByteSize L m"
| "message_ByteSize L (GetMessage m) = GetOperation_ByteSize L m"
| "message_ByteSize L (FrameItemMessage m) = FrameItem_ByteSize L m"
| "message_ByteSize L (FrameMessage m) = Frame_ByteSize L m"
| "message_ByteSize L (RowMessage m) = Row_ByteSize L m"
| "message_ByteSize L (OperationResultMessage m) = OperationResult_ByteSize L m"
| "message_ByteSize L (ResultMessage m) = Result_ByteSize L m"

fun message_IsInitialized :: "message \<Rightarrow> bool" where
  "message_IsInitialized (StoreInfoMessage m) = StoreInfo_IsInitialized m"
| "message_IsInitialized (ColumnInfoMessage m) = ColumnInfo_IsInitialized m"
| "message_IsInitialized (ColumnValueMessage m) = ColumnValue_IsInitialized m"
| "message_IsInitialized (CreateDatabaseMessage m) = CreateDatabaseOperation_IsInitialized m"
| "message_IsInitialized (DropDatabaseMessage m) = DropDatabaseOperation_IsInitialized m"
| "message_IsInitialized (CreateStoreMessage m) = CreateStoreOperation_IsInitialized m"
| "message_IsInitialized (DropStoreMessage m) = DropStoreOperation_IsInitialized m"
| "message_IsInitialized (SetMessage m) = SetOperation_IsInitialized m"
| "message_IsInitialized (DeleteMessage m) = DeleteOperation_IsInitialized m"
| "message_IsInitialized (GetMessage m) = GetOperation_IsInitialized m"
| "message_IsInitialized (FrameItemMessage m) = FrameItem_IsInitialized m"
| "message_IsInitialized (FrameMessage m) = Frame_IsInitialized m"
| "message_IsInitialized (RowMessage m) = Row_IsInitialized m"
| "message_IsInitialized (OperationResultMessage m) = OperationResult_IsInitialized m"
| "message_IsInitialized (ResultMessage m) = Result_IsInitialized m"

fun message_SerializeToArray :: "pb_lib \<Rightarrow> message \<Rightarrow> bytes \<Rightarrow> bytes" where
  "message_SerializeToArray L (StoreInfoMessage m) target = StoreInfo_SerializeToArray L m target"
| "message_SerializeToArray L (ColumnInfoMessage m) target = ColumnInfo_SerializeToArray L m target"
| "message_SerializeToArray L (ColumnValueMessage m) target = ColumnValue_SerializeToArray L m target"
| "message_SerializeToArray L (CreateDatabaseMessage m) target = CreateDatabaseOperation_SerializeToArray L m target"
| "message_SerializeToArray L (DropDatabaseMessage m) target = DropDatabaseOperation_SerializeToArray L m target"
| "message_SerializeToArray L (CreateStoreMessage m) target = CreateStoreOperation_SerializeToArray L m target"
| "message_SerializeToArray L (DropStoreMessage m) target = DropStoreOperation_SerializeToArray L m target"
| "message_SerializeToArray L (SetMessage m) target = SetOperation_SerializeToArray L m target"
| "message_SerializeToArray L (DeleteMessage m) target = DeleteOperation_SerializeToArray L m target"
| "message_SerializeToArray L (GetMessage m) target = GetOperation_SerializeToArray L m target"
| "message_SerializeToArray L (FrameItemMessage m) target = FrameItem_SerializeToArray L m target"
| "message_SerializeToArray L (FrameMessage m) target = Frame_SerializeToArray L m target"
| "message_SerializeToArray L (RowMessage m) target = Row_SerializeToArray L m target"
| "message_SerializeToArray L (OperationResultMessage m) target = OperationResult_SerializeToArray L m target"
| "message_SerializeToArray L (ResultMessage m) target = Result_SerializeToArray L m target"

definition SerializeToString :: "pb_lib \<Rightarrow> message \<Rightarrow> bytes option" where
  "SerializeToString L message =
     SerializeOutcome L (message_ByteSize L message) (message_IsInitialized message)
       (message_SerializeToArray L message [])"

definition StoreInfo_ParseFromString :: "pb_lib \<Rightarrow> bytes \<Rightarrow> store_info option" where
  "StoreInfo_ParseFromString L =
     parse_from_string L (StoreInfo_MergePartial L) StoreInfo_IsInitialized StoreInfo_new"

definition ColumnInfo_ParseFromString :: "pb_lib \<Rightarrow> bytes \<Rightarrow> column_info option" where
  "ColumnInfo_ParseFromString L =
     parse_from_string L (ColumnInfo_MergePartial L) ColumnInfo_IsInitialized ColumnInfo_new"

definition ColumnValue_ParseFromString :: "pb_lib \<Rightarrow> bytes \<Rightarrow> column_value option" where
  "ColumnValue_ParseFromString L =
     parse_from_string L (ColumnValue_MergePartial L) ColumnValue_IsInitialized ColumnValue_new"

definition CreateDatabaseOperation_ParseFromString :: "pb_lib \<Rightarrow> bytes \<Rightarrow> create_database_operation option" where
  "CreateDatabaseOperation_ParseFromString L =
     parse_from_string L (CreateDatabaseOperation_MergePartial L) CreateDatabaseOperation_IsInitialized CreateDatabaseOperation_new"

definition DropDatabaseOperation_ParseFromString :: "pb_lib \<Rightarrow> bytes \<Rightarrow> drop_database_operation option" where
  "DropDatabaseOperation_ParseFromString L =
     parse_from_string L (DropDatabaseOperation_MergePartial L) DropDatabaseOperation_IsInitialized DropDatabaseOperation_new"

definition CreateStoreOperation_ParseFromString :: "pb_lib \<Rightarrow> bytes \<Rightarrow> create_store_operation option" where
  "CreateStoreOperation_ParseFromString L =
     parse_from_string L (CreateStoreOperation_MergePartial L) CreateStoreOperation_IsInitialized CreateStoreOperation_new"

definition DropStoreOperation_ParseFromString :: "pb_lib \<Rightarrow> bytes \<Rightarrow> drop_store_operation option" where
  "DropStoreOperation_ParseFromString L =
     parse_from_string L (DropStoreOperation_MergePartial L) DropStoreOperation_IsInitialized DropStoreOperation_new"

definition SetOperation_ParseFromString :: "pb_lib \<Rightarrow> bytes \<Rightarrow> set_operation option" where
  "SetOperation_ParseFromString L =
     parse_from_string L (SetOperation_MergePartial L) SetOperation_IsInitialized SetOperation_new"

definition DeleteOperation_ParseFromString :: "pb_lib \<Rightarrow> bytes \<Rightarrow> delete_operation option" where
  "DeleteOperation_ParseFromString L =
     parse_from_string L (DeleteOperation_MergePartial L) DeleteOperation_IsInitialized DeleteOperation_new"

definition GetOperation_ParseFromString :: "pb_lib \<Rightarrow> bytes \<Rightarrow> get_operation option" where
  "GetOperation_ParseFromString L =
     parse_from_string L (GetOperation_MergePartial L) GetOperation_IsInitialized GetOperation_new"

definition FrameItem_ParseFromString :: "pb_lib \<Rightarrow> bytes \<Rightarrow> frame_item option" where
  "FrameItem_ParseFromString L =
     parse_from_string L (FrameItem_MergePartial L) FrameItem_IsInitialized FrameItem_new"

definition Frame_ParseFromString :: "pb_lib \<Rightarrow> bytes \<Rightarrow> frame option" where
  "Frame_ParseFromString L =
     parse_from_string L (Frame_MergePartial L) Frame_IsInitialized Frame_new"

definition Row_ParseFromString :: "pb_lib \<Rightarrow> bytes \<Rightarrow> row option" where
  "Row_ParseFromString L =
     parse_from_string L (Row_MergePartial L) Row_IsInitialized Row_new"

definition OperationResult_ParseFromString :: "pb_lib \<Rightarrow> bytes \<Rightarrow> operation_result option" where
  "OperationResult_ParseFromString L =
     parse_from_string L (OperationResult_MergePartial L) OperationResult_IsInitialized OperationResult_new"

definition Result_ParseFromString :: "pb_lib \<Rightarrow> bytes \<Rightarrow> server_result option" where
  "Result_ParseFromString L =
     parse_from_string L (Result_MergePartial L) Result_IsInitialized Result_new"

text \<open>
  Parsing bytes into a fresh object of the class of a given message, as \<open>New()->ParseFromString\<close>.
\<close>

fun message_ParseFromString :: "pb_lib \<Rightarrow> message \<Rightarrow> bytes \<Rightarrow> message option" where
  "message_ParseFromString L (StoreInfoMessage m) bs = map_option StoreInfoMessage (StoreInfo_ParseFromString L bs)"
| "message_ParseFromString L (ColumnInfoMessage m) bs = map_option ColumnInfoMessage (ColumnInfo_ParseFromString L bs)"
| "message_ParseFromString L (ColumnValueMessage m) bs = map_option ColumnValueMessage (ColumnValue_ParseFromString L bs)"
| "message_ParseFromString L (CreateDatabaseMessage m) bs = map_option CreateDatabaseMessage (CreateDatabaseOperation_ParseFromString L bs)"
| "message_ParseFromString L (DropDatabaseMessage m) bs = map_option DropDatabaseMessage (DropDatabaseOperation_ParseFromString L bs)"
| "message_ParseFromString L (CreateStoreMessage m) bs = map_option CreateStoreMessage (CreateStoreOperation_ParseFromString L bs)"
| "message_ParseFromString L (DropStoreMessage m) bs = map_option DropStoreMessage (DropStoreOperation_ParseFromString L bs)"
| "message_ParseFromString L (SetMessage m) bs = map_option SetMessage (SetOperation_ParseFromString L bs)"
| "message_ParseFromString L (DeleteMessage m) bs = map_option DeleteMessage (DeleteOperation_ParseFromString L bs)"
| "message_ParseFromString L (GetMessage m) bs = map_option GetMessage (GetOperation_ParseFromString L bs)"
| "message_ParseFromString L (FrameItemMessage m) bs = map_option FrameItemMessage (FrameItem_ParseFromString L bs)"
| "message_ParseFromString L (FrameMessage m) bs = map_option FrameMessage (Frame_ParseFromString L bs)"
| "message_ParseFromString L (RowMessage m) bs = map_option RowMessage (Row_ParseFromString L bs)"
| "message_ParseFromString L (OperationResultMessage m) bs = map_option OperationResultMessage (OperationResult_ParseFromString L bs)"
| "message_ParseFromString L (ResultMessage m) bs = map_option ResultMessage (Result_ParseFromString L bs)"

fun message_MergePartial :: "pb_lib \<Rightarrow> message \<Rightarrow> bytes \<Rightarrow> message parse_result" where
  "message_MergePartial L (StoreInfoMessage m) bs =
    (case StoreInfo_MergePartial L m bs of
       OutOfFuel \<Rightarrow> OutOfFuel | ParseFailed \<Rightarrow> ParseFailed | Parsed m1 left \<Rightarrow> Parsed (StoreInfoMessage m1) left)"
| "message_MergePartial L (ColumnInfoMessage m) bs =
    (case ColumnInfo_MergePartial L m bs of
       OutOfFuel \<Rightarrow> OutOfFuel | ParseFailed \<Rightarrow> ParseFailed | Parsed m1 left \<Rightarrow> Parsed (ColumnInfoMessage m1) left)"
| "message_MergePartial L (ColumnValueMessage m) bs =
    (case ColumnValue_MergePartial L m bs of
       OutOfFuel \<Rightarrow> OutOfFuel | ParseFailed \<Rightarrow> ParseFailed | Parsed m1 left \<Rightarrow> Parsed (ColumnValueMessage m1) left)"
| "message_MergePartial L (CreateDatabaseMessage m) bs =
    (case CreateDatabaseOperation_MergePartial L m bs of
       OutOfFuel \<Rightarrow> OutOfFuel | ParseFailed \<Rightarrow> ParseFailed | Parsed m1 left \<Rightarrow> Parsed (CreateDatabaseMessage m1) left)"
| "message_MergePartial L (DropDatabaseMessage m) bs =
    (case DropDatabaseOperation_MergePartial L m bs of
       OutOfFuel \<Rightarrow> OutOfFuel | ParseFailed \<Rightarrow> ParseFailed | Parsed m1 left \<Rightarrow> Parsed (DropDatabaseMessage m1) left)"
| "message_MergePartial L (CreateStoreMessage m) bs =
    (case CreateStoreOperation_MergePartial L m bs of
       OutOfFuel \<Rightarrow> OutOfFuel | ParseFailed \<Rightarrow> ParseFailed | Parsed m1 left \<Rightarrow> Parsed (CreateStoreMessage m1) left)"
| "message_MergePartial L (DropStoreMessage m) bs =
    (case DropStoreOperation_MergePartial L m bs of
       OutOfFuel \<Rightarrow> OutOfFuel | ParseFailed \<Rightarrow> ParseFailed | Parsed m1 left \<Rightarrow> Parsed (DropStoreMessage m1) left)"
| "message_MergePartial L (SetMessage m) bs =
    (case SetOperation_MergePartial L m bs of
       OutOfFuel \<Rightarrow> OutOfFuel | ParseFailed \<Rightarrow> ParseFailed | Parsed m1 left \<Rightarrow> Parsed (SetMessage m1) left)"
| "message_MergePartial L (DeleteMessage m) bs =
    (case DeleteOperation_MergePartial L m bs of
       OutOfFuel \<Rightarrow> OutOfFuel | ParseFailed \<Rightarrow> ParseFailed | Parsed m1 left \<Rightarrow> Parsed (DeleteMessage m1) left)"
| "message_MergePartial L (GetMessage m) bs =
    (case GetOperation_MergePartial L m bs of
       OutOfFuel \<Rightarrow> OutOfFuel | ParseFailed \<Rightarrow> ParseFailed | Parsed m1 left \<Rightarrow> Parsed (GetMessage m1) left)"
| "message_MergePartial L (FrameItemMessage m) bs =
    (case FrameItem_MergePartial L m bs of
       OutOfFuel \<Rightarrow> OutOfFuel | ParseFailed \<Rightarrow> ParseFailed | Parsed m1 left \<Rightarrow> Parsed (FrameItemMessage m1) left)"
| "message_MergePartial L (FrameMessage m) bs =
    (case Frame_MergePartial L m bs of
       OutOfFuel \<Rightarrow> OutOfFuel | ParseFailed \<Rightarrow> ParseFailed | Parsed m1 left \<Rightarrow> Parsed (FrameMessage m1) left)"
| "message_MergePartial L (RowMessage m) bs =
    (case Row_MergePartial L m bs of
       OutOfFuel \<Rightarrow> OutOfFuel | ParseFailed \<Rightarrow> ParseFailed | Parsed m1 left \<Rightarrow> Parsed (RowMessage m1) left)"
| "message_MergePartial L (OperationResultMessage m) bs =
    (case OperationResult_MergePartial L m bs of
       OutOfFuel \<Rightarrow> OutOfFuel | ParseFailed \<Rightarrow> ParseFailed | Parsed m1 left \<Rightarrow> Parsed (OperationResultMessage m1) left)"
| "message_MergePartial L (ResultMessage m) bs =
    (case Result_MergePartial L m bs of
       OutOfFuel \<Rightarrow> OutOfFuel | ParseFailed \<Rightarrow> ParseFailed | Parsed m1 left \<Rightarrow> Parsed (ResultMessage m1) left)"

text \<open>The bytes of a message, and that it carries no field outside the schema.\<close>

fun message_Serialize :: "pb_lib \<Rightarrow> message \<Rightarrow> bytes" where
  "message_Serialize L (StoreInfoMessage m) = StoreInfo_Serialize L m"
| "message_Serialize L (ColumnInfoMessage m) = ColumnInfo_Serialize L m"
| "message_Serialize L (ColumnValueMessage m) = ColumnValue_Serialize L m"
| "message_Serialize L (CreateDatabaseMessage m) = CreateDatabaseOperation_Serialize L m"
| "message_Serialize L (DropDatabaseMessage m) = DropDatabaseOperation_Serialize L m"
| "message_Serialize L (CreateStoreMessage m) = CreateStoreOperation_Serialize L m"
| "message_Serialize L (DropStoreMessage m) = DropStoreOperation_Serialize L m"
| "message_Serialize L (SetMessage m) = SetOperation_Serialize L m"
| "message_Serialize L (DeleteMessage m) = DeleteOperation_Serialize L m"
| "message_Serialize L (GetMessage m) = GetOperation_Serialize L m"
| "message_Serialize L (FrameItemMessage m) = FrameItem_Serialize L m"
| "message_Serialize L (FrameMessage m) = Frame_Serialize L m"
| "message_Serialize L (RowMessage m) = Row_Serialize L m"
| "message_Serialize L (OperationResultMessage m) = OperationResult_Serialize L m"
| "message_Serialize L (ResultMessage m) = Result_Serialize L m"

fun message_known :: "message \<Rightarrow> bool" where
  "message_known (StoreInfoMessage m) = StoreInfo_known m"
| "message_known (ColumnInfoMessage m) = ColumnInfo_known m"
| "message_known (ColumnValueMessage m) = ColumnValue_known m"
| "message_known (CreateDatabaseMessage m) = CreateDatabaseOperation_known m"
| "message_known (DropDatabaseMessage m) = DropDatabaseOperation_known m"
| "message_known (CreateStoreMessage m) = CreateStoreOperation_known m"
| "message_known (DropStoreMessage m) = DropStoreOperation_known m"
| "message_known (SetMessage m) = SetOperation_known m"
| "message_known (DeleteMessage m) = DeleteOperation_known m"
| "message_known (GetMessage m) = GetOperation_known m"
| "message_known (FrameItemMessage m) = FrameItem_known m"
| "message_known (FrameMessage m) = Frame_known m"
| "message_known (RowMessage m) = Row_known m"
| "message_known (OperationResultMessage m) = OperationResult_known m"
| "message_known (ResultMessage m) = Result_known m"

definition sendable :: "pb_lib \<Rightarrow> message \<Rightarrow> bool" where
  "sendable L message \<longleftrightarrow>
     message_IsInitialized message \<and> message_known message \<and>
     length (message_Serialize L message) < total_bytes_limit"

context protobuf_wire
begin

lemma message_size: "message_ByteSize L message = length (message_Serialize L message)"
  by (cases message)
    (simp_all add: StoreInfo_size
      ColumnInfo_size
      ColumnValue_size
      CreateDatabaseOperation_size
      DropDatabaseOperation_size
      CreateStoreOperation_size
      DropStoreOperation_size
      SetOperation_size
      DeleteOperation_size
      GetOperation_size
      FrameItem_size
      Frame_size
      Row_size
      OperationResult_size
      Result_size)

lemma message_to_array_eq:
  "message_SerializeToArray L message target = target @ message_Serialize L message"
  by (cases message)
    (simp_all add: StoreInfo_to_array
      ColumnInfo_to_array
      ColumnValue_to_array
      CreateDatabaseOperation_to_array
      DropDatabaseOperation_to_array
      CreateStoreOperation_to_array
      DropStoreOperation_to_array
      SetOperation_to_array
      DeleteOperation_to_array
      GetOperation_to_array
      FrameItem_to_array
      Frame_to_array
      Row_to_array
      OperationResult_to_array
      Result_to_array)

lemma SerializeToString_sendable:
  "sendable L message \<Longrightarrow> SerializeToString L message = Some (message_Serialize L message)"
  by (simp add: SerializeToString_def sendable_def message_to_array_eq message_size
      serialize_outcome)

lemma StoreInfo_parse_written:
  "sendable L (StoreInfoMessage m) \<Longrightarrow> StoreInfo_ParseFromString L (StoreInfo_Serialize L m) = Some m"
  unfolding StoreInfo_ParseFromString_def sendable_def
  by (intro parse_from_string_merge StoreInfo_roundtrip) simp_all

lemma ColumnInfo_parse_written:
  "sendable L (ColumnInfoMessage m) \<Longrightarrow> ColumnInfo_ParseFromString L (ColumnInfo_Serialize L m) = Some m"
  unfolding ColumnInfo_ParseFromString_def sendable_def
  by (intro parse_from_string_merge ColumnInfo_roundtrip) simp_all

lemma ColumnValue_parse_written:
  "sendable L (ColumnValueMessage m) \<Longrightarrow> ColumnValue_ParseFromString L (ColumnValue_Serialize L m) = Some m"
  unfolding ColumnValue_ParseFromString_def sendable_def
  by (intro parse_from_string_merge ColumnValue_roundtrip) simp_all

lemma CreateDatabaseOperation_parse_written:
  "sendable L (CreateDatabaseMessage m) \<Longrightarrow> CreateDatabaseOperation_ParseFromString L (CreateDatabaseOperation_Serialize L m) = Some m"
  unfolding CreateDatabaseOperation_ParseFromString_def sendable_def
  by (intro parse_from_string_merge CreateDatabaseOperation_roundtrip) simp_all

lemma DropDatabaseOperation_parse_written:
  "sendable L (DropDatabaseMessage m) \<Longrightarrow> DropDatabaseOperation_ParseFromString L (DropDatabaseOperation_Serialize L m) = Some m"
  unfolding DropDatabaseOperation_ParseFromString_def sendable_def
  by (intro parse_from_string_merge DropDatabaseOperation_roundtrip) simp_all

lemma CreateStoreOperation_parse_written:
  "sendable L (CreateStoreMessage m) \<Longrightarrow> CreateStoreOperation_ParseFromString L (CreateStoreOperation_Serialize L m) = Some m"
  unfolding CreateStoreOperation_ParseFromString_def sendable_def
  by (intro parse_from_string_merge CreateStoreOperation_roundtrip) simp_all

lemma DropStoreOperation_parse_written:
  "sendable L (DropStoreMessage m) \<Longrightarrow> DropStoreOperation_ParseFromString L (DropStoreOperation_Serialize L m) = Some m"
  unfolding DropStoreOperation_ParseFromString_def sendable_def
  by (intro parse_from_string_merge DropStoreOperation_roundtrip) simp_all

lemma SetOperation_parse_written:
  "sendable L (SetMessage m) \<Longrightarrow> SetOperation_ParseFromString L (SetOperation_Serialize L m) = Some m"
  unfolding SetOperation_ParseFromString_def sendable_def
  by (intro parse_from_string_merge SetOperation_roundtrip) simp_all

lemma DeleteOperation_parse_written:
  "sendable L (DeleteMessage m) \<Longrightarrow> DeleteOperation_ParseFromString L (DeleteOperation_Serialize L m) = Some m"
  unfolding DeleteOperation_ParseFromString_def sendable_def
  by (intro parse_from_string_merge DeleteOperation_roundtrip) simp_all

lemma GetOperation_parse_written:
  "sendable L (GetMessage m) \<Longrightarrow> GetOperation_ParseFromString L (GetOperation_Serialize L m) = Some m"
  unfolding GetOperation_ParseFromString_def sendable_def
  by (intro parse_from_string_merge GetOperation_roundtrip) simp_all

lemma FrameItem_parse_written:
  "sendable L (FrameItemMessage m) \<Longrightarrow> FrameItem_ParseFromString L (FrameItem_Serialize L m) = Some m"
  unfolding FrameItem_ParseFromString_def sendable_def
  by (intro parse_from_string_merge FrameItem_roundtrip) simp_all

lemma Frame_parse_written:
  "sendable L (FrameMessage m) \<Longrightarrow> Frame_ParseFromString L (Frame_Serialize L m) = Some m"
  unfolding Frame_ParseFromString_def sendable_def
  by (intro parse_from_string_merge Frame_roundtrip) simp_all

lemma Row_parse_written:
  "sendable L (RowMessage m) \<Longrightarrow> Row_ParseFromString L (Row_Serialize L m) = Some m"
  unfolding Row_ParseFromString_def sendable_def
  by (intro parse_from_string_merge Row_roundtrip) simp_all

lemma OperationResult_parse_written:
  "sendable L (OperationResultMessage m) \<Longrightarrow> OperationResult_ParseFromString L (OperationResult_Serialize L m) = Some m"
  unfolding OperationResult_ParseFromString_def sendable_def
  by (intro parse_from_string_merge OperationResult_roundtrip) simp_all

lemma Result_parse_written:
  "sendable L (ResultMessage m) \<Longrightarrow> Result_ParseFromString L (Result_Serialize L m) = Some m"
  unfolding Result_ParseFromString_def sendable_def
  by (intro parse_from_string_merge Result_roundtrip) simp_all

lemma message_roundtrip:
  "sendable L message \<Longrightarrow>
   message_ParseFromString L message (message_Serialize L message) = Some message"
  by (cases message)
    (simp_all add: StoreInfo_parse_written
      ColumnInfo_parse_written
      ColumnValue_parse_written
      CreateDatabaseOperation_parse_written
      DropDatabaseOperation_parse_written
      CreateStoreOperation_parse_written
      DropStoreOperation_parse_written
      SetOperation_parse_written
      DeleteOperation_parse_written
      GetOperation_parse_written
      FrameItem_parse_written
      Frame_parse_written
      Row_parse_written
      OperationResult_parse_written
      Result_parse_written)

lemma message_merge_total: "message_MergePartial L message bs \<noteq> OutOfFuel"
  by (cases message)
    (simp_all add: StoreInfo_merge_total
      ColumnInfo_merge_total
      ColumnValue_merge_total
      CreateDatabaseOperation_merge_total
      DropDatabaseOperation_merge_total
      CreateStoreOperation_merge_total
      DropStoreOperation_merge_total
      SetOperation_merge_total
      DeleteOperation_merge_total
      GetOperation_merge_total
      FrameItem_merge_total
      Frame_merge_total
      Row_merge_total
      OperationResult_merge_total
      Result_merge_total split: parse_result.split)

lemma message_parse_initialized:
  "message_ParseFromString L message bs = Some message1 \<Longrightarrow> message_IsInitialized message1"
  by (cases message)
    (auto dest: parse_from_string_init
      simp: StoreInfo_ParseFromString_def
      ColumnInfo_ParseFromString_def
      ColumnValue_ParseFromString_def
      CreateDatabaseOperation_ParseFromString_def
      DropDatabaseOperation_ParseFromString_def
      CreateStoreOperation_ParseFromString_def
      DropStoreOperation_ParseFromString_def
      SetOperation_ParseFromString_def
      DeleteOperation_ParseFromString_def
      GetOperation_ParseFromString_def
      FrameItem_ParseFromString_def
      Frame_ParseFromString_def
      Row_ParseFromString_def
      OperationResult_ParseFromString_def
      Result_ParseFromString_def)

end

lemmas message_new_eval =
  StoreInfo_new_def ColumnInfo_new_def ColumnValue_new_def CreateDatabaseOperation_new_def DropDatabaseOperation_new_def CreateStoreOperation_new_def DropStoreOperation_new_def SetOperation_new_def DeleteOperation_new_def GetOperation_new_def FrameItem_new_def Frame_new_def Row_new_def OperationResult_new_def Result_new_def

lemmas message_Serialize_eval =
  StoreInfo_Serialize_def ColumnInfo_Serialize_def ColumnValue_Serialize_def CreateDatabaseOperation_Serialize_def DropDatabaseOperation_Serialize_def CreateStoreOperation_Serialize_def DropStoreOperation_Serialize_def SetOperation_Serialize_def DeleteOperation_Serialize_def GetOperation_Serialize_def FrameItem_Serialize_def Frame_Serialize_def Row_Serialize_def OperationResult_Serialize_def Result_Serialize_def

lemmas message_ByteSize_eval =
  StoreInfo_ByteSize_def ColumnInfo_ByteSize_def ColumnValue_ByteSize_def CreateDatabaseOperation_ByteSize_def DropDatabaseOperation_ByteSize_def CreateStoreOperation_ByteSize_def DropStoreOperation_ByteSize_def SetOperation_ByteSize_def DeleteOperation_ByteSize_def GetOperation_ByteSize_def FrameItem_ByteSize_def Frame_ByteSize_def Row_ByteSize_def OperationResult_ByteSize_def Result_ByteSize_def

lemmas message_IsInitialized_eval =
  StoreInfo_IsInitialized_def ColumnInfo_IsInitialized_def ColumnValue_IsInitialized_def CreateDatabaseOperation_IsInitialized_def DropDatabaseOperation_IsInitialized_def CreateStoreOperation_IsInitialized_def DropStoreOperation_IsInitialized_def SetOperation_IsInitialized_def DeleteOperation_IsInitialized_def GetOperation_IsInitialized_def FrameItem_IsInitialized_def Frame_IsInitialized_def Row_IsInitialized_def OperationResult_IsInitialized_def Result_IsInitialized_def

lemmas message_known_eval =
  StoreInfo_known_def ColumnInfo_known_def ColumnValue_known_def CreateDatabaseOperation_known_def DropDatabaseOperation_known_def CreateStoreOperation_known_def DropStoreOperation_known_def SetOperation_known_def DeleteOperation_known_def GetOperation_known_def FrameItem_known_def Frame_known_def Row_known_def OperationResult_known_def Result_known_def

lemmas message_eval = message_new_eval message_Serialize_eval message_ByteSize_eval
  message_IsInitialized_eval message_known_eval
  accessors sendable_def total_bytes_limit_def

end
