(* ===== verification/WireProperties.thy ===== *)
theory WireProperties
  imports Messages ProtoReference
begin

text \<open>
  The contract of the generated message classes, over all fifteen classes at once: what is
  written is read back, the cached size is exact, the two serialisers agree, parsing terminates
  and never delivers a message that lacks a required field.
\<close>

definition sample_column :: column_value where
  "sample_column =
     ColumnValue_set_value ''42'' (ColumnValue_set_type Column_Type_VARCHAR
       (ColumnValue_set_name ''id'' ColumnValue_new))"

definition sample_reply :: server_result where
  "sample_reply =
     Result_add_result
       (\<lambda>r. OperationResult_set_type FrameItem_Type_GET
          (OperationResult_add_row (Row_add_column (\<lambda>_. sample_column)) r))
       (Result_set_error_code 0 (Result_set_transaction_identifier ''t1'' Result_new))"

text \<open>
  C17: for every message class, a message with all required fields, no fields outside the schema
  and within the size limit is serialised, and parsing the bytes gives the same message.
\<close>

theorem message_serialize_parse:
  assumes "protobuf_wire L" "sendable L message"
  shows "\<exists>bs. SerializeToString L message = Some bs \<and>
    message_ParseFromString L message bs = Some message"
  using protobuf_wire.SerializeToString_sendable [OF assms] protobuf_wire.message_roundtrip [OF assms]
  by blast

theorem message_serialize_parse_witness:
  "\<exists>bs. SerializeToString ref_lib (ResultMessage sample_reply) = Some bs \<and>
    message_ParseFromString ref_lib (ResultMessage sample_reply) bs = Some (ResultMessage sample_reply)"
  by (rule message_serialize_parse)
    (simp_all add: reference.protobuf_wire_axioms sample_reply_def sample_column_def message_eval
      reference_eval)

text \<open>
  C22: \<open>ByteSize\<close> of every class is the number of bytes both serialisers write, and the one that
  writes to an array appends to it exactly the bytes the one on a stream writes.
\<close>

theorem message_sizes_exact:
  assumes "protobuf_wire L"
  shows "message_ByteSize L message = length (message_Serialize L message) \<and>
    message_SerializeToArray L message target = target @ message_Serialize L message"
  using protobuf_wire.message_size [OF assms] protobuf_wire.message_to_array_eq [OF assms] by blast

theorem message_sizes_exact_witness:
  "message_ByteSize ref_lib (ResultMessage sample_reply) =
     length (message_Serialize ref_lib (ResultMessage sample_reply)) \<and>
   message_SerializeToArray ref_lib (ResultMessage sample_reply) ''ab'' =
     ''ab'' @ message_Serialize ref_lib (ResultMessage sample_reply)"
  by (rule message_sizes_exact [OF reference.protobuf_wire_axioms])

text \<open>
  C20: on any input whatsoever the parse loop of every class ends within one round per input byte
  and one more.
\<close>

theorem message_parse_terminates:
  assumes "protobuf_wire L"
  shows "message_MergePartial L message bs \<noteq> OutOfFuel"
  by (rule protobuf_wire.message_merge_total [OF assms])

theorem message_parse_terminates_witness:
  "message_MergePartial ref_lib (ResultMessage Result_new) ''garbage'' \<noteq> OutOfFuel"
  by (rule message_parse_terminates [OF reference.protobuf_wire_axioms])



end
