(* ===== verification/FrameUtils.thy ===== *)
theory FrameUtils
  imports Messages
begin

text \<open>
  \<open>volodb-common/Frame/FrameUtils.cpp\<close>: the item type a message is framed under, decided by the
  class name, and which types define databases and stores.
\<close>

definition getFrameType :: "message \<Rightarrow> frame_item_type" where
  "getFrameType message =
     (let typeName = GetTypeName message in
      if typeName = ''CreateDatabaseOperation'' then FrameItem_Type_CREATE_DATABASE
      else if typeName = ''DropDatabaseOperation'' then FrameItem_Type_DROP_DATABASE
      else if typeName = ''CreateStoreOperation'' then FrameItem_Type_CREATE_STORE
      else if typeName = ''DropStoreOperation'' then FrameItem_Type_DROP_STORE
      else if typeName = ''SetOperation'' then FrameItem_Type_SET
      else if typeName = ''DeleteOperation'' then FrameItem_Type_DELETE
      else if typeName = ''GetOperation'' then FrameItem_Type_GET
      else if typeName = ''Result'' then FrameItem_Type_SERVER_RESPONSE
      else FrameItem_Type_NONE)"

definition isDefinitionFrame :: "message \<Rightarrow> bool" where
  "isDefinitionFrame message =
     (let type = getFrameType message in
      type = FrameItem_Type_CREATE_DATABASE \<or> type = FrameItem_Type_DROP_DATABASE \<or>
      type = FrameItem_Type_CREATE_STORE \<or> type = FrameItem_Type_DROP_STORE)"

lemma getFrameType_simps [simp]:
  "getFrameType (CreateDatabaseMessage a) = FrameItem_Type_CREATE_DATABASE"
  "getFrameType (DropDatabaseMessage b) = FrameItem_Type_DROP_DATABASE"
  "getFrameType (CreateStoreMessage c) = FrameItem_Type_CREATE_STORE"
  "getFrameType (DropStoreMessage d) = FrameItem_Type_DROP_STORE"
  "getFrameType (SetMessage e) = FrameItem_Type_SET"
  "getFrameType (DeleteMessage f) = FrameItem_Type_DELETE"
  "getFrameType (GetMessage g) = FrameItem_Type_GET"
  "getFrameType (ResultMessage h) = FrameItem_Type_SERVER_RESPONSE"
  "getFrameType (StoreInfoMessage i) = FrameItem_Type_NONE"
  "getFrameType (ColumnInfoMessage j) = FrameItem_Type_NONE"
  "getFrameType (ColumnValueMessage k) = FrameItem_Type_NONE"
  "getFrameType (FrameItemMessage l) = FrameItem_Type_NONE"
  "getFrameType (FrameMessage m) = FrameItem_Type_NONE"
  "getFrameType (RowMessage n) = FrameItem_Type_NONE"
  "getFrameType (OperationResultMessage p) = FrameItem_Type_NONE"
  by (simp_all add: getFrameType_def)

lemma isDefinitionFrame_simps [simp]:
  "isDefinitionFrame (CreateDatabaseMessage a)"
  "isDefinitionFrame (DropDatabaseMessage b)"
  "isDefinitionFrame (CreateStoreMessage c)"
  "isDefinitionFrame (DropStoreMessage d)"
  "\<not> isDefinitionFrame (SetMessage e)"
  "\<not> isDefinitionFrame (DeleteMessage f)"
  "\<not> isDefinitionFrame (GetMessage g)"
  "\<not> isDefinitionFrame (ResultMessage h)"
  by (simp_all add: isDefinitionFrame_def)

end
