(* ===== verification/FrameBuilder.thy ===== *)
theory FrameBuilder
  imports FrameUtils
begin

text \<open>
  \<open>volodb-common/Frame/FrameBuilder.cpp\<close>: the builder that packs messages into a \<open>Frame\<close>. A
  frame with an identifier of its own is atomic; without one, every item carries the identifier
  the caller gives it.
\<close>

record frame_builder =
  fb_frame :: frame

definition FrameBuilder_new :: "bool \<Rightarrow> bytes \<Rightarrow> frame_builder" where
  "FrameBuilder_new isAtomic uuid =
     \<lparr>fb_frame = (if isAtomic then Frame_set_identifier uuid Frame_new else Frame_new)\<rparr>"

definition getIdentifier :: "frame_builder \<Rightarrow> bytes" where
  "getIdentifier fb = Frame_identifier (fb_frame fb)"

definition addFrame ::
  "pb_lib \<Rightarrow> message \<Rightarrow> bytes \<Rightarrow> frame_builder \<Rightarrow> (bytes \<times> frame_builder) result" where
  "addFrame L message uuid fb =
     (let messageType = getFrameType message in
      if messageType = FrameItem_Type_NONE then
        Inl (Thrown (GetTypeName message @ '' message is not supported to be framed''))
      else
        (let unidentified = \<not> Frame_has_identifier (fb_frame fb);
             frameItemIdentifier = (if unidentified then uuid else []);
             frameData = (case SerializeToString L message of None \<Rightarrow> [] | Some s \<Rightarrow> s);
             fill = (\<lambda>frameItem.
               FrameItem_set_data frameData
                 (FrameItem_set_type messageType
                   (if unidentified then FrameItem_set_identifier frameItemIdentifier frameItem
                    else frameItem)))
         in Inr (frameItemIdentifier, fb\<lparr>fb_frame := Frame_add_item fill (fb_frame fb)\<rparr>)))"

definition getBytes :: "pb_lib \<Rightarrow> frame_builder \<Rightarrow> bytes option" where
  "getBytes L fb = SerializeToString L (FrameMessage (fb_frame fb))"

text \<open>The bytes, the success flag of \<open>getBytes\<close> as the option, and the identifier passed back.\<close>

definition getBytesOfFrameWithMessage :: "pb_lib \<Rightarrow> message \<Rightarrow> (bytes option \<times> bytes) result" where
  "getBytesOfFrameWithMessage L message =
     bind_result (addFrame L message [] (FrameBuilder_new False []))
       (\<lambda>(_, frameBuilder). Inr (getBytes L frameBuilder, getIdentifier frameBuilder))"

section \<open>What a builder holds\<close>

text \<open>The item \<open>addFrame\<close> appends for a message that can be framed and sent.\<close>

definition item_for :: "pb_lib \<Rightarrow> bytes option \<Rightarrow> message \<Rightarrow> frame_item" where
  "item_for L identifier message =
     \<lparr>fi_type = Some (getFrameType message), fi_data = Some (message_Serialize L message),
      fi_identifier = identifier, fi_unknown = []\<rparr>"

definition framable :: "message \<Rightarrow> bool" where
  "framable message \<longleftrightarrow> getFrameType message \<noteq> FrameItem_Type_NONE"

lemma addFrame_rejects:
  "\<not> framable message \<Longrightarrow>
   addFrame L message uuid fb =
     Inl (Thrown (GetTypeName message @ '' message is not supported to be framed''))"
  by (simp add: addFrame_def framable_def)

context protobuf_wire
begin

lemma addFrame_item:
  assumes "framable message" "sendable L message"
  shows "addFrame L message uuid fb =
    (case fr_identifier (fb_frame fb) of
       None \<Rightarrow> Inr (uuid, fb\<lparr>fb_frame := (fb_frame fb)\<lparr>fr_item := fr_item (fb_frame fb) @
                 [item_for L (Some uuid) message]\<rparr>\<rparr>)
     | Some i \<Rightarrow> Inr ([], fb\<lparr>fb_frame := (fb_frame fb)\<lparr>fr_item := fr_item (fb_frame fb) @
                 [item_for L None message]\<rparr>\<rparr>))"
  using assms
  by (simp add: addFrame_def framable_def SerializeToString_sendable item_for_def accessors
      FrameItem_new_def split: option.splits)

lemma item_for_known [simp]: "FrameItem_known (item_for L i message)"
  by (simp add: item_for_def FrameItem_known_def)

lemma item_for_initialized [simp]: "FrameItem_IsInitialized (item_for L i message)"
  by (simp add: item_for_def FrameItem_IsInitialized_def)

lemma frame_of_items_sendable:
  assumes "length (Frame_Serialize L fr) < total_bytes_limit" "fr_unknown fr = []"
    and "\<And>it. it \<in> set (fr_item fr) \<Longrightarrow> \<exists>i message. it = item_for L i message"
  shows "sendable L (FrameMessage fr)"
  using assms by (fastforce simp: sendable_def Frame_IsInitialized_def Frame_known_def list_all_iff)

end

end
