(* ===== verification/FrameDecoder.thy ===== *)
theory FrameDecoder
  imports FrameBuilder
begin

text \<open>
  \<open>volodb-common/Frame/FrameDecoder.cpp\<close>: unpacking received frames. A \<open>FrameMessagesTuple\<close> is
  the transaction identifier, the identity of the sending socket and the messages; an atomic
  frame gives one tuple, another frame one tuple per item.
\<close>

type_synonym frame_messages_tuple = "bytes \<times> bytes \<times> message list"

definition getID :: "frame \<Rightarrow> frame_item \<Rightarrow> bytes" where
  "getID frame frameItem =
     (if FrameItem_has_identifier frameItem then FrameItem_identifier frameItem
      else Frame_identifier frame)"

text \<open>
  The \<open>if\<close> chain of \<open>decode\<close> on the item type. A type without a branch leaves \<open>parseResult\<close>
  false, as a failed parse does.
\<close>

definition parse_item :: "pb_lib \<Rightarrow> frame_item \<Rightarrow> message option" where
  "parse_item L currentFrameItem =
     (let type = FrameItem_type currentFrameItem; data = FrameItem_data currentFrameItem in
      if type = FrameItem_Type_CREATE_STORE then
        map_option CreateStoreMessage (CreateStoreOperation_ParseFromString L data)
      else if type = FrameItem_Type_DROP_STORE then
        map_option DropStoreMessage (DropStoreOperation_ParseFromString L data)
      else if type = FrameItem_Type_SERVER_RESPONSE then
        map_option ResultMessage (Result_ParseFromString L data)
      else if type = FrameItem_Type_SET then
        map_option SetMessage (SetOperation_ParseFromString L data)
      else if type = FrameItem_Type_DELETE then
        map_option DeleteMessage (DeleteOperation_ParseFromString L data)
      else if type = FrameItem_Type_GET then
        map_option GetMessage (GetOperation_ParseFromString L data)
      else None)"

text \<open>\<open>messages\<close> points at the tuple pushed last, which the loop body updates in place.\<close>

definition update_last :: "('a \<Rightarrow> 'a) \<Rightarrow> 'a list \<Rightarrow> 'a list" where
  "update_last f xs = (if xs = [] then [] else butlast xs @ [f (last xs)])"

fun decode_items ::
  "pb_lib \<Rightarrow> bool \<Rightarrow> bytes \<Rightarrow> frame_item list \<Rightarrow> frame_messages_tuple list
   \<Rightarrow> frame_messages_tuple list" where
  "decode_items L isAtomic identifier [] tuples = tuples"
| "decode_items L isAtomic identifier (currentFrameItem # items) tuples =
     (let tuples1 = (if isAtomic then tuples else tuples @ [([], identifier, [])]) in
      case parse_item L currentFrameItem of
        None \<Rightarrow> decode_items L isAtomic identifier items tuples1
      | Some currentMessage \<Rightarrow>
          (let tuples2 = update_last (\<lambda>(i, s, ms). (i, s, ms @ [currentMessage])) tuples1;
               tuples3 =
                 (if isAtomic then tuples2
                  else update_last (\<lambda>(_, s, ms). (FrameItem_identifier currentFrameItem, s, ms))
                         tuples2)
           in decode_items L isAtomic identifier items tuples3))"

definition decode :: "pb_lib \<Rightarrow> bytes \<Rightarrow> bytes option \<Rightarrow> frame_messages_tuple list" where
  "decode L message identifier =
     (case Frame_ParseFromString L message of
        None \<Rightarrow> []
      | Some frame \<Rightarrow>
          (let isAtomic = Frame_has_identifier frame;
               sender = (case identifier of None \<Rightarrow> [] | Some i \<Rightarrow> i);
               tuples = (if isAtomic then [([], sender, [])] else []);
               tuples' = decode_items L isAtomic sender (fr_item frame) tuples
           in if isAtomic then update_last (\<lambda>(_, s, ms). (Frame_identifier frame, s, ms)) tuples'
              else tuples'))"

text \<open>
  \<open>decode\<close> over the queued parts of several messages. With identifiers the parts come in pairs
  and \<open>messages[i+1]\<close> is read whether or not it exists.
\<close>

fun decode_all :: "pb_lib \<Rightarrow> bytes list \<Rightarrow> bool \<Rightarrow> frame_messages_tuple list result" where
  "decode_all L [] containsIdentifier = Inr []"
| "decode_all L (part # parts) containsIdentifier =
     (if containsIdentifier then
        (case parts of
           [] \<Rightarrow> Inl IndexOutOfRange
         | message # rest \<Rightarrow>
             bind_result (decode_all L rest True)
               (\<lambda>decodedMessages. Inr (decode L message (Some part) @ decodedMessages)))
      else
        bind_result (decode_all L parts False)
          (\<lambda>decodedMessages. Inr (decode L part None @ decodedMessages)))"

definition flattenFrameMessagesTupleList :: "frame_messages_tuple list \<Rightarrow> message list list" where
  "flattenFrameMessagesTupleList tuples = map (\<lambda>(_, _, messages). messages) tuples"

fun flattenFrameMessagesTupleListToSingleList :: "frame_messages_tuple list \<Rightarrow> message list" where
  "flattenFrameMessagesTupleListToSingleList [] = []"
| "flattenFrameMessagesTupleListToSingleList ((_, _, messages) # tuples) =
     (if 0 < length messages then [messages ! 0] else []) @
     flattenFrameMessagesTupleListToSingleList tuples"

section \<open>What the decoder sees of a built frame\<close>

lemma update_last_append [simp]: "update_last f (xs @ [x]) = xs @ [f x]"
  by (simp add: update_last_def)

lemma update_last_single [simp]: "update_last f [x] = [f x]"
  by (simp add: update_last_def)

lemma decode_malformed: "Frame_ParseFromString L message = None \<Longrightarrow> decode L message i = []"
  by (simp add: decode_def)

text \<open>The messages \<open>decode\<close> has a branch for.\<close>

definition decodable :: "message \<Rightarrow> bool" where
  "decodable message \<longleftrightarrow> getFrameType message \<in>
     {FrameItem_Type_CREATE_STORE, FrameItem_Type_DROP_STORE, FrameItem_Type_SERVER_RESPONSE,
      FrameItem_Type_SET, FrameItem_Type_DELETE, FrameItem_Type_GET}"

text \<open>The tuples of a frame without identifier, item by item.\<close>

definition tuple_of_item :: "pb_lib \<Rightarrow> bytes \<Rightarrow> frame_item \<Rightarrow> frame_messages_tuple" where
  "tuple_of_item L sender it =
     (case parse_item L it of
        None \<Rightarrow> ([], sender, [])
      | Some m \<Rightarrow> (FrameItem_identifier it, sender, [m]))"

lemma decode_items_separate:
  "decode_items L False sender items tuples = tuples @ map (tuple_of_item L sender) items"
  by (induction items arbitrary: tuples) (simp_all add: tuple_of_item_def split: option.splits)

lemma decode_items_atomic:
  "decode_items L True sender items [(i, s, ms)] = [(i, s, ms @ List.map_filter (parse_item L) items)]"
  by (induction items arbitrary: ms) (simp_all add: List.map_filter_simps split: option.splits)

lemma decode_separate:
  assumes "Frame_ParseFromString L bs = Some fr" "fr_identifier fr = None"
  shows "decode L bs identifier =
    map (tuple_of_item L (case identifier of None \<Rightarrow> [] | Some i \<Rightarrow> i)) (fr_item fr)"
  using assms by (simp add: decode_def accessors decode_items_separate)

lemma decode_atomic:
  assumes "Frame_ParseFromString L bs = Some fr" "fr_identifier fr = Some uuid"
  shows "decode L bs identifier =
    [(uuid, case identifier of None \<Rightarrow> [] | Some i \<Rightarrow> i, List.map_filter (parse_item L) (fr_item fr))]"
  using assms by (simp add: decode_def accessors decode_items_atomic)

lemma flatten_single_append [simp]:
  "flattenFrameMessagesTupleListToSingleList (xs @ ys) =
   flattenFrameMessagesTupleListToSingleList xs @ flattenFrameMessagesTupleListToSingleList ys"
  by (induction xs) auto

lemma decode_all_unidentified:
  "decode_all L parts False = Inr (concat (map (\<lambda>p. decode L p None) parts))"
  by (induction parts) simp_all

lemma decode_all_pairs:
  "decode_all L (concat (map (\<lambda>(i, m). [i, m]) pairs)) True =
   Inr (concat (map (\<lambda>(i, m). decode L m (Some i)) pairs))"
  by (induction pairs) auto

lemma decode_all_odd:
  "odd (length parts) \<Longrightarrow> decode_all L parts True = Inl IndexOutOfRange"
proof (induction parts rule: induct_list012)
  case (3 x y zs)
  then show ?case by simp
qed simp_all

context protobuf_wire
begin

lemma parse_item_for:
  assumes "decodable message" "sendable L message"
  shows "parse_item L (item_for L i message) = Some message"
  using assms
  by (cases message)
    (simp_all add: decodable_def parse_item_def item_for_def accessors
      CreateStoreOperation_parse_written DropStoreOperation_parse_written
      SetOperation_parse_written DeleteOperation_parse_written GetOperation_parse_written
      Result_parse_written)

lemma parse_item_undecodable:
  assumes "\<not> decodable message"
  shows "parse_item L (item_for L i message) = None"
  using assms
  by (cases message) (simp_all add: decodable_def parse_item_def item_for_def accessors)

end

end
