(* ===== verification/ClientExecutor.thy ===== *)
theory ClientExecutor
  imports FrameDecoder ProtoReference
begin

text \<open>
  \<open>volodb-client/Executor/Executor.cpp\<close>: how a client turns operations into the bytes it hands
  to its transport, and what it passes on of the bytes it receives. The two \<open>execute\<close> overloads
  return the message given to \<open>ClientTransport::send\<close>; \<open>didReceiveMessage\<close> returns the
  argument of the delegate call, \<open>None\<close> when no call is made.
\<close>

definition sendFrame :: "pb_lib \<Rightarrow> frame_builder \<Rightarrow> bytes" where
  "sendFrame L frame = (case getBytes L frame of None \<Rightarrow> [] | Some bytesToSend \<Rightarrow> bytesToSend)"

definition execute :: "pb_lib \<Rightarrow> message \<Rightarrow> bytes \<Rightarrow> bytes result" where
  "execute L operation uuid =
     bind_result (addFrame L operation uuid (FrameBuilder_new False []))
       (\<lambda>(_, frameBuilder). Inr (sendFrame L frameBuilder))"

fun addFrames ::
  "pb_lib \<Rightarrow> bool \<Rightarrow> bytes list \<Rightarrow> nat \<Rightarrow> message list \<Rightarrow> frame_builder \<Rightarrow> frame_builder result" where
  "addFrames L runAtomic uuids i [] fb = Inr fb"
| "addFrames L runAtomic uuids i (operation # operations) fb =
     bind_result (if runAtomic then Inr [] else index uuids i)
       (\<lambda>uuid. bind_result (addFrame L operation uuid fb)
         (\<lambda>(frameIdentifier, fb'). addFrames L runAtomic uuids (Suc i) operations fb'))"

definition execute_many :: "pb_lib \<Rightarrow> message list \<Rightarrow> bytes list \<Rightarrow> bool \<Rightarrow> bytes result" where
  "execute_many L operations uuids runAtomic =
     (if \<not> runAtomic \<and> length operations \<noteq> length uuids then
        Inl (Thrown ''UUID must be provided for every operation for non atomic execution'')
      else if runAtomic \<and> length uuids < 1 then
        Inl (Thrown ''At least one UUID must be provided for atomic operation'')
      else
        bind_result (index uuids 0)
          (\<lambda>uuid. bind_result (addFrames L runAtomic uuids 0 operations (FrameBuilder_new runAtomic uuid))
            (\<lambda>frameBuilder. Inr (sendFrame L frameBuilder))))"

fun collect_results :: "bool \<Rightarrow> message list \<Rightarrow> server_result list" where
  "collect_results delegate [] = []"
| "collect_results delegate (response # responses) =
     (if getFrameType response = FrameItem_Type_SERVER_RESPONSE \<and> delegate then
        (case response of ResultMessage r \<Rightarrow> [r] | _ \<Rightarrow> [])
      else []) @ collect_results delegate responses"

definition didReceiveMessage :: "pb_lib \<Rightarrow> bool \<Rightarrow> bytes list \<Rightarrow> server_result list option result" where
  "didReceiveMessage L delegate messages =
     bind_result (decode_all L messages False)
       (\<lambda>responses.
          let results = collect_results delegate (flattenFrameMessagesTupleListToSingleList responses)
          in Inr (if 0 < length results then Some results else None))"

section \<open>The frames that are sent\<close>

text \<open>The frame of a request: one identifier for all operations, or one per operation.\<close>

definition request_frame :: "pb_lib \<Rightarrow> message list \<Rightarrow> bytes list \<Rightarrow> bool \<Rightarrow> frame" where
  "request_frame L operations uuids runAtomic =
     \<lparr>fr_identifier = (if runAtomic then Some (hd uuids) else None),
      fr_item =
        (if runAtomic then map (item_for L None) operations
         else map2 (\<lambda>i m. item_for L (Some i) m) uuids operations),
      fr_unknown = []\<rparr>"

text \<open>A list of operations that can cross the wire.\<close>

definition deliverable :: "pb_lib \<Rightarrow> message list \<Rightarrow> bool" where
  "deliverable L operations \<longleftrightarrow>
     (\<forall>operation \<in> set operations. decodable operation \<and> sendable L operation)"

lemma decodable_framable: "decodable m \<Longrightarrow> framable m"
  by (auto simp: decodable_def framable_def)

lemma deliverable_simps [simp]:
  "deliverable L []"
  "deliverable L (m # ms) \<longleftrightarrow> decodable m \<and> sendable L m \<and> deliverable L ms"
  by (auto simp: deliverable_def)

lemma collect_results_all [simp]:
  "collect_results True (map ResultMessage rs) = rs"
  by (induction rs) simp_all

lemma collect_results_append [simp]:
  "collect_results d (xs @ ys) = collect_results d xs @ collect_results d ys"
  by (induction xs) simp_all

lemma frame_builder_eqI: "fb_frame a = fb_frame b \<Longrightarrow> a = (b :: frame_builder)"
  by (cases a; cases b) simp

lemma item_for_identifier: "fi_identifier (item_for L i m) = i"
  by (simp add: item_for_def)

context protobuf_wire
begin

lemma addFrames_atomic:
  assumes "deliverable L operations" "fr_identifier (fb_frame fb) = Some i"
  shows "addFrames L True uuids k operations fb =
    Inr (fb\<lparr>fb_frame := (fb_frame fb)\<lparr>fr_item := fr_item (fb_frame fb) @
      map (item_for L None) operations\<rparr>\<rparr>)"
  using assms
  by (induction operations arbitrary: fb k)
    (simp_all add: addFrame_item decodable_framable)

lemma addFrames_separate:
  assumes "deliverable L operations" "fr_identifier (fb_frame fb) = None"
    "length uuids = k + length operations"
  shows "addFrames L False uuids k operations fb =
    Inr (fb\<lparr>fb_frame := (fb_frame fb)\<lparr>fr_item := fr_item (fb_frame fb) @
      map2 (\<lambda>i m. item_for L (Some i) m) (drop k uuids) operations\<rparr>\<rparr>)"
  using assms
proof (induction operations arbitrary: fb k)
  case Nil
  then show ?case by simp
next
  case (Cons operation operations)
  then have drop: "drop k uuids = uuids ! k # drop (Suc k) uuids" and k: "k < length uuids"
    by (simp_all add: Cons_nth_drop_Suc)
  from Cons k show ?case
    by (simp add: addFrame_item decodable_framable index_def drop)
qed

lemma request_frame_sendable:
  assumes "length (Frame_Serialize L (request_frame L operations uuids a)) < total_bytes_limit"
  shows "sendable L (FrameMessage (request_frame L operations uuids a))"
  using assms
  by (rule frame_of_items_sendable) (auto simp: request_frame_def split: if_splits)

lemma execute_many_sends:
  assumes "deliverable L operations" "uuids \<noteq> []"
    and "\<not> runAtomic \<Longrightarrow> length operations = length uuids"
    and "length (Frame_Serialize L (request_frame L operations uuids runAtomic)) < total_bytes_limit"
  shows "execute_many L operations uuids runAtomic =
    Inr (Frame_Serialize L (request_frame L operations uuids runAtomic))"
proof -
  obtain u us where uuids: "uuids = u # us" using assms(2) by (cases uuids) simp_all
  have sent: "sendFrame L \<lparr>fb_frame = request_frame L operations uuids runAtomic\<rparr> =
      Frame_Serialize L (request_frame L operations uuids runAtomic)"
    using SerializeToString_sendable [OF request_frame_sendable [OF assms(4)]]
    by (simp add: sendFrame_def getBytes_def)
  have "addFrames L runAtomic uuids 0 operations (FrameBuilder_new runAtomic u) =
      Inr \<lparr>fb_frame = request_frame L operations uuids runAtomic\<rparr>"
    using assms(1,3) uuids
    by (cases runAtomic)
      (simp_all add: addFrames_atomic addFrames_separate FrameBuilder_new_def request_frame_def
        accessors Frame_new_def)
  with sent assms(3) uuids show ?thesis by (auto simp: execute_many_def)
qed

lemma request_frame_received:
  assumes "length (Frame_Serialize L (request_frame L operations uuids a)) < total_bytes_limit"
  shows "Frame_ParseFromString L (Frame_Serialize L (request_frame L operations uuids a)) =
    Some (request_frame L operations uuids a)"
  by (rule Frame_parse_written [OF request_frame_sendable [OF assms]])

lemma items_for_received:
  assumes "deliverable L operations"
  shows "List.map_filter (parse_item L) (map (item_for L i) operations) = operations"
  using assms by (induction operations) (simp_all add: List.map_filter_simps parse_item_for)

lemma tuples_for_received:
  assumes "deliverable L operations" "length operations = length uuids"
  shows "map (tuple_of_item L sender) (map2 (\<lambda>i m. item_for L (Some i) m) uuids operations) =
    map2 (\<lambda>i m. (i, sender, [m])) uuids operations"
  using assms(2,1)
  by (induction operations uuids rule: list_induct2)
    (simp_all add: tuple_of_item_def parse_item_for item_for_identifier accessors)

end

section \<open>Sample messages\<close>

definition sample_store :: "bytes \<Rightarrow> store_info" where
  "sample_store n = StoreInfo_set_store_name n StoreInfo_new"

definition sample_drop :: message where
  "sample_drop =
     DropStoreMessage (DropStoreOperation_mutable_store_info (\<lambda>_. sample_store ''orders'')
       DropStoreOperation_new)"

definition sample_set :: message where
  "sample_set =
     SetMessage (SetOperation_add_store_info (\<lambda>_. sample_store ''orders'') SetOperation_new)"

definition sample_create_database :: message where
  "sample_create_database =
     CreateDatabaseMessage (CreateDatabaseOperation_set_database_name ''shop''
       CreateDatabaseOperation_new)"

definition sample_result :: server_result where
  "sample_result = Result_set_transaction_identifier ''t1'' Result_new"

lemmas sample_eval = sample_drop_def sample_set_def sample_create_database_def sample_store_def
  sample_result_def request_frame_def item_for_def deliverable_def decodable_def framable_def
  message_eval reference_eval

section \<open>Requests arrive as they were made\<close>

lemma atomic_request_decoded:
  assumes "protobuf_wire L" "deliverable L operations" "uuids \<noteq> []"
    and "length (Frame_Serialize L (request_frame L operations uuids True)) < total_bytes_limit"
  shows "\<exists>bs. execute_many L operations uuids True = Inr bs \<and>
    decode L bs (Some sender) = [(hd uuids, sender, operations)]"
proof -
  note sends = protobuf_wire.execute_many_sends [OF assms(1-3) _ assms(4)]
  note received = protobuf_wire.request_frame_received [OF assms(1,4)]
  have "decode L (Frame_Serialize L (request_frame L operations uuids True)) (Some sender) =
      [(hd uuids, sender, operations)]"
    using protobuf_wire.items_for_received [OF assms(1,2)]
    by (subst decode_atomic [OF received]) (simp_all add: request_frame_def)
  with sends show ?thesis by auto
qed

text \<open>
  C18: an atomic request of operations of the six framed kinds is sent, and the server decodes it
  into one transaction with the caller's first identifier, the sender's identity and all the
  operations in order.
\<close>

theorem atomic_request_delivered:
  assumes "protobuf_wire L" "deliverable L operations" "uuids \<noteq> []"
    and "length (Frame_Serialize L (request_frame L operations uuids True)) < total_bytes_limit"
  shows "\<exists>bs. execute_many L operations uuids True = Inr bs \<and>
    decode L bs (Some sender) = [(hd uuids, sender, operations)]"
  using assms by (rule atomic_request_decoded)

theorem atomic_request_delivered_witness:
  "\<exists>bs. execute_many ref_lib [sample_set, sample_drop] [''t1''] True = Inr bs \<and>
    decode ref_lib bs (Some ''c7'') = [(hd [''t1''], ''c7'', [sample_set, sample_drop])]"
  by (rule atomic_request_delivered) (simp_all add: reference.protobuf_wire_axioms sample_eval)

text \<open>
  C19: a request that is not atomic is sent, and the server decodes it into one transaction per
  operation, each under its own identifier.
\<close>

theorem separate_request_delivered:
  assumes "protobuf_wire L" "deliverable L operations"
    and "uuids \<noteq> []" "length operations = length uuids"
    and "length (Frame_Serialize L (request_frame L operations uuids False)) < total_bytes_limit"
  shows "\<exists>bs. execute_many L operations uuids False = Inr bs \<and>
    decode L bs (Some sender) = map2 (\<lambda>uuid operation. (uuid, sender, [operation])) uuids operations"
proof -
  note sends = protobuf_wire.execute_many_sends [OF assms(1-3) _ assms(5)]
  note received = protobuf_wire.request_frame_received [OF assms(1,5)]
  have "decode L (Frame_Serialize L (request_frame L operations uuids False)) (Some sender) =
      map2 (\<lambda>uuid operation. (uuid, sender, [operation])) uuids operations"
    using protobuf_wire.tuples_for_received [OF assms(1,2,4)]
    by (subst decode_separate [OF received]) (simp_all add: request_frame_def)
  with sends assms(4) show ?thesis by auto
qed

theorem separate_request_delivered_witness:
  "\<exists>bs. execute_many ref_lib [sample_set, sample_drop] [''a'', ''b''] False = Inr bs \<and>
    decode ref_lib bs (Some ''c7'') =
      map2 (\<lambda>uuid operation. (uuid, ''c7'', [operation])) [''a'', ''b''] [sample_set, sample_drop]"
  by (rule separate_request_delivered) (simp_all add: reference.protobuf_wire_axioms sample_eval)

section \<open>Requests that are refused or lost\<close>

lemma addFrame_accepts:
  assumes "framable message"
  obtains i fb' where "addFrame L message uuid fb = Inr (i, fb')"
  using assms by (simp add: addFrame_def framable_def Let_def)

lemma addFrames_fails_iff:
  "(\<exists>e. addFrames L a uuids k operations fb = Inl e) \<longleftrightarrow>
   (\<exists>m \<in> set operations. \<not> framable m) \<or>
   (\<not> a \<and> length uuids < k + length operations \<and> operations \<noteq> [])"
proof (induction operations arbitrary: k fb)
  case Nil
  then show ?case by simp
next
  case (Cons operation operations)
  show ?case
  proof (cases "framable operation \<and> (a \<or> k < length uuids)")
    case True
    then obtain u where u: "(if a then Inr [] else index uuids k) = Inr u"
      by (cases a) (auto simp: index_def)
    from True obtain i fb' where added: "addFrame L operation u fb = Inr (i, fb')"
      using addFrame_accepts [of operation L u fb] by auto
    have "(\<exists>e. addFrames L a uuids k (operation # operations) fb = Inl e) \<longleftrightarrow>
        (\<exists>e. addFrames L a uuids (Suc k) operations fb' = Inl e)"
      by (simp only: addFrames.simps u added bind_result_simps prod.case)
    with True Cons.IH [of "Suc k" fb'] show ?thesis by (cases operations) auto
  next
    case False
    then show ?thesis by (auto simp: index_def addFrame_rejects)
  qed
qed

text \<open>
  C39: a request fails before anything is sent exactly when the operations of a non-atomic request
  and the identifiers differ in number, when there is no identifier at all, or when some operation
  cannot be framed.
\<close>

theorem execute_many_refuses:
  "(\<exists>e. execute_many L operations uuids runAtomic = Inl e) \<longleftrightarrow>
   (\<not> runAtomic \<and> length operations \<noteq> length uuids) \<or> uuids = [] \<or>
   (\<exists>operation \<in> set operations. \<not> framable operation)"
proof (cases uuids)
  case Nil
  then show ?thesis by (simp add: execute_many_def)
next
  case (Cons u us)
  have "(\<exists>e. execute_many L operations uuids runAtomic = Inl e) \<longleftrightarrow>
      (\<not> runAtomic \<and> length operations \<noteq> length uuids) \<or>
      (\<exists>e. addFrames L runAtomic uuids 0 operations (FrameBuilder_new runAtomic u) = Inl e)"
    using Cons
    by (cases "addFrames L runAtomic uuids 0 operations (FrameBuilder_new runAtomic u)")
      (simp_all add: execute_many_def)
  with Cons show ?thesis by (auto simp: addFrames_fails_iff)
qed

text \<open>
  An empty non-atomic request without identifiers passes both checks of \<open>execute\<close> and then
  reads \<open>uuids[0]\<close> of an empty vector.
\<close>

lemma execute_many_empty: "execute_many L [] [] False = Inl IndexOutOfRange"
  by (simp add: execute_many_def)

text \<open>
  C40: a request to create or drop a database is framed and sent, but the decoder has no branch for
  it: the server sees a transaction with no identifier and no operation.
\<close>

theorem database_request_lost:
  assumes "protobuf_wire L" "sendable L operation"
    and "operation = CreateDatabaseMessage c \<or> operation = DropDatabaseMessage d"
    and "length (Frame_Serialize L (request_frame L [operation] [uuid] False)) < total_bytes_limit"
  shows "\<exists>bs. execute L operation uuid = Inr bs \<and> decode L bs (Some sender) = [([], sender, [])]"
proof -
  have framable: "framable operation" and undecodable: "\<not> decodable operation"
    using assms(3) by (auto simp: framable_def decodable_def)
  note received = protobuf_wire.request_frame_received [OF assms(1,4)]
  have "decode L (Frame_Serialize L (request_frame L [operation] [uuid] False)) (Some sender) =
      [([], sender, [])]"
    using protobuf_wire.parse_item_undecodable [OF assms(1) undecodable]
    by (subst decode_separate [OF received]) (simp_all add: request_frame_def tuple_of_item_def)
  moreover have "execute L operation uuid =
      Inr (Frame_Serialize L (request_frame L [operation] [uuid] False))"
    using protobuf_wire.SerializeToString_sendable
        [OF assms(1) protobuf_wire.request_frame_sendable [OF assms(1,4)]]
    by (simp add: execute_def protobuf_wire.addFrame_item [OF assms(1) framable assms(2)]
        FrameBuilder_new_def Frame_new_def sendFrame_def getBytes_def request_frame_def)
  ultimately show ?thesis by blast
qed

theorem database_request_lost_witness:
  "\<exists>bs. execute ref_lib sample_create_database ''t1'' = Inr bs \<and>
    decode ref_lib bs (Some ''c7'') = [([], ''c7'', [])]"
  by (rule database_request_lost
        [of _ _ "CreateDatabaseOperation_set_database_name ''shop'' CreateDatabaseOperation_new"])
    (simp_all add: reference.protobuf_wire_axioms sample_eval)

section \<open>Responses\<close>

text \<open>The frame of a server response: one item without a transaction of its own.\<close>

definition reply_frame :: "pb_lib \<Rightarrow> server_result \<Rightarrow> frame" where
  "reply_frame L r = request_frame L [ResultMessage r] [[]] False"

definition replyable :: "pb_lib \<Rightarrow> server_result \<Rightarrow> bool" where
  "replyable L r \<longleftrightarrow> sendable L (ResultMessage r) \<and>
     length (Frame_Serialize L (reply_frame L r)) < total_bytes_limit"

context protobuf_wire
begin

lemma reply_bytes:
  assumes "replyable L r"
  shows "getBytesOfFrameWithMessage L (ResultMessage r) =
    Inr (Some (Frame_Serialize L (reply_frame L r)), [])"
proof -
  from assms have "sendable L (FrameMessage (reply_frame L r))"
    unfolding replyable_def reply_frame_def by (intro request_frame_sendable) simp
  then have "SerializeToString L (FrameMessage (reply_frame L r)) =
      Some (Frame_Serialize L (reply_frame L r))"
    by (simp add: SerializeToString_sendable)
  with assms show ?thesis
    by (simp add: getBytesOfFrameWithMessage_def replyable_def addFrame_item framable_def
        FrameBuilder_new_def Frame_new_def getBytes_def getIdentifier_def reply_frame_def
        request_frame_def accessors)
qed

lemma reply_decoded:
  assumes "replyable L r"
  shows "decode L (Frame_Serialize L (reply_frame L r)) None = [([], [], [ResultMessage r])]"
proof -
  from assms have received:
      "Frame_ParseFromString L (Frame_Serialize L (reply_frame L r)) = Some (reply_frame L r)"
    unfolding replyable_def reply_frame_def by (intro request_frame_received) simp
  from assms have "parse_item L (item_for L (Some []) (ResultMessage r)) = Some (ResultMessage r)"
    unfolding replyable_def by (intro parse_item_for) (simp_all add: decodable_def)
  then show ?thesis
    by (subst decode_separate [OF received])
      (simp_all add: reply_frame_def request_frame_def tuple_of_item_def item_for_identifier accessors)
qed

lemma replies_received:
  assumes "list_all (replyable L) rs"
  shows "flattenFrameMessagesTupleListToSingleList
      (concat (map (\<lambda>p. decode L p None) (map (\<lambda>r. Frame_Serialize L (reply_frame L r)) rs))) =
    map ResultMessage rs"
  using assms by (induction rs) (simp_all add: reply_decoded)

end

text \<open>
  C27: whatever results the server frames, a client with a delegate is handed exactly these
  results, in the order of the messages, in one call; without any result no call is made.
\<close>

theorem responses_received:
  assumes "protobuf_wire L" "list_all (replyable L) rs"
  shows "\<exists>messages.
    list_all2 (\<lambda>r bs. getBytesOfFrameWithMessage L (ResultMessage r) = Inr (Some bs, [])) rs messages \<and>
    didReceiveMessage L True messages = Inr (if rs = [] then None else Some rs)"
proof (intro exI conjI)
  show "list_all2 (\<lambda>r bs. getBytesOfFrameWithMessage L (ResultMessage r) = Inr (Some bs, [])) rs
      (map (\<lambda>r. Frame_Serialize L (reply_frame L r)) rs)"
    using assms(2) protobuf_wire.reply_bytes [OF assms(1)]
    by (auto simp: list_all2_conv_all_nth list_all_length)
  show "didReceiveMessage L True (map (\<lambda>r. Frame_Serialize L (reply_frame L r)) rs) =
      Inr (if rs = [] then None else Some rs)"
    by (simp add: didReceiveMessage_def decode_all_unidentified Let_def
        protobuf_wire.replies_received [OF assms] del: map_map)
qed

theorem responses_received_witness:
  "\<exists>messages.
    list_all2 (\<lambda>r bs. getBytesOfFrameWithMessage ref_lib (ResultMessage r) = Inr (Some bs, []))
      [sample_result] messages \<and>
    didReceiveMessage ref_lib True messages =
      Inr (if [sample_result] = [] then None else Some [sample_result])"
  by (rule responses_received)
    (simp_all add: reference.protobuf_wire_axioms replyable_def reply_frame_def sample_eval)

end
