(* ===== verification/Columns.thy ===== *)
theory Columns
  imports ManipulationProto
begin

text \<open>
  \<open>volodb-common/AttributeUtils\<close> and \<open>OperationUtils\<close>: how a native value becomes the bytes of a
  \<open>ColumnValue\<close> and back. The code copies the memory of the value, so the bytes are in the order
  of the host, little-endian on every platform the build files name. A \<open>float\<close> or \<open>double\<close> is its
  32- or 64-bit pattern. Reads and writes outside a buffer are faults.
\<close>

section \<open>Memory of a value\<close>

fun le_bytes :: "nat \<Rightarrow> nat \<Rightarrow> bytes" where
  "le_bytes 0 n = []"
| "le_bytes (Suc k) n = char_of n # le_bytes k (n div 256)"

fun le_value :: "bytes \<Rightarrow> nat" where
  "le_value [] = 0"
| "le_value (c # cs) = of_char c + 256 * le_value cs"

text \<open>
  Reading \<open>size\<close> bytes at an offset of \<open>std::string::data()\<close>: the characters are followed by one
  terminating zero byte that may be read too.
\<close>

definition read_data :: "bytes \<Rightarrow> nat \<Rightarrow> nat \<Rightarrow> bytes result" where
  "read_data value offset sz =
     (if offset + sz \<le> length value + 1
      then Inr (take sz (drop offset (value @ [char_of (0::nat)])))
      else Inl BufferOverrun)"

section \<open>ColumnsValueBuilder\<close>

record columns_value_builder =
  cvb_columns :: "column_value list"

definition prependLength :: "bytes \<Rightarrow> uint16 \<Rightarrow> nat \<Rightarrow> bytes result" where
  "prependLength data len lengthSize =
     (if unat len \<le> length data then
        Inr ((if lengthSize = 1 then [char_of (unat len)]
              else [char_of (unat (len AND 0x00FF)),
                    char_of (unat (drop_bit 8 (len AND 0xFF00)))] @
                   replicate (lengthSize - 2) (char_of (0::nat))) @ take (unat len) data)
      else Inl BufferOverrun)"

definition addColumnInternal ::
  "bytes \<Rightarrow> column_type \<Rightarrow> bytes \<Rightarrow> nat \<Rightarrow> bool \<Rightarrow> bool
   \<Rightarrow> columns_value_builder \<Rightarrow> columns_value_builder result" where
  "addColumnInternal name type value sz isPrimaryKey isDistributedKey cvb =
     (if sz \<le> length value then
        (let column =
           ColumnValue_set_value (take sz value)
             (ColumnValue_set_distribution_key isDistributedKey
               (ColumnValue_set_primary_key isPrimaryKey
                 (ColumnValue_set_type type (ColumnValue_set_name name ColumnValue_new))))
         in Inr (cvb\<lparr>cvb_columns := cvb_columns cvb @ [column]\<rparr>))
      else Inl BufferOverrun)"

definition addBoolColumn ::
  "bytes \<Rightarrow> bool \<Rightarrow> bool \<Rightarrow> bool \<Rightarrow> columns_value_builder \<Rightarrow> columns_value_builder result" where
  "addBoolColumn name value = addColumnInternal name Column_Type_BOOL (le_bytes 1 (if value then 1 else 0)) 1"

definition addInt32Column ::
  "bytes \<Rightarrow> 32 word \<Rightarrow> bool \<Rightarrow> bool \<Rightarrow> columns_value_builder \<Rightarrow> columns_value_builder result" where
  "addInt32Column name value = addColumnInternal name Column_Type_INT32 (le_bytes 4 (unat value)) 4"

definition addUInt32Column ::
  "bytes \<Rightarrow> 32 word \<Rightarrow> bool \<Rightarrow> bool \<Rightarrow> columns_value_builder \<Rightarrow> columns_value_builder result" where
  "addUInt32Column name value = addColumnInternal name Column_Type_UINT32 (le_bytes 4 (unat value)) 4"

definition addInt64Column ::
  "bytes \<Rightarrow> 64 word \<Rightarrow> bool \<Rightarrow> bool \<Rightarrow> columns_value_builder \<Rightarrow> columns_value_builder result" where
  "addInt64Column name value = addColumnInternal name Column_Type_INT64 (le_bytes 8 (unat value)) 8"

definition addUInt64Column ::
  "bytes \<Rightarrow> 64 word \<Rightarrow> bool \<Rightarrow> bool \<Rightarrow> columns_value_builder \<Rightarrow> columns_value_builder result" where
  "addUInt64Column name value = addColumnInternal name Column_Type_UINT64 (le_bytes 8 (unat value)) 8"

definition addFloatColumn ::
  "bytes \<Rightarrow> 32 word \<Rightarrow> bool \<Rightarrow> bool \<Rightarrow> columns_value_builder \<Rightarrow> columns_value_builder result" where
  "addFloatColumn name value = addColumnInternal name Column_Type_FLOAT (le_bytes 4 (unat value)) 4"

definition addDoubleColumn ::
  "bytes \<Rightarrow> 64 word \<Rightarrow> bool \<Rightarrow> bool \<Rightarrow> columns_value_builder \<Rightarrow> columns_value_builder result" where
  "addDoubleColumn name value = addColumnInternal name Column_Type_DOUBLE (le_bytes 8 (unat value)) 8"

text \<open>
  The value is a zero-terminated array; the argument is what precedes the terminator, so its
  length is \<open>strlen\<close>.
\<close>

definition addCharColumn ::
  "bytes \<Rightarrow> bytes \<Rightarrow> nat \<Rightarrow> bool \<Rightarrow> bool \<Rightarrow> columns_value_builder \<Rightarrow> columns_value_builder result" where
  "addCharColumn name value sz isPrimaryKey isDistributedKey cvb =
     (let newSpacePaddedValue = replicate sz (char_of (32::nat)) in
      if length value \<le> length newSpacePaddedValue then
        addColumnInternal name Column_Type_CHAR (value @ drop (length value) newSpacePaddedValue) sz
          isPrimaryKey isDistributedKey cvb
      else Inl BufferOverrun)"

definition addVarCharColumn ::
  "bytes \<Rightarrow> bytes \<Rightarrow> bool \<Rightarrow> bool \<Rightarrow> columns_value_builder \<Rightarrow> columns_value_builder result" where
  "addVarCharColumn name value isPrimaryKey isDistributedKey cvb =
     bind_result (prependLength value (word_of_nat (length value)) 2)
       (\<lambda>dataWithLength. addColumnInternal name Column_Type_VARCHAR dataWithLength (length value + 2)
          isPrimaryKey isDistributedKey cvb)"

definition addVarBinaryColumn ::
  "bytes \<Rightarrow> bytes \<Rightarrow> nat \<Rightarrow> bool \<Rightarrow> bool \<Rightarrow> columns_value_builder \<Rightarrow> columns_value_builder result" where
  "addVarBinaryColumn name value sz isPrimaryKey isDistributedKey cvb =
     bind_result (prependLength value (word_of_nat sz) 2)
       (\<lambda>dataWithLength. addColumnInternal name Column_Type_VARBINARY dataWithLength (sz + 2)
          isPrimaryKey isDistributedKey cvb)"

definition getColumns :: "columns_value_builder \<Rightarrow> column_value list" where
  "getColumns cvb = cvb_columns cvb"

text \<open>The two templates, over the \<open>add_primary_key\<close> and \<open>add_value\<close> of the operation's class.\<close>

definition SetPrimaryKeys ::
  "((column_value \<Rightarrow> column_value) \<Rightarrow> 'op \<Rightarrow> 'op) \<Rightarrow> 'op \<Rightarrow> column_value list \<Rightarrow> 'op" where
  "SetPrimaryKeys add_primary_key operation attributeKeys =
     fold (\<lambda>keyValue. add_primary_key (\<lambda>_. keyValue)) attributeKeys operation"

definition SetValues ::
  "((column_value \<Rightarrow> column_value) \<Rightarrow> 'op \<Rightarrow> 'op) \<Rightarrow> 'op \<Rightarrow> column_value list \<Rightarrow> 'op" where
  "SetValues add_value operation attributeValues =
     fold (\<lambda>attributeValue. add_value (\<lambda>_. attributeValue)) attributeValues operation"

definition PopulateKeys :: "set_operation \<Rightarrow> column_value list \<Rightarrow> set_operation" where
  "PopulateKeys setOperation attributeKeys =
     fold (\<lambda>keyValue. SetOperation_add_primary_key (\<lambda>_. keyValue)) attributeKeys setOperation"

definition PopulateValues :: "set_operation \<Rightarrow> column_value list \<Rightarrow> set_operation" where
  "PopulateValues setOperation attributeValues =
     fold (\<lambda>attributeValue. SetOperation_add_value (\<lambda>_. attributeValue)) attributeValues setOperation"

section \<open>ColumnsValueDecoder\<close>

definition getLength :: "column_value \<Rightarrow> nat result" where
  "getLength columnValue =
     bind_result (read_data (ColumnValue_value columnValue) 0 1)
       (\<lambda>b0. bind_result (read_data (ColumnValue_value columnValue) 1 1)
         (\<lambda>b1. Inr (le_value b0 + push_bit 8 (le_value b1))))"

text \<open>A \<open>bool\<close> is read as the compilers of the build files load it: any byte but zero is true.\<close>

definition getBool :: "column_value \<Rightarrow> bool result" where
  "getBool columnValue =
     bind_result (read_data (ColumnValue_value columnValue) 0 1) (\<lambda>b. Inr (le_value b \<noteq> 0))"

definition getInt32 :: "column_value \<Rightarrow> 32 word result" where
  "getInt32 columnValue =
     bind_result (read_data (ColumnValue_value columnValue) 0 4) (\<lambda>b. Inr (word_of_nat (le_value b)))"

definition getUInt32 :: "column_value \<Rightarrow> 32 word result" where
  "getUInt32 columnValue =
     bind_result (read_data (ColumnValue_value columnValue) 0 4) (\<lambda>b. Inr (word_of_nat (le_value b)))"

definition getInt64 :: "column_value \<Rightarrow> 64 word result" where
  "getInt64 columnValue =
     bind_result (read_data (ColumnValue_value columnValue) 0 8) (\<lambda>b. Inr (word_of_nat (le_value b)))"

definition getUInt64 :: "column_value \<Rightarrow> 64 word result" where
  "getUInt64 columnValue =
     bind_result (read_data (ColumnValue_value columnValue) 0 8) (\<lambda>b. Inr (word_of_nat (le_value b)))"

definition getFloat :: "column_value \<Rightarrow> 32 word result" where
  "getFloat columnValue =
     bind_result (read_data (ColumnValue_value columnValue) 0 4) (\<lambda>b. Inr (word_of_nat (le_value b)))"

definition getDouble :: "column_value \<Rightarrow> 64 word result" where
  "getDouble columnValue =
     bind_result (read_data (ColumnValue_value columnValue) 0 8) (\<lambda>b. Inr (word_of_nat (le_value b)))"

definition getChar :: "column_value \<Rightarrow> bytes" where
  "getChar columnValue =
     (let charValue = replicate (length (ColumnValue_value columnValue)) (char_of (0::nat))
      in ColumnValue_value columnValue @ drop (length (ColumnValue_value columnValue)) charValue)"

definition getVarChar :: "column_value \<Rightarrow> bytes result" where
  "getVarChar columnValue =
     bind_result (getLength columnValue)
       (\<lambda>len. read_data (ColumnValue_value columnValue) 2 (len + 1))"

definition getVarBinary :: "column_value \<Rightarrow> bytes result" where
  "getVarBinary columnValue = getVarChar columnValue"

section \<open>The memory round trip\<close>

lemma length_le_bytes [simp]: "length (le_bytes k n) = k"
  by (induction k arbitrary: n) simp_all

lemma le_value_bytes [simp]: "le_value (le_bytes k n) = n mod 256 ^ k"
proof (induction k arbitrary: n)
  case 0
  then show ?case by simp
next
  case (Suc k)
  have "of_char (char_of n :: char) = n mod (256::nat)" by simp
  with Suc show ?case by (simp add: mod_mult2_eq add.commute)
qed

lemma read_data_all [simp]: "read_data value 0 (length value) = Inr value"
  by (simp add: read_data_def)

lemma read_data_le_bytes [simp]: "read_data (le_bytes k n) 0 k = Inr (le_bytes k n)"
  using read_data_all [of "le_bytes k n"] by simp

lemma addColumnInternal_exact:
  "addColumnInternal name type value (length value) pk dk cvb =
   Inr (cvb\<lparr>cvb_columns := cvb_columns cvb @
     [\<lparr>cv_name = Some name, cv_type = Some type, cv_primary_key = Some pk,
       cv_distribution_key = Some dk, cv_value = Some value, cv_unknown = []\<rparr>]\<rparr>)"
  by (simp add: addColumnInternal_def accessors ColumnValue_new_def)

lemma addColumnInternal_le [simp]:
  "addColumnInternal name type (le_bytes k n) k pk dk cvb =
   Inr (cvb\<lparr>cvb_columns := cvb_columns cvb @
     [\<lparr>cv_name = Some name, cv_type = Some type, cv_primary_key = Some pk,
       cv_distribution_key = Some dk, cv_value = Some (le_bytes k n), cv_unknown = []\<rparr>]\<rparr>)"
  using addColumnInternal_exact [of name type "le_bytes k n"] by simp

lemma word_le_value_32 [simp]: "word_of_nat (unat (v :: 32 word) mod 4294967296) = v"
  using unsigned_less [where ?'a = nat, of v] by simp

lemma word_le_value_64 [simp]: "word_of_nat (unat (v :: 64 word) mod 18446744073709551616) = v"
  using unsigned_less [where ?'a = nat, of v] by simp

lemma SetPrimaryKeys_set:
  "SetPrimaryKeys SetOperation_add_primary_key op keys =
   op\<lparr>so_primary_key := so_primary_key op @ keys\<rparr>"
  by (induction keys arbitrary: op) (simp_all add: SetPrimaryKeys_def accessors)

lemma SetValues_set:
  "SetValues SetOperation_add_value op values = op\<lparr>so_value := so_value op @ values\<rparr>"
  by (induction "values" arbitrary: op) (simp_all add: SetValues_def accessors)

lemma take_append_NUL [simp]: "take (length v + 1) (v @ [c]) = v @ [c]"
  by simp

lemma unat_uint16: "unat (word_of_nat n :: uint16) = n mod 65536"
  by (simp add: unsigned_of_nat take_bit_eq_mod)

lemma length_low_byte: "unat ((word_of_nat n :: uint16) AND 0x00FF) = n mod 65536 mod 256"
proof -
  have "(word_of_nat n :: uint16) AND 0x00FF = take_bit 8 (word_of_nat n)"
    by (simp add: take_bit_eq_mask mask_eq_exp_minus_1)
  then show ?thesis by (simp only: unsigned_take_bit_eq unat_uint16) (simp add: take_bit_eq_mod)
qed

lemma length_high_byte:
  "unat (drop_bit 8 ((word_of_nat n :: uint16) AND 0xFF00)) = n mod 65536 div 256"
proof -
  have "drop_bit 8 ((word_of_nat n :: uint16) AND 0xFF00) = take_bit 8 (drop_bit 8 (word_of_nat n))"
    by (simp add: drop_bit_and take_bit_eq_mask mask_eq_exp_minus_1)
  also have "\<dots> = drop_bit 8 (word_of_nat n)"
    by (rule bit_word_eqI) (auto simp: bit_simps)
  finally show ?thesis
    by (simp only: unsigned_drop_bit_eq unat_uint16) (simp add: drop_bit_eq_div take_bit_eq_mod)
qed

text \<open>The value \<open>addVarCharColumn\<close> stores: the 16-bit length, low byte first, and the characters.\<close>

definition prefixed :: "bytes \<Rightarrow> bytes" where
  "prefixed v = le_bytes 2 (length v) @ v"

lemma le_bytes_1: "le_bytes 1 n = [char_of n]"
  by simp

lemma le_bytes_2: "le_bytes 2 n = [char_of n, char_of (n div 256)]"
  by (simp add: numeral_2_eq_2)

lemma prependLength_short:
  assumes "n < 65536" "n \<le> length v"
  shows "prependLength v (word_of_nat n) 2 = Inr (prefixed (take n v))"
proof -
  have len: "unat (word_of_nat n :: uint16) = n" using assms by (simp add: unat_uint16)
  have lo: "(char_of (unat ((word_of_nat n :: uint16) AND 0x00FF)) :: char) = char_of n"
    using assms by (subst length_low_byte) simp
  have hi: "(char_of (unat (drop_bit 8 ((word_of_nat n :: uint16) AND 0xFF00))) :: char) = char_of (n div 256)"
    using assms by (subst length_high_byte) simp
  show ?thesis
    unfolding prependLength_def lo hi using assms
    by (simp only: len prefixed_def le_bytes_2) (simp add: min_def)
qed

lemma length_prefixed [simp]: "length (prefixed v) = length v + 2"
  by (simp add: prefixed_def)

lemma getLength_prefixed:
  assumes "ColumnValue_value c = prefixed v" "length v < 65536"
  shows "getLength c = Inr (length v)"
proof -
  have "length v div 256 < 256" using assms(2) by (simp add: less_mult_imp_div_less)
  with assms show ?thesis
    by (simp add: getLength_def read_data_def prefixed_def le_bytes_2 push_bit_eq_mult)
qed

lemma getVarChar_prefixed:
  assumes "ColumnValue_value c = prefixed v" "length v < 65536"
  shows "getVarChar c = Inr (v @ [char_of (0::nat)])"
  using assms
  by (simp add: getVarChar_def getLength_prefixed [OF assms] read_data_def prefixed_def le_bytes_2)

section \<open>What a column holds after a round trip\<close>

lemmas column_values = addBoolColumn_def addInt32Column_def addUInt32Column_def addInt64Column_def
  addUInt64Column_def addFloatColumn_def addDoubleColumn_def getColumns_def getBool_def
  getInt32_def getUInt32_def getInt64_def getUInt64_def getFloat_def getDouble_def accessors

text \<open>
  Every fixed-width value that is added to a builder is read back unchanged from the column
  that was added, whatever the key flags.
\<close>

lemma fixed_width_columns:
  "(\<exists>c. addBoolColumn name b pk dk cvb = Inr c \<and> getBool (last (getColumns c)) = Inr b) \<and>
   (\<exists>c. addInt32Column name w pk dk cvb = Inr c \<and> getInt32 (last (getColumns c)) = Inr w) \<and>
   (\<exists>c. addUInt32Column name w pk dk cvb = Inr c \<and> getUInt32 (last (getColumns c)) = Inr w) \<and>
   (\<exists>c. addInt64Column name q pk dk cvb = Inr c \<and> getInt64 (last (getColumns c)) = Inr q) \<and>
   (\<exists>c. addUInt64Column name q pk dk cvb = Inr c \<and> getUInt64 (last (getColumns c)) = Inr q) \<and>
   (\<exists>c. addFloatColumn name w pk dk cvb = Inr c \<and> getFloat (last (getColumns c)) = Inr w) \<and>
   (\<exists>c. addDoubleColumn name q pk dk cvb = Inr c \<and> getDouble (last (getColumns c)) = Inr q)"
  by (simp add: column_values del: One_nat_def le_bytes.simps)

text \<open>
  A character column holds the value padded with spaces to the column's size, and a value
  longer than the size is copied past the end of the buffer.
\<close>

lemma char_column_padded:
  "addCharColumn name v sz pk dk cvb =
    (if length v \<le> sz then
       Inr (cvb\<lparr>cvb_columns := cvb_columns cvb @
         [\<lparr>cv_name = Some name, cv_type = Some Column_Type_CHAR, cv_primary_key = Some pk,
           cv_distribution_key = Some dk,
           cv_value = Some (v @ replicate (sz - length v) CHR 0x20), cv_unknown = []\<rparr>]\<rparr>)
     else Inl BufferOverrun)"
proof (cases "length v \<le> sz")
  case True
  have space: "(char_of (32::nat) :: char) = CHR 0x20" by code_simp
  from True show ?thesis
    using addColumnInternal_exact [of name Column_Type_CHAR "v @ replicate (sz - length v) (char_of (32::nat))"]
    by (simp add: addCharColumn_def space drop_replicate)
qed (simp add: addCharColumn_def)

lemma varchar_short:
  assumes "length v < 65536"
  shows "\<exists>c. addVarCharColumn name v pk dk cvb = Inr c \<and>
    ColumnValue_value (last (getColumns c)) = le_bytes 2 (length v) @ v \<and>
    getVarChar (last (getColumns c)) = Inr (v @ [CHR 0x00])"
proof -
  let ?c = "\<lparr>cv_name = Some name, cv_type = Some Column_Type_VARCHAR, cv_primary_key = Some pk,
    cv_distribution_key = Some dk, cv_value = Some (prefixed v), cv_unknown = []\<rparr>"
  have add: "addVarCharColumn name v pk dk cvb = Inr (cvb\<lparr>cvb_columns := cvb_columns cvb @ [?c]\<rparr>)"
    using prependLength_short [OF assms] addColumnInternal_exact [of name Column_Type_VARCHAR "prefixed v"]
    by (simp add: addVarCharColumn_def)
  have zero: "(char_of (0::nat) :: char) = CHR 0x00" by code_simp
  have "ColumnValue_value ?c = prefixed v" by (simp add: accessors)
  with getVarChar_prefixed [OF this assms] show ?thesis
    by (simp add: add getColumns_def zero) (simp add: prefixed_def)
qed

lemma varchar_long:
  assumes "65536 \<le> length v"
  shows "addVarCharColumn name v pk dk cvb = Inl BufferOverrun \<and>
    addVarBinaryColumn name v (length v) pk dk cvb = Inl BufferOverrun"
proof -
  have "unat (word_of_nat (length v) :: uint16) < length v"
    using assms by (simp add: unat_uint16 less_le_trans [OF mod_less_divisor])
  then have "\<exists>d. prependLength v (word_of_nat (length v)) 2 = Inr d \<and> length d < length v + 2"
    by (simp add: prependLength_def)
  then show ?thesis
    by (auto simp: addVarCharColumn_def addVarBinaryColumn_def addColumnInternal_def)
qed

text \<open>
  C38: a variable-length value shorter than 65536 bytes is stored behind its 16-bit length, and
  reading it back gives the value followed by the zero byte after it: the decoder takes one byte
  more than the length it read. From 65536 bytes on the length wraps in its 16 bits while the column
  still takes the full size from the shorter buffer, an access outside it; so does a binary value.
\<close>

theorem varchar_column:
  "if length v < 65536 then
     (\<exists>c. addVarCharColumn name v pk dk cvb = Inr c \<and>
       ColumnValue_value (last (getColumns c)) = le_bytes 2 (length v) @ v \<and>
       getVarChar (last (getColumns c)) = Inr (v @ [CHR 0x00]))
   else addVarCharColumn name v pk dk cvb = Inl BufferOverrun \<and>
     addVarBinaryColumn name v (length v) pk dk cvb = Inl BufferOverrun"
  using varchar_short [of v] varchar_long [of v] by (simp del: le_bytes.simps)

end
