(* ===== verification/NdbApi.thy ===== *)
theory NdbApi
  imports Prelude
begin

text \<open>
  The client libraries of NDB and MySQL as the server uses them. Neither is part of the
  repository: every call is a field of \<open>ndb_api\<close>, over a state \<open>'w\<close> that stands for the cluster
  and the library's objects. Pointers the library hands out are handles, a null pointer is \<open>None\<close>.
  The theory \<open>NdbCluster\<close> states the documented behaviour the server's properties rely on.
\<close>

type_synonym ndb_table = nat
type_synonym ndb_transaction = nat
type_synonym ndb_operation = nat
type_synonym ndb_rec_attr = nat

text \<open>\<open>Ndb::Key_part_ptr\<close>: a pointer to a value and its length; a null pointer ends the array.\<close>

record key_part =
  kp_ptr :: "bytes option"
  kp_len :: "32 word"

text \<open>
  The first argument of the calls on \<open>_ndb[threadNo]\<close> and \<open>_mysql[threadNo]\<close> is the thread number.
  A \<open>key_part option list\<close> is an array on the stack whose elements start out uninitialised. A poll
  returns its result and, in order, the transactions whose callback it makes with which result.
\<close>

record 'w ndb_api =
  hasDictionary :: "nat \<Rightarrow> 'w \<Rightarrow> bool"
  getTable :: "nat \<Rightarrow> bytes \<Rightarrow> 'w \<Rightarrow> ndb_table option \<times> 'w"
  getNoOfPrimaryKeys :: "ndb_table \<Rightarrow> int"
  getNoOfColumns :: "ndb_table \<Rightarrow> nat"
  getColumnNo :: "ndb_table \<Rightarrow> bytes \<Rightarrow> nat option"
  startTransactionWithHint ::
    "nat \<Rightarrow> ndb_table \<Rightarrow> key_part option list \<Rightarrow> 'w \<Rightarrow> ndb_transaction option \<times> 'w"
  startTransactionOn :: "nat \<Rightarrow> ndb_table \<Rightarrow> 'w \<Rightarrow> ndb_transaction option \<times> 'w"
  getConnectedNodeId :: "ndb_transaction \<Rightarrow> 'w \<Rightarrow> 32 word"
  getNdbOperation :: "ndb_transaction \<Rightarrow> bytes \<Rightarrow> 'w \<Rightarrow> ndb_operation option \<times> 'w"
  getNdbIndexScanOperation ::
    "ndb_transaction \<Rightarrow> bytes \<Rightarrow> bytes \<Rightarrow> 'w \<Rightarrow> ndb_operation option \<times> 'w"
  getNdbScanOperation :: "ndb_transaction \<Rightarrow> bytes \<Rightarrow> 'w \<Rightarrow> ndb_operation option \<times> 'w"
  writeTuple :: "ndb_operation \<Rightarrow> 'w \<Rightarrow> 'w"
  deleteTuple :: "ndb_operation \<Rightarrow> 'w \<Rightarrow> 'w"
  simpleRead :: "ndb_operation \<Rightarrow> 'w \<Rightarrow> 'w"
  readTuples :: "ndb_operation \<Rightarrow> 'w \<Rightarrow> 'w"
  equalColumn :: "ndb_operation \<Rightarrow> bytes \<Rightarrow> bytes \<Rightarrow> 'w \<Rightarrow> int \<times> 'w"
  setValueColumn :: "ndb_operation \<Rightarrow> bytes \<Rightarrow> bytes \<Rightarrow> 'w \<Rightarrow> int \<times> 'w"
  getValueColumn :: "ndb_operation \<Rightarrow> nat \<Rightarrow> 'w \<Rightarrow> ndb_rec_attr option \<times> 'w"
  filterBegin :: "ndb_operation \<Rightarrow> 'w \<Rightarrow> int \<times> 'w"
  filterCmpEq :: "ndb_operation \<Rightarrow> nat \<Rightarrow> bytes \<Rightarrow> 'w \<Rightarrow> int \<times> 'w"
  filterEnd :: "ndb_operation \<Rightarrow> 'w \<Rightarrow> int \<times> 'w"
  isScanOperation :: "ndb_operation \<Rightarrow> 'w \<Rightarrow> bool"
  nextResult :: "ndb_operation \<Rightarrow> 'w \<Rightarrow> int \<times> 'w"
  attrName :: "ndb_rec_attr \<Rightarrow> 'w \<Rightarrow> bytes"
  attrType :: "ndb_rec_attr \<Rightarrow> 'w \<Rightarrow> int32"
  attrBytes :: "ndb_rec_attr \<Rightarrow> 'w \<Rightarrow> bytes"
  errorMessage :: "ndb_transaction \<Rightarrow> 'w \<Rightarrow> bytes"
  errorCode :: "ndb_transaction \<Rightarrow> 'w \<Rightarrow> int32"
  executeAsynchPrepare :: "ndb_transaction \<Rightarrow> 'w \<Rightarrow> 'w"
  closeTransaction :: "ndb_transaction \<Rightarrow> 'w \<Rightarrow> 'w"
  sendPollNdb :: "nat \<Rightarrow> int \<Rightarrow> 'w \<Rightarrow> (int \<times> (int \<times> ndb_transaction) list) \<times> 'w"
  pollNdb :: "nat \<Rightarrow> int \<Rightarrow> 'w \<Rightarrow> (int \<times> (int \<times> ndb_transaction) list) \<times> 'w"
  mysqlQuery :: "nat \<Rightarrow> bytes \<Rightarrow> 'w \<Rightarrow> bool \<times> 'w"
  mysqlError :: "nat \<Rightarrow> 'w \<Rightarrow> bytes"

end
