(* ===== verification/NdbReference.thy ===== *)
theory NdbReference
  imports NdbApi
begin

text \<open>
  A small cluster in memory, one concrete \<open>ndb_api\<close>: tables with named, typed columns, one row each;
  operations that accept the columns of their table; transactions that all complete at the next
  poll. The witnesses run the server's code on it.
\<close>

record ref_cluster =
  rc_fresh :: nat
  rc_targets :: "(ndb_operation \<times> nat) list" \<comment> \<open>the table of an operation\<close>
  rc_scans :: "(ndb_operation \<times> nat) list" \<comment> \<open>rows left to a scan\<close>
  rc_prepared :: "ndb_transaction list"
  rc_queries :: "bytes list"

fun position :: "('a \<times> 'b) list \<Rightarrow> 'a \<Rightarrow> nat option" where
  "position [] k = None"
| "position ((k', v) # xs) k = (if k = k' then Some 0 else map_option Suc (position xs k))"

text \<open>The tables of the cluster: name, number of key columns, columns with the number of their type.\<close>

definition ref_tables :: "(bytes \<times> int \<times> (bytes \<times> int32) list) list" where
  "ref_tables = [(''orders'', 2, [(''customer'', 7), (''number'', 7), (''note'', 23)])]"

definition ref_columns :: "nat \<Rightarrow> (bytes \<times> int32) list" where
  "ref_columns t = (if t < length ref_tables then snd (snd (ref_tables ! t)) else [])"

definition ref_start :: "ref_cluster \<Rightarrow> ndb_transaction option \<times> ref_cluster" where
  "ref_start w =
     (let t = Suc (rc_fresh w + sum_list (rc_prepared w)) in (Some t, w\<lparr>rc_fresh := t\<rparr>))"

definition ref_operation :: "bool \<Rightarrow> bytes \<Rightarrow> ref_cluster \<Rightarrow> ndb_operation option \<times> ref_cluster" where
  "ref_operation scan name w =
     (case position ref_tables name of
        None \<Rightarrow> (None, w)
      | Some t \<Rightarrow>
          (Some (rc_fresh w),
           w\<lparr>rc_fresh := Suc (rc_fresh w), rc_targets := (rc_fresh w, t) # rc_targets w,
             rc_scans := (if scan then [(rc_fresh w, 1)] else []) @ rc_scans w\<rparr>))"

definition ref_column_call :: "ndb_operation \<Rightarrow> bytes \<Rightarrow> ref_cluster \<Rightarrow> int \<times> ref_cluster" where
  "ref_column_call op name w =
     (case map_of (rc_targets w) op of
        None \<Rightarrow> (-1, w)
      | Some t \<Rightarrow> (if position (ref_columns t) name = None then -1 else 0, w))"

definition ref_poll :: "ref_cluster \<Rightarrow> (int \<times> (int \<times> ndb_transaction) list) \<times> ref_cluster" where
  "ref_poll w =
     (let completed = remdups (rc_prepared w) in
      ((int (length completed), map (\<lambda>t. (0, t)) completed), w\<lparr>rc_prepared := []\<rparr>))"

definition ref_cluster_api :: "ref_cluster ndb_api" where
  "ref_cluster_api =
     \<lparr>hasDictionary = (\<lambda>n w. True),
      getTable = (\<lambda>n name w. (position ref_tables name, w)),
      getNoOfPrimaryKeys = (\<lambda>t. if t < length ref_tables then fst (snd (ref_tables ! t)) else 0),
      getNoOfColumns = (\<lambda>t. length (ref_columns t)),
      getColumnNo = (\<lambda>t name. position (ref_columns t) name),
      startTransactionWithHint = (\<lambda>n t hint w. ref_start w),
      startTransactionOn = (\<lambda>n t w. ref_start w),
      getConnectedNodeId = (\<lambda>t w. 1),
      getNdbOperation = (\<lambda>t name w. ref_operation False name w),
      getNdbIndexScanOperation = (\<lambda>t index name w. ref_operation True name w),
      getNdbScanOperation = (\<lambda>t name w. ref_operation True name w),
      writeTuple = (\<lambda>op w. w),
      deleteTuple = (\<lambda>op w. w),
      simpleRead = (\<lambda>op w. w),
      readTuples = (\<lambda>op w. w),
      equalColumn = (\<lambda>op name v w. ref_column_call op name w),
      setValueColumn = (\<lambda>op name v w. ref_column_call op name w),
      getValueColumn = (\<lambda>op i w. (map_option (\<lambda>t. 100 * t + i) (map_of (rc_targets w) op), w)),
      filterBegin = (\<lambda>op w. (0, w)),
      filterCmpEq = (\<lambda>op i v w. (0, w)),
      filterEnd = (\<lambda>op w. (0, w)),
      isScanOperation = (\<lambda>op w. map_of (rc_scans w) op \<noteq> None),
      nextResult = (\<lambda>op w.
        case map_of (rc_scans w) op of
          Some (Suc n) \<Rightarrow> (0, w\<lparr>rc_scans := (op, n) # rc_scans w\<rparr>)
        | _ \<Rightarrow> (1, w)),
      attrName = (\<lambda>a w. if a mod 100 < length (ref_columns (a div 100))
                        then fst (ref_columns (a div 100) ! (a mod 100)) else []),
      attrType = (\<lambda>a w. if a mod 100 < length (ref_columns (a div 100))
                        then snd (ref_columns (a div 100) ! (a mod 100)) else 1),
      attrBytes = (\<lambda>a w. replicate 4 (char_of (0::nat))),
      errorMessage = (\<lambda>t w. ''Incorrect column specified''),
      errorCode = (\<lambda>t w. 4004),
      executeAsynchPrepare = (\<lambda>t w. w\<lparr>rc_prepared := t # rc_prepared w\<rparr>),
      closeTransaction = (\<lambda>t w. w),
      sendPollNdb = (\<lambda>n k w. ref_poll w),
      pollNdb = (\<lambda>n k w. ref_poll w),
      mysqlQuery = (\<lambda>n q w. (q = [], w\<lparr>rc_queries := rc_queries w @ [q]\<rparr>)),
      mysqlError = (\<lambda>n w. ''Query was empty'')\<rparr>"

lemma ref_cluster_calls [simp]:
  "hasDictionary ref_cluster_api n w"
  "getTable ref_cluster_api n name w = (position ref_tables name, w)"
  "getNoOfPrimaryKeys ref_cluster_api t = (if t < length ref_tables then fst (snd (ref_tables ! t)) else 0)"
  "getNoOfColumns ref_cluster_api t = length (ref_columns t)"
  "getColumnNo ref_cluster_api t name = position (ref_columns t) name"
  "startTransactionWithHint ref_cluster_api n t hint w = ref_start w"
  "startTransactionOn ref_cluster_api n t w = ref_start w"
  "getConnectedNodeId ref_cluster_api t w = 1"
  "getNdbOperation ref_cluster_api t name w = ref_operation False name w"
  "getNdbIndexScanOperation ref_cluster_api t idx name w = ref_operation True name w"
  "getNdbScanOperation ref_cluster_api t name w = ref_operation True name w"
  "writeTuple ref_cluster_api op w = w"
  "deleteTuple ref_cluster_api op w = w"
  "simpleRead ref_cluster_api op w = w"
  "readTuples ref_cluster_api op w = w"
  "equalColumn ref_cluster_api op name v w = ref_column_call op name w"
  "setValueColumn ref_cluster_api op name v w = ref_column_call op name w"
  "getValueColumn ref_cluster_api op i w = (map_option (\<lambda>t. 100 * t + i) (map_of (rc_targets w) op), w)"
  "filterBegin ref_cluster_api op w = (0, w)"
  "filterCmpEq ref_cluster_api op i v w = (0, w)"
  "filterEnd ref_cluster_api op w = (0, w)"
  "isScanOperation ref_cluster_api op w \<longleftrightarrow> map_of (rc_scans w) op \<noteq> None"
  "nextResult ref_cluster_api op w = (case map_of (rc_scans w) op of Some (Suc n) \<Rightarrow> (0, w\<lparr>rc_scans := (op, n) # rc_scans w\<rparr>) | _ \<Rightarrow> (1, w))"
  "attrName ref_cluster_api a w = (if a mod 100 < length (ref_columns (a div 100)) then fst (ref_columns (a div 100) ! (a mod 100)) else [])"
  "attrType ref_cluster_api a w = (if a mod 100 < length (ref_columns (a div 100)) then snd (ref_columns (a div 100) ! (a mod 100)) else 1)"
  "attrBytes ref_cluster_api a w = replicate 4 (char_of (0::nat))"
  "errorMessage ref_cluster_api t w = ''Incorrect column specified''"
  "errorCode ref_cluster_api t w = 4004"
  "executeAsynchPrepare ref_cluster_api t w = w\<lparr>rc_prepared := t # rc_prepared w\<rparr>"
  "closeTransaction ref_cluster_api t w = w"
  "sendPollNdb ref_cluster_api n k w = ref_poll w"
  "pollNdb ref_cluster_api n k w = ref_poll w"
  "mysqlQuery ref_cluster_api n q w = (q = [], w\<lparr>rc_queries := rc_queries w @ [q]\<rparr>)"
  "mysqlError ref_cluster_api n w = ''Query was empty''"
  by (simp_all add: ref_cluster_api_def)

definition ref_cluster_start :: ref_cluster where
  "ref_cluster_start =
     \<lparr>rc_fresh = 0, rc_targets = [], rc_scans = [], rc_prepared = [],
      rc_queries = []\<rparr>"

end
