(* ===== verification/TableInfoCache.thy ===== *)
theory TableInfoCache
  imports NdbReference
begin

text \<open>
  \<open>volodbserver/Cache/TableInfoCache.cpp\<close>: the map from store names to table descriptions shared by
  the executor threads. Every operation holds the map's lock for its own access, so each is one
  step here; \<open>set\<close> asks the dictionary before it takes the lock.
\<close>

record table_info_cache =
  tic_entries :: "bytes \<rightharpoonup> ndb_table"

definition cache_get :: "table_info_cache \<Rightarrow> bytes \<Rightarrow> ndb_table option" where
  "cache_get tic storeName =
     (case tic_entries tic storeName of Some entry \<Rightarrow> Some entry | None \<Rightarrow> None)"

definition getInternal :: "'w ndb_api \<Rightarrow> nat \<Rightarrow> bytes \<Rightarrow> 'w \<Rightarrow> ndb_table option \<times> 'w" where
  "getInternal A ndb fullStoreName w =
     (if hasDictionary A ndb w then getTable A ndb (c_str fullStoreName) w else (None, w))"

definition cache_store :: "table_info_cache \<Rightarrow> bytes \<Rightarrow> ndb_table \<Rightarrow> table_info_cache" where
  "cache_store tic storeName newTableInfo =
     tic\<lparr>tic_entries := (tic_entries tic)(storeName \<mapsto> newTableInfo)\<rparr>"

definition cache_set ::
  "'w ndb_api \<Rightarrow> nat \<Rightarrow> bytes \<Rightarrow> table_info_cache \<Rightarrow> 'w
   \<Rightarrow> ndb_table option \<times> table_info_cache \<times> 'w" where
  "cache_set A ndb storeName tic w =
     (let (newTableInfo, w1) = getInternal A ndb storeName w in
      case newTableInfo of
        Some table \<Rightarrow> (Some table, cache_store tic storeName table, w1)
      | None \<Rightarrow> (None, tic, w1))"

definition cache_invalidate :: "table_info_cache \<Rightarrow> bytes \<Rightarrow> table_info_cache" where
  "cache_invalidate tic storeName = tic\<lparr>tic_entries := (tic_entries tic)(storeName := None)\<rparr>"

section \<open>The contract of a table cache\<close>

text \<open>
  What the executors rely on, whatever the cache is made of: a stored table is found, invalidating
  forgets it, and neither touches another store.
\<close>

locale table_cache =
  fixes lookup :: "'c \<Rightarrow> 'k \<Rightarrow> 't option"
    and insert :: "'c \<Rightarrow> 'k \<Rightarrow> 't \<Rightarrow> 'c"
    and forget :: "'c \<Rightarrow> 'k \<Rightarrow> 'c"
  assumes lookup_insert: "lookup (insert c k t) k' = (if k' = k then Some t else lookup c k')"
    and lookup_forget: "lookup (forget c k) k' = (if k' = k then None else lookup c k')"
begin

text \<open>Looking a table up through the cache, fetching it when it is missing.\<close>

definition through :: "('w \<Rightarrow> 't option \<times> 'w) \<Rightarrow> 'k \<Rightarrow> 'c \<Rightarrow> 'w \<Rightarrow> 't option \<times> 'c \<times> 'w" where
  "through fetch k c w =
     (case lookup c k of
        Some t \<Rightarrow> (Some t, c, w)
      | None \<Rightarrow>
          (let (found, w1) = fetch w in
           case found of Some t \<Rightarrow> (Some t, insert c k t, w1) | None \<Rightarrow> (None, c, w1)))"

lemma through_found:
  assumes "through fetch k c w = (Some t, c1, w1)"
  shows "lookup c1 k = Some t"
  using assms by (auto simp: through_def lookup_insert split: option.splits prod.splits)

lemma through_other:
  assumes "through fetch k c w = (r, c1, w1)" "k' \<noteq> k"
  shows "lookup c1 k' = lookup c k'"
  using assms by (auto simp: through_def lookup_insert split: option.splits prod.splits)

text \<open>The second request for a store that was found is answered without the dictionary.\<close>

lemma through_again:
  assumes "through fetch k c w = (Some t, c1, w1)"
  shows "through fetch' k c1 w2 = (Some t, c1, w2)"
  using through_found [OF assms] by (simp add: through_def)

lemma through_forgotten:
  "through fetch k (forget c k) w =
    (let (found, w1) = fetch w in
     case found of Some t \<Rightarrow> (Some t, insert (forget c k) k t, w1) | None \<Rightarrow> (None, forget c k, w1))"
  by (simp add: through_def lookup_forget)

end

interpretation store_tables: table_cache cache_get cache_store cache_invalidate
  by unfold_locales (simp_all add: cache_get_def cache_store_def cache_invalidate_def)

text \<open>
  The pattern of the users of the cache: \<open>get\<close>, and \<open>set\<close> when it finds nothing. One of them
  passes \<open>c_str()\<close> of the name to the first and the name itself to the second.
\<close>

definition cache_lookup ::
  "'w ndb_api \<Rightarrow> nat \<Rightarrow> bytes \<Rightarrow> bytes \<Rightarrow> table_info_cache \<Rightarrow> 'w
   \<Rightarrow> ndb_table option \<times> table_info_cache \<times> 'w" where
  "cache_lookup A threadNo nameToGet storeName tic w =
     (case cache_get tic nameToGet of
        Some tableInfo \<Rightarrow> (Some tableInfo, tic, w)
      | None \<Rightarrow> cache_set A threadNo storeName tic w)"

lemma cache_lookup_through:
  "cache_lookup A threadNo storeName storeName tic w =
   store_tables.through (getInternal A threadNo storeName) storeName tic w"
  by (simp add: cache_lookup_def store_tables.through_def cache_set_def Let_def split: option.split prod.split)

text \<open>
  Once a store's table has been found, every later request is answered from the cache with
  the same table and without a call to the cluster, until the store is invalidated; then the
  dictionary is asked again.
\<close>

lemma cached_until_invalidated:
  assumes "cache_lookup A threadNo storeName storeName tic w = (Some tableInfo, tic1, w1)"
  shows "cache_lookup B threadNo' storeName storeName tic1 w2 = (Some tableInfo, tic1, w2) \<and>
    cache_lookup B threadNo' storeName storeName (cache_invalidate tic1 storeName) w2 =
      cache_set B threadNo' storeName (cache_invalidate tic1 storeName) w2"
  using assms store_tables.through_again [of _ storeName tic w tableInfo tic1 w1]
  by (auto simp: cache_lookup_through store_tables.through_forgotten cache_set_def)

definition sample_tables :: table_info_cache where
  "sample_tables = \<lparr>tic_entries = [''orders'' \<mapsto> 0]\<rparr>"

lemma cached_until_invalidated_witness:
  "cache_lookup ref_cluster_api 2 ''orders'' ''orders'' sample_tables ref_cluster_start =
     (Some 0, sample_tables, ref_cluster_start) \<and>
   cache_lookup ref_cluster_api 2 ''orders'' ''orders'' (cache_invalidate sample_tables ''orders'') ref_cluster_start =
     cache_set ref_cluster_api 2 ''orders'' (cache_invalidate sample_tables ''orders'') ref_cluster_start"
  by (rule cached_until_invalidated
        [of ref_cluster_api 1 "''orders''" "\<lparr>tic_entries = Map.empty\<rparr>" ref_cluster_start])
    (simp add: cache_lookup_def cache_get_def cache_set_def cache_store_def getInternal_def c_str_def
      ref_cluster_api_def ref_tables_def sample_tables_def)

end
