(* ===== verification/TableCacheSteps.thy ===== *)
theory TableCacheSteps
  imports TableInfoCache
begin

text \<open>
  The table cache under the interleaving of the executor threads. A lookup reads the map under the
  shared lock, asks the dictionary without a lock and stores the answer under the exclusive lock;
  \<open>DROP TABLE\<close> is executed before the entry is erased. Each of these is a step of its thread here.
\<close>

section \<open>The steps\<close>

text \<open>
  Where a thread is: a lookup found no entry; the dictionary gave a table, which is not stored yet;
  the statement that drops a store was executed and its entry is not erased yet. \<open>cs_tables\<close> is the
  table the dictionary finds under a name, and it may find none (\<open>absent\<close>) for reasons of its own.
\<close>

datatype cache_phase = Resting | Missed bytes | Fetched bytes ndb_table | Dropped bytes

record cache_system =
  cs_cache :: table_info_cache
  cs_tables :: "bytes \<rightharpoonup> ndb_table"
  cs_threads :: "nat \<Rightarrow> cache_phase"

definition thread_at :: "nat \<Rightarrow> cache_phase \<Rightarrow> cache_system \<Rightarrow> cache_system" where
  "thread_at i phase s = s\<lparr>cs_threads := (cs_threads s)(i := phase)\<rparr>"

inductive cache_step :: "cache_system \<Rightarrow> cache_system \<Rightarrow> bool" where
  miss: "cs_threads s i = Resting \<Longrightarrow> cache_get (cs_cache s) name = None \<Longrightarrow>
    cache_step s (thread_at i (Missed name) s)"
| fetch: "cs_threads s i = Missed name \<Longrightarrow> cs_tables s name = Some tab \<Longrightarrow>
    cache_step s (thread_at i (Fetched name tab) s)"
| absent: "cs_threads s i = Missed name \<Longrightarrow> cache_step s (thread_at i Resting s)"
| keep: "cs_threads s i = Fetched name tab \<Longrightarrow>
    cache_step s (thread_at i Resting (s\<lparr>cs_cache := cache_store (cs_cache s) name tab\<rparr>))"
| drop_table: "cs_threads s i = Resting \<Longrightarrow> cs_tables s name \<noteq> None \<Longrightarrow>
    cache_step s (thread_at i (Dropped name) (s\<lparr>cs_tables := (cs_tables s)(name := None)\<rparr>))"
| erase: "cs_threads s i = Dropped name \<Longrightarrow>
    cache_step s (thread_at i Resting (s\<lparr>cs_cache := cache_invalidate (cs_cache s) name\<rparr>))"
| create: "cs_threads s i = Resting \<Longrightarrow> cs_tables s name = None \<Longrightarrow>
    cache_step s (s\<lparr>cs_tables := (cs_tables s)(name \<mapsto> tab)\<rparr>)"

definition cache_start :: "(bytes \<rightharpoonup> ndb_table) \<Rightarrow> cache_system" where
  "cache_start tables = \<lparr>cs_cache = \<lparr>tic_entries = Map.empty\<rparr>, cs_tables = tables, cs_threads = (\<lambda>i. Resting)\<rparr>"

inductive_cases cache_stepE: "cache_step s t"

lemmas cache_access = cache_get_def cache_store_def cache_invalidate_def thread_at_def cache_start_def

lemma cache_get_entries [simp]: "cache_get tic name = tic_entries tic name"
  by (simp add: cache_get_def split: option.split)

section \<open>An undisturbed lookup is the sequential one\<close>

lemma lookup_steps:
  assumes "cs_threads s i = Resting" "hasDictionary A n w"
    and "getTable A n (c_str name) w = (cs_tables s name, w1)"
  shows "cache_step\<^sup>*\<^sup>* s (s\<lparr>cs_cache := fst (snd (cache_lookup A n name name (cs_cache s) w))\<rparr>)"
proof (cases "cache_get (cs_cache s) name")
  case (Some tab)
  then show ?thesis by (simp add: cache_lookup_def)
next
  case None
  let ?s1 = "thread_at i (Missed name) s"
  have first: "cache_step s ?s1" by (rule miss [OF assms(1) None])
  show ?thesis
  proof (cases "cs_tables s name")
    case missing: None
    have "cache_step ?s1 (thread_at i Resting ?s1)"
      by (rule absent [of _ _ name]) (simp add: thread_at_def)
    moreover have "thread_at i Resting ?s1 = s" using assms(1) by (simp add: thread_at_def fun_upd_idem)
    moreover have "fst (snd (cache_lookup A n name name (cs_cache s) w)) = cs_cache s"
      using None missing assms(2,3) by (simp add: cache_lookup_def cache_set_def getInternal_def)
    ultimately show ?thesis using first by (metis cache_system.surjective cache_system.update_convs(1) old.unit.exhaust rtranclp.simps)
  next
    case (Some tab)
    let ?s2 = "thread_at i (Fetched name tab) ?s1"
    let ?s3 = "thread_at i Resting (?s2\<lparr>cs_cache := cache_store (cs_cache ?s2) name tab\<rparr>)"
    have "cache_step ?s1 ?s2" by (rule fetch) (simp_all add: thread_at_def Some)
    moreover have "cache_step ?s2 ?s3" by (rule keep) (simp add: thread_at_def)
    moreover have "?s3 = s\<lparr>cs_cache := fst (snd (cache_lookup A n name name (cs_cache s) w))\<rparr>"
      using None Some assms
      by (simp add: thread_at_def cache_lookup_def cache_set_def getInternal_def fun_upd_idem)
    ultimately show ?thesis using first by (metis rtranclp.simps)
  qed
qed

section \<open>A dropped store that stays in the cache\<close>

text \<open>
  C37: a lookup that is between the dictionary and the cache while another executor drops the store puts
  the dropped table into the cache after its entry was erased: with every thread at rest the table is
  gone from the cluster and in the cache, and it stays there when a store of this name is created again.
\<close>

theorem dropped_table_stays_cached:
  "\<exists>s t. cache_step\<^sup>*\<^sup>* (cache_start [name \<mapsto> tab]) s \<and> cs_threads s = (\<lambda>i. Resting) \<and> cs_tables s = Map.empty \<and>
     cache_get (cs_cache s) name = Some tab \<and>
     cache_step\<^sup>*\<^sup>* s t \<and> cs_tables t = [name \<mapsto> new] \<and> cache_get (cs_cache t) name = Some tab"
proof -
  let ?empty = "\<lparr>tic_entries = Map.empty\<rparr>" and ?full = "\<lparr>tic_entries = [name \<mapsto> tab]\<rparr>"
  let ?rest = "\<lambda>i :: nat. Resting"
  let ?s0 = "\<lparr>cs_cache = ?empty, cs_tables = [name \<mapsto> tab], cs_threads = ?rest\<rparr>"
  let ?s1 = "thread_at 0 (Missed name) ?s0"
  let ?s2 = "thread_at 0 (Fetched name tab) ?s1"
  let ?s3 = "thread_at 1 (Dropped name) (?s2\<lparr>cs_tables := (cs_tables ?s2)(name := None)\<rparr>)"
  let ?s4 = "thread_at 1 Resting (?s3\<lparr>cs_cache := cache_invalidate (cs_cache ?s3) name\<rparr>)"
  let ?s5 = "thread_at 0 Resting (?s4\<lparr>cs_cache := cache_store (cs_cache ?s4) name tab\<rparr>)"
  let ?s6 = "?s5\<lparr>cs_tables := (cs_tables ?s5)(name \<mapsto> new)\<rparr>"
  have "cache_step ?s0 ?s1" by (rule miss) simp_all
  moreover have "cache_step ?s1 ?s2" by (rule fetch) (simp_all add: thread_at_def)
  moreover have "cache_step ?s2 ?s3" by (rule drop_table) (simp_all add: thread_at_def)
  moreover have "cache_step ?s3 ?s4" by (rule erase) (simp add: thread_at_def)
  moreover have "cache_step ?s4 ?s5" by (rule keep) (simp add: thread_at_def)
  ultimately have "cache_step\<^sup>*\<^sup>* ?s0 ?s5" by (meson rtranclp.rtrancl_into_rtrancl rtranclp.rtrancl_refl)
  moreover have "cache_step ?s5 ?s6" by (rule create [of _ 0]) (simp_all add: thread_at_def)
  moreover have "cs_threads ?s5 = ?rest" "cs_tables ?s5 = Map.empty" "cache_get (cs_cache ?s5) name = Some tab"
    "cs_tables ?s6 = [name \<mapsto> new]" "cache_get (cs_cache ?s6) name = Some tab"
    by (auto simp: thread_at_def cache_store_def)
  ultimately show ?thesis unfolding cache_start_def by blast
qed

section \<open>Without that race the cache is true\<close>

text \<open>A step that leaves alone the tables that threads hold between the dictionary and the cache.\<close>

definition undisturbed :: "cache_system \<Rightarrow> cache_system \<Rightarrow> bool" where
  "undisturbed s t \<longleftrightarrow> cache_step s t \<and>
     (\<forall>i name tab. cs_threads s i = Fetched name tab \<longrightarrow> cs_tables t name = cs_tables s name)"

definition cache_true :: "cache_system \<Rightarrow> bool" where
  "cache_true s \<longleftrightarrow>
     (\<forall>i name tab. cs_threads s i = Fetched name tab \<longrightarrow> cs_tables s name = Some tab) \<and>
     (\<forall>name tab. cache_get (cs_cache s) name = Some tab \<longrightarrow>
        cs_tables s name = Some tab \<or> (\<exists>i. cs_threads s i = Dropped name))"

lemma still_dropped:
  "\<exists>j. f j = Dropped name \<Longrightarrow> f i \<noteq> Dropped name \<Longrightarrow> \<exists>j. (f(i := phase)) j = Dropped name"
  by (metis fun_upd_other)

lemma cache_trueD:
  "cache_true s \<Longrightarrow> cs_threads s i = Fetched name tab \<Longrightarrow> cs_tables s name = Some tab"
  "cache_true s \<Longrightarrow> tic_entries (cs_cache s) name = Some tab \<Longrightarrow>
     cs_tables s name = Some tab \<or> (\<exists>i. cs_threads s i = Dropped name)"
  unfolding cache_true_def by simp_all

lemma cache_trueI:
  assumes "\<And>i name tab. cs_threads s i = Fetched name tab \<Longrightarrow> cs_tables s name = Some tab"
    and "\<And>name tab. tic_entries (cs_cache s) name = Some tab \<Longrightarrow> cs_tables s name \<noteq> Some tab \<Longrightarrow>
      \<exists>i. cs_threads s i = Dropped name"
  shows "cache_true s"
  using assms unfolding cache_true_def cache_get_entries by blast

text \<open>A move of a thread that touches neither the cache nor the cluster.\<close>

lemma settled_true:
  assumes true: "cache_true s" and phase: "\<And>name. cs_threads s i \<noteq> Dropped name"
    and "\<And>name tab. phase = Fetched name tab \<Longrightarrow> cs_tables s name = Some tab"
  shows "cache_true (thread_at i phase s)"
proof (rule cache_trueI)
  fix j name tab assume "cs_threads (thread_at i phase s) j = Fetched name tab"
  then show "cs_tables (thread_at i phase s) name = Some tab"
    using assms(3) cache_trueD(1) [OF true] by (auto simp: thread_at_def split: if_splits)
next
  fix name tab
  assume "tic_entries (cs_cache (thread_at i phase s)) name = Some tab" "cs_tables (thread_at i phase s) name \<noteq> Some tab"
  then have "\<exists>j. cs_threads s j = Dropped name" using cache_trueD(2) [OF true, of name tab] by (simp add: thread_at_def)
  then show "\<exists>j. cs_threads (thread_at i phase s) j = Dropped name"
    using still_dropped [of "cs_threads s" name i phase] assms(2) by (simp add: thread_at_def)
qed

text \<open>
  A move of a thread that touches the cache or the cluster: no thread comes to hold a table, those that
  hold one keep it, and what is in the cache was there or is the cluster's.
\<close>

lemma moved_true:
  assumes true: "cache_true s" and move: "cs_threads t = (cs_threads s)(i := phase)"
    and holds: "\<And>n v. phase \<noteq> Fetched n v"
    and same: "\<And>j n v. cs_threads s j = Fetched n v \<Longrightarrow> cs_tables t n = cs_tables s n"
    and entries: "\<And>n v. tic_entries (cs_cache t) n = Some v \<Longrightarrow>
      phase = Dropped n \<or> cs_threads s i \<noteq> Dropped n \<and>
        (tic_entries (cs_cache s) n = Some v \<or> cs_tables t n = Some v) \<and> (cs_tables s n = Some v \<longrightarrow> cs_tables t n = Some v)"
  shows "cache_true t"
proof (rule cache_trueI)
  fix j n v assume "cs_threads t j = Fetched n v"
  then have "cs_threads s j = Fetched n v" using move holds by (auto split: if_splits)
  then show "cs_tables t n = Some v" using cache_trueD(1) [OF true] same by metis
next
  fix n v assume "tic_entries (cs_cache t) n = Some v" "cs_tables t n \<noteq> Some v"
  then show "\<exists>j. cs_threads t j = Dropped n"
    using entries [of n v] cache_trueD(2) [OF true, of n v] still_dropped [of "cs_threads s" n i phase]
    unfolding move by auto
qed

lemma undisturbed_true:
  assumes "undisturbed s t" and true: "cache_true s"
  shows "cache_true t"
proof -
  note fetched = cache_trueD(1) [OF true]
  have same: "cs_tables t name = cs_tables s name" if "cs_threads s i = Fetched name tab" for i name tab
    using assms(1) that unfolding undisturbed_def by blast
  from assms(1) have "cache_step s t" by (simp add: undisturbed_def)
  then show ?thesis
  proof (rule cache_step.cases)
    fix s' i name assume "s = s'" "t = thread_at i (Missed name) s'" "cs_threads s' i = Resting"
    then show ?thesis using true settled_true [of s i "Missed name"] by simp
  next
    fix s' i name tab
    assume "s = s'" "t = thread_at i (Fetched name tab) s'" "cs_threads s' i = Missed name" "cs_tables s' name = Some tab"
    then show ?thesis using true settled_true [of s i "Fetched name tab"] by simp
  next
    fix s' i name assume "s = s'" "t = thread_at i Resting s'" "cs_threads s' i = Missed name"
    then show ?thesis using true settled_true [of s i Resting] by simp
  next
    fix s' i name tab
    assume "s = s'" "t = thread_at i Resting (s'\<lparr>cs_cache := cache_store (cs_cache s') name tab\<rparr>)"
      "cs_threads s' i = Fetched name tab"
    then show ?thesis using same fetched [of i name tab]
      by (intro moved_true [OF true, of _ i Resting]) (auto simp: thread_at_def cache_store_def split: if_splits)
  next
    fix s' i name
    assume "s = s'" "t = thread_at i (Dropped name) (s'\<lparr>cs_tables := (cs_tables s')(name := None)\<rparr>)"
      "cs_threads s' i = Resting"
    then show ?thesis using same
      by (intro moved_true [OF true, of _ i "Dropped name"]) (auto simp: thread_at_def split: if_splits)
  next
    fix s' i name
    assume "s = s'" "t = thread_at i Resting (s'\<lparr>cs_cache := cache_invalidate (cs_cache s') name\<rparr>)"
      "cs_threads s' i = Dropped name"
    then show ?thesis using same
      by (intro moved_true [OF true, of _ i Resting]) (auto simp: thread_at_def cache_invalidate_def split: if_splits)
  next
    fix s' i name tab
    assume "s = s'" "t = s'\<lparr>cs_tables := (cs_tables s')(name \<mapsto> tab)\<rparr>" "cs_threads s' i = Resting" "cs_tables s' name = None"
    then show ?thesis using same
      by (intro moved_true [OF true, of _ i Resting]) (auto simp: fun_upd_idem split: if_splits)
  qed
qed



end
