(* ===== verification/TestStats.thy ===== *)
theory TestStats
  imports Prelude "HOL-Library.Signed_Division"
begin

text \<open>
  \<open>volodbserver/Test/TestStats.cpp\<close>: the throughput counters that the execution callback updates.
  The measuring thread is one function per stretch between two sleeps; what the counters are while
  it sleeps is for the caller to say. The array \<open>new int[n]\<close> is not initialised, so \<open>init\<close> takes
  its contents as an argument.
\<close>

datatype notify_thread =
    NoThread
  | Measuring
  | Continuous

record test_stats =
  ts_once :: bool \<comment> \<open>\<open>winner_flag\<close> has fired\<close>
  ts_shouldRun :: bool
  ts_isRunning :: bool
  ts_startTime :: int
  ts_warmUpTime :: int
  ts_totalTime :: int
  ts_noOfExecutors :: nat
  ts_total :: "int32 list" \<comment> \<open>\<open>totalOperationsExecutedByServer\<close>\<close>
  ts_thread :: notify_thread

definition TestStats_initial :: test_stats where
  "TestStats_initial =
     \<lparr>ts_once = False, ts_shouldRun = False, ts_isRunning = False, ts_startTime = 0,
      ts_warmUpTime = 0, ts_totalTime = 0, ts_noOfExecutors = 0, ts_total = [],
      ts_thread = NoThread\<rparr>"

definition TestStats_init ::
  "bool \<Rightarrow> nat \<Rightarrow> int \<Rightarrow> int \<Rightarrow> int32 list \<Rightarrow> test_stats \<Rightarrow> test_stats" where
  "TestStats_init doRun numberOfExecutors wTime tTime memory ts =
     ts\<lparr>ts_shouldRun := doRun, ts_noOfExecutors := numberOfExecutors, ts_warmUpTime := wTime,
        ts_totalTime := tTime, ts_isRunning := False, ts_startTime := 0,
        ts_total := take numberOfExecutors memory\<rparr>"

text \<open>Joining a thread in the endless \<open>runContinuous\<close> does not return.\<close>

definition runInternal :: "test_stats \<Rightarrow> test_stats run" where
  "runInternal ts =
     (if ts_thread ts = Continuous then None else Some (Inr (ts\<lparr>ts_thread := Measuring\<rparr>)))"

definition TestStats_start :: "test_stats \<Rightarrow> test_stats run" where
  "TestStats_start ts =
     (if ts_once ts then Some (Inr ts)
      else bind_run (runInternal ts) (\<lambda>ts1. Some (Inr (ts1\<lparr>ts_once := True\<rparr>))))"

definition startContinuous :: "test_stats \<Rightarrow> test_stats run" where
  "startContinuous ts =
     (if ts_thread ts = Continuous then None else Some (Inr (ts\<lparr>ts_thread := Continuous\<rparr>)))"

definition run_begin :: "test_stats \<Rightarrow> test_stats" where
  "run_begin ts = ts\<lparr>ts_isRunning := True, ts_shouldRun := False\<rparr>"

definition differences :: "int32 list \<Rightarrow> int32 list \<Rightarrow> int32 list" where
  "differences before after = map2 (\<lambda>a b. a - b) after before"

definition accumulate :: "int32 list \<Rightarrow> int32" where
  "accumulate xs = fold (\<lambda>x total. total + x) xs 0"

text \<open>
  \<open>printStats\<close>: the total and the integer quotient it writes to the file, which is only computed
  when the file could be opened.
\<close>

definition printStats :: "bool \<Rightarrow> int32 list \<Rightarrow> int32 list \<Rightarrow> test_stats \<Rightarrow> (int32 \<times> int option) result" where
  "printStats opened before after ts =
     (let totalOperationsExecutedInTime = accumulate (differences before after) in
      if opened then
        (if ts_totalTime ts = 0 then Inl DivisionByZero
         else Inr (totalOperationsExecutedInTime,
                   Some (sint totalOperationsExecutedInTime sdiv ts_totalTime ts)))
      else Inr (totalOperationsExecutedInTime, None))"

definition run_end ::
  "bool \<Rightarrow> int32 list \<Rightarrow> int32 list \<Rightarrow> int32 list \<Rightarrow> test_stats
   \<Rightarrow> ((int32 \<times> int option) \<times> test_stats) result" where
  "run_end opened before after memory ts =
     bind_result (printStats opened before after ts)
       (\<lambda>printed. Inr (printed,
          TestStats_init False (ts_noOfExecutors ts) (ts_warmUpTime ts) (ts_totalTime ts) memory
            (ts\<lparr>ts_isRunning := False\<rparr>)))"

text \<open>One round of \<open>runContinuous\<close>: the operations counted in the second between two copies.\<close>

definition runContinuous_round :: "int32 list \<Rightarrow> int32 list \<Rightarrow> int32" where
  "runContinuous_round before after = accumulate (differences before after)"

text \<open>The last statement of the execution callback.\<close>

definition count_transaction :: "nat \<Rightarrow> nat \<Rightarrow> test_stats \<Rightarrow> test_stats run" where
  "count_transaction executorThreadNo operations ts =
     (if ts_shouldRun ts \<and> \<not> ts_isRunning ts then TestStats_start ts
      else if ts_isRunning ts then
        (if executorThreadNo < length (ts_total ts) then
           Some (Inr (ts\<lparr>ts_total := (ts_total ts)
             [executorThreadNo := ts_total ts ! executorThreadNo + word_of_nat operations]\<rparr>))
         else Some (Inl IndexOutOfRange))
      else Some (Inr ts))"

text \<open>The counters of thread \<open>n\<close> can be updated, and no endless thread would be joined.\<close>

definition stats_ready :: "nat \<Rightarrow> test_stats \<Rightarrow> bool" where
  "stats_ready n ts \<longleftrightarrow>
     (ts_isRunning ts \<longrightarrow> n < length (ts_total ts)) \<and>
     (ts_shouldRun ts \<longrightarrow> ts_thread ts \<noteq> Continuous)"

lemma count_transaction_ready:
  assumes "stats_ready n ts"
  shows "\<exists>ts1. count_transaction n k ts = Some (Inr ts1) \<and> stats_ready n ts1"
  using assms
  by (cases "ts_isRunning ts"; cases "ts_shouldRun ts"; cases "ts_once ts")
    (simp_all add: count_transaction_def stats_ready_def TestStats_start_def runInternal_def)

lemma accumulate_sum: "accumulate xs = sum_list xs"
proof -
  have "fold (\<lambda>x total. total + x) xs t = t + sum_list xs" for t :: int32
    by (induction xs arbitrary: t) (simp_all add: algebra_simps)
  then show ?thesis by (simp add: accumulate_def)
qed

text \<open>
  A measurement reports the operations the executors counted between its two copies of the
  counters, modulo the counters' 32 bits, and the quotient by the configured time rounded towards
  zero; with a time of zero it divides by zero as soon as its file can be opened.
\<close>

lemma measurement_reported:
  assumes "length before = length after"
  shows "run_end opened before after memory ts =
    (if opened \<and> ts_totalTime ts = 0 then Inl DivisionByZero
     else
       (let total = sum_list after - sum_list before in
        Inr ((total, if opened then Some (sint total sdiv ts_totalTime ts) else None),
             TestStats_init False (ts_noOfExecutors ts) (ts_warmUpTime ts) (ts_totalTime ts) memory
               (ts\<lparr>ts_isRunning := False\<rparr>))))"
proof -
  have "sum_list (differences before after) = sum_list after - sum_list before"
    using assms unfolding differences_def
    by (induction before after rule: list_induct2) simp_all
  then show ?thesis by (simp add: run_end_def printStats_def accumulate_sum Let_def)
qed

end
