(* ===== verification/NdbCluster.thy ===== *)
theory NdbCluster
  imports NdbReference ColumnProto
begin

text \<open>
  What the server relies on of the NDB library, as a locale over an \<open>ndb_api\<close>. Besides the calls it
  names three views of the library's state: the transactions prepared on the thread's \<open>Ndb\<close> object
  and not completed, how many more polls may pass without any completion, and how many rows a scan
  still has. The assumptions are the documented ones: a poll returns the number of transactions it
  completed after calling each one's callback, only prepared transactions are called back, a
  started transaction is none of those under way, and no other call completes a transaction.
\<close>

locale ndb_cluster =
  fixes A :: "'w ndb_api"
    and prepared :: "'w \<Rightarrow> ndb_transaction set"
    and patience :: "'w \<Rightarrow> nat"
    and rowsLeft :: "ndb_operation \<Rightarrow> 'w \<Rightarrow> nat"
  assumes poll: "pollNdb A n k w = ((count, completed), w') \<Longrightarrow>
      count = int (length completed) \<and> distinct (map snd completed) \<and>
      set (map snd completed) \<subseteq> prepared w \<and> prepared w' = prepared w - set (map snd completed)"
    and poll_waits: "pollNdb A n k w = ((0, []), w') \<Longrightarrow> prepared w \<noteq> {} \<Longrightarrow> patience w' < patience w"
    and send_poll: "sendPollNdb A n k w = ((count, completed), w') \<Longrightarrow>
      count = int (length completed) \<and> distinct (map snd completed) \<and>
      set (map snd completed) \<subseteq> prepared w \<and> prepared w' = prepared w - set (map snd completed)"
    and prepare: "prepared (executeAsynchPrepare A t w) = insert t (prepared w)"
    and start_hint_fresh: "startTransactionWithHint A n tab hint w = (Some t, w') \<Longrightarrow> t \<notin> prepared w"
    and start_fresh: "startTransactionOn A n tab w = (Some t, w') \<Longrightarrow> t \<notin> prepared w"
    and keeps_start_hint: "prepared (snd (startTransactionWithHint A n tab hint w)) = prepared w"
    and keeps_start: "prepared (snd (startTransactionOn A n tab w)) = prepared w"
    and keeps_table: "prepared (snd (getTable A n name w)) = prepared w"
    and keeps_operation: "prepared (snd (getNdbOperation A t name w)) = prepared w"
    and keeps_index_scan: "prepared (snd (getNdbIndexScanOperation A t idx name w)) = prepared w"
    and keeps_scan: "prepared (snd (getNdbScanOperation A t name w)) = prepared w"
    and keeps_write: "prepared (writeTuple A op w) = prepared w"
    and keeps_delete: "prepared (deleteTuple A op w) = prepared w"
    and keeps_read: "prepared (simpleRead A op w) = prepared w"
    and keeps_read_tuples: "prepared (readTuples A op w) = prepared w"
    and keeps_equal: "prepared (snd (equalColumn A op name v w)) = prepared w"
    and keeps_set_value: "prepared (snd (setValueColumn A op name v w)) = prepared w"
    and keeps_get_value: "prepared (snd (getValueColumn A op i w)) = prepared w"
    and keeps_filter_begin: "prepared (snd (filterBegin A op w)) = prepared w"
    and keeps_filter_cmp: "prepared (snd (filterCmpEq A op i v w)) = prepared w"
    and keeps_filter_end: "prepared (snd (filterEnd A op w)) = prepared w"
    and keeps_next: "prepared (snd (nextResult A op w)) = prepared w"
    and keeps_close: "prepared (closeTransaction A t w) = prepared w"
    and keeps_query: "prepared (snd (mysqlQuery A n q w)) = prepared w"
    and next_row: "nextResult A op w = (0, w') \<Longrightarrow> rowsLeft op w' < rowsLeft op w"
    and column_types: "Column_Type_of (attrType A a w) \<noteq> None"
begin

lemmas keeps = keeps_start_hint keeps_start keeps_table keeps_operation keeps_index_scan keeps_scan
  keeps_write keeps_delete keeps_read keeps_read_tuples keeps_equal keeps_set_value keeps_get_value
  keeps_filter_begin keeps_filter_cmp keeps_filter_end keeps_next keeps_close keeps_query

end

definition ref_rows_left :: "ndb_operation \<Rightarrow> ref_cluster \<Rightarrow> nat" where
  "ref_rows_left op w = (case map_of (rc_scans w) op of Some n \<Rightarrow> n | None \<Rightarrow> 0)"

lemma member_le_sum_list: "x \<in> set xs \<Longrightarrow> x \<le> sum_list (xs :: nat list)"
  by (induction xs) auto

lemma ref_start_fresh: "ref_start w = (Some t, w') \<Longrightarrow> t \<notin> set (rc_prepared w)"
  using member_le_sum_list [of t "rc_prepared w"] by (auto simp: ref_start_def Let_def)

lemma ref_poll_completes:
  assumes "ref_poll w = ((count, completed), w')"
  shows "count = int (length completed) \<and> distinct (map snd completed) \<and>
    set (map snd completed) = set (rc_prepared w) \<and> rc_prepared w' = []"
  using assms by (auto simp: ref_poll_def Let_def comp_def image_image)

lemma ref_keeps [simp]:
  "rc_prepared (snd (ref_start w)) = rc_prepared w"
  "rc_prepared (snd (ref_operation scan name w)) = rc_prepared w"
  "rc_prepared (snd (ref_column_call op name w)) = rc_prepared w"
  by (simp_all add: ref_start_def ref_operation_def ref_column_call_def Let_def split: option.split)

lemma ref_types: "Column_Type_of (attrType ref_cluster_api a w) \<noteq> None"
proof (cases "a div 100 = 0")
  case True
  then have "a mod 100 < 3 \<Longrightarrow> a mod 100 = 0 \<or> a mod 100 = 1 \<or> a mod 100 = 2" by linarith
  with True show ?thesis
    by (auto simp: ref_columns_def ref_tables_def Column_Type_of_def)
qed (auto simp: ref_columns_def ref_tables_def Column_Type_of_def)

lemma ref_next: "nextResult ref_cluster_api op w = (0, w') \<Longrightarrow> ref_rows_left op w' < ref_rows_left op w"
  by (auto simp: ref_rows_left_def split: option.splits nat.splits)

lemma ref_next_keeps: "rc_prepared (snd (nextResult ref_cluster_api op w)) = rc_prepared w"
  by (simp split: option.split nat.split)

interpretation reference_cluster:
  ndb_cluster ref_cluster_api "\<lambda>w. set (rc_prepared w)" "\<lambda>_. 0" ref_rows_left
proof
  show "pollNdb ref_cluster_api n k w = ((0, []), w') \<Longrightarrow> set (rc_prepared w) \<noteq> {} \<Longrightarrow> (0::nat) < 0"
    for n k w w' by (auto simp: ref_poll_def Let_def)
  show "nextResult ref_cluster_api op w = (0, w') \<Longrightarrow> ref_rows_left op w' < ref_rows_left op w"
    for op w w' by (rule ref_next)
  show "Column_Type_of (attrType ref_cluster_api a w) \<noteq> None" for a w by (rule ref_types)
  show "set (rc_prepared (snd (nextResult ref_cluster_api op w))) = set (rc_prepared w)" for op w
    by (simp only: ref_next_keeps)
  show "startTransactionWithHint ref_cluster_api n tab hint w = (Some t, w') \<Longrightarrow> t \<notin> set (rc_prepared w)"
    for n tab hint w t w' by (simp add: ref_start_fresh)
  show "startTransactionOn ref_cluster_api n tab w = (Some t, w') \<Longrightarrow> t \<notin> set (rc_prepared w)"
    for n tab w t w' by (simp add: ref_start_fresh)
  show "pollNdb ref_cluster_api n k w = ((count, completed), w') \<Longrightarrow>
      count = int (length completed) \<and> distinct (map snd completed) \<and>
      set (map snd completed) \<subseteq> set (rc_prepared w) \<and>
      set (rc_prepared w') = set (rc_prepared w) - set (map snd completed)"
    for n k w count completed w' using ref_poll_completes [of w count completed w'] by simp
  show "sendPollNdb ref_cluster_api n k w = ((count, completed), w') \<Longrightarrow>
      count = int (length completed) \<and> distinct (map snd completed) \<and>
      set (map snd completed) \<subseteq> set (rc_prepared w) \<and>
      set (rc_prepared w') = set (rc_prepared w) - set (map snd completed)"
    for n k w count completed w' using ref_poll_completes [of w count completed w'] by simp
qed simp_all

end
