(* ===== verification/NDBMessageProcessor.thy ===== *)
theory NDBMessageProcessor
  imports FrameDecoder TableInfoCache "HOL-Library.Signed_Division" "HOL-Library.Multiset"
begin

text \<open>
  \<open>volodbserver/Store/NDBMessageProcessor\<close>: the distribution-key hint of a transaction, the search
  for the data node that holds an operation's row, and the distribution of decoded transactions
  over the executor threads. \<open>rand()\<close> is a function from the number of the call to its result.
\<close>

section \<open>Distribution keys\<close>

definition is_distribution_key :: "column_value \<Rightarrow> bool" where
  "is_distribution_key c \<longleftrightarrow> ColumnValue_has_distribution_key c \<and> ColumnValue_distribution_key c"

fun fillHint ::
  "column_value list \<Rightarrow> nat \<Rightarrow> key_part option list \<Rightarrow> key_part option list result" where
  "fillHint [] i hint =
     (if i < length hint then Inr (hint[i := Some \<lparr>kp_ptr = None, kp_len = 0\<rparr>])
      else Inl BufferOverrun)"
| "fillHint (column # columns) i hint =
     (if ColumnValue_has_distribution_key column \<and> ColumnValue_distribution_key column then
        (if i < length hint then
           fillHint columns (i + 1)
             (hint[i := Some \<lparr>kp_ptr = Some (ColumnValue_value column),
                              kp_len = word_of_nat (length (ColumnValue_value column))\<rparr>])
         else Inl BufferOverrun)
      else fillHint columns i hint)"

definition getHint :: "column_value list \<Rightarrow> key_part option list \<Rightarrow> key_part option list result" where
  "getHint columns hint = fillHint columns 0 hint"

fun getNoDistributionKeyIndexes :: "column_value list \<Rightarrow> nat" where
  "getNoDistributionKeyIndexes [] = 0"
| "getNoDistributionKeyIndexes (column # columns) =
     (if ColumnValue_has_distribution_key column \<and> ColumnValue_distribution_key column then 1 else 0) +
     getNoDistributionKeyIndexes columns"

text \<open>An array of \<open>Key_part_ptr\<close> on the stack.\<close>

definition hint_array :: "nat \<Rightarrow> key_part option list" where
  "hint_array n = replicate n None"

section \<open>The responsible data node\<close>

record transaction_monitor =
  tm_recentFailed :: int32
  tm_recent :: int32
  tm_lastFailedStart :: int

record 'w processor =
  pr_world :: 'w
  pr_cache :: table_info_cache
  pr_monitor :: transaction_monitor

definition getResonsibleDataNodeInternal ::
  "'w ndb_api \<Rightarrow> bytes \<Rightarrow> column_value list \<Rightarrow> nat \<Rightarrow> nat \<Rightarrow> 'w processor \<Rightarrow> (int \<times> 'w processor) result" where
  "getResonsibleDataNodeInternal A storeName columns noDistributionKeyIndexes threadNo pr =
     bind_result (getHint columns (hint_array (noDistributionKeyIndexes + 1)))
       (\<lambda>hint.
          let (tableInfo, tic, w) = cache_lookup A threadNo storeName storeName (pr_cache pr) (pr_world pr);
              pr1 = pr\<lparr>pr_cache := tic, pr_world := w\<rparr>
          in case tableInfo of
               None \<Rightarrow> Inr (-1, pr1)
             | Some table \<Rightarrow>
                 (let pr2 = pr1\<lparr>pr_monitor := (pr_monitor pr1)\<lparr>tm_recent := tm_recent (pr_monitor pr1) + 1\<rparr>\<rparr>;
                      (trans, w1) = startTransactionWithHint A threadNo table hint (pr_world pr2)
                  in case trans of
                       Some t \<Rightarrow>
                         Inr (sint (getConnectedNodeId A t w1), pr2\<lparr>pr_world := closeTransaction A t w1\<rparr>)
                     | None \<Rightarrow>
                         Inr (-1, pr2\<lparr>pr_world := w1, pr_monitor := (pr_monitor pr2)
                           \<lparr>tm_recentFailed := tm_recentFailed (pr_monitor pr2) + 1\<rparr>\<rparr>)))"

text \<open>
  \<open>extractInfoForResponsibleDataNode\<close> for the class of the message: its first store and its keys.
\<close>

definition extractInfoForResponsibleDataNode :: "message \<Rightarrow> (store_info \<times> column_value list) option result" where
  "extractInfoForResponsibleDataNode message =
     (case message of
        SetMessage operation \<Rightarrow>
          bind_result (SetOperation_store_info operation 0) (\<lambda>si. Inr (Some (si, so_primary_key operation)))
      | DeleteMessage operation \<Rightarrow>
          bind_result (DeleteOperation_store_info operation 0) (\<lambda>si. Inr (Some (si, dl_primary_key operation)))
      | GetMessage operation \<Rightarrow>
          bind_result (GetOperation_store_info operation 0) (\<lambda>si. Inr (Some (si, go_primary_key operation)))
      | _ \<Rightarrow> Inr None)"

definition getResonsibleDataNode ::
  "'w ndb_api \<Rightarrow> message \<Rightarrow> nat \<Rightarrow> 'w processor \<Rightarrow> (int \<times> 'w processor) result" where
  "getResonsibleDataNode A message threadNo pr =
     bind_result (extractInfoForResponsibleDataNode message)
       (\<lambda>info. case info of
          None \<Rightarrow> Inr (-1, pr)
        | Some (storeInfo, primaryColumns) \<Rightarrow>
            (let noDistributionKeyIndexes = getNoDistributionKeyIndexes primaryColumns in
             if noDistributionKeyIndexes > 0 then
               getResonsibleDataNodeInternal A (StoreInfo_store_name storeInfo) primaryColumns
                 noDistributionKeyIndexes threadNo pr
             else Inr (-1, pr)))"

definition getResponsibleExecutor ::
  "'w ndb_api \<Rightarrow> nat \<Rightarrow> message \<Rightarrow> int \<Rightarrow> nat \<Rightarrow> 'w processor \<Rightarrow> (int \<times> 'w processor) result" where
  "getResponsibleExecutor A randomValue message noOfExecutors threadNo pr =
     (if isDefinitionFrame message then
        (if noOfExecutors = 0 then Inl DivisionByZero
         else Inr (int randomValue smod noOfExecutors, pr))
      else
        bind_result (getResonsibleDataNode A message threadNo pr)
          (\<lambda>(responsibleDataNode, pr1).
             if responsibleDataNode = -1 then Inr (-1, pr1)
             else if noOfExecutors = 0 then Inl DivisionByZero
             else Inr (responsibleDataNode smod noOfExecutors, pr1)))"

section \<open>Distribution over the executors\<close>

type_synonym executor_task_map = "nat \<rightharpoonup> frame_messages_tuple list"

definition addToExecutorList ::
  "executor_task_map \<Rightarrow> nat \<Rightarrow> frame_messages_tuple \<Rightarrow> executor_task_map" where
  "addToExecutorList executorMap executorNo messagesTuple =
     (let bucket = (case executorMap executorNo of None \<Rightarrow> [] | Some b \<Rightarrow> b)
      in executorMap(executorNo \<mapsto> bucket @ [messagesTuple]))"

fun addAllToExecutorLists ::
  "(nat \<Rightarrow> nat) \<Rightarrow> nat \<Rightarrow> frame_messages_tuple list \<Rightarrow> nat \<Rightarrow> executor_task_map \<Rightarrow> executor_task_map result" where
  "addAllToExecutorLists rand i [] noOfExecutors executorMap = Inr executorMap"
| "addAllToExecutorLists rand i (messagesTuple # messagesList) noOfExecutors executorMap =
     (if noOfExecutors = 0 then Inl DivisionByZero
      else addAllToExecutorLists rand (Suc i) messagesList noOfExecutors
             (addToExecutorList executorMap (rand i mod noOfExecutors) messagesTuple))"

definition processForExecutor ::
  "(nat \<Rightarrow> nat) \<Rightarrow> frame_messages_tuple list \<Rightarrow> nat \<Rightarrow> executor_task_map result" where
  "processForExecutor rand messagesList noOfExecutors =
     addAllToExecutorLists rand 0 messagesList noOfExecutors Map.empty"

section \<open>The hint is exact\<close>

definition hint_part :: "column_value \<Rightarrow> key_part" where
  "hint_part column =
     \<lparr>kp_ptr = Some (ColumnValue_value column),
      kp_len = word_of_nat (length (ColumnValue_value column))\<rparr>"

lemma getNoDistributionKeyIndexes_filter:
  "getNoDistributionKeyIndexes columns = length (filter is_distribution_key columns)"
  by (induction columns) (simp_all add: is_distribution_key_def)

lemma fillHint_exact:
  assumes "length done = i" "length free = Suc (getNoDistributionKeyIndexes columns)"
  shows "fillHint columns i (done @ free) =
    Inr (done @ map (\<lambda>c. Some (hint_part c)) (filter is_distribution_key columns) @
      [Some \<lparr>kp_ptr = None, kp_len = 0\<rparr>])"
  using assms
proof (induction columns arbitrary: i "done" free)
  case Nil
  then obtain x where "free = [x]" by (auto simp: length_Suc_conv)
  with Nil show ?case by (simp add: list_update_append)
next
  case (Cons column columns)
  show ?case
  proof (cases "is_distribution_key column")
    case True
    then obtain x rest where free: "free = x # rest"
      and rest: "length rest = Suc (getNoDistributionKeyIndexes columns)"
      using Cons.prems by (auto simp: length_Suc_conv simp flip: is_distribution_key_def)
    have "fillHint columns (Suc i) ((done @ [Some (hint_part column)]) @ rest) =
        Inr ((done @ [Some (hint_part column)]) @
          map (\<lambda>c. Some (hint_part c)) (filter is_distribution_key columns) @
          [Some \<lparr>kp_ptr = None, kp_len = 0\<rparr>])"
      using Cons.prems(1) rest by (intro Cons.IH) simp_all
    with True free Cons.prems(1) show ?thesis
      by (simp add: list_update_append hint_part_def flip: is_distribution_key_def)
  next
    case False
    with Cons show ?thesis by (simp flip: is_distribution_key_def)
  qed
qed

text \<open>
  C24: filling the hint never leaves the array, and the array then holds the values of exactly the
  columns flagged as distribution keys, in their order, followed by the null part that ends it;
  no element is left uninitialised.
\<close>

theorem hint_filled:
  "getHint columns (hint_array (getNoDistributionKeyIndexes columns + 1)) =
    Inr (map (\<lambda>c. Some (hint_part c)) (filter is_distribution_key columns) @
      [Some \<lparr>kp_ptr = None, kp_len = 0\<rparr>])"
  using fillHint_exact [of "[]" 0 "hint_array (getNoDistributionKeyIndexes columns + 1)" columns]
  by (simp add: getHint_def hint_array_def)

section \<open>Every transaction goes to one executor\<close>

definition bucket :: "executor_task_map \<Rightarrow> nat \<Rightarrow> frame_messages_tuple list" where
  "bucket m e = (case m e of None \<Rightarrow> [] | Some b \<Rightarrow> b)"

definition assigned :: "(nat \<Rightarrow> nat) \<Rightarrow> nat \<Rightarrow> frame_messages_tuple list \<Rightarrow> nat \<Rightarrow> nat \<Rightarrow> frame_messages_tuple list" where
  "assigned rand i messagesList n e =
     map snd (filter (\<lambda>(k, _). rand k mod n = e) (enumerate i messagesList))"

lemma assigned_simps [simp]:
  "assigned rand i [] n e = []"
  "assigned rand i (t # ts) n e =
     (if rand i mod n = e then t # assigned rand (Suc i) ts n e else assigned rand (Suc i) ts n e)"
  by (simp_all add: assigned_def)

lemma bucket_add [simp]:
  "bucket (addToExecutorList m e t) e' = (if e' = e then bucket m e @ [t] else bucket m e')"
  by (simp add: bucket_def addToExecutorList_def)

lemma addAll_buckets:
  assumes "0 < n" "dom m \<subseteq> {..<n}" "\<And>e. m e \<noteq> Some []"
  shows "\<exists>m'. addAllToExecutorLists rand i messagesList n m = Inr m' \<and> dom m' \<subseteq> {..<n} \<and>
    (\<forall>e. m' e \<noteq> Some []) \<and> (\<forall>e. bucket m' e = bucket m e @ assigned rand i messagesList n e)"
  using assms(2,3)
proof (induction messagesList arbitrary: i m)
  case Nil
  then show ?case by simp
next
  case (Cons t ts)
  let ?m = "addToExecutorList m (rand i mod n) t"
  have "dom ?m \<subseteq> {..<n}" "\<And>e. ?m e \<noteq> Some []"
    using Cons.prems assms(1) by (auto simp: addToExecutorList_def)
  from Cons.IH [OF this, of "Suc i"] assms(1) show ?case by (fastforce split: if_splits)
qed

lemma assigned_mset:
  assumes "0 < n"
  shows "(\<Sum>e<n. mset (assigned rand i messagesList n e)) = mset messagesList"
proof (induction messagesList arbitrary: i)
  case Nil
  then show ?case by simp
next
  case (Cons t ts)
  have "mset (assigned rand i (t # ts) n e) =
      (if e = rand i mod n then {#t#} else {#}) + mset (assigned rand (Suc i) ts n e)" for e
    by simp
  then show ?case using Cons assms by (simp add: sum.distrib sum.delta)
qed

lemma processForExecutor_partition:
  assumes "0 < noOfExecutors"
  shows "\<exists>m. processForExecutor rand messagesList noOfExecutors = Inr m \<and>
    dom m \<subseteq> {..<noOfExecutors} \<and> (\<forall>e. m e \<noteq> Some []) \<and>
    (\<forall>e. bucket m e = assigned rand 0 messagesList noOfExecutors e) \<and>
    (\<Sum>e<noOfExecutors. mset (bucket m e)) = mset messagesList"
  using addAll_buckets [OF assms, of Map.empty rand 0 messagesList] assigned_mset [OF assms, of rand 0]
  by (auto simp: processForExecutor_def bucket_def)

text \<open>
  C23: with at least one executor, the distribution gives every decoded transaction to exactly one
  existing executor, keeps the order of the transactions given to the same one, and creates no
  empty task list.
\<close>

theorem transactions_partitioned:
  assumes "0 < noOfExecutors"
  shows "\<exists>m. processForExecutor rand messagesList noOfExecutors = Inr m \<and>
    dom m \<subseteq> {..<noOfExecutors} \<and> (\<forall>e. m e \<noteq> Some []) \<and>
    (\<forall>e. bucket m e = assigned rand 0 messagesList noOfExecutors e) \<and>
    (\<Sum>e<noOfExecutors. mset (bucket m e)) = mset messagesList"
  using assms by (rule processForExecutor_partition)

theorem transactions_partitioned_witness:
  "\<exists>m. processForExecutor (\<lambda>i. 7 * i + 3) [(''a'', [], []), (''b'', [], []), (''c'', [], [])] 2 = Inr m \<and>
    dom m \<subseteq> {..<2} \<and> (\<forall>e. m e \<noteq> Some []) \<and>
    (\<forall>e. bucket m e =
       assigned (\<lambda>i. 7 * i + 3) 0 [(''a'', [], []), (''b'', [], []), (''c'', [], [])] 2 e) \<and>
    (\<Sum>e<2. mset (bucket m e)) = mset [(''a'', [], []), (''b'', [], []), (''c'', [], [])]"
  by (rule transactions_partitioned) simp

end
