(* ===== verification/ServerReply.thy ===== *)
theory ServerReply
  imports FrameBuilder TableInfoCache TestStats "HOL-Library.While_Combinator"
begin

text \<open>
  The first part of \<open>volodbserver/Store/NDBMessageExecutor.cpp\<close>: the state of an executor thread,
  how it builds results and replies with them, and the callback NDB makes when a transaction has
  been executed.
\<close>

section \<open>The state of an executor thread\<close>

text \<open>
  What \<open>executeAsynchPrepare\<close> is given to pass back: the transaction, its identifier, the identity
  of the client's socket and, per operation, its type, handle, value records and thread. The
  pointers into the request are valid until the batch is done, so they are values here.
\<close>

record transaction_operation =
  to_type :: frame_item_type
  to_operation :: ndb_operation
  to_columns :: "ndb_rec_attr list option"
  to_thread :: nat

record transaction_state =
  ts_transaction :: ndb_transaction
  ts_transactionID :: bytes
  ts_identifier :: bytes
  ts_operations :: "transaction_operation list"

text \<open>
  \<open>sv_pending\<close> are the transactions prepared and not yet called back. \<open>sv_sent\<close> is what went to
  the task sender socket, the two parts of each message; \<open>sv_unsent\<close> records the replies that could
  not be serialised, for which a warning is logged and nothing is sent.
\<close>

record 'w server =
  sv_world :: 'w
  sv_cache :: table_info_cache
  sv_pending :: "ndb_transaction \<rightharpoonup> transaction_state"
  sv_sent :: "(bytes \<times> bytes) list"
  sv_unsent :: "bytes list"
  sv_stats :: test_stats

definition with_world :: "('w \<Rightarrow> 'a \<times> 'w) \<Rightarrow> 'w server \<Rightarrow> 'a \<times> 'w server" where
  "with_world call s = (let (x, w) = call (sv_world s) in (x, s\<lparr>sv_world := w\<rparr>))"

section \<open>Results and replies\<close>

definition makeResultForError :: "bytes \<Rightarrow> bytes \<Rightarrow> int32 \<Rightarrow> server_result" where
  "makeResultForError transactionId description code =
     Result_set_transaction_identifier transactionId
       (Result_set_error_code code
         (Result_set_error_description description Result_new))"

definition makeResult :: "bytes \<Rightarrow> server_result" where
  "makeResult transactionId = Result_set_transaction_identifier transactionId Result_new"

definition replyWithResult ::
  "pb_lib \<Rightarrow> server_result \<Rightarrow> bytes \<Rightarrow> 'w server \<Rightarrow> (bool \<times> 'w server) result" where
  "replyWithResult L res identifier s =
     bind_result (getBytesOfFrameWithMessage L (ResultMessage res))
       (\<lambda>(bytes, _).
          case bytes of
            None \<Rightarrow> Inr (False, s\<lparr>sv_unsent := sv_unsent s @ [identifier]\<rparr>)
          | Some serverReply \<Rightarrow> Inr (True, s\<lparr>sv_sent := sv_sent s @ [(identifier, serverReply)]\<rparr>))"

text \<open>
  One record of a read: a column per \<open>NdbRecAttr\<close>. \<open>set_type\<close> asserts that the number of the NDB
  column type is one of the enumeration.
\<close>

fun addColumns ::
  "'w ndb_api \<Rightarrow> 'w \<Rightarrow> ndb_rec_attr list \<Rightarrow> row \<Rightarrow> row result" where
  "addColumns A w [] currentOperationRow = Inr currentOperationRow"
| "addColumns A w (columnRecord # columnRecords) currentOperationRow =
     (case Column_Type_of (attrType A columnRecord w) of
        None \<Rightarrow> Inl AssertFailed
      | Some type \<Rightarrow>
          addColumns A w columnRecords
            (Row_add_column
              (\<lambda>c. ColumnValue_set_value (attrBytes A columnRecord w)
                 (ColumnValue_set_type type
                   (ColumnValue_set_name (attrName A columnRecord w) c)))
              currentOperationRow))"

definition addRecordToResult ::
  "'w ndb_api \<Rightarrow> 'w \<Rightarrow> operation_result \<Rightarrow> ndb_rec_attr list \<Rightarrow> operation_result result" where
  "addRecordToResult A w currentOperationResult columnValues =
     bind_result (addColumns A w columnValues Row_new)
       (\<lambda>row. Inr (OperationResult_add_row (\<lambda>_. row) currentOperationResult))"

text \<open>\<open>while(currentOperation->nextResult(true) == 0)\<close>, over the last result, the world and the rows.\<close>

type_synonym 'w scan = "(int \<times> 'w \<times> operation_result) result"

definition scan_continues :: "'w scan \<Rightarrow> bool" where
  "scan_continues st = (case st of Inl e \<Rightarrow> False | Inr (res, w, opr) \<Rightarrow> res = 0)"

definition scan_step ::
  "'w ndb_api \<Rightarrow> ndb_operation \<Rightarrow> ndb_rec_attr list \<Rightarrow> 'w scan \<Rightarrow> 'w scan" where
  "scan_step A operation columnValues st =
     bind_result st
       (\<lambda>(res, w, opr).
          bind_result (addRecordToResult A w opr columnValues)
            (\<lambda>opr1. let (res1, w1) = nextResult A operation w in Inr (res1, w1, opr1)))"

definition scan_rows ::
  "'w ndb_api \<Rightarrow> ndb_operation \<Rightarrow> ndb_rec_attr list \<Rightarrow> operation_result \<Rightarrow> 'w
   \<Rightarrow> (operation_result \<times> 'w) run" where
  "scan_rows A operation columnValues opr w =
     (let (res, w1) = nextResult A operation w in
      case while_option scan_continues (scan_step A operation columnValues) (Inr (res, w1, opr)) of
        None \<Rightarrow> None
      | Some (Inl e) \<Rightarrow> Some (Inl e)
      | Some (Inr (_, w2, opr2)) \<Rightarrow> Some (Inr (opr2, w2)))"

section \<open>The execution callback\<close>

text \<open>One round of the loop over the operations: the result it adds.\<close>

definition operation_outcome ::
  "'w ndb_api \<Rightarrow> transaction_operation \<Rightarrow> 'w \<Rightarrow> (operation_result \<times> 'w) run" where
  "operation_outcome A info w =
     (let opr = OperationResult_set_type (to_type info) OperationResult_new in
      if to_type info = FrameItem_Type_GET then
        (case to_columns info of
           None \<Rightarrow> Some (Inl NullDereference)
         | Some columnValues \<Rightarrow>
             if isScanOperation A (to_operation info) w then
               scan_rows A (to_operation info) columnValues opr w
             else
               (case addRecordToResult A w opr columnValues of
                  Inl e \<Rightarrow> Some (Inl e)
                | Inr opr1 \<Rightarrow> Some (Inr (opr1, w))))
      else Some (Inr (opr, w)))"

fun collect_operations ::
  "'w ndb_api \<Rightarrow> transaction_operation list \<Rightarrow> server_result \<Rightarrow> 'w \<Rightarrow> (server_result \<times> 'w) run" where
  "collect_operations A [] transactionResult w = Some (Inr (transactionResult, w))"
| "collect_operations A (info # infos) transactionResult w =
     bind_run (operation_outcome A info w)
       (\<lambda>(opr, w1). collect_operations A infos (Result_add_result (\<lambda>_. opr) transactionResult) w1)"

definition ndbExecuteCallback ::
  "pb_lib \<Rightarrow> 'w ndb_api \<Rightarrow> int \<Rightarrow> ndb_transaction \<Rightarrow> 'w server \<Rightarrow> 'w server run" where
  "ndbExecuteCallback L A res transaction s =
     (case sv_pending s transaction of
        None \<Rightarrow> Some (Inl NullDereference)
      | Some state \<Rightarrow>
          let s0 = s\<lparr>sv_pending := (sv_pending s)(transaction := None)\<rparr>; w = sv_world s in
          if transaction \<noteq> ts_transaction state then Some (Inl AssertFailed)
          else if res = -1 then
            (let executionResult =
               makeResultForError (ts_transactionID state) (errorMessage A transaction w)
                 (errorCode A transaction w);
               s1 = s0\<lparr>sv_world := closeTransaction A transaction w\<rparr>
             in case replyWithResult L executionResult (ts_identifier state) s1 of
                  Inl e \<Rightarrow> Some (Inl e)
                | Inr (_, s2) \<Rightarrow> Some (Inr s2))
          else
            bind_run (collect_operations A (ts_operations state) (makeResult (ts_transactionID state)) w)
              (\<lambda>(transactionResult, w1).
                 let executorThreadNo =
                       (if ts_operations state = [] then 0 else to_thread (last (ts_operations state)));
                     s1 = s0\<lparr>sv_world := closeTransaction A transaction w1\<rparr>
                 in case replyWithResult L transactionResult (ts_identifier state) s1 of
                      Inl e \<Rightarrow> Some (Inl e)
                    | Inr (_, s2) \<Rightarrow>
                        bind_run (count_transaction executorThreadNo (length (ts_operations state)) (sv_stats s2))
                          (\<lambda>stats. Some (Inr (s2\<lparr>sv_stats := stats\<rparr>)))))"

end
