(* ===== verification/StoreOperations.thy ===== *)
theory StoreOperations
  imports ServerReply
begin

text \<open>
  The definition operations of \<open>volodbserver/Store/NDBMessageExecutor.cpp\<close>: the statements sent to
  MySQL to create and drop databases and stores, and the results made of their outcome.
\<close>

definition newline :: string where
  "newline = [char_of (10::nat)]"

section \<open>Queries\<close>

definition runQuery ::
  "'w ndb_api \<Rightarrow> nat \<Rightarrow> bytes \<Rightarrow> bytes \<Rightarrow> 'w server \<Rightarrow> server_result \<times> 'w server" where
  "runQuery A threadNo queryString transactionID s =
     (let (failed, s1) = with_world (mysqlQuery A threadNo (c_str queryString)) s in
      if failed then (makeResultForError transactionID (mysqlError A threadNo (sv_world s1)) 0, s1)
      else (makeResult transactionID, s1))"

definition createDatabase ::
  "'w ndb_api \<Rightarrow> nat \<Rightarrow> bytes \<Rightarrow> bytes \<Rightarrow> 'w server \<Rightarrow> server_result \<times> 'w server" where
  "createDatabase A threadNo name transactionID s =
     runQuery A threadNo (''CREATE DATABASE IF NOT EXISTS '' @ name) transactionID s"

definition executeCreateDatabase ::
  "'w ndb_api \<Rightarrow> nat \<Rightarrow> create_database_operation \<Rightarrow> bytes \<Rightarrow> 'w server \<Rightarrow> server_result \<times> 'w server" where
  "executeCreateDatabase A threadNo operation transactionID s =
     createDatabase A threadNo (CreateDatabaseOperation_database_name operation) transactionID s"

definition executeDropDatabase ::
  "'w ndb_api \<Rightarrow> nat \<Rightarrow> drop_database_operation \<Rightarrow> bytes \<Rightarrow> 'w server \<Rightarrow> server_result \<times> 'w server" where
  "executeDropDatabase A threadNo operation transactionID s =
     runQuery A threadNo (''DROP DATABASE '' @ DropDatabaseOperation_database_name operation) transactionID s"

section \<open>Creating a store\<close>

definition getTypeName :: "column_type \<Rightarrow> string" where
  "getTypeName type =
     (if type = Column_Type_BOOL then ''Tinyint''
      else if type = Column_Type_INT32 then ''Int''
      else if type = Column_Type_UINT32 then ''Int Unsigned''
      else if type = Column_Type_INT64 then ''Bigint''
      else if type = Column_Type_UINT64 then ''Bigint Unsigned''
      else if type = Column_Type_FLOAT then ''Float''
      else if type = Column_Type_DOUBLE then ''Double''
      else if type = Column_Type_CHAR then ''Char''
      else if type = Column_Type_VARCHAR then ''Varchar''
      else if type = Column_Type_VARBINARY then ''Varbinary''
      else ''Int'')"

text \<open>The column clause: type, length where the type takes one, and the separator.\<close>

definition columnClause :: "column_info \<Rightarrow> string" where
  "columnClause currentAttribute =
     ColumnInfo_name currentAttribute @ '' '' @ getTypeName (ColumnInfo_type currentAttribute) @
     (if ColumnInfo_has_length currentAttribute then
        (if ColumnInfo_type currentAttribute = Column_Type_VARCHAR \<or>
            ColumnInfo_type currentAttribute = Column_Type_VARBINARY then
           ''('' @ to_string (if sint (ColumnInfo_length currentAttribute) < 255 then 256
                            else sint (ColumnInfo_length currentAttribute)) @ '')''
         else if ColumnInfo_type currentAttribute = Column_Type_CHAR then
           ''('' @ to_string (sint (ColumnInfo_length currentAttribute)) @ '')''
         else [])
      else []) @ '' NOT NULL, '' @ newline"

text \<open>The loop over the columns: the statement so far and the two index vectors.\<close>

fun columnClauses ::
  "column_info list \<Rightarrow> nat \<Rightarrow> string \<times> nat list \<times> nat list \<Rightarrow> string \<times> nat list \<times> nat list" where
  "columnClauses [] i acc = acc"
| "columnClauses (currentAttribute # attributes) i (str, primary, distribution) =
     columnClauses attributes (Suc i)
       (str @ columnClause currentAttribute,
        primary @ (if ColumnInfo_has_primary_key currentAttribute then [i] else []),
        distribution @ (if ColumnInfo_has_distribution_key currentAttribute then [i] else []))"

text \<open>The loop that lists columns by index: a comma after each, a closing parenthesis after the last.\<close>

fun columnNames :: "create_store_operation \<Rightarrow> nat list \<Rightarrow> string \<Rightarrow> string result" where
  "columnNames operation [] str = Inr str"
| "columnNames operation (i # indexes) str =
     bind_result (CreateStoreOperation_column operation i)
       (\<lambda>c. columnNames operation indexes
          (str @ ColumnInfo_name c @ (if indexes \<noteq> [] then '','' else '')'')))"

text \<open>
  The statement, or the error description with which the operation ends before it is sent.
\<close>

definition createTableStr :: "create_store_operation \<Rightarrow> (string + string) result" where
  "createTableStr operation =
     (let storeInfo = CreateStoreOperation_store_info operation;
          str0 = ''CREATE TABLE '' @ StoreInfo_store_name storeInfo @ ''('' @ newline;
          (str1, primary, distribution) = columnClauses (cs_column operation) 0 (str0, [], [])
      in if length primary = 0 then Inr (Inl ''No primary key indicated'')
         else
           bind_result (columnNames operation primary (str1 @ ''PRIMARY KEY (''))
             (\<lambda>str2.
                bind_result
                  (if length distribution > 0 then
                     columnNames operation distribution
                       (str2 @ '','' @ newline @ ''INDEX VOLODB_PRUNE_INDEX USING BTREE ('')
                   else Inr str2)
                  (\<lambda>str3.
                     let str4 = str3 @ '')'' @ newline @ ''ENGINE=NDB'' @ newline in
                     if length distribution = 0 then Inr (Inl ''No distribution key indicated'')
                     else
                       bind_result (columnNames operation distribution (str4 @ ''PARTITION BY KEY (''))
                         (\<lambda>str5. Inr (Inr str5)))))"

definition executeCreateStore ::
  "'w ndb_api \<Rightarrow> nat \<Rightarrow> create_store_operation \<Rightarrow> bytes \<Rightarrow> 'w server
   \<Rightarrow> (server_result \<times> 'w server) result" where
  "executeCreateStore A threadNo operation transactionID s =
     bind_result (createTableStr operation)
       (\<lambda>query. case query of
          Inl description \<Rightarrow> Inr (makeResultForError transactionID description 0, s)
        | Inr str \<Rightarrow> Inr (runQuery A threadNo str transactionID s))"

definition executeDropStore ::
  "'w ndb_api \<Rightarrow> nat \<Rightarrow> drop_store_operation \<Rightarrow> bytes \<Rightarrow> 'w server \<Rightarrow> server_result \<times> 'w server" where
  "executeDropStore A threadNo operation transactionID s =
     (let storeInfo = DropStoreOperation_store_info operation;
          (res, s1) = runQuery A threadNo (''DROP TABLE '' @ StoreInfo_store_name storeInfo) transactionID s
      in if \<not> Result_has_error_code res then
           (res, s1\<lparr>sv_cache := cache_invalidate (sv_cache s1) (StoreInfo_store_name storeInfo)\<rparr>)
         else (res, s1))"

section \<open>What the statement says\<close>

text \<open>Names separated by commas.\<close>

fun comma_separated :: "string list \<Rightarrow> string" where
  "comma_separated [] = []"
| "comma_separated [x] = x"
| "comma_separated (x # xs) = x @ '','' @ comma_separated xs"

definition primary_columns :: "create_store_operation \<Rightarrow> string list" where
  "primary_columns operation = map ColumnInfo_name (filter ColumnInfo_has_primary_key (cs_column operation))"

definition distribution_columns :: "create_store_operation \<Rightarrow> string list" where
  "distribution_columns operation =
     map ColumnInfo_name (filter ColumnInfo_has_distribution_key (cs_column operation))"

definition create_table_statement :: "create_store_operation \<Rightarrow> string" where
  "create_table_statement operation =
     ''CREATE TABLE '' @ StoreInfo_store_name (CreateStoreOperation_store_info operation) @ ''('' @ newline @
     concat (map columnClause (cs_column operation)) @
     ''PRIMARY KEY ('' @ comma_separated (primary_columns operation) @ ''),'' @ newline @
     ''INDEX VOLODB_PRUNE_INDEX USING BTREE ('' @ comma_separated (distribution_columns operation) @ ''))'' @
     newline @ ''ENGINE=NDB'' @ newline @
     ''PARTITION BY KEY ('' @ comma_separated (distribution_columns operation) @ '')''"

text \<open>Positions of the elements with a property.\<close>

definition positions :: "('a \<Rightarrow> bool) \<Rightarrow> nat \<Rightarrow> 'a list \<Rightarrow> nat list" where
  "positions P i xs = map fst (filter (\<lambda>(_, x). P x) (enumerate i xs))"

lemma positions_simps [simp]:
  "positions P i [] = []"
  "positions P i (x # xs) = (if P x then [i] else []) @ positions P (Suc i) xs"
  by (simp_all add: positions_def)

lemma columnClauses_eq:
  "columnClauses cs i (str, p, d) =
    (str @ concat (map columnClause cs), p @ positions ColumnInfo_has_primary_key i cs,
     d @ positions ColumnInfo_has_distribution_key i cs)"
  by (induction cs arbitrary: i str p d) simp_all

lemma positions_bound: "\<forall>j \<in> set (positions P i xs). i \<le> j \<and> j < i + length xs"
  by (auto simp: positions_def in_set_enumerate_eq)

lemma positions_names:
  "map (\<lambda>j. f (xs ! j)) (positions P 0 xs) = map f (filter P xs)"
proof -
  have "map (\<lambda>j. f ((ys @ xs) ! j)) (positions P (length ys) xs) = map f (filter P xs)" for ys
  proof (induction xs arbitrary: ys)
    case Nil
    then show ?case by simp
  next
    case (Cons x xs)
    from Cons [of "ys @ [x]"] show ?case by (simp add: nth_append)
  qed
  from this [of "[]"] show ?thesis by simp
qed

lemma positions_Nil_iff: "positions P i xs = [] \<longleftrightarrow> filter P xs = []"
  by (induction xs arbitrary: i) simp_all

lemma comma_separated_Cons:
  "comma_separated (x # xs) = x @ (if xs = [] then [] else '','' @ comma_separated xs)"
  by (cases xs) simp_all

lemma columnNames_eq:
  assumes "\<forall>j \<in> set js. j < length (cs_column operation)" "js \<noteq> []"
  shows "columnNames operation js str =
    Inr (str @ comma_separated (map (\<lambda>j. ColumnInfo_name (cs_column operation ! j)) js) @ '')'')"
  using assms
proof (induction js arbitrary: str)
  case Nil
  then show ?case by simp
next
  case (Cons j js)
  then have column: "CreateStoreOperation_column operation j = Inr (cs_column operation ! j)"
    by (simp add: accessors index_def)
  show ?case
  proof (cases "js = []")
    case False
    with Cons show ?thesis by (simp add: column comma_separated_Cons)
  qed (simp add: column)
qed

lemma columnNames_positions:
  assumes "filter P (cs_column operation) \<noteq> []"
  shows "columnNames operation (positions P 0 (cs_column operation)) str =
    Inr (str @ comma_separated (map ColumnInfo_name (filter P (cs_column operation))) @ '')'')"
  using assms positions_bound [of P 0 "cs_column operation"]
  by (subst columnNames_eq) (simp_all add: positions_Nil_iff positions_names)

text \<open>
  C26: creating a store sends the statement whose primary key, prune index and partition key list
  exactly the columns that carry the respective flag, in the order of the columns; without such
  columns it ends with the error for the missing primary key or else the missing distribution key,
  and no column index is ever out of range.
\<close>

theorem create_table_str:
  "createTableStr operation =
    Inr (if primary_columns operation = [] then Inl ''No primary key indicated''
         else if distribution_columns operation = [] then Inl ''No distribution key indicated''
         else Inr (create_table_statement operation))"
  by (simp add: createTableStr_def columnClauses_eq columnNames_positions primary_columns_def
      distribution_columns_def positions_Nil_iff create_table_statement_def Let_def)

text \<open>
  The declared length of a variable-length column is at least 256 whatever is asked for, with
  one exception: a column of length exactly 255 is declared with 255.
\<close>

lemma variable_length_clause:
  assumes "ColumnInfo_type c \<in> {Column_Type_VARCHAR, Column_Type_VARBINARY}"
    and "ci_length c = Some n"
  shows "columnClause c =
    ColumnInfo_name c @ '' '' @ getTypeName (ColumnInfo_type c) @
    ''('' @ to_string (if sint n = 255 then 255 else max 256 (sint n)) @ '') NOT NULL, '' @ newline"
  using assms by (auto simp: columnClause_def accessors max_def)

text \<open>
  Dropping a store answers under the transaction's identifier, with an error exactly when the
  statement failed; the cached table is forgotten exactly when it succeeded, and no other entry of
  the cache changes.
\<close>

lemma drop_store_outcome:
  assumes "mysqlQuery A threadNo (c_str (''DROP TABLE '' @ name)) (sv_world s) = (failed, w)"
    and "name = StoreInfo_store_name (DropStoreOperation_store_info operation)"
  shows "executeDropStore A threadNo operation transactionID s =
    (if failed then
       (makeResultForError transactionID (mysqlError A threadNo w) 0, s\<lparr>sv_world := w\<rparr>)
     else (makeResult transactionID,
           s\<lparr>sv_world := w, sv_cache := cache_invalidate (sv_cache s) name\<rparr>)) \<and>
    cache_get (cache_invalidate (sv_cache s) name) name' =
      (if name' = name then None else cache_get (sv_cache s) name')"
  using assms store_tables.lookup_forget [of "sv_cache s" name name']
  by (simp add: executeDropStore_def runQuery_def with_world_def Let_def makeResultForError_def
      makeResult_def Result_new_def accessors)

definition server_start :: "ref_cluster server" where
  "server_start =
     \<lparr>sv_world = ref_cluster_start, sv_cache = sample_tables, sv_pending = Map.empty,
      sv_sent = [], sv_unsent = [], sv_stats = TestStats_initial\<rparr>"

lemma drop_store_outcome_witness:
  "executeDropStore ref_cluster_api 0 DropStoreOperation_new ''t1'' server_start =
    (if False then
       (makeResultForError ''t1'' (mysqlError ref_cluster_api 0
          (ref_cluster_start\<lparr>rc_queries := [''DROP TABLE '']\<rparr>)) 0,
        server_start\<lparr>sv_world := ref_cluster_start\<lparr>rc_queries := [''DROP TABLE '']\<rparr>\<rparr>)
     else (makeResult ''t1'',
           server_start\<lparr>sv_world := ref_cluster_start\<lparr>rc_queries := [''DROP TABLE '']\<rparr>,
             sv_cache := cache_invalidate (sv_cache server_start) []\<rparr>)) \<and>
    cache_get (cache_invalidate (sv_cache server_start) []) ''orders'' =
      (if ''orders'' = [] then None else cache_get (sv_cache server_start) ''orders'')"
  by (rule drop_store_outcome)
    (simp_all add: server_start_def ref_cluster_start_def accessors c_str_def DropStoreOperation_new_def
      StoreInfo_new_def)

end
