(* ===== verification/RowOperations.thy ===== *)
theory RowOperations
  imports ServerReply NDBMessageProcessor
begin

text \<open>
  The manipulation operations of \<open>volodbserver/Store/NDBMessageExecutor.cpp\<close>: starting a transaction
  and defining the set, delete and get operations on it. Each returns the defined operation, \<open>None\<close>
  for the null pointer the code returns on every failing call. The third argument of the lists is
  the name and the value of a column.
\<close>

section \<open>Conditions on columns\<close>

fun setEqual ::
  "'w ndb_api \<Rightarrow> ndb_operation \<Rightarrow> column_value list \<Rightarrow> 'w \<Rightarrow> int \<times> 'w" where
  "setEqual A ndbOperation [] w = (0, w)"
| "setEqual A ndbOperation (current # columns) w =
     (let (res, w1) = equalColumn A ndbOperation (c_str (ColumnValue_name current)) (ColumnValue_value current) w in
      if res = -1 then (res, w1)
      else if columns = [] then (res, w1)
      else setEqual A ndbOperation columns w1)"

definition setEqualPrimaryKey ::
  "'w ndb_api \<Rightarrow> column_value list \<Rightarrow> ndb_operation \<Rightarrow> 'w server \<Rightarrow> int \<times> 'w server" where
  "setEqualPrimaryKey A primary_key ndbOperation s =
     with_world (setEqual A ndbOperation primary_key) s"

definition setEqualDistributedKey ::
  "'w ndb_api \<Rightarrow> column_value list \<Rightarrow> ndb_operation \<Rightarrow> 'w server \<Rightarrow> int \<times> 'w server" where
  "setEqualDistributedKey A primary_key ndbOperation s =
     with_world (setEqual A ndbOperation primary_key) s"

text \<open>
  The scan filter: \<open>getColumn(name)\<close> is dereferenced for its number whether or not the table has the
  column. The loop leaves the last result in \<open>res\<close>.
\<close>

fun compareColumns ::
  "'w ndb_api \<Rightarrow> ndb_operation \<Rightarrow> ndb_table \<Rightarrow> column_value list \<Rightarrow> int \<Rightarrow> 'w \<Rightarrow> (int \<times> 'w) result" where
  "compareColumns A ndbOperation tableInfo [] res w = Inr (res, w)"
| "compareColumns A ndbOperation tableInfo (current # columns) res w =
     (case getColumnNo A tableInfo (c_str (ColumnValue_name current)) of
        None \<Rightarrow> Inl NullDereference
      | Some columnNo \<Rightarrow>
          (let (res1, w1) = filterCmpEq A ndbOperation columnNo (ColumnValue_value current) w in
           if res1 = -1 then Inr (res1, w1)
           else compareColumns A ndbOperation tableInfo columns res1 w1))"

definition setEqualValue ::
  "'w ndb_api \<Rightarrow> column_value list \<Rightarrow> ndb_operation \<Rightarrow> ndb_table \<Rightarrow> 'w server \<Rightarrow> (int \<times> 'w server) result" where
  "setEqualValue A value ndbOperation tableInfo s =
     (let (res, s1) = with_world (filterBegin A ndbOperation) s in
      if res < 0 then Inr (res, s1)
      else
        bind_result (compareColumns A ndbOperation tableInfo value res (sv_world s1))
          (\<lambda>(res1, w). let s2 = s1\<lparr>sv_world := w\<rparr> in
             if res1 = 0 then Inr (with_world (filterEnd A ndbOperation) s2)
             else Inr (res1, s2)))"

section \<open>The three operations\<close>

fun setValues :: "'w ndb_api \<Rightarrow> ndb_operation \<Rightarrow> column_value list \<Rightarrow> 'w \<Rightarrow> bool \<times> 'w" where
  "setValues A ndbOperation [] w = (True, w)"
| "setValues A ndbOperation (current # columns) w =
     (let (res, w1) = setValueColumn A ndbOperation (c_str (ColumnValue_name current)) (ColumnValue_value current) w in
      if res = -1 then (False, w1) else setValues A ndbOperation columns w1)"

definition executeSet ::
  "'w ndb_api \<Rightarrow> set_operation \<Rightarrow> ndb_transaction \<Rightarrow> 'w server
   \<Rightarrow> (ndb_operation option \<times> 'w server) result" where
  "executeSet A setOperation transaction s =
     bind_result (SetOperation_store_info setOperation 0)
       (\<lambda>storeInfo.
          let (op, s1) = with_world (getNdbOperation A transaction (c_str (StoreInfo_store_name storeInfo))) s in
          case op of
            None \<Rightarrow> Inr (None, s1)
          | Some ndbSetOperation \<Rightarrow>
              (let s2 = s1\<lparr>sv_world := writeTuple A ndbSetOperation (sv_world s1)\<rparr>;
                   (res, s3) = setEqualPrimaryKey A (so_primary_key setOperation) ndbSetOperation s2
               in if res = -1 then Inr (None, s3)
                  else
                    (let (ok, s4) = with_world (setValues A ndbSetOperation (so_value setOperation)) s3
                     in Inr (if ok then Some ndbSetOperation else None, s4))))"

definition executeDelete ::
  "'w ndb_api \<Rightarrow> delete_operation \<Rightarrow> ndb_transaction \<Rightarrow> 'w server
   \<Rightarrow> (ndb_operation option \<times> 'w server) result" where
  "executeDelete A deleteOperation transaction s =
     bind_result (DeleteOperation_store_info deleteOperation 0)
       (\<lambda>storeInfo.
          let (op, s1) = with_world (getNdbOperation A transaction (c_str (StoreInfo_store_name storeInfo))) s in
          case op of
            None \<Rightarrow> Inr (None, s1)
          | Some ndbDeleteOperation \<Rightarrow>
              (let s2 = s1\<lparr>sv_world := deleteTuple A ndbDeleteOperation (sv_world s1)\<rparr>;
                   (res, s3) = setEqualPrimaryKey A (dl_primary_key deleteOperation) ndbDeleteOperation s2
               in Inr (if res = -1 then None else Some ndbDeleteOperation, s3)))"

text \<open>The value records of columns \<open>i\<close> to \<open>i + k - 1\<close>, \<open>None\<close> when one cannot be had.\<close>

fun getValues ::
  "'w ndb_api \<Rightarrow> ndb_operation \<Rightarrow> nat \<Rightarrow> nat \<Rightarrow> ndb_rec_attr list \<Rightarrow> 'w
   \<Rightarrow> (bool \<times> ndb_rec_attr list) \<times> 'w" where
  "getValues A ndbOperation i 0 records w = ((True, records), w)"
| "getValues A ndbOperation i (Suc k) records w =
     (let (columnAttrRec, w1) = getValueColumn A ndbOperation i w in
      case columnAttrRec of
        None \<Rightarrow> ((False, records), w1)
      | Some r \<Rightarrow> getValues A ndbOperation (Suc i) k (records @ [r]) w1)"

text \<open>The strategy of a read: by primary key, by the prune index, or by a filtered scan.\<close>

definition readByPrimaryKey ::
  "'w ndb_api \<Rightarrow> bytes \<Rightarrow> column_value list \<Rightarrow> ndb_transaction \<Rightarrow> 'w server
   \<Rightarrow> ndb_operation option \<times> 'w server" where
  "readByPrimaryKey A storeName primary_key transaction s =
     (let (op, s1) = with_world (getNdbOperation A transaction (c_str storeName)) s in
      case op of
        None \<Rightarrow> (None, s1)
      | Some ndbGetOperation \<Rightarrow>
          (let s2 = s1\<lparr>sv_world := simpleRead A ndbGetOperation (sv_world s1)\<rparr>;
               (res, s3) = setEqualPrimaryKey A primary_key ndbGetOperation s2
           in (if res = -1 then None else Some ndbGetOperation, s3)))"

definition readByIndex ::
  "'w ndb_api \<Rightarrow> bytes \<Rightarrow> column_value list \<Rightarrow> ndb_transaction \<Rightarrow> 'w server
   \<Rightarrow> ndb_operation option \<times> 'w server" where
  "readByIndex A storeName primary_key transaction s =
     (let (op, s1) = with_world (getNdbIndexScanOperation A transaction ''VOLODB_PRUNE_INDEX'' (c_str storeName)) s in
      case op of
        None \<Rightarrow> (None, s1)
      | Some pruneIndexScanOperation \<Rightarrow>
          (let s2 = s1\<lparr>sv_world := readTuples A pruneIndexScanOperation (sv_world s1)\<rparr>;
               (res, s3) = setEqualDistributedKey A primary_key pruneIndexScanOperation s2
           in (if res = -1 then None else Some pruneIndexScanOperation, s3)))"

definition readByScan ::
  "'w ndb_api \<Rightarrow> bytes \<Rightarrow> column_value list \<Rightarrow> ndb_table \<Rightarrow> ndb_transaction \<Rightarrow> 'w server
   \<Rightarrow> (ndb_operation option \<times> 'w server) result" where
  "readByScan A storeName value tableInfo transaction s =
     (let (op, s1) = with_world (getNdbScanOperation A transaction (c_str storeName)) s in
      case op of
        None \<Rightarrow> Inr (None, s1)
      | Some scanOperation \<Rightarrow>
          bind_result
            (setEqualValue A value scanOperation tableInfo
              (s1\<lparr>sv_world := readTuples A scanOperation (sv_world s1)\<rparr>))
            (\<lambda>(res, s2). Inr (if res = -1 then None else Some scanOperation, s2)))"

definition lookupTable :: 
  "'w ndb_api \<Rightarrow> nat \<Rightarrow> bytes \<Rightarrow> bytes \<Rightarrow> 'w server \<Rightarrow> ndb_table option \<times> 'w server" where
  "lookupTable A threadNo nameToGet storeName s =
     (let (tableInfo, tic, w) = cache_lookup A threadNo nameToGet storeName (sv_cache s) (sv_world s)
      in (tableInfo, s\<lparr>sv_cache := tic, sv_world := w\<rparr>))"

definition executeGet ::
  "'w ndb_api \<Rightarrow> nat \<Rightarrow> get_operation \<Rightarrow> ndb_transaction \<Rightarrow> 'w server
   \<Rightarrow> ((ndb_operation \<times> ndb_rec_attr list) option \<times> 'w server) result" where
  "executeGet A threadNo getOperation transaction s =
     bind_result (GetOperation_store_info getOperation 0)
       (\<lambda>storeInfo.
          let storeName = StoreInfo_store_name storeInfo;
              (found, s1) = lookupTable A threadNo storeName storeName s
          in case found of
               None \<Rightarrow> Inr (None, s1)
             | Some tableInfo \<Rightarrow>
                 bind_result
                   (if int (length (go_primary_key getOperation)) = getNoOfPrimaryKeys A tableInfo then
                      Inr (readByPrimaryKey A storeName (go_primary_key getOperation) transaction s1)
                    else if length (go_primary_key getOperation) \<noteq> 0 \<and>
                            int (length (go_primary_key getOperation)) < getNoOfPrimaryKeys A tableInfo then
                      Inr (readByIndex A storeName (go_primary_key getOperation) transaction s1)
                    else readByScan A storeName (go_value getOperation) tableInfo transaction s1)
                   (\<lambda>(op, s2). case op of
                      None \<Rightarrow> Inr (None, s2)
                    | Some ndbGetOperation \<Rightarrow>
                        (let ((ok, records), s3) =
                           with_world (getValues A ndbGetOperation 0 (getNoOfColumns A tableInfo) []) s2
                         in Inr (if ok then Some (ndbGetOperation, records) else None, s3))))"

section \<open>Starting a transaction\<close>

definition startTransaction ::
  "'w ndb_api \<Rightarrow> nat \<Rightarrow> column_value list \<Rightarrow> bytes \<Rightarrow> 'w server
   \<Rightarrow> (ndb_transaction option \<times> 'w server) result" where
  "startTransaction A threadNo columns storeName s =
     (let (found, s1) = lookupTable A threadNo (c_str storeName) storeName s in
      case found of
        None \<Rightarrow> Inr (None, s1)
      | Some tableInfo \<Rightarrow>
          (let noDistributionKeys = getNoDistributionKeyIndexes columns in
           if noDistributionKeys > 0 then
             bind_result (getHint columns (hint_array (noDistributionKeys + 1)))
               (\<lambda>hint. Inr (with_world (startTransactionWithHint A threadNo tableInfo hint) s1))
           else Inr (with_world (startTransactionOn A threadNo tableInfo) s1)))"

end
