(* ===== verification/NDBMessageExecutor.thy ===== *)
theory NDBMessageExecutor
  imports RowOperations StoreOperations NdbCluster
begin

text \<open>
  The control of \<open>volodbserver/Store/NDBMessageExecutor.cpp\<close>: one transaction tuple after the other,
  its messages in order, prepared transactions flushed in batches of 1024, and the wait for their
  callbacks.
\<close>

section \<open>One transaction tuple\<close>

definition cannot_add_query :: string where
  "cannot_add_query =
     ''Transaction started successfully, but error occured while adding query. Verify that columns flagged as primary or distributed keys and their corresponding types are correct.''"

definition cannot_start :: string where
  "cannot_start =
     ''Unable to start transaction. Verify that store name and distribution key information was provided correctly.''"

text \<open>
  The four definition operations; for any other message the result pointer stays null and the
  reply is an error.
\<close>

definition executeDefinition ::
  "'w ndb_api \<Rightarrow> nat \<Rightarrow> message \<Rightarrow> bytes \<Rightarrow> 'w server \<Rightarrow> (server_result option \<times> 'w server) result" where
  "executeDefinition A threadNo message transactionID s =
     (case message of
        CreateDatabaseMessage operation \<Rightarrow>
          (let (r, s1) = executeCreateDatabase A threadNo operation transactionID s in Inr (Some r, s1))
      | DropDatabaseMessage operation \<Rightarrow>
          (let (r, s1) = executeDropDatabase A threadNo operation transactionID s in Inr (Some r, s1))
      | CreateStoreMessage operation \<Rightarrow>
          bind_result (executeCreateStore A threadNo operation transactionID s)
            (\<lambda>(r, s1). Inr (Some r, s1))
      | DropStoreMessage operation \<Rightarrow>
          (let (r, s1) = executeDropStore A threadNo operation transactionID s in Inr (Some r, s1))
      | _ \<Rightarrow> Inr (None, s))"

text \<open>
  A transaction is started by the first manipulation operation, on its store and keys; the operation
  is then defined on it. The result is the transaction and, when it was defined, the operation.
\<close>

definition ensureTransaction ::
  "'w ndb_api \<Rightarrow> nat \<Rightarrow> column_value list \<Rightarrow> store_info \<Rightarrow> ndb_transaction option \<Rightarrow> 'w server
   \<Rightarrow> (ndb_transaction option \<times> 'w server) result" where
  "ensureTransaction A threadNo columns storeInfo transaction s =
     (case transaction of
        Some t \<Rightarrow> Inr (Some t, s)
      | None \<Rightarrow> startTransaction A threadNo columns (StoreInfo_store_name storeInfo) s)"

definition defineOn ::
  "(ndb_transaction \<Rightarrow> 'w server \<Rightarrow> ((ndb_operation \<times> ndb_rec_attr list option) option \<times> 'w server) result)
   \<Rightarrow> ndb_transaction option \<times> 'w server
   \<Rightarrow> (ndb_transaction option \<times> (ndb_operation \<times> ndb_rec_attr list option) option \<times> 'w server) result" where
  "defineOn exec started =
     (let (transaction, s) = started in
      case transaction of
        None \<Rightarrow> Inr (None, None, s)
      | Some t \<Rightarrow> bind_result (exec t s) (\<lambda>(newOperation, s1). Inr (Some t, newOperation, s1)))"

definition executeManipulation ::
  "'w ndb_api \<Rightarrow> nat \<Rightarrow> message \<Rightarrow> ndb_transaction option \<Rightarrow> 'w server
   \<Rightarrow> (ndb_transaction option \<times> (ndb_operation \<times> ndb_rec_attr list option) option \<times> 'w server) result" where
  "executeManipulation A threadNo message transaction s =
     (case message of
        SetMessage operation \<Rightarrow>
          bind_result (SetOperation_store_info operation 0)
            (\<lambda>storeInfo. bind_result
              (ensureTransaction A threadNo (so_primary_key operation) storeInfo transaction s)
              (defineOn (\<lambda>t s1. bind_result (executeSet A operation t s1)
                (\<lambda>(op, s2). Inr (map_option (\<lambda>o1. (o1, None)) op, s2)))))
      | DeleteMessage operation \<Rightarrow>
          bind_result (DeleteOperation_store_info operation 0)
            (\<lambda>storeInfo. bind_result
              (ensureTransaction A threadNo (dl_primary_key operation) storeInfo transaction s)
              (defineOn (\<lambda>t s1. bind_result (executeDelete A operation t s1)
                (\<lambda>(op, s2). Inr (map_option (\<lambda>o1. (o1, None)) op, s2)))))
      | GetMessage operation \<Rightarrow>
          bind_result (GetOperation_store_info operation 0)
            (\<lambda>storeInfo. bind_result
              (ensureTransaction A threadNo (go_primary_key operation) storeInfo transaction s)
              (defineOn (\<lambda>t s1. bind_result (executeGet A threadNo operation t s1)
                (\<lambda>(op, s2). Inr (map_option (\<lambda>(o1, records). (o1, Some records)) op, s2)))))
      | _ \<Rightarrow> Inr (transaction, None, s))"

text \<open>What a manipulation operation that could not be defined is answered with.\<close>

definition failureResult ::
  "'w ndb_api \<Rightarrow> ndb_transaction option \<Rightarrow> bytes \<Rightarrow> 'w server \<Rightarrow> server_result \<times> 'w server" where
  "failureResult A transaction transactionID s =
     (case transaction of
        Some t \<Rightarrow>
          (makeResultForError transactionID
             (cannot_add_query @ '' Internal error: '' @ errorMessage A t (sv_world s))
             (errorCode A t (sv_world s)),
           s\<lparr>sv_world := closeTransaction A t (sv_world s)\<rparr>)
      | None \<Rightarrow> (makeResultForError transactionID cannot_start 0, s))"

text \<open>The loop over the messages; after a failure the rest is not looked at.\<close>

fun executeMessages ::
  "pb_lib \<Rightarrow> 'w ndb_api \<Rightarrow> nat \<Rightarrow> bytes \<Rightarrow> bytes \<Rightarrow> message list
   \<Rightarrow> ndb_transaction option \<Rightarrow> transaction_operation list \<Rightarrow> 'w server
   \<Rightarrow> (ndb_transaction option \<times> transaction_operation list \<times> 'w server) result" where
  "executeMessages L A threadNo transactionID identifier [] transaction operations s =
     Inr (transaction, operations, s)"
| "executeMessages L A threadNo transactionID identifier (message # messages) transaction operations s =
     (if isDefinitionFrame message then
        bind_result (executeDefinition A threadNo message transactionID s)
          (\<lambda>(res, s1).
             let reply = (case res of
                   Some r \<Rightarrow> r
                 | None \<Rightarrow> makeResultForError transactionID ''Failed to run definition operation.'' 0)
             in bind_result (replyWithResult L reply identifier s1)
               (\<lambda>(_, s2). executeMessages L A threadNo transactionID identifier messages transaction operations s2))
      else
        bind_result (executeManipulation A threadNo message transaction s)
          (\<lambda>(transaction1, newOperation, s1).
             case newOperation of
               Some (operation, columns) \<Rightarrow>
                 executeMessages L A threadNo transactionID identifier messages transaction1
                   (operations @ [\<lparr>to_type = getFrameType message, to_operation = operation,
                                   to_columns = columns, to_thread = threadNo\<rparr>]) s1
             | None \<Rightarrow>
                 (let (reply, s2) = failureResult A transaction1 transactionID s1 in
                  bind_result (replyWithResult L reply identifier s2)
                    (\<lambda>(_, s3). Inr (None, operations, s3)))))"

definition executeTuple ::
  "pb_lib \<Rightarrow> 'w ndb_api \<Rightarrow> nat \<Rightarrow> frame_messages_tuple \<Rightarrow> 'w server \<Rightarrow> (bool \<times> 'w server) result" where
  "executeTuple L A threadNo messagesTuple s =
     (let (transactionID, identifier, messages) = messagesTuple in
      bind_result (executeMessages L A threadNo transactionID identifier messages None [] s)
        (\<lambda>(transaction, operations, s1).
           case transaction of
             None \<Rightarrow> Inr (False, s1)
           | Some t \<Rightarrow>
               (let state = \<lparr>ts_transaction = t, ts_transactionID = transactionID,
                             ts_identifier = identifier, ts_operations = operations\<rparr>
                in Inr (True, s1\<lparr>sv_world := executeAsynchPrepare A t (sv_world s1),
                                sv_pending := (sv_pending s1)(t \<mapsto> state)\<rparr>))))"

section \<open>Waiting for the callbacks\<close>

fun callbacks ::
  "pb_lib \<Rightarrow> 'w ndb_api \<Rightarrow> (int \<times> ndb_transaction) list \<Rightarrow> 'w server \<Rightarrow> 'w server run" where
  "callbacks L A [] s = Some (Inr s)"
| "callbacks L A ((res, t) # completed) s =
     bind_run (ndbExecuteCallback L A res t s) (callbacks L A completed)"

text \<open>One poll: the callbacks it makes, and its result added to what is completed.\<close>

definition polled ::
  "pb_lib \<Rightarrow> 'w ndb_api \<Rightarrow> ('w \<Rightarrow> (int \<times> (int \<times> ndb_transaction) list) \<times> 'w) \<Rightarrow> int \<Rightarrow> 'w server
   \<Rightarrow> (int \<times> 'w server) run" where
  "polled L A call completedTransactions s =
     (let ((count, completed), s1) = with_world call s in
      bind_run (callbacks L A completed s1) (\<lambda>s2. Some (Inr (completedTransactions + count, s2))))"

definition wait_continues :: "int \<Rightarrow> (int \<times> 'w server) run \<Rightarrow> bool" where
  "wait_continues totalTransactions st =
     (case st of Some (Inr (completedTransactions, s)) \<Rightarrow> completedTransactions < totalTransactions
      | _ \<Rightarrow> False)"

definition wait_step ::
  "pb_lib \<Rightarrow> 'w ndb_api \<Rightarrow> nat \<Rightarrow> int \<Rightarrow> (int \<times> 'w server) run \<Rightarrow> (int \<times> 'w server) run" where
  "wait_step L A threadNo totalTransactions st =
     bind_run st
       (\<lambda>(completedTransactions, s).
          polled L A (pollNdb A threadNo (totalTransactions - completedTransactions))
            completedTransactions s)"

definition waitForTransactionsToComplete ::
  "pb_lib \<Rightarrow> 'w ndb_api \<Rightarrow> nat \<Rightarrow> nat \<Rightarrow> 'w server \<Rightarrow> 'w server run" where
  "waitForTransactionsToComplete L A threadNo totalTransactions s =
     (if totalTransactions > 0 then
        (case while_option (wait_continues (int totalTransactions))
                (wait_step L A threadNo (int totalTransactions))
                (polled L A (sendPollNdb A threadNo (int totalTransactions)) 0 s) of
           None \<Rightarrow> None
         | Some st \<Rightarrow> bind_run st (\<lambda>(_, s1). Some (Inr s1)))
      else Some (Inr s))"

section \<open>A batch of task lists\<close>

fun executeTuples ::
  "pb_lib \<Rightarrow> 'w ndb_api \<Rightarrow> nat \<Rightarrow> frame_messages_tuple list \<Rightarrow> nat \<Rightarrow> 'w server \<Rightarrow> (nat \<times> 'w server) run" where
  "executeTuples L A threadNo [] totalTransactions s = Some (Inr (totalTransactions, s))"
| "executeTuples L A threadNo (messagesTuple # tuples) totalTransactions s =
     bind_run (Some (executeTuple L A threadNo messagesTuple s))
       (\<lambda>(res, s1).
          if res then
            (if totalTransactions + 1 = 1024 then
               bind_run (waitForTransactionsToComplete L A threadNo (totalTransactions + 1) s1)
                 (\<lambda>s2. executeTuples L A threadNo tuples 0 s2)
             else executeTuples L A threadNo tuples (totalTransactions + 1) s1)
          else executeTuples L A threadNo tuples totalTransactions s1)"

fun executeLists ::
  "pb_lib \<Rightarrow> 'w ndb_api \<Rightarrow> nat \<Rightarrow> frame_messages_tuple list list \<Rightarrow> nat \<Rightarrow> 'w server
   \<Rightarrow> (nat \<times> 'w server) run" where
  "executeLists L A threadNo [] totalTransactions s = Some (Inr (totalTransactions, s))"
| "executeLists L A threadNo (taskList # taskLists) totalTransactions s =
     bind_run (executeTuples L A threadNo taskList totalTransactions s)
       (\<lambda>(total, s1). executeLists L A threadNo taskLists total s1)"

definition executeBatch ::
  "pb_lib \<Rightarrow> 'w ndb_api \<Rightarrow> nat \<Rightarrow> frame_messages_tuple list list \<Rightarrow> 'w server \<Rightarrow> 'w server run" where
  "executeBatch L A threadNo taskLists s =
     bind_run (executeLists L A threadNo taskLists 0 s)
       (\<lambda>(totalTransactions, s1).
          if totalTransactions > 0 then waitForTransactionsToComplete L A threadNo totalTransactions s1
          else Some (Inr s1))"

end
