(* ===== verification/BatchAccounting.thy ===== *)
theory BatchAccounting
  imports NDBMessageExecutor
begin

text \<open>
  Every request the executor takes from its queue is answered: the replies sent, or recorded as
  impossible to serialise, and the transactions still under way account for all of them at every
  point, and when a batch ends nothing is under way. The lemmas follow the code from the single
  calls to the batch; they rest on the locale \<open>ndb_cluster\<close>.
\<close>

section \<open>Accounts\<close>

text \<open>The clients answered so far, and those whose transaction is under way.\<close>

definition answered :: "'w server \<Rightarrow> bytes multiset" where
  "answered s = mset (map fst (sv_sent s)) + mset (sv_unsent s)"

definition outstanding :: "'w server \<Rightarrow> bytes multiset" where
  "outstanding s = (\<Sum>t \<in> dom (sv_pending s). {#ts_identifier (the (sv_pending s t))#})"

definition accounted :: "'w server \<Rightarrow> bytes multiset" where
  "accounted s = answered s + outstanding s"

text \<open>The operations a callback can process, and the states it may find.\<close>

definition operation_ok :: "nat \<Rightarrow> transaction_operation \<Rightarrow> bool" where
  "operation_ok n info \<longleftrightarrow>
     (to_type info = FrameItem_Type_GET \<longrightarrow> to_columns info \<noteq> None) \<and> to_thread info = n"

definition pending_ok :: "nat \<Rightarrow> 'w server \<Rightarrow> bool" where
  "pending_ok n s \<longleftrightarrow>
     finite (dom (sv_pending s)) \<and> stats_ready n (sv_stats s) \<and>
     (\<forall>t state. sv_pending s t = Some state \<longrightarrow> ts_transaction state = t \<and>
        ts_operations state \<noteq> [] \<and> list_all (operation_ok n) (ts_operations state))"

lemma outstanding_remove:
  assumes "finite (dom (sv_pending s))" "sv_pending s t = Some state"
    "sv_pending s1 = (sv_pending s)(t := None)"
  shows "outstanding s = add_mset (ts_identifier state) (outstanding s1)"
proof -
  have "outstanding s = {#ts_identifier (the (sv_pending s t))#} +
      (\<Sum>u \<in> dom (sv_pending s) - {t}. {#ts_identifier (the (sv_pending s u))#})"
    unfolding outstanding_def using assms(1,2) by (intro sum.remove) auto
  also have "(\<Sum>u \<in> dom (sv_pending s) - {t}. {#ts_identifier (the (sv_pending s u))#}) = outstanding s1"
    unfolding outstanding_def assms(3) by (intro sum.cong) auto
  finally show ?thesis using assms(2) by simp
qed

lemma outstanding_add:
  assumes "finite (dom (sv_pending s))" "t \<notin> dom (sv_pending s)"
    "sv_pending s1 = (sv_pending s)(t \<mapsto> state)"
  shows "outstanding s1 = add_mset (ts_identifier state) (outstanding s)"
proof (rule outstanding_remove)
  show "finite (dom (sv_pending s1))" using assms(1) by (simp add: assms(3))
  show "sv_pending s1 t = Some state" by (simp add: assms(3))
  show "sv_pending s = (sv_pending s1)(t := None)"
    using assms(2) unfolding assms(3) by (simp add: fun_upd_idem domIff)
qed

section \<open>Replies\<close>

lemma reply_accepted:
  "\<exists>b s1. replyWithResult L r i s = Inr (b, s1) \<and> answered s1 = add_mset i (answered s) \<and>
    sv_world s1 = sv_world s \<and> sv_cache s1 = sv_cache s \<and> sv_pending s1 = sv_pending s \<and>
    sv_stats s1 = sv_stats s"
proof -
  obtain bytes ident where framed: "getBytesOfFrameWithMessage L (ResultMessage r) = Inr (bytes, ident)"
    by (simp add: getBytesOfFrameWithMessage_def addFrame_def Let_def)
  show ?thesis
    by (cases bytes) (auto simp: replyWithResult_def framed answered_def)
qed

section \<open>Requests\<close>

text \<open>
  Messages whose store and columns the code may look at without checking: a filter may only name
  columns the table has. The tables of a name are those the dictionary gives for it, and the cache holds no others.
\<close>

definition table_named :: "'w ndb_api \<Rightarrow> bytes \<Rightarrow> ndb_table \<Rightarrow> bool" where
  "table_named A name tab \<longleftrightarrow> (\<exists>n w. fst (getTable A n name w) = Some tab)"

definition cache_real :: "'w ndb_api \<Rightarrow> table_info_cache \<Rightarrow> bool" where
  "cache_real A tic \<longleftrightarrow> (\<forall>name tab. tic_entries tic name = Some tab \<longrightarrow> table_named A (c_str name) tab)"

definition get_safe :: "'w ndb_api \<Rightarrow> get_operation \<Rightarrow> bool" where
  "get_safe A op \<longleftrightarrow> go_store_info op \<noteq> [] \<and>
     (\<forall>tab. table_named A (c_str (StoreInfo_store_name (hd (go_store_info op)))) tab \<longrightarrow>
        (\<forall>c \<in> set (go_value op). getColumnNo A tab (c_str (ColumnValue_name c)) \<noteq> None))"

definition safe_message :: "'w ndb_api \<Rightarrow> message \<Rightarrow> bool" where
  "safe_message A message \<longleftrightarrow>
     (case message of
        SetMessage op \<Rightarrow> so_store_info op \<noteq> []
      | DeleteMessage op \<Rightarrow> dl_store_info op \<noteq> []
      | GetMessage op \<Rightarrow> get_safe A op
      | _ \<Rightarrow> True)"

text \<open>
  A request is homogeneous when it defines stores or manipulates rows, not both. It is then answered
  once per definition, and once for all manipulations together.
\<close>

definition homogeneous :: "frame_messages_tuple \<Rightarrow> bool" where
  "homogeneous = (\<lambda>(_, _, messages).
     list_all isDefinitionFrame messages \<or> list_all (\<lambda>m. \<not> isDefinitionFrame m) messages)"

definition expected_replies :: "frame_messages_tuple \<Rightarrow> bytes multiset" where
  "expected_replies = (\<lambda>(_, ident, messages).
     if list_all isDefinitionFrame messages then replicate_mset (length messages) ident else {#ident#})"

definition safe_tuple :: "'w ndb_api \<Rightarrow> frame_messages_tuple \<Rightarrow> bool" where
  "safe_tuple A tuple \<longleftrightarrow> homogeneous tuple \<and> (case tuple of (_, _, messages) \<Rightarrow> list_all (safe_message A) messages)"

text \<open>An executor thread between two batches: nothing under way, its counters there, its cache true.\<close>

definition executor_idle :: "'w ndb_api \<Rightarrow> ('w \<Rightarrow> ndb_transaction set) \<Rightarrow> nat \<Rightarrow> 'w server \<Rightarrow> bool" where
  "executor_idle A prepared threadNo s \<longleftrightarrow>
     prepared (sv_world s) = {} \<and> sv_pending s = Map.empty \<and> stats_ready threadNo (sv_stats s) \<and>
     cache_real A (sv_cache s)"

lemma cache_lookup_real:
  assumes "cache_real A tic" "cache_lookup A n getName name tic w = (found, tic1, w1)"
  shows "cache_real A tic1 \<and> (\<forall>tab. c_str getName = c_str name \<longrightarrow> found = Some tab \<longrightarrow> table_named A (c_str name) tab)"
proof (cases "cache_get tic getName")
  case (Some tab)
  then have "tic_entries tic getName = Some tab" by (simp add: cache_get_def split: option.splits)
  with assms(1) have "table_named A (c_str getName) tab" by (simp add: cache_real_def)
  with Some assms show ?thesis by (auto simp: cache_lookup_def)
next
  case None
  obtain found2 w2 where fetch: "getInternal A n name w = (found2, w2)" by (metis surj_pair)
  have real: "table_named A (c_str name) tab" if "found2 = Some tab" for tab
  proof -
    from fetch that have "fst (getTable A n (c_str name) w) = Some tab"
      by (auto simp: getInternal_def split: if_splits)
    then show ?thesis unfolding table_named_def by blast
  qed
  with None assms fetch show ?thesis
    by (cases found2) (auto simp: cache_lookup_def cache_set_def cache_store_def cache_real_def split: if_splits)
qed

lemma cache_invalidate_real: "cache_real A tic \<Longrightarrow> cache_real A (cache_invalidate tic name)"
  by (auto simp: cache_real_def cache_invalidate_def)

context ndb_cluster
begin

section \<open>Calls that complete nothing\<close>

definition quiet :: "'w server \<Rightarrow> 'w server \<Rightarrow> bool" where
  "quiet s s1 \<longleftrightarrow>
     prepared (sv_world s1) = prepared (sv_world s) \<and> sv_pending s1 = sv_pending s \<and>
     sv_sent s1 = sv_sent s \<and> sv_unsent s1 = sv_unsent s \<and> sv_stats s1 = sv_stats s \<and>
     (cache_real A (sv_cache s) \<longrightarrow> cache_real A (sv_cache s1))"

lemma quiet_refl [simp]: "quiet s s"
  by (simp add: quiet_def)

lemma quiet_trans: "quiet s s1 \<Longrightarrow> quiet s1 s2 \<Longrightarrow> quiet s s2"
  by (simp add: quiet_def)

lemma quiet_world: "prepared w = prepared (sv_world s) \<Longrightarrow> quiet s (s\<lparr>sv_world := w\<rparr>)"
  by (simp add: quiet_def)

lemma quiet_call:
  assumes "with_world call s = (x, s1)" "prepared (snd (call (sv_world s))) = prepared (sv_world s)"
  shows "quiet s s1"
proof -
  from assms(1) have "s1 = s\<lparr>sv_world := snd (call (sv_world s))\<rparr>"
    by (simp add: with_world_def split_beta)
  then show ?thesis by (simp add: quiet_def assms(2))
qed

lemma setEqual_keeps: "prepared (snd (setEqual A op columns w)) = prepared w"
proof (induction columns arbitrary: w)
  case Nil
  then show ?case by simp
next
  case (Cons c columns)
  obtain res w1 where call: "equalColumn A op (c_str (ColumnValue_name c)) (ColumnValue_value c) w = (res, w1)"
    by (metis surj_pair)
  have "prepared w1 = prepared w"
    using keeps_equal [of op "c_str (ColumnValue_name c)" "ColumnValue_value c" w] by (simp add: call)
  with Cons show ?case by (simp add: call)
qed

lemma setValues_keeps: "prepared (snd (setValues A op columns w)) = prepared w"
proof (induction columns arbitrary: w)
  case Nil
  then show ?case by simp
next
  case (Cons c columns)
  obtain res w1 where call: "setValueColumn A op (c_str (ColumnValue_name c)) (ColumnValue_value c) w = (res, w1)"
    by (metis surj_pair)
  have "prepared w1 = prepared w"
    using keeps_set_value [of op "c_str (ColumnValue_name c)" "ColumnValue_value c" w] by (simp add: call)
  with Cons show ?case by (simp add: call)
qed

lemma getValues_keeps: "prepared (snd (getValues A op i k records w)) = prepared w"
proof (induction k arbitrary: i records w)
  case 0
  then show ?case by simp
next
  case (Suc k)
  obtain r w1 where call: "getValueColumn A op i w = (r, w1)" by (metis surj_pair)
  have "prepared w1 = prepared w" using keeps_get_value [of op i w] by (simp add: call)
  with Suc show ?case by (simp add: call split: option.split)
qed

lemma compareColumns_total:
  assumes "\<And>c. c \<in> set columns \<Longrightarrow> getColumnNo A tab (c_str (ColumnValue_name c)) \<noteq> None"
  shows "\<exists>res1 w1. compareColumns A op tab columns res w = Inr (res1, w1) \<and> prepared w1 = prepared w"
  using assms
proof (induction columns arbitrary: res w)
  case Nil
  then show ?case by simp
next
  case (Cons c columns)
  then obtain no where no: "getColumnNo A tab (c_str (ColumnValue_name c)) = Some no" by force
  obtain res1 w1 where call: "filterCmpEq A op no (ColumnValue_value c) w = (res1, w1)"
    by (metis surj_pair)
  have "prepared w1 = prepared w"
    using keeps_filter_cmp [of op no "ColumnValue_value c" w] by (simp add: call)
  with Cons.IH [of res1 w1] Cons.prems show ?case by (simp add: no call)
qed

lemma getInternal_keeps: "prepared (snd (getInternal A n name w)) = prepared w"
  by (simp add: getInternal_def keeps_table)

lemma cache_lookup_keeps: "prepared (snd (snd (cache_lookup A n getName name tic w))) = prepared w"
proof (cases "cache_get tic getName")
  case None
  obtain found w1 where fetch: "getInternal A n name w = (found, w1)" by (metis surj_pair)
  have "prepared w1 = prepared w" using getInternal_keeps [of n name w] by (simp add: fetch)
  with None show ?thesis
    by (simp add: cache_lookup_def cache_set_def fetch split: option.split)
qed (simp add: cache_lookup_def)

lemma lookupTable_quiet: "quiet s (snd (lookupTable A n getName name s))"
proof -
  obtain found tic1 w1 where look: "cache_lookup A n getName name (sv_cache s) (sv_world s) = (found, tic1, w1)"
    by (metis surj_pair)
  with cache_lookup_keeps [of n getName name "sv_cache s" "sv_world s"] cache_lookup_real [OF _ look] show ?thesis
    by (simp add: lookupTable_def quiet_def)
qed

lemma lookupTable_real:
  "lookupTable A n name name s = (Some tab, s1) \<Longrightarrow> cache_real A (sv_cache s) \<Longrightarrow> table_named A (c_str name) tab"
  using cache_lookup_real [of A "sv_cache s" n name name "sv_world s"]
  by (auto simp: lookupTable_def split: prod.splits)

lemma startTransaction_total:
  "\<exists>r s1. startTransaction A n columns name s = Inr (r, s1) \<and> quiet s s1 \<and>
    (\<forall>t. r = Some t \<longrightarrow> t \<notin> prepared (sv_world s1))"
proof -
  obtain found s0 where look: "lookupTable A n (c_str name) name s = (found, s0)" by (metis surj_pair)
  from lookupTable_quiet [of s n "c_str name" name] have quiet0: "quiet s s0" by (simp add: look)
  show ?thesis
  proof (cases found)
    case None
    with look quiet0 show ?thesis by (simp add: startTransaction_def)
  next
    case (Some tab)
    have call: "\<exists>r s1. with_world call s0 = (r, s1) \<and> quiet s s1 \<and>
        (\<forall>t. r = Some t \<longrightarrow> t \<notin> prepared (sv_world s1))"
      if "prepared (snd (call (sv_world s0))) = prepared (sv_world s0)"
        and "\<And>t w1. call (sv_world s0) = (Some t, w1) \<Longrightarrow> t \<notin> prepared (sv_world s0)"
      for call
    proof -
      obtain r w1 where c: "call (sv_world s0) = (r, w1)" by (metis surj_pair)
      with that quiet0 show ?thesis by (auto simp: with_world_def quiet_def)
    qed
    show ?thesis
    proof (cases "getNoDistributionKeyIndexes columns > 0")
      case True
      obtain hint where "getHint columns (hint_array (getNoDistributionKeyIndexes columns + 1)) = Inr hint"
        using fillHint_exact [of "[]" 0 "hint_array (getNoDistributionKeyIndexes columns + 1)" columns]
        by (simp add: getHint_def hint_array_def)
      with True Some look call [of "startTransactionWithHint A n tab hint"] keeps_start_hint start_hint_fresh
      show ?thesis by (fastforce simp: startTransaction_def)
    next
      case False
      with Some look call [of "startTransactionOn A n tab"] keeps_start start_fresh
      show ?thesis by (fastforce simp: startTransaction_def)
    qed
  qed
qed

section \<open>Defining an operation\<close>

lemma with_world_quiet:
  assumes "\<And>w. prepared (snd (call w)) = prepared w"
  shows "\<exists>x s1. with_world call s = (x, s1) \<and> quiet s s1"
  using assms [of "sv_world s"] by (simp add: with_world_def split_beta quiet_def)

lemma executeSet_total:
  assumes "so_store_info op \<noteq> []"
  shows "\<exists>r s1. executeSet A op t s = Inr (r, s1) \<and> quiet s s1"
proof -
  obtain si sis where si: "so_store_info op = si # sis" using assms by (cases "so_store_info op") simp_all
  obtain r s1 where get: "with_world (getNdbOperation A t (c_str (StoreInfo_store_name si))) s = (r, s1)"
    and q1: "quiet s s1"
    using with_world_quiet [of "getNdbOperation A t (c_str (StoreInfo_store_name si))"] keeps_operation by blast
  show ?thesis
  proof (cases r)
    case None
    with q1 show ?thesis by (simp add: executeSet_def SetOperation_store_info_def si get)
  next
    case (Some o1)
    let ?s2 = "s1\<lparr>sv_world := writeTuple A o1 (sv_world s1)\<rparr>"
    have q2: "quiet s1 ?s2" by (simp add: quiet_def keeps_write)
    obtain res s3 where eq: "setEqualPrimaryKey A (so_primary_key op) o1 ?s2 = (res, s3)" and q3: "quiet ?s2 s3"
      using with_world_quiet [of "setEqual A o1 (so_primary_key op)"] setEqual_keeps
      unfolding setEqualPrimaryKey_def by blast
    obtain ok s4 where vals: "with_world (setValues A o1 (so_value op)) s3 = (ok, s4)" and q4: "quiet s3 s4"
      using with_world_quiet [of "setValues A o1 (so_value op)"] setValues_keeps by blast
    from q1 q2 q3 have q13: "quiet s s3" by (blast intro: quiet_trans)
    with q4 have "quiet s s4" by (blast intro: quiet_trans)
    with q13 show ?thesis by (simp add: executeSet_def SetOperation_store_info_def si get Some eq vals Let_def)
  qed
qed

lemma executeDelete_total:
  assumes "dl_store_info op \<noteq> []"
  shows "\<exists>r s1. executeDelete A op t s = Inr (r, s1) \<and> quiet s s1"
proof -
  obtain si sis where si: "dl_store_info op = si # sis" using assms by (cases "dl_store_info op") simp_all
  obtain r s1 where get: "with_world (getNdbOperation A t (c_str (StoreInfo_store_name si))) s = (r, s1)"
    and q1: "quiet s s1"
    using with_world_quiet [of "getNdbOperation A t (c_str (StoreInfo_store_name si))"] keeps_operation by blast
  show ?thesis
  proof (cases r)
    case None
    with q1 show ?thesis by (simp add: executeDelete_def DeleteOperation_store_info_def si get)
  next
    case (Some o1)
    let ?s2 = "s1\<lparr>sv_world := deleteTuple A o1 (sv_world s1)\<rparr>"
    have q2: "quiet s1 ?s2" by (simp add: quiet_def keeps_delete)
    obtain res s3 where eq: "setEqualPrimaryKey A (dl_primary_key op) o1 ?s2 = (res, s3)" and q3: "quiet ?s2 s3"
      using with_world_quiet [of "setEqual A o1 (dl_primary_key op)"] setEqual_keeps
      unfolding setEqualPrimaryKey_def by blast
    from q1 q2 q3 have "quiet s s3" by (blast intro: quiet_trans)
    then show ?thesis by (simp add: executeDelete_def DeleteOperation_store_info_def si get Some eq Let_def)
  qed
qed

lemma readByPrimaryKey_quiet:
  "\<exists>r s1. readByPrimaryKey A name keys t s = (r, s1) \<and> quiet s s1"
proof -
  obtain r s1 where get: "with_world (getNdbOperation A t (c_str name)) s = (r, s1)" and q1: "quiet s s1"
    using with_world_quiet [of "getNdbOperation A t (c_str name)"] keeps_operation by blast
  show ?thesis
  proof (cases r)
    case None
    with q1 show ?thesis by (simp add: readByPrimaryKey_def get)
  next
    case (Some o1)
    let ?s2 = "s1\<lparr>sv_world := simpleRead A o1 (sv_world s1)\<rparr>"
    have q2: "quiet s1 ?s2" by (simp add: quiet_def keeps_read)
    obtain res s3 where eq: "setEqualPrimaryKey A keys o1 ?s2 = (res, s3)" and q3: "quiet ?s2 s3"
      using with_world_quiet [of "setEqual A o1 keys"] setEqual_keeps
      unfolding setEqualPrimaryKey_def by blast
    from q1 q2 q3 have "quiet s s3" by (blast intro: quiet_trans)
    then show ?thesis by (simp add: readByPrimaryKey_def get Some eq Let_def)
  qed
qed

lemma readByIndex_quiet:
  "\<exists>r s1. readByIndex A name keys t s = (r, s1) \<and> quiet s s1"
proof -
  obtain r s1 where get: "with_world (getNdbIndexScanOperation A t ''VOLODB_PRUNE_INDEX'' (c_str name)) s = (r, s1)"
    and q1: "quiet s s1"
    using with_world_quiet [of "getNdbIndexScanOperation A t ''VOLODB_PRUNE_INDEX'' (c_str name)"] keeps_index_scan
    by blast
  show ?thesis
  proof (cases r)
    case None
    with q1 show ?thesis by (simp add: readByIndex_def get)
  next
    case (Some o1)
    let ?s2 = "s1\<lparr>sv_world := readTuples A o1 (sv_world s1)\<rparr>"
    have q2: "quiet s1 ?s2" by (simp add: quiet_def keeps_read_tuples)
    obtain res s3 where eq: "setEqualDistributedKey A keys o1 ?s2 = (res, s3)" and q3: "quiet ?s2 s3"
      using with_world_quiet [of "setEqual A o1 keys"] setEqual_keeps
      unfolding setEqualDistributedKey_def by blast
    from q1 q2 q3 have "quiet s s3" by (blast intro: quiet_trans)
    then show ?thesis by (simp add: readByIndex_def get Some eq Let_def)
  qed
qed

lemma setEqualValue_total:
  assumes "\<And>c. c \<in> set columns \<Longrightarrow> getColumnNo A tab (c_str (ColumnValue_name c)) \<noteq> None"
  shows "\<exists>r s1. setEqualValue A columns op tab s = Inr (r, s1) \<and> quiet s s1"
proof -
  obtain res s1 where flt: "with_world (filterBegin A op) s = (res, s1)" and q1: "quiet s s1"
    using with_world_quiet [of "filterBegin A op"] keeps_filter_begin by blast
  obtain res1 w where cmp: "compareColumns A op tab columns res (sv_world s1) = Inr (res1, w)"
    and w: "prepared w = prepared (sv_world s1)"
    using compareColumns_total [of columns tab op res "sv_world s1"] assms by blast
  let ?s2 = "s1\<lparr>sv_world := w\<rparr>"
  have q2: "quiet s ?s2" by (rule quiet_trans [OF q1]) (simp add: quiet_def w)
  obtain res2 s3 where final: "with_world (filterEnd A op) ?s2 = (res2, s3)" and "quiet ?s2 s3"
    using with_world_quiet [of "filterEnd A op"] keeps_filter_end by blast
  with q2 have "quiet s s3" by (blast intro: quiet_trans)
  with q1 q2 show ?thesis by (simp add: setEqualValue_def flt cmp final Let_def)
qed

lemma readByScan_total:
  assumes "\<And>c. c \<in> set columns \<Longrightarrow> getColumnNo A tab (c_str (ColumnValue_name c)) \<noteq> None"
  shows "\<exists>r s1. readByScan A name columns tab t s = Inr (r, s1) \<and> quiet s s1"
proof -
  obtain r s1 where get: "with_world (getNdbScanOperation A t (c_str name)) s = (r, s1)" and q1: "quiet s s1"
    using with_world_quiet [of "getNdbScanOperation A t (c_str name)"] keeps_scan by blast
  show ?thesis
  proof (cases r)
    case None
    with q1 show ?thesis by (simp add: readByScan_def get)
  next
    case (Some o1)
    let ?s2 = "s1\<lparr>sv_world := readTuples A o1 (sv_world s1)\<rparr>"
    have q2: "quiet s1 ?s2" by (simp add: quiet_def keeps_read_tuples)
    obtain res s3 where eq: "setEqualValue A columns o1 tab ?s2 = Inr (res, s3)" and q3: "quiet ?s2 s3"
      using setEqualValue_total [OF assms] by blast
    from q1 q2 q3 have "quiet s s3" by (blast intro: quiet_trans)
    then show ?thesis by (simp add: readByScan_def get Some eq)
  qed
qed

lemma executeGet_total:
  assumes "get_safe A op" "cache_real A (sv_cache s)"
  shows "\<exists>r s1. executeGet A n op t s = Inr (r, s1) \<and> quiet s s1"
proof -
  obtain si sis where si: "go_store_info op = si # sis"
    using assms(1) by (cases "go_store_info op") (simp_all add: get_safe_def)
  let ?name = "StoreInfo_store_name si"
  obtain found s1 where look: "lookupTable A n ?name ?name s = (found, s1)" by (metis surj_pair)
  from lookupTable_quiet [of s n ?name ?name] look have q1: "quiet s s1" by simp
  show ?thesis
  proof (cases found)
    case None
    with q1 show ?thesis by (simp add: executeGet_def GetOperation_store_info_def si look)
  next
    case (Some tab)
    let ?read = "if int (length (go_primary_key op)) = getNoOfPrimaryKeys A tab then
        Inr (readByPrimaryKey A ?name (go_primary_key op) t s1)
      else if length (go_primary_key op) \<noteq> 0 \<and> int (length (go_primary_key op)) < getNoOfPrimaryKeys A tab then
        Inr (readByIndex A ?name (go_primary_key op) t s1)
      else readByScan A ?name (go_value op) tab t s1"
    have "\<And>c. c \<in> set (go_value op) \<Longrightarrow> getColumnNo A tab (c_str (ColumnValue_name c)) \<noteq> None"
      using assms(1) lookupTable_real [OF look [unfolded Some] assms(2)] by (simp add: get_safe_def si)
    then obtain r s2 where read: "?read = Inr (r, s2)" and q2: "quiet s1 s2"
      using readByPrimaryKey_quiet [of ?name "go_primary_key op" t s1]
        readByIndex_quiet [of ?name "go_primary_key op" t s1] readByScan_total [of "go_value op" tab ?name t s1]
      by (cases "int (length (go_primary_key op)) = getNoOfPrimaryKeys A tab";
          cases "length (go_primary_key op) \<noteq> 0 \<and> int (length (go_primary_key op)) < getNoOfPrimaryKeys A tab")
        auto
    from q1 q2 have q: "quiet s s2" by (rule quiet_trans)
    show ?thesis
    proof (cases r)
      case None
      with q show ?thesis unfolding executeGet_def by (simp add: GetOperation_store_info_def si look Some read)
    next
      case (Some o1)
      obtain x s3 where vals: "with_world (getValues A o1 0 (getNoOfColumns A tab) []) s2 = (x, s3)"
        and q3: "quiet s2 s3"
        using with_world_quiet [of "getValues A o1 0 (getNoOfColumns A tab) []"] getValues_keeps by blast
      from q q3 have "quiet s s3" by (rule quiet_trans)
      then show ?thesis
        unfolding executeGet_def by (cases x) (simp add: GetOperation_store_info_def si look \<open>found = Some tab\<close> read Some vals)
    qed
  qed
qed

section \<open>One message\<close>

definition fresh :: "ndb_transaction option \<Rightarrow> 'w server \<Rightarrow> bool" where
  "fresh transaction s \<longleftrightarrow> cache_real A (sv_cache s) \<and> (\<forall>t. transaction = Some t \<longrightarrow> t \<notin> prepared (sv_world s))"

lemma fresh_quiet: "quiet s s1 \<Longrightarrow> fresh transaction s \<Longrightarrow> fresh transaction s1"
  by (simp add: fresh_def quiet_def)

lemma ensureTransaction_total:
  assumes "fresh transaction s"
  shows "\<exists>r s1. ensureTransaction A n columns si transaction s = Inr (r, s1) \<and> quiet s s1 \<and> fresh r s1"
proof (cases transaction)
  case None
  from startTransaction_total [of n columns "StoreInfo_store_name si" s] obtain r s1 where
    "startTransaction A n columns (StoreInfo_store_name si) s = Inr (r, s1)" "quiet s s1"
    "\<forall>t. r = Some t \<longrightarrow> t \<notin> prepared (sv_world s1)"
    by blast
  with None assms show ?thesis by (auto simp: ensureTransaction_def fresh_def quiet_def)
next
  case (Some t)
  with assms show ?thesis by (simp add: ensureTransaction_def)
qed

lemma defineOn_total:
  assumes "fresh transaction s"
    and "\<And>t. cache_real A (sv_cache s) \<Longrightarrow>
      \<exists>r s1. exec t s = Inr (r, s1) \<and> quiet s s1 \<and> (\<forall>op columns. r = Some (op, columns) \<longrightarrow> P columns)"
  shows "\<exists>r s1. defineOn exec (transaction, s) = Inr (transaction, r, s1) \<and> quiet s s1 \<and> fresh transaction s1 \<and>
    (\<forall>op columns. r = Some (op, columns) \<longrightarrow> transaction \<noteq> None \<and> P columns)"
proof (cases transaction)
  case None
  with assms(1) show ?thesis by (simp add: defineOn_def)
next
  case (Some t)
  obtain r s1 where exec: "exec t s = Inr (r, s1)" and q: "quiet s s1"
    and P: "\<forall>op columns. r = Some (op, columns) \<longrightarrow> P columns"
    using assms by (auto simp: fresh_def) (metis (no_types, lifting))
  from fresh_quiet [OF q assms(1)] have "fresh transaction s1" .
  with exec q P Some show ?thesis by (simp add: defineOn_def)
qed

lemma ensure_define_total:
  assumes "fresh transaction s"
    and "\<And>t s. cache_real A (sv_cache s) \<Longrightarrow>
      \<exists>r s1. exec t s = Inr (r, s1) \<and> quiet s s1 \<and> (\<forall>op columns. r = Some (op, columns) \<longrightarrow> P columns)"
  shows "\<exists>transaction1 r s1.
    bind_result (ensureTransaction A n columns si transaction s) (defineOn exec) = Inr (transaction1, r, s1) \<and>
    quiet s s1 \<and> fresh transaction1 s1 \<and>
    (\<forall>op columns. r = Some (op, columns) \<longrightarrow> transaction1 \<noteq> None \<and> P columns)"
proof -
  obtain t1 s0 where ensured: "ensureTransaction A n columns si transaction s = Inr (t1, s0)"
    and q0: "quiet s s0" and f0: "fresh t1 s0"
    using ensureTransaction_total [OF assms(1)] by blast
  from defineOn_total [OF f0, of exec P] assms(2) obtain r s1 where
    "defineOn exec (t1, s0) = Inr (t1, r, s1)" "quiet s0 s1" "fresh t1 s1"
    "\<forall>op columns. r = Some (op, columns) \<longrightarrow> t1 \<noteq> None \<and> P columns"
    by blast
  with ensured quiet_trans [OF q0] show ?thesis by auto
qed

lemma executeManipulation_total:
  assumes "safe_message A message" "fresh transaction s"
  shows "\<exists>transaction1 r s1. executeManipulation A n message transaction s = Inr (transaction1, r, s1) \<and>
    quiet s s1 \<and> fresh transaction1 s1 \<and>
    (\<forall>op columns. r = Some (op, columns) \<longrightarrow> transaction1 \<noteq> None \<and>
       (getFrameType message = FrameItem_Type_GET \<longrightarrow> columns \<noteq> None))"
proof (cases message)
  case (SetMessage op)
  with assms(1) obtain si sis where si: "so_store_info op = si # sis"
    by (cases "so_store_info op") (simp_all add: safe_message_def)
  have "\<exists>r s1. bind_result (executeSet A op t s) (\<lambda>(o1, s2). Inr (map_option (\<lambda>o1. (o1, None)) o1, s2)) =
      Inr (r, s1) \<and> quiet s s1 \<and> (\<forall>o1 columns. r = Some (o1, columns) \<longrightarrow> True)" for t s
    using executeSet_total [of op t s] by (auto simp: si)
  from ensure_define_total [OF assms(2) this, of n "so_primary_key op" si] SetMessage show ?thesis
    by (auto simp: executeManipulation_def SetOperation_store_info_def si)
next
  case (DeleteMessage op)
  with assms(1) obtain si sis where si: "dl_store_info op = si # sis"
    by (cases "dl_store_info op") (simp_all add: safe_message_def)
  have "\<exists>r s1. bind_result (executeDelete A op t s) (\<lambda>(o1, s2). Inr (map_option (\<lambda>o1. (o1, None)) o1, s2)) =
      Inr (r, s1) \<and> quiet s s1 \<and> (\<forall>o1 columns. r = Some (o1, columns) \<longrightarrow> True)" for t s
    using executeDelete_total [of op t s] by (auto simp: si)
  from ensure_define_total [OF assms(2) this, of n "dl_primary_key op" si] DeleteMessage show ?thesis
    by (auto simp: executeManipulation_def DeleteOperation_store_info_def si)
next
  case (GetMessage op)
  with assms(1) have safe: "get_safe A op" by (simp add: safe_message_def)
  then obtain si sis where si: "go_store_info op = si # sis"
    by (cases "go_store_info op") (simp_all add: get_safe_def)
  have "\<exists>r s1. bind_result (executeGet A n op t s)
        (\<lambda>(o1, s2). Inr (map_option (\<lambda>(o1, records). (o1, Some records)) o1, s2)) =
      Inr (r, s1) \<and> quiet s s1 \<and> (\<forall>o1 columns. r = Some (o1, columns) \<longrightarrow> columns \<noteq> None)"
    if "cache_real A (sv_cache s)" for t s
    using executeGet_total [OF safe that, of n t] by auto
  from ensure_define_total [OF assms(2) this, of n "go_primary_key op" si] GetMessage show ?thesis
    by (auto simp: executeManipulation_def GetOperation_store_info_def si)
qed (use assms(2) in \<open>simp_all add: executeManipulation_def\<close>)

lemma runQuery_quiet: "\<exists>r s1. runQuery A n q tid s = (r, s1) \<and> quiet s s1"
  using with_world_quiet [of "mysqlQuery A n (c_str q)" s] keeps_query by (auto simp: runQuery_def)

lemma executeDropStore_quiet: "\<exists>r s1. executeDropStore A n op tid s = (r, s1) \<and> quiet s s1"
proof -
  obtain r s1 where "runQuery A n (''DROP TABLE '' @ StoreInfo_store_name (DropStoreOperation_store_info op)) tid s =
      (r, s1)" "quiet s s1"
    using runQuery_quiet by blast
  then show ?thesis by (auto simp: executeDropStore_def quiet_def Let_def cache_invalidate_real)
qed

lemma executeCreateStore_total: "\<exists>r s1. executeCreateStore A n op tid s = Inr (r, s1) \<and> quiet s s1"
proof -
  have "\<exists>x. createTableStr op = Inr x"
    by (simp add: createTableStr_def columnClauses_eq columnNames_positions positions_Nil_iff Let_def)
  then obtain x where x: "createTableStr op = Inr x" ..
  show ?thesis
    using runQuery_quiet by (cases x) (simp_all add: executeCreateStore_def x)
qed

lemma executeDefinition_total:
  "\<exists>r s1. executeDefinition A n message tid s = Inr (r, s1) \<and> quiet s s1"
proof (cases message)
  case (CreateDatabaseMessage op)
  obtain r s1 where "executeCreateDatabase A n op tid s = (r, s1)" "quiet s s1"
    unfolding executeCreateDatabase_def createDatabase_def using runQuery_quiet by blast
  with CreateDatabaseMessage show ?thesis by (simp add: executeDefinition_def)
next
  case (DropDatabaseMessage op)
  obtain r s1 where "executeDropDatabase A n op tid s = (r, s1)" "quiet s s1"
    unfolding executeDropDatabase_def using runQuery_quiet by blast
  with DropDatabaseMessage show ?thesis by (simp add: executeDefinition_def)
next
  case (CreateStoreMessage op)
  obtain r s1 where "executeCreateStore A n op tid s = Inr (r, s1)" "quiet s s1"
    using executeCreateStore_total by blast
  with CreateStoreMessage show ?thesis by (simp add: executeDefinition_def)
next
  case (DropStoreMessage op)
  obtain r s1 where "executeDropStore A n op tid s = (r, s1)" "quiet s s1"
    using executeDropStore_quiet by blast
  with DropStoreMessage show ?thesis by (simp add: executeDefinition_def)
qed (simp_all add: executeDefinition_def)

section \<open>One transaction tuple\<close>

text \<open>What replying leaves alone.\<close>

definition same_work :: "'w server \<Rightarrow> 'w server \<Rightarrow> bool" where
  "same_work s s1 \<longleftrightarrow>
     prepared (sv_world s1) = prepared (sv_world s) \<and> sv_pending s1 = sv_pending s \<and>
     sv_stats s1 = sv_stats s \<and> (cache_real A (sv_cache s) \<longrightarrow> cache_real A (sv_cache s1))"

lemma quiet_work: "quiet s s1 \<Longrightarrow> same_work s s1 \<and> answered s1 = answered s"
  by (simp add: quiet_def same_work_def answered_def)

lemma same_work_trans: "same_work s s1 \<Longrightarrow> same_work s1 s2 \<Longrightarrow> same_work s s2"
  by (simp add: same_work_def)

lemma reply_work:
  "\<exists>b s1. replyWithResult L r i s = Inr (b, s1) \<and> answered s1 = add_mset i (answered s) \<and> same_work s s1"
  using reply_accepted [of L r i s] by (fastforce simp: same_work_def)

lemma failureResult_quiet: "\<exists>r s1. failureResult A transaction tid s = (r, s1) \<and> quiet s s1"
  by (cases transaction) (simp_all add: failureResult_def quiet_def keeps_close)

lemma executeMessages_definitions:
  assumes "list_all isDefinitionFrame messages"
  shows "\<exists>s1. executeMessages L A n tid ident messages transaction operations s =
      Inr (transaction, operations, s1) \<and> same_work s s1 \<and>
    answered s1 = replicate_mset (length messages) ident + answered s"
  using assms
proof (induction messages arbitrary: s)
  case Nil
  then show ?case by (simp add: same_work_def)
next
  case (Cons m messages)
  obtain r s1 where exec: "executeDefinition A n m tid s = Inr (r, s1)" and q1: "quiet s s1"
    using executeDefinition_total by blast
  let ?reply = "case r of Some r \<Rightarrow> r
    | None \<Rightarrow> makeResultForError tid ''Failed to run definition operation.'' 0"
  obtain b s2 where reply: "replyWithResult L ?reply ident s1 = Inr (b, s2)"
    and a2: "answered s2 = add_mset ident (answered s1)" and w2: "same_work s1 s2"
    using reply_work by blast
  from Cons obtain s3 where rest: "executeMessages L A n tid ident messages transaction operations s2 =
      Inr (transaction, operations, s3)" "same_work s2 s3"
    "answered s3 = replicate_mset (length messages) ident + answered s2"
    by fastforce
  from quiet_work [OF q1] w2 rest(2) have "same_work s s3" by (blast intro: same_work_trans)
  with Cons.prems quiet_work [OF q1] show ?case by (simp add: exec reply rest a2)
qed

lemma executeMessages_manipulations:
  assumes "list_all (\<lambda>m. \<not> isDefinitionFrame m) messages" "list_all (safe_message A) messages"
    and "fresh transaction s" "list_all (operation_ok n) operations"
  shows "\<exists>transaction1 operations1 s1.
    executeMessages L A n tid ident messages transaction operations s =
      Inr (transaction1, operations1, s1) \<and> same_work s s1 \<and> fresh transaction1 s1 \<and>
    (if messages = [] then transaction1 = transaction \<and> operations1 = operations \<and> answered s1 = answered s
     else if transaction1 = None then answered s1 = add_mset ident (answered s)
     else answered s1 = answered s \<and> operations1 \<noteq> [] \<and> list_all (operation_ok n) operations1)"
  using assms
proof (induction messages arbitrary: transaction operations s)
  case Nil
  then show ?case by (simp add: same_work_def)
next
  case (Cons m messages)
  obtain transaction1 r s1 where exec: "executeManipulation A n m transaction s = Inr (transaction1, r, s1)"
    and q1: "quiet s s1" and f1: "fresh transaction1 s1"
    and r: "\<And>op columns. r = Some (op, columns) \<Longrightarrow>
      transaction1 \<noteq> None \<and> (getFrameType m = FrameItem_Type_GET \<longrightarrow> columns \<noteq> None)"
    using executeManipulation_total [of m transaction s n] Cons.prems by auto
  show ?case
  proof (cases r)
    case None
    obtain reply s2 where fail: "failureResult A transaction1 tid s1 = (reply, s2)" and q2: "quiet s1 s2"
      using failureResult_quiet by blast
    obtain b s3 where sent: "replyWithResult L reply ident s2 = Inr (b, s3)"
      and a3: "answered s3 = add_mset ident (answered s2)" and w3: "same_work s2 s3"
      using reply_work by blast
    from quiet_work [OF q1] quiet_work [OF q2] w3 have "same_work s s3" by (blast intro: same_work_trans)
    moreover from this Cons.prems(3) have "fresh None s3" by (simp add: fresh_def same_work_def)
    ultimately show ?thesis using Cons.prems(1) quiet_work [OF q1] quiet_work [OF q2]
      by (simp add: exec None fail sent a3)
  next
    case (Some o1)
    obtain op columns where o1: "o1 = (op, columns)" by (cases o1)
    let ?operations = "operations @ [\<lparr>to_type = getFrameType m, to_operation = op, to_columns = columns, to_thread = n\<rparr>]"
    from r [of op columns] Some o1 have t1: "transaction1 \<noteq> None"
      and ok: "list_all (operation_ok n) ?operations"
      using Cons.prems(4) by (simp, simp, simp add: operation_ok_def)
    from Cons.IH [OF _ _ f1 ok] Cons.prems obtain transaction2 operations2 s2 where
      rest: "executeMessages L A n tid ident messages transaction1 ?operations s1 =
        Inr (transaction2, operations2, s2)"
      and w2: "same_work s1 s2" and f2: "fresh transaction2 s2"
      and out: "if messages = [] then transaction2 = transaction1 \<and> operations2 = ?operations \<and> answered s2 = answered s1
        else if transaction2 = None then answered s2 = add_mset ident (answered s1)
        else answered s2 = answered s1 \<and> operations2 \<noteq> [] \<and> list_all (operation_ok n) operations2"
      by auto
    from quiet_work [OF q1] w2 have "same_work s s2" by (blast intro: same_work_trans)
    with Cons.prems(1) quiet_work [OF q1] f2 out t1 ok show ?thesis
      by (auto simp: exec Some o1 rest split: if_splits)
  qed
qed

text \<open>Between two tuples exactly the prepared transactions await their callback.\<close>

definition settled :: "nat \<Rightarrow> 'w server \<Rightarrow> bool" where
  "settled n s \<longleftrightarrow> pending_ok n s \<and> dom (sv_pending s) = prepared (sv_world s) \<and> cache_real A (sv_cache s)"

lemma settled_work:
  assumes "settled n s" "same_work s s1"
  shows "settled n s1" and "outstanding s1 = outstanding s"
proof -
  from assms(2) have same: "sv_pending s1 = sv_pending s" "sv_stats s1 = sv_stats s"
      "prepared (sv_world s1) = prepared (sv_world s)"
    by (simp_all add: same_work_def)
  show "settled n s1" using assms unfolding settled_def pending_ok_def same same_work_def by blast
  show "outstanding s1 = outstanding s" by (simp only: outstanding_def same)
qed

lemma settledD:
  assumes "settled n s"
  shows "finite (dom (sv_pending s))" and "dom (sv_pending s) = prepared (sv_world s)"
    and "pending_ok n s" and "cache_real A (sv_cache s)"
  using assms unfolding settled_def pending_ok_def by blast+

lemma prepare_settled:
  assumes "settled n s" "t \<notin> prepared (sv_world s)"
    and "ts_transaction state = t" "ts_operations state \<noteq> []" "list_all (operation_ok n) (ts_operations state)"
    and "s1 = s\<lparr>sv_world := executeAsynchPrepare A t (sv_world s), sv_pending := (sv_pending s)(t \<mapsto> state)\<rparr>"
  shows "settled n s1 \<and> card (dom (sv_pending s1)) = card (dom (sv_pending s)) + 1 \<and>
    accounted s1 = add_mset (ts_identifier state) (accounted s)"
proof -
  note fin = settledD(1) [OF assms(1)]
  have new: "t \<notin> dom (sv_pending s)" unfolding settledD(2) [OF assms(1)] by (rule assms(2))
  have "outstanding s1 = add_mset (ts_identifier state) (outstanding s)"
    by (rule outstanding_add [OF fin new, of s1 state]) (simp add: assms(6))
  moreover have "settled n s1"
    using settledD(2-4) [OF assms(1)] assms(3-5)
    by (simp add: settled_def pending_ok_def prepare assms(6))
  ultimately show ?thesis
    using fin new by (simp add: assms(6) accounted_def answered_def)
qed

lemma executeTuple_accounts:
  assumes "settled n s" "safe_tuple A tuple"
  shows "\<exists>b s1. executeTuple L A n tuple s = Inr (b, s1) \<and> settled n s1 \<and>
    card (dom (sv_pending s1)) = card (dom (sv_pending s)) + (if b then 1 else 0) \<and>
    accounted s1 = accounted s + expected_replies tuple"
proof -
  obtain tid ident messages where tuple: "tuple = (tid, ident, messages)" by (cases tuple)
  show ?thesis
  proof (cases "list_all isDefinitionFrame messages")
    case True
    from executeMessages_definitions [OF True, of L n tid ident None "[]" s] obtain s1 where
      "executeMessages L A n tid ident messages None [] s = Inr (None, [], s1)"
      and w: "same_work s s1" and a: "answered s1 = replicate_mset (length messages) ident + answered s"
      by blast
    with settled_work [OF assms(1) w] True show ?thesis
      using w by (auto simp: executeTuple_def tuple accounted_def expected_replies_def same_work_def)
  next
    case False
    with assms(2) have manip: "list_all (\<lambda>m. \<not> isDefinitionFrame m) messages"
      and safe: "list_all (safe_message A) messages" and nonempty: "messages \<noteq> []"
      by (auto simp: safe_tuple_def homogeneous_def tuple)
    from executeMessages_manipulations [OF manip safe, of None s n "[]" L tid ident] obtain tr ops s1 where
      exec: "executeMessages L A n tid ident messages None [] s = Inr (tr, ops, s1)"
      and w: "same_work s s1" and f: "fresh tr s1"
      and out: "if tr = None then answered s1 = add_mset ident (answered s)
        else answered s1 = answered s \<and> ops \<noteq> [] \<and> list_all (operation_ok n) ops"
      using nonempty settledD(4) [OF assms(1)] by (auto simp: fresh_def)
    note settled1 = settled_work [OF assms(1) w]
    have card1: "card (dom (sv_pending s1)) = card (dom (sv_pending s))"
      using w by (simp add: same_work_def)
    show ?thesis
    proof (cases tr)
      case None
      with out settled1 card1 False show ?thesis
        by (auto simp: executeTuple_def tuple exec accounted_def expected_replies_def)
    next
      case (Some t)
      let ?state = "\<lparr>ts_transaction = t, ts_transactionID = tid, ts_identifier = ident, ts_operations = ops\<rparr>"
      from Some f have "t \<notin> prepared (sv_world s1)" by (simp add: fresh_def)
      from prepare_settled [OF settled1(1) this, of ?state, OF _ _ _ refl] out Some card1 settled1(2) False
      show ?thesis
        by (auto simp: executeTuple_def tuple exec expected_replies_def accounted_def)
    qed
  qed
qed

section \<open>Callbacks\<close>

lemma addColumns_total: "\<exists>row1. addColumns A w columns row = Inr row1"
proof (induction columns arbitrary: row)
  case Nil
  then show ?case by simp
next
  case (Cons c columns)
  obtain t where "Column_Type_of (attrType A c w) = Some t" using column_types [of c w] by blast
  with Cons show ?case by simp
qed

lemma addRecordToResult_total: "\<exists>opr1. addRecordToResult A w opr columns = Inr opr1"
  using addColumns_total [of w columns Row_new] by (auto simp: addRecordToResult_def)

text \<open>A scan ends: every row it delivers is one less that is left.\<close>

lemma scan_rows_total:
  "\<exists>opr1 w1. scan_rows A op columns opr w = Some (Inr (opr1, w1)) \<and> prepared w1 = prepared w"
proof -
  define P where "P = (\<lambda>st :: 'w scan. \<exists>res w1 opr1. st = Inr (res, w1, opr1) \<and> prepared w1 = prepared w)"
  define f where "f = (\<lambda>st :: 'w scan.
    case st of Inl e \<Rightarrow> 0 | Inr (res, w1, opr1) \<Rightarrow> if res = 0 then Suc (rowsLeft op w1) else (0::nat))"
  obtain res w1 where first: "nextResult A op w = (res, w1)" by (metis surj_pair)
  with keeps_next [of op w] have start: "P (Inr (res, w1, opr))" by (simp add: P_def)
  have step: "P (scan_step A op columns st) \<and> f (scan_step A op columns st) < f st"
    if "P st" "scan_continues st" for st
  proof -
    from that obtain w2 opr2 where st: "st = Inr (0, w2, opr2)" and w2: "prepared w2 = prepared w"
      by (auto simp: P_def scan_continues_def)
    obtain opr3 where add: "addRecordToResult A w2 opr2 columns = Inr opr3"
      using addRecordToResult_total by blast
    obtain res3 w3 where call: "nextResult A op w2 = (res3, w3)" by (metis surj_pair)
    have "res3 = 0 \<Longrightarrow> rowsLeft op w3 < rowsLeft op w2" using next_row [of op w2 w3] call by simp
    with call keeps_next [of op w2] w2 show ?thesis
      by (simp add: st scan_step_def add P_def f_def)
  qed
  from measure_while_option_Some [of P scan_continues "scan_step A op columns" f, OF step start]
  obtain final where final: "while_option scan_continues (scan_step A op columns) (Inr (res, w1, opr)) = Some final"
    by blast
  from while_option_rule [where P = P, OF _ final start] step obtain res4 w4 opr4
    where "final = Inr (res4, w4, opr4)" "prepared w4 = prepared w"
    unfolding P_def by blast
  with final first show ?thesis by (simp add: scan_rows_def)
qed

lemma operation_outcome_total:
  assumes "operation_ok n info"
  shows "\<exists>opr w1. operation_outcome A info w = Some (Inr (opr, w1)) \<and> prepared w1 = prepared w"
proof (cases "to_type info = FrameItem_Type_GET")
  case True
  with assms obtain columns where "to_columns info = Some columns" by (auto simp: operation_ok_def)
  with True scan_rows_total addRecordToResult_total show ?thesis
    by (simp add: operation_outcome_def Let_def) (metis old.sum.simps(6))
qed (simp add: operation_outcome_def)

lemma collect_operations_total:
  assumes "list_all (operation_ok n) infos"
  shows "\<exists>r1 w1. collect_operations A infos r w = Some (Inr (r1, w1)) \<and> prepared w1 = prepared w"
  using assms
proof (induction infos arbitrary: r w)
  case Nil
  then show ?case by simp
next
  case (Cons info infos)
  then obtain opr w1 where outcome: "operation_outcome A info w = Some (Inr (opr, w1))" "prepared w1 = prepared w"
    using operation_outcome_total by fastforce
  from Cons.IH [of "Result_add_result (\<lambda>_. opr) r" w1] Cons.prems outcome show ?case by auto
qed

lemma callback_accounts:
  assumes "pending_ok n s" "sv_pending s t = Some state"
  shows "\<exists>s1. ndbExecuteCallback L A res t s = Some (Inr s1) \<and> pending_ok n s1 \<and>
    sv_pending s1 = (sv_pending s)(t := None) \<and> prepared (sv_world s1) = prepared (sv_world s) \<and>
    accounted s1 = accounted s \<and> sv_cache s1 = sv_cache s"
proof -
  from assms have fin: "finite (dom (sv_pending s))" and t: "ts_transaction state = t"
    and ops: "ts_operations state \<noteq> []" "list_all (operation_ok n) (ts_operations state)"
    and ready: "stats_ready n (sv_stats s)"
    by (auto simp: pending_ok_def)
  have accounts: "accounted s1 = accounted s"
    if "sv_pending s1 = (sv_pending s)(t := None)"
      "answered s1 = add_mset (ts_identifier state) (answered s)" for s1
    using outstanding_remove [OF fin assms(2) that(1)] that(2) by (simp add: accounted_def)
  have ok: "pending_ok n s1"
    if "sv_pending s1 = (sv_pending s)(t := None)" "stats_ready n (sv_stats s1)" for s1
    using assms(1) that by (simp add: pending_ok_def)
  have reply: "\<exists>b s2. replyWithResult L r (ts_identifier state)
        (s\<lparr>sv_pending := (sv_pending s)(t := None), sv_world := w\<rparr>) = Inr (b, s2) \<and>
      sv_pending s2 = (sv_pending s)(t := None) \<and> sv_world s2 = w \<and> sv_stats s2 = sv_stats s \<and> sv_cache s2 = sv_cache s \<and>
      answered s2 = add_mset (ts_identifier state) (answered s)" for r w
    using reply_accepted [of L r "ts_identifier state" "s\<lparr>sv_pending := (sv_pending s)(t := None), sv_world := w\<rparr>"]
    by (auto simp: answered_def)
  show ?thesis
  proof (cases "res = -1")
    case True
    let ?r = "makeResultForError (ts_transactionID state) (errorMessage A t (sv_world s)) (errorCode A t (sv_world s))"
    obtain b s2 where sent: "replyWithResult L ?r (ts_identifier state)
        (s\<lparr>sv_pending := (sv_pending s)(t := None), sv_world := closeTransaction A t (sv_world s)\<rparr>) = Inr (b, s2)"
      and s2: "sv_pending s2 = (sv_pending s)(t := None)" "sv_world s2 = closeTransaction A t (sv_world s)"
        "sv_stats s2 = sv_stats s" "answered s2 = add_mset (ts_identifier state) (answered s)" "sv_cache s2 = sv_cache s"
      using reply by blast
    from ok [OF s2(1)] ready accounts [OF s2(1,4)] s2 show ?thesis
      using True sent by (simp add: ndbExecuteCallback_def assms(2) t Let_def keeps_close)
  next
    case False
    obtain r1 w1 where col: "collect_operations A (ts_operations state) (makeResult (ts_transactionID state)) (sv_world s) =
        Some (Inr (r1, w1))" and w1: "prepared w1 = prepared (sv_world s)"
      using collect_operations_total [OF ops(2)] by blast
    obtain b s2 where sent: "replyWithResult L r1 (ts_identifier state)
        (s\<lparr>sv_pending := (sv_pending s)(t := None), sv_world := closeTransaction A t w1\<rparr>) = Inr (b, s2)"
      and s2: "sv_pending s2 = (sv_pending s)(t := None)" "sv_world s2 = closeTransaction A t w1"
        "sv_stats s2 = sv_stats s" "answered s2 = add_mset (ts_identifier state) (answered s)" "sv_cache s2 = sv_cache s"
      using reply by blast
    have "to_thread (last (ts_operations state)) = n"
      using ops last_in_set [of "ts_operations state"] by (auto simp: list_all_iff operation_ok_def)
    moreover obtain stats where stats: "count_transaction n (length (ts_operations state)) (sv_stats s2) = Some (Inr stats)"
      "stats_ready n stats"
      using count_transaction_ready [of n "sv_stats s2"] ready s2(3) by auto
    moreover have "pending_ok n (s2\<lparr>sv_stats := stats\<rparr>)" by (rule ok) (simp_all add: s2 stats)
    moreover have "accounted (s2\<lparr>sv_stats := stats\<rparr>) = accounted s"
      by (rule accounts) (use s2 in \<open>simp_all add: answered_def\<close>)
    ultimately show ?thesis
      using False sent w1 ops(1) s2
      by (simp add: ndbExecuteCallback_def assms(2) t Let_def col keeps_close)
  qed
qed

lemma callbacks_account:
  assumes "pending_ok n s" "distinct (map snd completed)" "set (map snd completed) \<subseteq> dom (sv_pending s)"
  shows "\<exists>s1. callbacks L A completed s = Some (Inr s1) \<and> pending_ok n s1 \<and>
    dom (sv_pending s1) = dom (sv_pending s) - set (map snd completed) \<and>
    prepared (sv_world s1) = prepared (sv_world s) \<and> accounted s1 = accounted s \<and> sv_cache s1 = sv_cache s"
  using assms
proof (induction completed arbitrary: s)
  case Nil
  then show ?case by simp
next
  case (Cons c completed)
  obtain res t where c: "c = (res, t)" by (cases c)
  with Cons.prems(3) obtain state where "sv_pending s t = Some state" by auto
  from callback_accounts [OF Cons.prems(1) this, of L res] obtain s1 where
    cb: "ndbExecuteCallback L A res t s = Some (Inr s1)" "pending_ok n s1"
      "sv_pending s1 = (sv_pending s)(t := None)" "prepared (sv_world s1) = prepared (sv_world s)"
      "accounted s1 = accounted s" "sv_cache s1 = sv_cache s"
    by blast
  have "set (map snd completed) \<subseteq> dom (sv_pending s1)"
    using Cons.prems(2,3) by (auto simp: cb(3) c)
  from Cons.IH [OF cb(2) _ this] Cons.prems(2) obtain s2 where
    "callbacks L A completed s1 = Some (Inr s2)" "pending_ok n s2"
    "dom (sv_pending s2) = dom (sv_pending s1) - set (map snd completed)"
    "prepared (sv_world s2) = prepared (sv_world s1)" "accounted s2 = accounted s1" "sv_cache s2 = sv_cache s1"
    by auto
  with cb show ?case by (auto simp: c)
qed

section \<open>Waiting\<close>

lemma polled_accounts:
  assumes "settled n s" "int tot = c + int (card (dom (sv_pending s)))"
    and "call (sv_world s) = ((cnt, completed), w)"
    and "cnt = int (length completed) \<and> distinct (map snd completed) \<and>
      set (map snd completed) \<subseteq> prepared (sv_world s) \<and>
      prepared w = prepared (sv_world s) - set (map snd completed)"
  shows "\<exists>s1. polled L A call c s = Some (Inr (c + cnt, s1)) \<and> settled n s1 \<and>
    int tot = c + cnt + int (card (dom (sv_pending s1))) \<and> accounted s1 = accounted s \<and>
    (completed = [] \<longrightarrow> sv_world s1 = w)"
proof -
  let ?s0 = "s\<lparr>sv_world := w\<rparr>"
  note dom = settledD(2) [OF assms(1)]
  have ok: "pending_ok n ?s0" using settledD(3) [OF assms(1)] by (simp add: pending_ok_def)
  from callbacks_account [OF ok, of completed L] assms(4) obtain s1 where
    cb: "callbacks L A completed ?s0 = Some (Inr s1)" and ok1: "pending_ok n s1"
    and dom1: "dom (sv_pending s1) = dom (sv_pending s) - set (map snd completed)"
    and w1: "prepared (sv_world s1) = prepared w" and acc: "accounted s1 = accounted ?s0"
    and cache: "sv_cache s1 = sv_cache s"
    by (auto simp: dom)
  have "card (dom (sv_pending s1)) = card (dom (sv_pending s)) - length completed"
    unfolding dom1 using assms(4) distinct_card [of "map snd completed"]
    by (subst card_Diff_subset) (auto simp: dom)
  moreover have "length completed \<le> card (dom (sv_pending s))"
    using assms(4) settledD(1) [OF assms(1)] distinct_card [of "map snd completed"]
    by (metis card_mono dom length_map)
  ultimately have "int tot = c + cnt + int (card (dom (sv_pending s1)))"
    using assms(2,4) by simp
  moreover have "settled n s1"
    using ok1 dom1 w1 assms(4) settledD(4) [OF assms(1)] by (simp add: settled_def dom cache)
  moreover have "accounted s1 = accounted s"
    by (simp add: acc) (simp add: accounted_def answered_def outstanding_def)
  moreover have "polled L A call c s = Some (Inr (c + cnt, s1))"
    by (simp add: polled_def with_world_def assms(3) cb)
  moreover have "completed = [] \<Longrightarrow> sv_world s1 = w" using cb by auto
  ultimately show ?thesis by blast
qed

lemma wait_accounts:
  assumes "settled n s" "tot = card (dom (sv_pending s))"
  shows "\<exists>s1. waitForTransactionsToComplete L A n tot s = Some (Inr s1) \<and> settled n s1 \<and>
    sv_pending s1 = Map.empty \<and> accounted s1 = accounted s"
proof (cases "tot > 0")
  case False
  with assms settledD(1) [OF assms(1)] show ?thesis
    by (simp add: waitForTransactionsToComplete_def)
next
  case True
  define P where "P = (\<lambda>st :: (int \<times> 'w server) run. \<exists>c s1. st = Some (Inr (c, s1)) \<and> settled n s1 \<and>
    int tot = c + int (card (dom (sv_pending s1))) \<and> accounted s1 = accounted s)"
  define size_of where "size_of = (\<lambda>st :: (int \<times> 'w server) run. case st of
      Some (Inr (c, s1)) \<Rightarrow> (card (dom (sv_pending s1)), patience (sv_world s1)) | _ \<Rightarrow> (0, 0))"
  let ?step = "wait_step L A n (int tot)"
  have step: "P (?step st) \<and> (size_of (?step st), size_of st) \<in> less_than <*lex*> less_than"
    if "P st" "wait_continues (int tot) st" for st
  proof -
    from that obtain c s1 where st: "st = Some (Inr (c, s1))" and s1: "settled n s1"
      and tot: "int tot = c + int (card (dom (sv_pending s1)))" and acc: "accounted s1 = accounted s"
      and more: "c < int tot"
      by (auto simp: P_def wait_continues_def)
    obtain cnt completed w where call: "pollNdb A n (int tot - c) (sv_world s1) = ((cnt, completed), w)"
      by (metis surj_pair)
    from polled_accounts [where call = "pollNdb A n (int tot - c)" and s = s1 and L = L,
      OF s1 tot call poll [OF call]] obtain s2 where
      s2: "polled L A (pollNdb A n (int tot - c)) c s1 = Some (Inr (c + cnt, s2))" "settled n s2"
        "int tot = c + cnt + int (card (dom (sv_pending s2)))" "accounted s2 = accounted s1"
        "completed = [] \<longrightarrow> sv_world s2 = w"
      by blast
    have "card (dom (sv_pending s2)) < card (dom (sv_pending s1)) \<or>
      card (dom (sv_pending s2)) = card (dom (sv_pending s1)) \<and> patience (sv_world s2) < patience (sv_world s1)"
    proof (cases "completed = []")
      case True
      from poll [OF call] True have cnt: "cnt = 0" by simp
      from more tot have "card (dom (sv_pending s1)) \<noteq> 0" by linarith
      then have "dom (sv_pending s1) \<noteq> {}" by (metis card.empty)
      then have "prepared (sv_world s1) \<noteq> {}" unfolding settledD(2) [OF s1] .
      have "pollNdb A n (int tot - c) (sv_world s1) = ((0, []), w)" using call by (simp only: True cnt)
      from poll_waits [OF this \<open>prepared (sv_world s1) \<noteq> {}\<close>] s2(5) True
      have "patience (sv_world s2) < patience (sv_world s1)" by simp
      moreover from s2(3) tot cnt have "card (dom (sv_pending s2)) = card (dom (sv_pending s1))" by linarith
      ultimately show ?thesis by blast
    next
      case False
      with poll [OF call] have "cnt > 0" by simp
      with s2(3) tot show ?thesis by linarith
    qed
    with s2 acc show ?thesis
      by (simp add: st wait_step_def P_def size_of_def)
  qed
  obtain cnt completed w where call: "sendPollNdb A n (int tot) (sv_world s) = ((cnt, completed), w)"
    by (metis surj_pair)
  from polled_accounts [where call = "sendPollNdb A n (int tot)" and s = s and L = L and c = 0 and tot = tot,
    OF assms(1) _ call send_poll [OF call]] assms(2) obtain s0 where
    s0: "polled L A (sendPollNdb A n (int tot)) 0 s = Some (Inr (cnt, s0))"
    and start: "P (Some (Inr (cnt, s0)))"
    by (auto simp: P_def)
  have "wf {(t, u). (P u \<and> wait_continues (int tot) u) \<and> t = ?step u}"
    by (rule wf_subset [of "inv_image (less_than <*lex*> less_than) size_of"])
      (use step in \<open>auto simp: in_inv_image\<close>)
  from wf_while_option_Some [OF this _ start] step obtain final where
    final: "while_option (wait_continues (int tot)) ?step (Some (Inr (cnt, s0))) = Some final"
    by blast
  from while_option_rule [where P = P, OF _ final start] step obtain c s1 where
    st: "final = Some (Inr (c, s1))" and s1: "settled n s1"
    and tot: "int tot = c + int (card (dom (sv_pending s1)))" and acc: "accounted s1 = accounted s"
    unfolding P_def by blast
  from while_option_stop [OF final] st tot have "card (dom (sv_pending s1)) = 0"
    by (simp add: wait_continues_def)
  with settledD(1) [OF s1] have "sv_pending s1 = Map.empty" by simp
  with True st s1 acc final show ?thesis
    by (simp add: waitForTransactionsToComplete_def s0)
qed

section \<open>A batch\<close>

lemma executeTuples_account:
  assumes "settled n s" "tot = card (dom (sv_pending s))" "tot < 1024" "list_all (safe_tuple A) tuples"
  shows "\<exists>total1 s1. executeTuples L A n tuples tot s = Some (Inr (total1, s1)) \<and> settled n s1 \<and>
    total1 = card (dom (sv_pending s1)) \<and> total1 < 1024 \<and>
    accounted s1 = accounted s + \<Sum>\<^sub># (mset (map expected_replies tuples))"
  using assms
proof (induction tuples arbitrary: tot s)
  case Nil
  then show ?case by simp
next
  case (Cons tuple tuples)
  then have safe: "safe_tuple A tuple" "list_all (safe_tuple A) tuples" by simp_all
  from executeTuple_accounts [OF Cons.prems(1) safe(1), of L] obtain b s1 where
    exec: "executeTuple L A n tuple s = Inr (b, s1)" and s1: "settled n s1"
    and card: "card (dom (sv_pending s1)) = tot + (if b then 1 else 0)"
    and acc: "accounted s1 = accounted s + expected_replies tuple"
    using Cons.prems(2) by blast
  show ?case
  proof (cases "b \<and> tot + 1 = 1024")
    case True
    with card have "tot + 1 = card (dom (sv_pending s1))" by simp
    from wait_accounts [OF s1 this, of L] obtain s2 where
      wait: "waitForTransactionsToComplete L A n (tot + 1) s1 = Some (Inr s2)" and s2: "settled n s2"
        "sv_pending s2 = Map.empty" "accounted s2 = accounted s1"
      by blast
    from Cons.IH [OF s2(1) _ _ safe(2), of 0] s2(2) obtain total3 s3 where
      "executeTuples L A n tuples 0 s2 = Some (Inr (total3, s3))" "settled n s3"
      "total3 = card (dom (sv_pending s3))" "total3 < 1024"
      "accounted s3 = accounted s2 + \<Sum>\<^sub># (mset (map expected_replies tuples))"
      by auto
    with True exec wait s2(3) acc show ?thesis by (simp add: ac_simps)
  next
    case False
    let ?tot = "tot + (if b then 1 else 0)"
    from False Cons.prems(3) have "?tot < 1024" by auto
    from Cons.IH [OF s1 card [symmetric] this safe(2)] obtain total3 s3 where
      rest: "executeTuples L A n tuples ?tot s1 = Some (Inr (total3, s3))" "settled n s3"
      "total3 = card (dom (sv_pending s3))" "total3 < 1024"
      "accounted s3 = accounted s1 + \<Sum>\<^sub># (mset (map expected_replies tuples))"
      by blast
    from False have "executeTuples L A n (tuple # tuples) tot s = executeTuples L A n tuples ?tot s1"
      using exec by (cases b) auto
    with rest acc show ?thesis by (simp add: ac_simps)
  qed
qed

lemma executeLists_account:
  assumes "settled n s" "tot = card (dom (sv_pending s))" "tot < 1024"
    "list_all (list_all (safe_tuple A)) tasks"
  shows "\<exists>total1 s1. executeLists L A n tasks tot s = Some (Inr (total1, s1)) \<and> settled n s1 \<and>
    total1 = card (dom (sv_pending s1)) \<and> total1 < 1024 \<and>
    accounted s1 = accounted s + \<Sum>\<^sub># (mset (map expected_replies (concat tasks)))"
  using assms
proof (induction tasks arbitrary: tot s)
  case Nil
  then show ?case by simp
next
  case (Cons task tasks)
  then have safe: "list_all (safe_tuple A) task" "list_all (list_all (safe_tuple A)) tasks" by simp_all
  from executeTuples_account [OF Cons.prems(1-3) safe(1), of L] obtain total1 s1 where
    first: "executeTuples L A n task tot s = Some (Inr (total1, s1))" and s1: "settled n s1"
      "total1 = card (dom (sv_pending s1))" "total1 < 1024"
    and acc: "accounted s1 = accounted s + \<Sum>\<^sub># (mset (map expected_replies task))"
    by blast
  from Cons.IH [OF s1 safe(2)] first acc show ?case by (auto simp: ac_simps)
qed

lemma executeBatch_accounts:
  assumes "settled n s" "sv_pending s = Map.empty" "list_all (list_all (safe_tuple A)) tasks"
  shows "\<exists>s1. executeBatch L A n tasks s = Some (Inr s1) \<and> settled n s1 \<and> sv_pending s1 = Map.empty \<and>
    answered s1 = answered s + \<Sum>\<^sub># (mset (map expected_replies (concat tasks)))"
proof -
  have none: "accounted s2 = answered s2" if "sv_pending s2 = Map.empty" for s2 :: "'w server"
    using that by (simp add: accounted_def outstanding_def)
  from executeLists_account [OF assms(1) _ _ assms(3), of 0 L] assms(2) obtain total1 s1 where
    tasks: "executeLists L A n tasks 0 s = Some (Inr (total1, s1))" and s1: "settled n s1"
      "total1 = card (dom (sv_pending s1))"
    and acc: "accounted s1 = accounted s + \<Sum>\<^sub># (mset (map expected_replies (concat tasks)))"
    by auto
  show ?thesis
  proof (cases "total1 > 0")
    case True
    from wait_accounts [OF s1, of L] True tasks acc none assms(2) show ?thesis
      by (fastforce simp: executeBatch_def)
  next
    case False
    with s1 settledD(1) [OF s1(1)] have "sv_pending s1 = Map.empty" by simp
    with False tasks acc none assms(2) s1 show ?thesis by (auto simp: executeBatch_def)
  qed
qed

lemma idle_settled: "executor_idle A prepared n s \<longleftrightarrow> settled n s \<and> sv_pending s = Map.empty"
  by (auto simp: executor_idle_def settled_def pending_ok_def)

end

end
