(* ===== verification/ExecutorProperties.thy ===== *)
theory ExecutorProperties
  imports BatchAccounting Columns ProtoReference
begin

text \<open>
  The properties of the server's executor as a whole: every request is answered, never more than
  1024 transactions are under way, a transaction is committed with all of its operations or not at
  all, and what the client is told of it.
\<close>

section \<open>Sample requests\<close>

definition sample_key :: "bytes \<Rightarrow> column_value" where
  "sample_key name =
     ColumnValue_set_value ''0001'' (ColumnValue_set_distribution_key True (ColumnValue_set_name name ColumnValue_new))"

definition sample_row :: message where
  "sample_row =
     SetMessage (SetPrimaryKeys SetOperation_add_primary_key
       (SetOperation_add_store_info (StoreInfo_set_store_name ''orders'') SetOperation_new)
       [sample_key ''customer'', sample_key ''number''])"

definition sample_read :: message where
  "sample_read =
     GetMessage (GetOperation_add_store_info (StoreInfo_set_store_name ''orders'') GetOperation_new)"

definition sample_requests :: "frame_messages_tuple list list" where
  "sample_requests =
     [[(''t1'', ''c1'', [sample_row, sample_read])],
      [(''t2'', ''c2'', [DropStoreMessage DropStoreOperation_new]), (''t3'', ''c1'', [sample_row])]]"

lemmas sample_request_eval = sample_requests_def sample_row_def sample_read_def sample_key_def
  SetPrimaryKeys_def accessors SetOperation_new_def GetOperation_new_def StoreInfo_new_def
  ColumnValue_new_def

lemma sample_requests_safe: "list_all (list_all (safe_tuple ref_cluster_api)) sample_requests"
  by (simp add: sample_request_eval safe_tuple_def homogeneous_def safe_message_def get_safe_def)

lemma sample_tables_real: "cache_real ref_cluster_api sample_tables"
  by (auto simp: cache_real_def sample_tables_def table_named_def ref_cluster_api_def c_str_def ref_tables_def
      split: if_splits)

lemma server_start_idle: "executor_idle ref_cluster_api (\<lambda>w. set (rc_prepared w)) n server_start"
  using sample_tables_real
  by (simp add: executor_idle_def server_start_def ref_cluster_start_def TestStats_initial_def stats_ready_def)

section \<open>Every request is answered\<close>

text \<open>
  C3: a batch of task lists always runs to its end, whatever the cluster answers, with no
  transaction left under way, and the clients answered (or recorded as not answerable because the
  reply could not be serialised) are exactly one per definition operation and one per manipulation
  request, over all tuples of all lists.
\<close>

theorem batch_answers_all:
  assumes "ndb_cluster A prepared patience rowsLeft"
    and "executor_idle A prepared threadNo s" "list_all (list_all (safe_tuple A)) taskLists"
  shows "\<exists>s1. executeBatch L A threadNo taskLists s = Some (Inr s1) \<and> executor_idle A prepared threadNo s1 \<and>
    answered s1 = answered s + \<Sum>\<^sub># (mset (map expected_replies (concat taskLists)))"
  using ndb_cluster.executeBatch_accounts [OF assms(1) _ _ assms(3)] assms(2)
  unfolding ndb_cluster.idle_settled [OF assms(1)] by blast

theorem batch_answers_all_witness:
  "\<exists>s1. executeBatch ref_lib ref_cluster_api 0 sample_requests server_start = Some (Inr s1) \<and>
    executor_idle ref_cluster_api (\<lambda>w. set (rc_prepared w)) 0 s1 \<and>
    answered s1 = answered server_start + \<Sum>\<^sub># (mset (map expected_replies (concat sample_requests)))"
  by (rule batch_answers_all [OF reference_cluster.ndb_cluster_axioms server_start_idle sample_requests_safe])

text \<open>
  C11: however many transactions a task list holds, fewer than 1024 are under way whenever the next
  one is taken: the counter of the loop is the number of prepared transactions, and each of these
  has its callback state.
\<close>

theorem outstanding_bounded:
  assumes "ndb_cluster A prepared patience rowsLeft"
    and "executor_idle A prepared threadNo s" "list_all (safe_tuple A) tuples"
  shows "\<exists>k s1. executeTuples L A threadNo tuples 0 s = Some (Inr (k, s1)) \<and> k < 1024 \<and>
    dom (sv_pending s1) = prepared (sv_world s1) \<and> card (prepared (sv_world s1)) = k"
proof -
  from assms(2) have "ndb_cluster.settled A prepared threadNo s" and none: "sv_pending s = Map.empty"
    unfolding ndb_cluster.idle_settled [OF assms(1)] by blast+
  moreover from none have "0 = card (dom (sv_pending s))" by simp
  ultimately obtain k s1 where
    "executeTuples L A threadNo tuples 0 s = Some (Inr (k, s1))" "ndb_cluster.settled A prepared threadNo s1"
    "k = card (dom (sv_pending s1))" "k < 1024"
    using ndb_cluster.executeTuples_account [OF assms(1) _ _ _ assms(3), where L = L] by fastforce
  then show ?thesis using ndb_cluster.settledD(2) [OF assms(1), of threadNo s1] by auto
qed

theorem outstanding_bounded_witness:
  "\<exists>k s1. executeTuples ref_lib ref_cluster_api 0 (concat sample_requests) 0 server_start = Some (Inr (k, s1)) \<and>
    k < 1024 \<and> dom (sv_pending s1) = set (rc_prepared (sv_world s1)) \<and>
    card (set (rc_prepared (sv_world s1))) = k"
  by (rule outstanding_bounded [OF reference_cluster.ndb_cluster_axioms server_start_idle])
    (use sample_requests_safe in \<open>simp add: list_all_iff\<close>)

section \<open>All or nothing\<close>

lemma executeMessages_types:
  assumes "executeMessages L A n tid ident messages transaction operations s = Inr (Some t, operations1, s1)"
    and "list_all (\<lambda>m. \<not> isDefinitionFrame m) messages"
  shows "map to_type operations1 = map to_type operations @ map getFrameType messages"
  using assms
proof (induction messages arbitrary: transaction operations s)
  case Nil
  then show ?case by simp
next
  case (Cons m messages)
  from Cons.prems obtain transaction1 r s2 where
    exec: "executeManipulation A n m transaction s = Inr (transaction1, r, s2)"
    by (auto simp: bind_result_Inr_iff)
  show ?case
  proof (cases r)
    case None
    with Cons.prems exec show ?thesis
      by (auto simp: bind_result_Inr_iff Let_def split: prod.splits)
  next
    case (Some o1)
    obtain op columns where "o1 = (op, columns)" by (cases o1)
    with Some Cons exec show ?thesis by fastforce
  qed
qed

context ndb_cluster
begin

lemma executeTuple_commit:
  assumes "safe_tuple A (tid, ident, messages)" "list_all (\<lambda>m. \<not> isDefinitionFrame m) messages" "messages \<noteq> []"
    and "cache_real A (sv_cache s)"
  shows "\<exists>b s1. executeTuple L A n (tid, ident, messages) s = Inr (b, s1) \<and>
    (if b then \<exists>t state. sv_pending s1 = (sv_pending s)(t \<mapsto> state) \<and> t \<notin> prepared (sv_world s) \<and>
        prepared (sv_world s1) = insert t (prepared (sv_world s)) \<and>
        ts_transaction state = t \<and> ts_transactionID state = tid \<and> ts_identifier state = ident \<and>
        map to_type (ts_operations state) = map getFrameType messages \<and> answered s1 = answered s
     else sv_pending s1 = sv_pending s \<and> prepared (sv_world s1) = prepared (sv_world s) \<and>
        answered s1 = add_mset ident (answered s))"
proof -
  from assms(1) have safe: "list_all (safe_message A) messages" by (simp add: safe_tuple_def)
  from executeMessages_manipulations [OF assms(2) safe, of None s n "[]" L tid ident] obtain tr ops s1 where
    exec: "executeMessages L A n tid ident messages None [] s = Inr (tr, ops, s1)"
    and w: "same_work s s1" and f: "fresh tr s1"
    and out: "if tr = None then answered s1 = add_mset ident (answered s) else answered s1 = answered s"
    using assms(3,4) by (auto simp: fresh_def split: if_splits)
  show ?thesis
  proof (cases tr)
    case None
    then have "executeTuple L A n (tid, ident, messages) s = Inr (False, s1)"
      by (simp add: executeTuple_def exec)
    with None w out show ?thesis by (auto simp: same_work_def)
  next
    case (Some t)
    with executeMessages_types [OF _ assms(2), of L A n tid ident None "[]" s t ops s1] exec
    have "map to_type ops = map getFrameType messages" by simp
    moreover obtain state where state: "state =
      \<lparr>ts_transaction = t, ts_transactionID = tid, ts_identifier = ident, ts_operations = ops\<rparr>" by blast
    moreover obtain s2 where s2: "s2 = s1\<lparr>sv_world := executeAsynchPrepare A t (sv_world s1),
      sv_pending := (sv_pending s1)(t \<mapsto> state)\<rparr>" by blast
    moreover have "executeTuple L A n (tid, ident, messages) s = Inr (True, s2)"
      by (simp add: executeTuple_def exec Some s2 state)
    moreover have "sv_pending s2 = (sv_pending s)(t \<mapsto> state)" "t \<notin> prepared (sv_world s)"
      "prepared (sv_world s2) = insert t (prepared (sv_world s))" "answered s2 = answered s"
      using w f out Some by (simp_all add: s2 same_work_def fresh_def prepare answered_def)
    moreover have "ts_transaction state = t" "ts_transactionID state = tid" "ts_identifier state = ident"
      "ts_operations state = ops"
      by (simp_all add: state)
    ultimately have "executeTuple L A n (tid, ident, messages) s = Inr (True, s2) \<and>
      (\<exists>t state. sv_pending s2 = (sv_pending s)(t \<mapsto> state) \<and> t \<notin> prepared (sv_world s) \<and>
        prepared (sv_world s2) = insert t (prepared (sv_world s)) \<and>
        ts_transaction state = t \<and> ts_transactionID state = tid \<and> ts_identifier state = ident \<and>
        map to_type (ts_operations state) = map getFrameType messages \<and> answered s2 = answered s)"
      by metis
    then show ?thesis by (intro exI [of _ True] exI [of _ s2]) simp
  qed
qed

end

text \<open>
  A request of manipulation operations is either prepared for commit, with one operation for
  every message in the order of the messages and no reply yet, or nothing of it is prepared and the
  client gets exactly one reply.
\<close>

lemma request_all_or_nothing:
  assumes "ndb_cluster A prepared patience rowsLeft"
    and "safe_tuple A (tid, ident, messages)" "list_all (\<lambda>m. \<not> isDefinitionFrame m) messages"
    and "messages \<noteq> []" "cache_real A (sv_cache s)"
  shows "\<exists>b s1. executeTuple L A threadNo (tid, ident, messages) s = Inr (b, s1) \<and>
    (if b then \<exists>t state. sv_pending s1 = (sv_pending s)(t \<mapsto> state) \<and> t \<notin> prepared (sv_world s) \<and>
        prepared (sv_world s1) = insert t (prepared (sv_world s)) \<and>
        ts_transaction state = t \<and> ts_transactionID state = tid \<and> ts_identifier state = ident \<and>
        map to_type (ts_operations state) = map getFrameType messages \<and> answered s1 = answered s
     else sv_pending s1 = sv_pending s \<and> prepared (sv_world s1) = prepared (sv_world s) \<and>
        answered s1 = add_mset ident (answered s))"
  by (rule ndb_cluster.executeTuple_commit [OF assms])

lemma request_all_or_nothing_witness:
  "\<exists>b s1. executeTuple ref_lib ref_cluster_api 0 (''t1'', ''c1'', [sample_row, sample_read]) server_start = Inr (b, s1) \<and>
    (if b then \<exists>t state. sv_pending s1 = (sv_pending server_start)(t \<mapsto> state) \<and>
        t \<notin> set (rc_prepared (sv_world server_start)) \<and>
        set (rc_prepared (sv_world s1)) = insert t (set (rc_prepared (sv_world server_start))) \<and>
        ts_transaction state = t \<and> ts_transactionID state = ''t1'' \<and> ts_identifier state = ''c1'' \<and>
        map to_type (ts_operations state) = map getFrameType [sample_row, sample_read] \<and>
        answered s1 = answered server_start
     else sv_pending s1 = sv_pending server_start \<and>
        set (rc_prepared (sv_world s1)) = set (rc_prepared (sv_world server_start)) \<and>
        answered s1 = add_mset ''c1'' (answered server_start))"
  by (rule request_all_or_nothing [OF reference_cluster.ndb_cluster_axioms])
    (use server_start_idle in \<open>simp_all add: sample_request_eval safe_tuple_def homogeneous_def safe_message_def get_safe_def
      executor_idle_def\<close>)

section \<open>What a scan reads\<close>

text \<open>
  The rows a scan is meant to read: one call of \<open>nextResult\<close> after the other, a row for each that
  returns 0, until one returns something else; 1 is the end of the rows, -1 an error.
\<close>

inductive scan_reads ::
  "'w ndb_api \<Rightarrow> ndb_operation \<Rightarrow> ndb_rec_attr list \<Rightarrow> 'w \<Rightarrow> row list \<Rightarrow> int \<Rightarrow> 'w \<Rightarrow> bool"
  for A :: "'w ndb_api" and operation :: ndb_operation and columns :: "ndb_rec_attr list" where
  stop: "nextResult A operation w = (res, w1) \<Longrightarrow> res \<noteq> 0 \<Longrightarrow> scan_reads A operation columns w [] res w1"
| more: "nextResult A operation w = (0, w1) \<Longrightarrow> addColumns A w1 columns Row_new = Inr r \<Longrightarrow>
    scan_reads A operation columns w1 rows res w2 \<Longrightarrow>
    scan_reads A operation columns w (r # rows) res w2"

inductive_cases scan_stopE: "scan_reads A operation columns w [] res w1"
inductive_cases scan_moreE: "scan_reads A operation columns w (r # rows) res w1"

lemma addRecordToResult_iff:
  "addRecordToResult A w opr columns = Inr opr1 \<longleftrightarrow>
    (\<exists>r. addColumns A w columns Row_new = Inr r \<and> opr1 = opr\<lparr>opr_row := opr_row opr @ [r]\<rparr>)"
  by (auto simp: addRecordToResult_def bind_result_Inr_iff accessors)

text \<open>The loop computes what the relation describes, whatever the last call returned.\<close>

lemma scan_loop:
  assumes "while_option scan_continues (scan_step A operation columns) (Inr (res, w1, opr)) =
      Some (Inr (res2, w2, opr2))"
    and "nextResult A operation w = (res, w1)"
  shows "\<exists>rows. scan_reads A operation columns w rows res2 w2 \<and>
    opr2 = opr\<lparr>opr_row := opr_row opr @ rows\<rparr>"
proof -
  let ?before = "\<lambda>st. \<forall>res1 w1 opr1. st = Inr (res1, w1, opr1) \<longrightarrow>
    (\<exists>rows0 w0. nextResult A operation w0 = (res1, w1) \<and>
      opr1 = opr\<lparr>opr_row := opr_row opr @ rows0\<rparr> \<and>
      (\<forall>rows res3 w3. scan_reads A operation columns w0 rows res3 w3 \<longrightarrow>
        scan_reads A operation columns w (rows0 @ rows) res3 w3))"
  have step: "?before (scan_step A operation columns st)" if "?before st" "scan_continues st" for st
  proof (intro allI impI)
    fix res4 w4 opr4
    assume step: "scan_step A operation columns st = Inr (res4, w4, opr4)"
    with that(2) obtain w3 opr3 where st: "st = Inr (0, w3, opr3)"
      by (auto simp: scan_continues_def split: sum.splits prod.splits)
    with that(1) obtain rows0 w0 where w0: "nextResult A operation w0 = (0, w3)"
      and rows0: "opr3 = opr\<lparr>opr_row := opr_row opr @ rows0\<rparr>"
      and reads: "\<And>rows res3 w3. scan_reads A operation columns w0 rows res3 w3 \<Longrightarrow>
        scan_reads A operation columns w (rows0 @ rows) res3 w3"
      by blast
    obtain res5 w5 where call: "nextResult A operation w3 = (res5, w5)" by (metis surj_pair)
    from step obtain r where r: "addColumns A w3 columns Row_new = Inr r"
      and opr4: "opr4 = opr3\<lparr>opr_row := opr_row opr3 @ [r]\<rparr>" and w4: "nextResult A operation w3 = (res4, w4)"
      unfolding st by (auto simp: scan_step_def call bind_result_Inr_iff addRecordToResult_iff)
    show "\<exists>rows0 w0. nextResult A operation w0 = (res4, w4) \<and>
      opr4 = opr\<lparr>opr_row := opr_row opr @ rows0\<rparr> \<and>
      (\<forall>rows res3 w3. scan_reads A operation columns w0 rows res3 w3 \<longrightarrow>
        scan_reads A operation columns w (rows0 @ rows) res3 w3)"
      by (intro exI [of _ "rows0 @ [r]"] exI [of _ w3])
        (use w4 opr4 rows0 reads [OF more [OF w0 r]] in simp)
  qed
  have "?before (Inr (res, w1, opr))"
    using assms(2) by (auto intro!: exI [of _ "[]"] exI [of _ w])
  from while_option_rule [where P = ?before, OF step assms(1) this] obtain rows0 w0 where
    "nextResult A operation w0 = (res2, w2)" "opr2 = opr\<lparr>opr_row := opr_row opr @ rows0\<rparr>"
    "\<And>rows res3 w3. scan_reads A operation columns w0 rows res3 w3 \<Longrightarrow>
      scan_reads A operation columns w (rows0 @ rows) res3 w3"
    by blast
  moreover have "res2 \<noteq> 0"
    using while_option_stop [OF assms(1)] by (simp add: scan_continues_def)
  ultimately show ?thesis using stop [of A operation w0 res2 w2 columns] by (metis append_Nil2)
qed

lemma scan_rows_reads:
  assumes "scan_rows A operation columns opr w = Some (Inr (opr1, w1))"
  shows "\<exists>rows res. scan_reads A operation columns w rows res w1 \<and>
    opr1 = opr\<lparr>opr_row := opr_row opr @ rows\<rparr>"
  using assms scan_loop [of A operation columns]
  by (fastforce simp: scan_rows_def split: prod.splits option.splits sum.splits)

text \<open>
  C25: reading a scan always ends, and its result holds exactly one row per call of \<open>nextResult\<close>
  that returned 0, in their order. What the last call returned is not looked at: an error (-1)
  leaves the same result as the end of the rows.
\<close>

theorem scan_rows_complete:
  assumes "ndb_cluster A prepared patience rowsLeft"
  shows "\<exists>rows res w1. scan_reads A operation columns w rows res w1 \<and> res \<noteq> 0 \<and>
    scan_rows A operation columns opr w = Some (Inr (opr\<lparr>opr_row := opr_row opr @ rows\<rparr>, w1))"
proof -
  obtain opr1 w1 where scan: "scan_rows A operation columns opr w = Some (Inr (opr1, w1))"
    using ndb_cluster.scan_rows_total [OF assms] by blast
  have "res \<noteq> 0" if "scan_reads A operation columns w rows res w2" for rows res w2
    using that by induction simp_all
  with scan_rows_reads [OF scan] scan show ?thesis by blast
qed

theorem scan_rows_complete_witness:
  "\<exists>rows res w1. scan_reads ref_cluster_api 3 [0, 1] (ref_cluster_start\<lparr>rc_scans := [(3, 2)]\<rparr>) rows res w1 \<and>
    res \<noteq> 0 \<and>
    scan_rows ref_cluster_api 3 [0, 1] OperationResult_new (ref_cluster_start\<lparr>rc_scans := [(3, 2)]\<rparr>) =
      Some (Inr (OperationResult_new\<lparr>opr_row := opr_row OperationResult_new @ rows\<rparr>, w1))"
  by (rule scan_rows_complete [OF reference_cluster.ndb_cluster_axioms])

section \<open>What the client is told\<close>

lemma operation_outcome_type:
  "operation_outcome A info w = Some (Inr (opr, w1)) \<Longrightarrow> opr_type opr = Some (to_type info)"
  by (auto simp: operation_outcome_def Let_def accessors addRecordToResult_iff dest!: scan_rows_reads
      split: if_splits option.splits sum.splits)

lemma collect_operations_results:
  assumes "collect_operations A infos r w = Some (Inr (r1, w1))"
  shows "rs_transaction_identifier r1 = rs_transaction_identifier r \<and> rs_error_code r1 = rs_error_code r \<and>
    rs_error_description r1 = rs_error_description r \<and>
    map opr_type (rs_result r1) = map opr_type (rs_result r) @ map (\<lambda>info. Some (to_type info)) infos"
  using assms
proof (induction infos arbitrary: r w)
  case Nil
  then show ?case by simp
next
  case (Cons info infos)
  then obtain opr w2 where outcome: "operation_outcome A info w = Some (Inr (opr, w2))"
    and rest: "collect_operations A infos (Result_add_result (\<lambda>_. opr) r) w2 = Some (Inr (r1, w1))"
    by (auto simp: bind_run_Some_Inr_iff)
  from Cons.IH [OF rest] operation_outcome_type [OF outcome] show ?case by (simp add: accessors)
qed

lemma reply_same:
  assumes "replyWithResult L r ident s1 = Inr (b, s2)" "sv_sent s1 = sv_sent s" "sv_unsent s1 = sv_unsent s"
  shows "\<exists>s3. replyWithResult L r ident s = Inr (b, s3) \<and> sv_sent s2 = sv_sent s3 \<and> sv_unsent s2 = sv_unsent s3"
proof -
  obtain bytes frameID where "getBytesOfFrameWithMessage L (ResultMessage r) = Inr (bytes, frameID)"
    by (simp add: getBytesOfFrameWithMessage_def addFrame_def Let_def)
  with assms show ?thesis by (cases bytes) (auto simp: replyWithResult_def)
qed

text \<open>
  C10: when NDB calls back, the transaction is no longer under way and its client is sent one result
  with the identifier of the transaction: after a failed execution NDB's message and code and no
  operation results, otherwise no error and one operation result of the right type for every
  operation, in order.
\<close>

theorem callback_reports:
  assumes "ndb_cluster A prepared patience rowsLeft"
    and "pending_ok threadNo s" "sv_pending s t = Some state"
  shows "\<exists>r s1 b s2. ndbExecuteCallback L A res t s = Some (Inr s1) \<and>
    sv_pending s1 = (sv_pending s)(t := None) \<and>
    replyWithResult L r (ts_identifier state) s = Inr (b, s2) \<and>
    sv_sent s1 = sv_sent s2 \<and> sv_unsent s1 = sv_unsent s2 \<and>
    rs_transaction_identifier r = Some (ts_transactionID state) \<and>
    (if res = -1 then
       rs_error_description r = Some (errorMessage A t (sv_world s)) \<and>
       rs_error_code r = Some (errorCode A t (sv_world s)) \<and> rs_result r = []
     else
       rs_error_description r = None \<and> rs_error_code r = None \<and>
       map opr_type (rs_result r) = map (\<lambda>info. Some (to_type info)) (ts_operations state))"
proof -
  from ndb_cluster.callback_accounts [OF assms] obtain s1 where
    call: "ndbExecuteCallback L A res t s = Some (Inr s1)" and pending: "sv_pending s1 = (sv_pending s)(t := None)"
    by blast
  have t: "ts_transaction state = t" using assms(2,3) by (simp add: pending_ok_def)
  show ?thesis
  proof (cases "res = -1")
    case True
    let ?r = "makeResultForError (ts_transactionID state) (errorMessage A t (sv_world s)) (errorCode A t (sv_world s))"
    from call True obtain b where "replyWithResult L ?r (ts_identifier state)
        (s\<lparr>sv_pending := (sv_pending s)(t := None), sv_world := closeTransaction A t (sv_world s)\<rparr>) = Inr (b, s1)"
      by (auto simp: ndbExecuteCallback_def assms(3) t Let_def split: sum.splits)
    from reply_same [OF this, of s] call pending True show ?thesis
      by (intro exI [of _ ?r]) (auto simp: makeResultForError_def accessors Result_new_def)
  next
    case False
    from ndb_cluster.collect_operations_total [OF assms(1), of threadNo "ts_operations state"
        "makeResult (ts_transactionID state)" "sv_world s"] assms(2,3) obtain r w1 where
      col: "collect_operations A (ts_operations state) (makeResult (ts_transactionID state)) (sv_world s) = Some (Inr (r, w1))"
      by (auto simp: pending_ok_def)
    let ?s = "s\<lparr>sv_pending := (sv_pending s)(t := None), sv_world := closeTransaction A t w1\<rparr>"
    obtain b s2 where reply: "replyWithResult L r (ts_identifier state) ?s = Inr (b, s2)"
      using reply_accepted by blast
    from call False obtain stats where s1: "s1 = s2\<lparr>sv_stats := stats\<rparr>"
      by (auto simp: ndbExecuteCallback_def assms(3) t col reply Let_def bind_run_Some_Inr_iff)
    from reply_same [OF reply, of s] collect_operations_results [OF col] call pending False show ?thesis
      by (intro exI [of _ r]) (auto simp: s1 makeResult_def accessors Result_new_def)
  qed
qed

definition sample_state :: transaction_state where
  "sample_state = \<lparr>ts_transaction = 5, ts_transactionID = ''t1'', ts_identifier = ''c1'',
     ts_operations = [\<lparr>to_type = FrameItem_Type_GET, to_operation = 3, to_columns = Some [0, 1], to_thread = 0\<rparr>]\<rparr>"

theorem callback_reports_witness:
  "let s = server_start\<lparr>sv_pending := [5 \<mapsto> sample_state]\<rparr> in
   \<exists>r s1 b s2. ndbExecuteCallback ref_lib ref_cluster_api 0 5 s = Some (Inr s1) \<and>
    sv_pending s1 = (sv_pending s)(5 := None) \<and>
    replyWithResult ref_lib r ''c1'' s = Inr (b, s2) \<and>
    sv_sent s1 = sv_sent s2 \<and> sv_unsent s1 = sv_unsent s2 \<and>
    rs_transaction_identifier r = Some ''t1'' \<and>
    rs_error_description r = None \<and> rs_error_code r = None \<and>
    map opr_type (rs_result r) = [Some FrameItem_Type_GET]"
proof -
  let ?s = "server_start\<lparr>sv_pending := [5 \<mapsto> sample_state]\<rparr>"
  have "pending_ok 0 ?s"
    using server_start_idle by (simp add: executor_idle_def pending_ok_def sample_state_def operation_ok_def)
  from callback_reports [OF reference_cluster.ndb_cluster_axioms this, of 5 sample_state ref_lib 0]
  show ?thesis by (simp add: Let_def sample_state_def)
qed

end
