(* ===== verification/RowStore.thy ===== *)
theory RowStore
  imports NdbApi
begin

text \<open>
  What the rows of a cluster are and what the operations defined on a transaction do to them,
  independent of the library that keeps them. A row is a map from column names to bytes, a table a map
  from the values of the key columns to rows. The executor of the server is shown to refine this in
  \<open>RowRefinement\<close>.
\<close>

section \<open>Operations on rows\<close>

type_synonym db_row = "bytes \<rightharpoonup> bytes"
type_synonym db_rows = "bytes \<Rightarrow> (bytes \<rightharpoonup> bytes) \<rightharpoonup> db_row"

datatype row_access = ByKey | ByIndex bytes | ByFilter
datatype row_intent = Undecided | WriteRow | EraseRow | ReadRows

text \<open>
  One operation: how it reaches its rows and what it does with them, its conditions on columns by
  name (\<open>equal\<close>) and by number (the scan filter), the values to write and the columns to read.
\<close>

record row_plan =
  rp_access :: row_access
  rp_table :: bytes
  rp_intent :: row_intent
  rp_keys :: "(bytes \<times> bytes) list"
  rp_values :: "(bytes \<times> bytes) list"
  rp_filter :: "(nat \<times> bytes) list"
  rp_columns :: "nat list"

definition new_plan :: "row_access \<Rightarrow> bytes \<Rightarrow> row_plan" where
  "new_plan access table =
     \<lparr>rp_access = access, rp_table = table, rp_intent = Undecided, rp_keys = [], rp_values = [],
      rp_filter = [], rp_columns = []\<rparr>"

definition with_key :: "bytes \<Rightarrow> bytes \<Rightarrow> row_plan \<Rightarrow> row_plan" where
  "with_key name v p = p\<lparr>rp_keys := rp_keys p @ [(name, v)]\<rparr>"

definition with_value :: "bytes \<Rightarrow> bytes \<Rightarrow> row_plan \<Rightarrow> row_plan" where
  "with_value name v p = p\<lparr>rp_values := rp_values p @ [(name, v)]\<rparr>"

definition with_condition :: "nat \<Rightarrow> bytes \<Rightarrow> row_plan \<Rightarrow> row_plan" where
  "with_condition i v p = p\<lparr>rp_filter := rp_filter p @ [(i, v)]\<rparr>"

definition with_column :: "nat \<Rightarrow> row_plan \<Rightarrow> row_plan" where
  "with_column i p = p\<lparr>rp_columns := rp_columns p @ [i]\<rparr>"

text \<open>Writing a row replaces the values given and keeps the others; the last value of a column counts.\<close>

definition written_row :: "row_plan \<Rightarrow> db_row option \<Rightarrow> db_row" where
  "written_row p old =
     (case old of None \<Rightarrow> Map.empty | Some row \<Rightarrow> row) ++ map_of (rev (rp_values p)) ++ map_of (rp_keys p)"

definition put_row :: "bytes \<Rightarrow> (bytes \<rightharpoonup> bytes) \<Rightarrow> db_row option \<Rightarrow> db_rows \<Rightarrow> db_rows" where
  "put_row table key row rows = rows(table := (rows table)(key := row))"

definition selected :: "(nat \<Rightarrow> bytes) \<Rightarrow> row_plan \<Rightarrow> db_row \<Rightarrow> bool" where
  "selected names p row \<longleftrightarrow>
     list_all (\<lambda>(name, v). row name = Some v) (rp_keys p) \<and>
     list_all (\<lambda>(i, v). row (names i) = Some v) (rp_filter p)"

text \<open>
  The rows an operation finds and the rows of the tables after it. Erasing or reading by key needs the
  row to exist; a scan finds the selected rows in some order.
\<close>

definition performs ::
  "(nat \<Rightarrow> bytes) \<Rightarrow> row_plan \<Rightarrow> db_rows \<Rightarrow> db_row list \<Rightarrow> db_rows \<Rightarrow> bool" where
  "performs names p rows found rows1 \<longleftrightarrow>
     (let table = rp_table p; key = map_of (rp_keys p) in
      case rp_intent p of
        Undecided \<Rightarrow> False
      | WriteRow \<Rightarrow> found = [] \<and> rows1 = put_row table key (Some (written_row p (rows table key))) rows
      | EraseRow \<Rightarrow> found = [] \<and> rows table key \<noteq> None \<and> rows1 = put_row table key None rows
      | ReadRows \<Rightarrow>
          rows1 = rows \<and>
          (if rp_access p = ByKey then \<exists>row. rows table key = Some row \<and> found = [row]
           else \<exists>keys. distinct keys \<and>
             set keys = {k. \<exists>row. rows table k = Some row \<and> selected names p row} \<and>
             found = map (\<lambda>k. the (rows table k)) keys))"

fun performs_all ::
  "(bytes \<Rightarrow> nat \<Rightarrow> bytes) \<Rightarrow> row_plan list \<Rightarrow> db_rows \<Rightarrow> db_row list list \<Rightarrow> db_rows \<Rightarrow> bool" where
  "performs_all names [] rows founds rows1 \<longleftrightarrow> founds = [] \<and> rows1 = rows"
| "performs_all names (p # plans) rows founds rows1 \<longleftrightarrow>
     (\<exists>found founds2 rows2. founds = found # founds2 \<and> performs (names (rp_table p)) p rows found rows2 \<and>
        performs_all names plans rows2 founds2 rows1)"

section \<open>Transactions\<close>

text \<open>
  The view of a cluster: its tables and rows, the operations defined on open transactions in order,
  each with its transaction, handle, plan and value records, and per executed operation the rows not
  yet fetched and the one its value records show.
\<close>

type_synonym row_definition = "ndb_transaction \<times> ndb_operation \<times> row_plan \<times> ndb_rec_attr list"

record db_view =
  dv_tables :: "bytes \<rightharpoonup> ndb_table"
  dv_rows :: db_rows
  dv_defs :: "row_definition list"
  dv_left :: "ndb_operation \<Rightarrow> db_row list"
  dv_current :: "ndb_operation \<rightharpoonup> db_row"

definition defs_of :: "ndb_transaction \<Rightarrow> db_view \<Rightarrow> (ndb_operation \<times> row_plan \<times> ndb_rec_attr list) list" where
  "defs_of t v = map snd (filter (\<lambda>d. fst d = t) (dv_defs v))"

definition plans_of :: "ndb_transaction \<Rightarrow> db_view \<Rightarrow> row_plan list" where
  "plans_of t v = map (\<lambda>d. fst (snd d)) (defs_of t v)"

definition open_operations :: "db_view \<Rightarrow> ndb_operation list" where
  "open_operations v = map (\<lambda>(t, op, p, rs). op) (dv_defs v)"

definition open_records :: "db_view \<Rightarrow> ndb_rec_attr list" where
  "open_records v = concat (map (\<lambda>(t, op, p, rs). rs) (dv_defs v))"

text \<open>Handles of open operations and value records are never shared.\<close>

definition view_ok :: "db_view \<Rightarrow> bool" where
  "view_ok v \<longleftrightarrow> distinct (open_operations v) \<and> distinct (open_records v)"

definition add_def :: "ndb_transaction \<Rightarrow> ndb_operation \<Rightarrow> row_plan \<Rightarrow> ndb_rec_attr list \<Rightarrow> db_view \<Rightarrow> db_view" where
  "add_def t op p rs v = v\<lparr>dv_defs := dv_defs v @ [(t, op, p, rs)]\<rparr>"

definition redefine ::
  "ndb_operation \<Rightarrow> (row_plan \<Rightarrow> row_plan) \<Rightarrow> ndb_rec_attr list \<Rightarrow> db_view \<Rightarrow> db_view" where
  "redefine op f new v =
     v\<lparr>dv_defs := map (\<lambda>(t, op1, p, rs). if op1 = op then (t, op1, f p, rs @ new) else (t, op1, p, rs)) (dv_defs v)\<rparr>"

definition forget :: "ndb_transaction \<Rightarrow> db_view \<Rightarrow> db_view" where
  "forget t v = v\<lparr>dv_defs := filter (\<lambda>d. fst d \<noteq> t) (dv_defs v)\<rparr>"

definition deliver :: "ndb_operation \<Rightarrow> row_plan \<Rightarrow> db_row list \<Rightarrow> db_view \<Rightarrow> db_view" where
  "deliver op p found v =
     (if rp_access p = ByKey then
        v\<lparr>dv_left := (dv_left v)(op := []), dv_current := (dv_current v)(op := (case found of [] \<Rightarrow> None | row # _ \<Rightarrow> Some row))\<rparr>
      else v\<lparr>dv_left := (dv_left v)(op := found), dv_current := (dv_current v)(op := None)\<rparr>)"

text \<open>A transaction that is executed performs its operations in the order of their definition.\<close>

fun commits ::
  "(bytes \<Rightarrow> nat \<Rightarrow> bytes) \<Rightarrow> (ndb_operation \<times> row_plan \<times> ndb_rec_attr list) list \<Rightarrow> db_view \<Rightarrow> db_view \<Rightarrow> bool" where
  "commits names [] v v1 \<longleftrightarrow> v1 = v"
| "commits names ((op, p, rs) # defs) v v1 \<longleftrightarrow>
     (\<exists>found rows. performs (names (rp_table p)) p (dv_rows v) found rows \<and>
        commits names defs (deliver op p found (v\<lparr>dv_rows := rows\<rparr>)) v1)"

text \<open>
  What a poll completes: \<open>-1\<close> stands for an aborted transaction, which has no effect; \<open>aborts\<close> says of
  which plans on which rows a transaction may be aborted.
\<close>

fun completes ::
  "(bytes \<Rightarrow> nat \<Rightarrow> bytes) \<Rightarrow> (row_plan list \<Rightarrow> db_rows \<Rightarrow> bool) \<Rightarrow> (int \<times> ndb_transaction) list \<Rightarrow> db_view \<Rightarrow> db_view \<Rightarrow> bool" where
  "completes names aborts [] v v1 \<longleftrightarrow> v1 = v"
| "completes names aborts ((res, t) # completed) v v1 \<longleftrightarrow>
     (\<exists>v2. (if res = -1 then v2 = v \<and> aborts (plans_of t v) (dv_rows v) else commits names (defs_of t v) v v2) \<and>
       completes names aborts completed v2 v1)"

section \<open>Definitions under change\<close>

lemma add_def_simps [simp]:
  "dv_tables (add_def t op p rs v) = dv_tables v" "dv_rows (add_def t op p rs v) = dv_rows v"
  "dv_left (add_def t op p rs v) = dv_left v" "dv_current (add_def t op p rs v) = dv_current v"
  by (simp_all add: add_def_def)

lemma forget_simps [simp]:
  "dv_tables (forget t v) = dv_tables v" "dv_rows (forget t v) = dv_rows v"
  "dv_left (forget t v) = dv_left v" "dv_current (forget t v) = dv_current v"
  by (simp_all add: forget_def)

lemma deliver_simps [simp]:
  "dv_tables (deliver op p found v) = dv_tables v" "dv_rows (deliver op p found v) = dv_rows v"
  "dv_defs (deliver op p found v) = dv_defs v"
  by (simp_all add: deliver_def)

lemma open_operations_iff: "op \<in> set (open_operations v) \<longleftrightarrow> (\<exists>t p rs. (t, op, p, rs) \<in> set (dv_defs v))"
  by (force simp: open_operations_def)

lemma open_records_iff:
  "r \<in> set (open_records v) \<longleftrightarrow> (\<exists>t op p rs. (t, op, p, rs) \<in> set (dv_defs v) \<and> r \<in> set rs)"
  by (force simp: open_records_def)

lemma redefine_added:
  assumes "op \<notin> set (open_operations v)"
  shows "redefine op f new (add_def t op p rs v) = add_def t op (f p) (rs @ new) v"
proof -
  have "map (\<lambda>(t, op1, p, rs). if op1 = op then (t, op1, f p, rs @ new) else (t, op1, p, rs)) (dv_defs v) = dv_defs v"
    by (rule map_idI) (use assms in \<open>auto simp: open_operations_iff\<close>)
  then show ?thesis by (simp add: redefine_def add_def_def)
qed

lemma forget_added [simp]: "forget t (add_def t op p rs v) = forget t v"
  by (simp add: forget_def add_def_def)

lemma defs_of_added: "defs_of u (add_def t op p rs v) = defs_of u v @ (if u = t then [(op, p, rs)] else [])"
  by (simp add: defs_of_def add_def_def)

lemma defs_of_iff: "d \<in> set (defs_of t v) \<longleftrightarrow> (t, d) \<in> set (dv_defs v)"
  by (force simp: defs_of_def)

lemma forget_none: "defs_of t v = [] \<Longrightarrow> forget t v = v"
  by (cases v) (simp add: forget_def defs_of_def filter_empty_conv)

lemma defs_of_forget [simp]: "defs_of u (forget t v) = (if u = t then [] else defs_of u v)"
  by (auto simp: defs_of_def forget_def intro: arg_cong [where f = "map snd"] filter_cong)

lemma open_forget: "set (open_operations (forget t v)) \<subseteq> set (open_operations v)"
  unfolding subset_iff open_operations_iff forget_def by auto

lemma defs_of_open: "(op, p, rs) \<in> set (defs_of t v) \<Longrightarrow> op \<in> set (open_operations v)"
  by (auto simp: defs_of_iff open_operations_iff)

lemma open_added [simp]:
  "open_operations (add_def t op p rs v) = open_operations v @ [op]"
  "open_records (add_def t op p rs v) = open_records v @ rs"
  by (simp_all add: open_operations_def open_records_def add_def_def)

lemma view_ok_added:
  "view_ok (add_def t op p rs v) \<longleftrightarrow>
     view_ok v \<and> op \<notin> set (open_operations v) \<and> distinct rs \<and> set rs \<inter> set (open_records v) = {}"
  by (auto simp: view_ok_def)

lemma distinct_concat_filter: "distinct (concat (map f xs)) \<Longrightarrow> distinct (concat (map f (filter P xs)))"
  by (induction xs) auto

lemma view_ok_forget: "view_ok v \<Longrightarrow> view_ok (forget t v)"
  by (simp add: view_ok_def open_operations_def open_records_def forget_def distinct_map_filter
      distinct_concat_filter)

end
