(* ===== verification/NdbDatabase.thy ===== *)
theory NdbDatabase
  imports NdbCluster RowStore
begin

text \<open>
  The NDB library as a database: the locale \<open>ndb_database\<close> extends \<open>ndb_cluster\<close> with a view of the
  library's state and says what every call the executor makes does to it, as the NDB API documents
  them: the definition calls add to the operation they are called on, closing a transaction releases
  its operations, a poll executes each transaction it completes as a whole unless it reports its
  failure, and value records show the row that was read. A call that fails may leave its operation in any
  shape. When a call can fail at all is a promise of the cluster, a parameter of the locale: the tables and
  accesses it has ready, the columns and values it takes, whether scans run to their end, and the
  transactions it may abort. The weakest promise, with nothing ready and anything aborted, asks nothing.
\<close>

definition column_names :: "(ndb_table \<Rightarrow> nat \<Rightarrow> bytes) \<Rightarrow> (bytes \<rightharpoonup> ndb_table) \<Rightarrow> bytes \<Rightarrow> nat \<Rightarrow> bytes" where
  "column_names columnName tables table i =
     (case tables table of None \<Rightarrow> [] | Some tab \<Rightarrow> columnName tab i)"

definition operation_added ::
  "ndb_transaction \<Rightarrow> row_access \<Rightarrow> bytes \<Rightarrow> ndb_operation option \<Rightarrow> db_view \<Rightarrow> db_view \<Rightarrow> bool" where
  "operation_added t access table r v v1 \<longleftrightarrow>
     (case r of
        None \<Rightarrow> v1 = v
      | Some op \<Rightarrow> op \<notin> set (open_operations v) \<and> v1 = add_def t op (new_plan access table) [] v)"

definition row_fetched :: "ndb_operation \<Rightarrow> int \<Rightarrow> db_view \<Rightarrow> db_view \<Rightarrow> bool" where
  "row_fetched op res v v1 \<longleftrightarrow>
     (if res = 0 then
        \<exists>row rows. dv_left v op = row # rows \<and>
          v1 = v\<lparr>dv_left := (dv_left v)(op := rows), dv_current := (dv_current v)(op \<mapsto> row)\<rparr>
      else v1 = v \<and> (res = 1 \<longrightarrow> dv_left v op = []))"

record ndb_promise =
  pr_access :: "ndb_table \<Rightarrow> row_access \<Rightarrow> bool"
  pr_key :: "ndb_table \<Rightarrow> bytes \<Rightarrow> bytes \<Rightarrow> bool"
  pr_value :: "ndb_table \<Rightarrow> bytes \<Rightarrow> bytes \<Rightarrow> bool"
  pr_scans :: bool
  pr_aborts :: "row_plan list \<Rightarrow> db_rows \<Rightarrow> bool"

definition open_on :: "ndb_operation \<Rightarrow> ndb_table \<Rightarrow> row_access \<Rightarrow> db_view \<Rightarrow> bool" where
  "open_on op tab access v \<longleftrightarrow> view_ok v \<and>
     (\<exists>t p rs. (t, op, p, rs) \<in> set (dv_defs v) \<and> dv_tables v (rp_table p) = Some tab \<and> rp_access p = access)"

locale ndb_database = ndb_cluster A prepared patience rowsLeft
  for A :: "'w ndb_api" and prepared :: "'w \<Rightarrow> ndb_transaction set" and patience :: "'w \<Rightarrow> nat"
    and rowsLeft :: "ndb_operation \<Rightarrow> 'w \<Rightarrow> nat" +
  fixes view :: "'w \<Rightarrow> db_view" and columnName :: "ndb_table \<Rightarrow> nat \<Rightarrow> bytes"
    and P :: ndb_promise
  assumes view_table: "getTable A n name w = (found, w') \<Longrightarrow>
      view w' = view w \<and> (\<forall>tab. found = Some tab \<longrightarrow> dv_tables (view w) name = Some tab)"
    and view_start_hint: "startTransactionWithHint A n tab hint w = (r, w') \<Longrightarrow>
      view w' = view w \<and> (\<forall>t. r = Some t \<longrightarrow> defs_of t (view w) = [])"
    and view_start: "startTransactionOn A n tab w = (r, w') \<Longrightarrow>
      view w' = view w \<and> (\<forall>t. r = Some t \<longrightarrow> defs_of t (view w) = [])"
    and view_operation: "getNdbOperation A t table w = (r, w') \<Longrightarrow>
      operation_added t ByKey table r (view w) (view w')"
    and view_index_scan: "getNdbIndexScanOperation A t idx table w = (r, w') \<Longrightarrow>
      operation_added t (ByIndex idx) table r (view w) (view w')"
    and view_scan: "getNdbScanOperation A t table w = (r, w') \<Longrightarrow>
      operation_added t ByFilter table r (view w) (view w')"
    and view_write: "view (writeTuple A op w) = redefine op (\<lambda>p. p\<lparr>rp_intent := WriteRow\<rparr>) [] (view w)"
    and view_delete: "view (deleteTuple A op w) = redefine op (\<lambda>p. p\<lparr>rp_intent := EraseRow\<rparr>) [] (view w)"
    and view_read: "view (simpleRead A op w) = redefine op (\<lambda>p. p\<lparr>rp_intent := ReadRows\<rparr>) [] (view w)"
    and view_read_tuples: "view (readTuples A op w) = redefine op (\<lambda>p. p\<lparr>rp_intent := ReadRows\<rparr>) [] (view w)"
    and view_equal: "equalColumn A op name v w = (res, w') \<Longrightarrow>
      \<exists>f. view w' = redefine op f [] (view w) \<and> (res \<noteq> -1 \<longrightarrow> f = with_key name v)"
    and view_set_value: "setValueColumn A op name v w = (res, w') \<Longrightarrow>
      \<exists>f. view w' = redefine op f [] (view w) \<and> (res \<noteq> -1 \<longrightarrow> f = with_value name v)"
    and view_get_value: "getValueColumn A op i w = (r, w') \<Longrightarrow>
      (case r of
         None \<Rightarrow> \<exists>f. view w' = redefine op f [] (view w)
       | Some a \<Rightarrow> a \<notin> set (open_records (view w)) \<and> view w' = redefine op (with_column i) [a] (view w))"
    and view_filter_begin: "filterBegin A op w = (res, w') \<Longrightarrow> view w' = view w \<and> (res = 0 \<or> res = -1)"
    and view_filter_cmp: "filterCmpEq A op i v w = (res, w') \<Longrightarrow>
      (res = 0 \<or> res = -1) \<and> (\<exists>f. view w' = redefine op f [] (view w) \<and> (res = 0 \<longrightarrow> f = with_condition i v))"
    and view_filter_end: "filterEnd A op w = (res, w') \<Longrightarrow> view w' = view w"
    and view_prepare: "view (executeAsynchPrepare A t w) = view w"
    and view_close: "view (closeTransaction A t w) = forget t (view w)"
    and view_poll: "pollNdb A n k w = ((count, completed), w') \<Longrightarrow>
      completes (column_names columnName (dv_tables (view w))) (pr_aborts P) completed (view w) (view w')"
    and view_send_poll: "sendPollNdb A n k w = ((count, completed), w') \<Longrightarrow>
      completes (column_names columnName (dv_tables (view w))) (pr_aborts P) completed (view w) (view w')"
    and view_next: "nextResult A op w = (res, w') \<Longrightarrow> row_fetched op res (view w) (view w')"
    and view_is_scan: "view_ok (view w) \<Longrightarrow> (t, op, p, rs) \<in> set (dv_defs (view w)) \<Longrightarrow>
      isScanOperation A op w \<longleftrightarrow> rp_access p \<noteq> ByKey"
    and view_attr_name: "view_ok (view w) \<Longrightarrow> (t, op, p, rs) \<in> set (dv_defs (view w)) \<Longrightarrow>
      length rs = length (rp_columns p) \<Longrightarrow> j < length rs \<Longrightarrow>
      attrName A (rs ! j) w = column_names columnName (dv_tables (view w)) (rp_table p) (rp_columns p ! j)"
    and view_attr_bytes: "view_ok (view w) \<Longrightarrow> (t, op, p, rs) \<in> set (dv_defs (view w)) \<Longrightarrow>
      length rs = length (rp_columns p) \<Longrightarrow> j < length rs \<Longrightarrow> dv_current (view w) op = Some row \<Longrightarrow>
      row (attrName A (rs ! j) w) = Some v \<Longrightarrow> attrBytes A (rs ! j) w = v"
    and ready_table: "dv_tables (view w) name = Some tab \<Longrightarrow> pr_access P tab access \<Longrightarrow>
      hasDictionary A n w \<and> fst (getTable A n name w) = Some tab"
    and ready_start_hint: "pr_access P tab access \<Longrightarrow> fst (startTransactionWithHint A n tab hint w) \<noteq> None"
    and ready_start: "pr_access P tab access \<Longrightarrow> fst (startTransactionOn A n tab w) \<noteq> None"
    and ready_operation: "dv_tables (view w) table = Some tab \<Longrightarrow> pr_access P tab ByKey \<Longrightarrow>
      fst (getNdbOperation A t table w) \<noteq> None"
    and ready_index_scan: "dv_tables (view w) table = Some tab \<Longrightarrow> pr_access P tab (ByIndex idx) \<Longrightarrow>
      fst (getNdbIndexScanOperation A t idx table w) \<noteq> None"
    and ready_scan: "dv_tables (view w) table = Some tab \<Longrightarrow> pr_access P tab ByFilter \<Longrightarrow>
      fst (getNdbScanOperation A t table w) \<noteq> None"
    and takes_key: "open_on op tab access (view w) \<Longrightarrow> pr_access P tab access \<Longrightarrow> pr_key P tab name v \<Longrightarrow>
      fst (equalColumn A op name v w) \<noteq> -1"
    and takes_value: "open_on op tab access (view w) \<Longrightarrow> pr_access P tab access \<Longrightarrow> pr_value P tab name v \<Longrightarrow>
      fst (setValueColumn A op name v w) \<noteq> -1"
    and takes_column: "open_on op tab access (view w) \<Longrightarrow> pr_access P tab access \<Longrightarrow> i < getNoOfColumns A tab \<Longrightarrow>
      fst (getValueColumn A op i w) \<noteq> None"
    and takes_filter: "open_on op tab ByFilter (view w) \<Longrightarrow> pr_access P tab ByFilter \<Longrightarrow>
      fst (filterBegin A op w) = 0 \<and> fst (filterEnd A op w) \<noteq> -1"
    and scans_end: "pr_scans P \<Longrightarrow> nextResult A op w = (res, w') \<Longrightarrow> res = 0 \<or> res = 1"
    and takes_condition: "open_on op tab ByFilter (view w) \<Longrightarrow> pr_access P tab ByFilter \<Longrightarrow>
      getColumnNo A tab name = Some i \<Longrightarrow> pr_value P tab name v \<Longrightarrow> fst (filterCmpEq A op i v w) = 0"

end
