(* ===== verification/MemoryDatabase.thy ===== *)
theory MemoryDatabase
  imports NdbDatabase
begin

text \<open>
  A concrete database for the locale \<open>ndb_database\<close>: the tables of \<open>NdbReference\<close> with rows in
  association lists. It performs the prepared transactions at the next poll, each as a whole, and aborts
  one that reads or erases a row that does not exist.
\<close>

section \<open>Its state and operations\<close>

record memory_db =
  mm_rows :: "bytes \<Rightarrow> ((bytes \<rightharpoonup> bytes) \<times> db_row) list"
  mm_defs :: "row_definition list"
  mm_left :: "ndb_operation \<Rightarrow> db_row list"
  mm_current :: "ndb_operation \<rightharpoonup> db_row"
  mm_prepared :: "ndb_transaction list"

definition memory_view :: "memory_db \<Rightarrow> db_view" where
  "memory_view w =
     \<lparr>dv_tables = position ref_tables, dv_rows = (\<lambda>table. map_of (mm_rows w table)), dv_defs = mm_defs w,
      dv_left = mm_left w, dv_current = mm_current w\<rparr>"

definition ref_column_name :: "ndb_table \<Rightarrow> nat \<Rightarrow> bytes" where
  "ref_column_name tab i = (if i < length (ref_columns tab) then fst (ref_columns tab ! i) else [])"

definition memory_names :: "bytes \<Rightarrow> nat \<Rightarrow> bytes" where
  "memory_names = column_names ref_column_name (position ref_tables)"

definition memory_open :: "ndb_transaction \<Rightarrow> row_access \<Rightarrow> bytes \<Rightarrow> memory_db \<Rightarrow> ndb_operation option \<times> memory_db" where
  "memory_open t access table w =
     (case position ref_tables table of
        None \<Rightarrow> (None, w)
      | Some tab \<Rightarrow>
          (let op = Suc (sum_list (open_operations (memory_view w))) in
           (Some op, w\<lparr>mm_defs := mm_defs w @ [(t, op, new_plan access table, [])]\<rparr>)))"

definition memory_redefine ::
  "ndb_operation \<Rightarrow> (row_plan \<Rightarrow> row_plan) \<Rightarrow> ndb_rec_attr list \<Rightarrow> memory_db \<Rightarrow> memory_db" where
  "memory_redefine op f new w =
     w\<lparr>mm_defs := map (\<lambda>(t, op1, p, rs). if op1 = op then (t, op1, f p, rs @ new) else (t, op1, p, rs)) (mm_defs w)\<rparr>"

text \<open>The access, table and column number a handle or a value record stands for.\<close>

definition memory_operation :: "memory_db \<Rightarrow> ndb_operation \<Rightarrow> row_plan option" where
  "memory_operation w op = map_of (map (\<lambda>(t, op, p, rs). (op, p)) (mm_defs w)) op"

definition memory_column :: "memory_db \<Rightarrow> ndb_operation \<Rightarrow> bytes \<Rightarrow> bool" where
  "memory_column w op name =
     (case memory_operation w op of
        None \<Rightarrow> False
      | Some p \<Rightarrow> (case position ref_tables (rp_table p) of
            None \<Rightarrow> False | Some tab \<Rightarrow> position (ref_columns tab) name \<noteq> None))"

definition memory_record :: "memory_db \<Rightarrow> ndb_rec_attr \<Rightarrow> (ndb_operation \<times> bytes \<times> nat) option" where
  "memory_record w a =
     map_of (concat (map (\<lambda>(t, op, p, rs). zip rs (map (\<lambda>i. (op, rp_table p, i)) (rp_columns p))) (mm_defs w))) a"

definition memory_attr_name :: "memory_db \<Rightarrow> ndb_rec_attr \<Rightarrow> bytes" where
  "memory_attr_name w a =
     (case memory_record w a of None \<Rightarrow> [] | Some (op, table, i) \<Rightarrow> memory_names table i)"

definition memory_attr_bytes :: "memory_db \<Rightarrow> ndb_rec_attr \<Rightarrow> bytes" where
  "memory_attr_bytes w a =
     (case memory_record w a of
        None \<Rightarrow> []
      | Some (op, table, i) \<Rightarrow>
          (case mm_current w op of
             None \<Rightarrow> []
           | Some row \<Rightarrow> (case row (memory_names table i) of None \<Rightarrow> [] | Some v \<Rightarrow> v)))"

text \<open>Performing one operation; \<open>None\<close> for the error \<open>Tuple did not exist\<close> and an undecided operation.\<close>

definition memory_put ::
  "bytes \<Rightarrow> (bytes \<rightharpoonup> bytes) \<Rightarrow> db_row option \<Rightarrow> memory_db \<Rightarrow> memory_db" where
  "memory_put table key row w =
     (let others = filter (\<lambda>(k, _). k \<noteq> key) (mm_rows w table) in
      w\<lparr>mm_rows := (mm_rows w)(table := (case row of None \<Rightarrow> others | Some r \<Rightarrow> (key, r) # others))\<rparr>)"

definition memory_deliver :: "ndb_operation \<Rightarrow> row_plan \<Rightarrow> db_row list \<Rightarrow> memory_db \<Rightarrow> memory_db" where
  "memory_deliver op p found w =
     (if rp_access p = ByKey then
        w\<lparr>mm_left := (mm_left w)(op := []), mm_current := (mm_current w)(op := (case found of [] \<Rightarrow> None | row # _ \<Rightarrow> Some row))\<rparr>
      else w\<lparr>mm_left := (mm_left w)(op := found), mm_current := (mm_current w)(op := None)\<rparr>)"

definition memory_perform :: "ndb_operation \<Rightarrow> row_plan \<Rightarrow> memory_db \<Rightarrow> memory_db option" where
  "memory_perform op p w =
     (let table = rp_table p; key = map_of (rp_keys p); old = map_of (mm_rows w table) key in
      case rp_intent p of
        Undecided \<Rightarrow> None
      | WriteRow \<Rightarrow> Some (memory_deliver op p [] (memory_put table key (Some (written_row p old)) w))
      | EraseRow \<Rightarrow> (if old = None then None else Some (memory_deliver op p [] (memory_put table key None w)))
      | ReadRows \<Rightarrow>
          (if rp_access p = ByKey then
             (case old of None \<Rightarrow> None | Some row \<Rightarrow> Some (memory_deliver op p [row] w))
           else
             Some (memory_deliver op p
               (map (\<lambda>k. the (map_of (mm_rows w table) k))
                 (filter (\<lambda>k. selected (memory_names table) p (the (map_of (mm_rows w table) k)))
                   (remdups (map fst (mm_rows w table))))) w)))"

fun memory_commit :: "(ndb_operation \<times> row_plan \<times> ndb_rec_attr list) list \<Rightarrow> memory_db \<Rightarrow> memory_db option" where
  "memory_commit [] w = Some w"
| "memory_commit ((op, p, rs) # defs) w =
     (case memory_perform op p w of None \<Rightarrow> None | Some w1 \<Rightarrow> memory_commit defs w1)"

fun memory_complete :: "ndb_transaction list \<Rightarrow> memory_db \<Rightarrow> (int \<times> ndb_transaction) list \<times> memory_db" where
  "memory_complete [] w = ([], w)"
| "memory_complete (t # ts) w =
     (case memory_commit (defs_of t (memory_view w)) w of
        None \<Rightarrow> (let (completed, w1) = memory_complete ts w in ((-1, t) # completed, w1))
      | Some w1 \<Rightarrow> (let (completed, w2) = memory_complete ts w1 in ((0, t) # completed, w2)))"

definition memory_poll :: "memory_db \<Rightarrow> (int \<times> (int \<times> ndb_transaction) list) \<times> memory_db" where
  "memory_poll w =
     (let (completed, w1) = memory_complete (remdups (mm_prepared w)) w in
      ((int (length completed), completed), w1\<lparr>mm_prepared := []\<rparr>))"


text \<open>
  It takes every call on a table and column it has, and aborts only transactions that cannot be
  performed.
\<close>

definition memory_aborts :: "row_plan list \<Rightarrow> db_rows \<Rightarrow> bool" where
  "memory_aborts plans rows \<longleftrightarrow> (\<nexists>founds rows1. performs_all memory_names plans rows founds rows1)"

definition memory_promise :: ndb_promise where
  "memory_promise =
     \<lparr>pr_access = (\<lambda>tab access. True), pr_key = (\<lambda>tab name v. position (ref_columns tab) name \<noteq> None),
      pr_value = (\<lambda>tab name v. position (ref_columns tab) name \<noteq> None), pr_scans = True, pr_aborts = memory_aborts\<rparr>"

definition memory_next :: "ndb_operation \<Rightarrow> memory_db \<Rightarrow> int \<times> memory_db" where
  "memory_next op w =
     (case mm_left w op of
        [] \<Rightarrow> (1, w)
      | row # rows \<Rightarrow> (0, w\<lparr>mm_left := (mm_left w)(op := rows), mm_current := (mm_current w)(op \<mapsto> row)\<rparr>))"

definition memory_start :: "memory_db \<Rightarrow> ndb_transaction option \<times> memory_db" where
  "memory_start w = (Some (Suc (sum_list (map fst (mm_defs w)) + sum_list (mm_prepared w))), w)"

definition memory_attr_type :: "memory_db \<Rightarrow> ndb_rec_attr \<Rightarrow> int32" where
  "memory_attr_type w a =
     (case memory_record w a of
        None \<Rightarrow> 1
      | Some (op, table, i) \<Rightarrow>
          (case position ref_tables table of
             None \<Rightarrow> 1
           | Some tab \<Rightarrow> if i < length (ref_columns tab) then snd (ref_columns tab ! i) else 1))"

definition memory_api :: "memory_db ndb_api" where
  "memory_api =
     \<lparr>hasDictionary = (\<lambda>n w. True),
      getTable = (\<lambda>n name w. (position ref_tables name, w)),
      getNoOfPrimaryKeys = (\<lambda>t. if t < length ref_tables then fst (snd (ref_tables ! t)) else 0),
      getNoOfColumns = (\<lambda>t. length (ref_columns t)),
      getColumnNo = (\<lambda>t name. position (ref_columns t) name),
      startTransactionWithHint = (\<lambda>n t hint w. memory_start w),
      startTransactionOn = (\<lambda>n t w. memory_start w),
      getConnectedNodeId = (\<lambda>t w. 1),
      getNdbOperation = (\<lambda>t name w. memory_open t ByKey name w),
      getNdbIndexScanOperation = (\<lambda>t idx name w. memory_open t (ByIndex idx) name w),
      getNdbScanOperation = (\<lambda>t name w. memory_open t ByFilter name w),
      writeTuple = (\<lambda>op w. memory_redefine op (\<lambda>p. p\<lparr>rp_intent := WriteRow\<rparr>) [] w),
      deleteTuple = (\<lambda>op w. memory_redefine op (\<lambda>p. p\<lparr>rp_intent := EraseRow\<rparr>) [] w),
      simpleRead = (\<lambda>op w. memory_redefine op (\<lambda>p. p\<lparr>rp_intent := ReadRows\<rparr>) [] w),
      readTuples = (\<lambda>op w. memory_redefine op (\<lambda>p. p\<lparr>rp_intent := ReadRows\<rparr>) [] w),
      equalColumn = (\<lambda>op name v w.
        if memory_column w op name then (0, memory_redefine op (with_key name v) [] w)
        else (-1, memory_redefine op id [] w)),
      setValueColumn = (\<lambda>op name v w.
        if memory_column w op name then (0, memory_redefine op (with_value name v) [] w)
        else (-1, memory_redefine op id [] w)),
      getValueColumn = (\<lambda>op i w.
        let a = Suc (sum_list (open_records (memory_view w))) in
        (Some a, memory_redefine op (with_column i) [a] w)),
      filterBegin = (\<lambda>op w. (0, w)),
      filterCmpEq = (\<lambda>op i v w. (0, memory_redefine op (with_condition i v) [] w)),
      filterEnd = (\<lambda>op w. (0, w)),
      isScanOperation = (\<lambda>op w.
        case memory_operation w op of None \<Rightarrow> False | Some p \<Rightarrow> rp_access p \<noteq> ByKey),
      nextResult = memory_next,
      attrName = (\<lambda>a w. memory_attr_name w a),
      attrType = (\<lambda>a w. memory_attr_type w a),
      attrBytes = (\<lambda>a w. memory_attr_bytes w a),
      errorMessage = (\<lambda>t w. ''Tuple did not exist''),
      errorCode = (\<lambda>t w. 626),
      executeAsynchPrepare = (\<lambda>t w. w\<lparr>mm_prepared := t # mm_prepared w\<rparr>),
      closeTransaction = (\<lambda>t w. w\<lparr>mm_defs := filter (\<lambda>d. fst d \<noteq> t) (mm_defs w)\<rparr>),
      sendPollNdb = (\<lambda>n k w. memory_poll w),
      pollNdb = (\<lambda>n k w. memory_poll w),
      mysqlQuery = (\<lambda>n q w. (q = [], w)),
      mysqlError = (\<lambda>n w. ''Query was empty'')\<rparr>"

lemma memory_calls [simp]:
  "hasDictionary memory_api n w"
  "getTable memory_api n name w = (position ref_tables name, w)"
  "getNoOfPrimaryKeys memory_api tab = (if tab < length ref_tables then fst (snd (ref_tables ! tab)) else 0)"
  "getNoOfColumns memory_api tab = length (ref_columns tab)"
  "getColumnNo memory_api tab name = position (ref_columns tab) name"
  "startTransactionWithHint memory_api n tab hint w = memory_start w"
  "startTransactionOn memory_api n tab w = memory_start w"
  "getNdbOperation memory_api t name w = memory_open t ByKey name w"
  "getNdbIndexScanOperation memory_api t idx name w = memory_open t (ByIndex idx) name w"
  "getNdbScanOperation memory_api t name w = memory_open t ByFilter name w"
  "writeTuple memory_api op w = memory_redefine op (\<lambda>p. p\<lparr>rp_intent := WriteRow\<rparr>) [] w"
  "deleteTuple memory_api op w = memory_redefine op (\<lambda>p. p\<lparr>rp_intent := EraseRow\<rparr>) [] w"
  "simpleRead memory_api op w = memory_redefine op (\<lambda>p. p\<lparr>rp_intent := ReadRows\<rparr>) [] w"
  "readTuples memory_api op w = memory_redefine op (\<lambda>p. p\<lparr>rp_intent := ReadRows\<rparr>) [] w"
  "equalColumn memory_api op name v w =
    (if memory_column w op name then (0, memory_redefine op (with_key name v) [] w)
     else (-1, memory_redefine op id [] w))"
  "setValueColumn memory_api op name v w =
    (if memory_column w op name then (0, memory_redefine op (with_value name v) [] w)
     else (-1, memory_redefine op id [] w))"
  "getValueColumn memory_api op i w =
    (let a = Suc (sum_list (open_records (memory_view w))) in (Some a, memory_redefine op (with_column i) [a] w))"
  "filterBegin memory_api op w = (0, w)"
  "filterCmpEq memory_api op i v w = (0, memory_redefine op (with_condition i v) [] w)"
  "filterEnd memory_api op w = (0, w)"
  "isScanOperation memory_api op w \<longleftrightarrow>
    (case memory_operation w op of None \<Rightarrow> False | Some p \<Rightarrow> rp_access p \<noteq> ByKey)"
  "nextResult memory_api op w = memory_next op w"
  "attrName memory_api a w = memory_attr_name w a"
  "attrType memory_api a w = memory_attr_type w a"
  "attrBytes memory_api a w = memory_attr_bytes w a"
  "executeAsynchPrepare memory_api t w = w\<lparr>mm_prepared := t # mm_prepared w\<rparr>"
  "closeTransaction memory_api t w = w\<lparr>mm_defs := filter (\<lambda>d. fst d \<noteq> t) (mm_defs w)\<rparr>"
  "sendPollNdb memory_api n k w = memory_poll w"
  "pollNdb memory_api n k w = memory_poll w"
  "mysqlQuery memory_api n q w = (q = [], w)"
  by (simp_all add: memory_api_def)

section \<open>It keeps the promises of a cluster\<close>

lemma memory_view_redefine [simp]: "memory_view (memory_redefine op f new w) = redefine op f new (memory_view w)"
  by (simp add: memory_view_def memory_redefine_def redefine_def)

lemma memory_prepared_simps [simp]:
  "mm_prepared (memory_redefine op f new w) = mm_prepared w"
  "mm_prepared (memory_put table key row w) = mm_prepared w"
  "mm_prepared (memory_deliver op p found w) = mm_prepared w"
  "mm_prepared (snd (memory_open t access table w)) = mm_prepared w"
  "mm_prepared (snd (memory_next op w)) = mm_prepared w"
  by (simp_all add: memory_redefine_def memory_put_def memory_deliver_def memory_open_def memory_next_def Let_def
      split: option.split list.split)

lemma memory_perform_prepared: "memory_perform op p w = Some w1 \<Longrightarrow> mm_prepared w1 = mm_prepared w"
  by (auto simp: memory_perform_def Let_def split: row_intent.splits if_splits option.splits)

lemma memory_commit_prepared: "memory_commit defs w = Some w1 \<Longrightarrow> mm_prepared w1 = mm_prepared w"
  by (induction defs w rule: memory_commit.induct) (auto split: option.splits dest: memory_perform_prepared)

lemma memory_complete_all: "map snd (fst (memory_complete ts w)) = ts"
  by (induction ts w rule: memory_complete.induct) (auto simp: split_beta Let_def split: option.split)

lemma memory_poll_completes:
  assumes "memory_poll w = ((count, completed), w1)"
  shows "count = int (length completed) \<and> distinct (map snd completed) \<and>
    set (map snd completed) = set (mm_prepared w) \<and> mm_prepared w1 = []"
  using assms memory_complete_all [of "remdups (mm_prepared w)" w]
  by (auto simp: memory_poll_def split_beta Let_def)

lemma memory_start_fresh:
  assumes "memory_start w = (Some t, w1)"
  shows "t \<notin> set (mm_prepared w)" and "defs_of t (memory_view w) = []"
proof -
  have t: "t = Suc (sum_list (map fst (mm_defs w)) + sum_list (mm_prepared w))"
    using assms by (auto simp: memory_start_def)
  with member_le_sum_list [of t "mm_prepared w"] show "t \<notin> set (mm_prepared w)" by auto
  have "t \<notin> set (map fst (mm_defs w))"
    using t member_le_sum_list [of t "map fst (mm_defs w)"] by auto
  then show "defs_of t (memory_view w) = []"
    by (auto simp: defs_of_def memory_view_def filter_empty_conv)
qed

lemma ref_column_types: "i < length (ref_columns tab) \<Longrightarrow> Column_Type_of (snd (ref_columns tab ! i)) \<noteq> None"
  by (auto simp: ref_columns_def ref_tables_def Column_Type_of_def less_Suc_eq numeral_3_eq_3 split: if_splits)

lemma memory_types: "Column_Type_of (memory_attr_type w a) \<noteq> None"
proof -
  have one: "Column_Type_of 1 \<noteq> None" by (simp add: Column_Type_of_def)
  show ?thesis
    using ref_column_types one by (auto simp: memory_attr_type_def split: option.split)
qed

interpretation memory_cluster:
  ndb_cluster memory_api "\<lambda>w. set (mm_prepared w)" "\<lambda>_. 0" "\<lambda>op w. length (mm_left w op)"
proof
  show "pollNdb memory_api n k w = ((0, []), w') \<Longrightarrow> set (mm_prepared w) \<noteq> {} \<Longrightarrow> (0::nat) < 0"
    for n k w w' using memory_poll_completes [of w 0 "[]" w'] by simp
  show "nextResult memory_api op w = (0, w') \<Longrightarrow> length (mm_left w' op) < length (mm_left w op)"
    for op w w' by (auto simp: memory_next_def split: list.splits)
  show "Column_Type_of (attrType memory_api a w) \<noteq> None" for a w by (simp add: memory_types)
  show "startTransactionWithHint memory_api n tab hint w = (Some t, w') \<Longrightarrow> t \<notin> set (mm_prepared w)"
    for n tab hint w t w' using memory_start_fresh(1) by simp
  show "startTransactionOn memory_api n tab w = (Some t, w') \<Longrightarrow> t \<notin> set (mm_prepared w)"
    for n tab w t w' using memory_start_fresh(1) by simp
  show "pollNdb memory_api n k w = ((count, completed), w') \<Longrightarrow>
      count = int (length completed) \<and> distinct (map snd completed) \<and>
      set (map snd completed) \<subseteq> set (mm_prepared w) \<and>
      set (mm_prepared w') = set (mm_prepared w) - set (map snd completed)"
    for n k w count completed w' using memory_poll_completes [of w count completed w'] by simp
  show "sendPollNdb memory_api n k w = ((count, completed), w') \<Longrightarrow>
      count = int (length completed) \<and> distinct (map snd completed) \<and>
      set (map snd completed) \<subseteq> set (mm_prepared w) \<and>
      set (mm_prepared w') = set (mm_prepared w) - set (map snd completed)"
    for n k w count completed w' using memory_poll_completes [of w count completed w'] by simp
qed (simp_all add: memory_start_def Let_def)


section \<open>It keeps the promises of a database\<close>

lemma memory_view_simps [simp]:
  "dv_tables (memory_view w) = position ref_tables" "dv_defs (memory_view w) = mm_defs w"
  "dv_left (memory_view w) = mm_left w" "dv_current (memory_view w) = mm_current w"
  "dv_rows (memory_view w) table = map_of (mm_rows w table)"
  by (simp_all add: memory_view_def)

lemma memory_view_prepared [simp]: "memory_view (w\<lparr>mm_prepared := ts\<rparr>) = memory_view w"
  by (simp add: memory_view_def)

lemma unused_sum: "Suc (sum_list xs) \<notin> set (xs :: nat list)"
  using member_le_sum_list [of "Suc (sum_list xs)" xs] by auto

lemma memory_open_added: "memory_open t access table w = (r, w') \<Longrightarrow>
    operation_added t access table r (memory_view w) (memory_view w')"
  using unused_sum [of "open_operations (memory_view w)"]
  by (auto simp: memory_open_def operation_added_def add_def_def memory_view_def Let_def split: option.splits)

lemma memory_deliver_view: "memory_view (memory_deliver op p found w) = deliver op p found (memory_view w)"
  by (simp add: memory_deliver_def deliver_def memory_view_def)

lemma map_of_other: "map_of (filter (\<lambda>(k, _). k \<noteq> key) xs) = (map_of xs)(key := None)"
  by (induction xs) (auto simp: fun_eq_iff)

lemma memory_put_view:
  "memory_view (memory_put table key row w) =
   (memory_view w)\<lparr>dv_rows := put_row table key row (dv_rows (memory_view w))\<rparr>"
proof -
  have "map_of (mm_rows (memory_put table key row w) t) =
      put_row table key row (\<lambda>table. map_of (mm_rows w table)) t" for t
    by (simp add: memory_put_def put_row_def Let_def map_of_other split: option.split)
  then show ?thesis by (simp add: memory_view_def) (simp add: memory_put_def Let_def)
qed

lemma memory_view_same_rows: "(memory_view w)\<lparr>dv_rows := dv_rows (memory_view w)\<rparr> = memory_view w"
  by simp

lemma memory_scan_keys:
  assumes "keys = filter (\<lambda>k. selected names p (the (map_of xs k))) (remdups (map fst xs))"
  shows "distinct keys \<and> set keys = {k. \<exists>row. map_of xs k = Some row \<and> selected names p row}"
proof -
  have "k \<in> fst ` set xs \<longleftrightarrow> (\<exists>row. map_of xs k = Some row)" for k
    using map_of_eq_None_iff [of xs k] by auto
  then show ?thesis unfolding assms by auto
qed

lemma memory_perform_performs:
  assumes "memory_perform op p w = Some w1"
  shows "\<exists>found rows. performs (memory_names (rp_table p)) p (dv_rows (memory_view w)) found rows \<and>
    memory_view w1 = deliver op p found ((memory_view w)\<lparr>dv_rows := rows\<rparr>)"
proof (cases "rp_intent p")
  case ReadRows
  show ?thesis
  proof (cases "rp_access p = ByKey")
    case True
    with ReadRows assms obtain row where "map_of (mm_rows w (rp_table p)) (map_of (rp_keys p)) = Some row"
      "w1 = memory_deliver op p [row] w"
      by (auto simp: memory_perform_def split: option.splits)
    with ReadRows True show ?thesis
      by (intro exI [of _ "[row]"] exI [of _ "dv_rows (memory_view w)"]) (simp add: performs_def memory_deliver_view)
  next
    case False
    let ?xs = "mm_rows w (rp_table p)"
    let ?keys = "filter (\<lambda>k. selected (memory_names (rp_table p)) p (the (map_of ?xs k))) (remdups (map fst ?xs))"
    have "w1 = memory_deliver op p (map (\<lambda>k. the (map_of ?xs k)) ?keys) w"
      using ReadRows False assms by (simp add: memory_perform_def Let_def)
    moreover have "performs (memory_names (rp_table p)) p (dv_rows (memory_view w))
        (map (\<lambda>k. the (map_of ?xs k)) ?keys) (dv_rows (memory_view w))"
      using ReadRows False memory_scan_keys [OF refl, of "memory_names (rp_table p)" p ?xs]
      by (simp add: performs_def Let_def) (intro exI [of _ ?keys], simp)
    ultimately show ?thesis by (metis memory_deliver_view memory_view_same_rows)
  qed
qed (use assms in \<open>auto simp: memory_perform_def performs_def Let_def memory_deliver_view memory_put_view
      split: if_splits\<close>)

lemma memory_commit_commits:
  "memory_commit defs w = Some w1 \<Longrightarrow> commits memory_names defs (memory_view w) (memory_view w1)"
proof (induction defs w rule: memory_commit.induct)
  case (2 op p rs defs w)
  then obtain w2 where one: "memory_perform op p w = Some w2" and rest: "memory_commit defs w2 = Some w1"
    by (auto split: option.splits)
  from memory_perform_performs [OF one] obtain found rows where
    "performs (memory_names (rp_table p)) p (dv_rows (memory_view w)) found rows"
    and view: "memory_view w2 = deliver op p found ((memory_view w)\<lparr>dv_rows := rows\<rparr>)"
    by blast
  with 2(1) [OF one rest] show ?case unfolding commits.simps view by blast
qed simp

lemma memory_perform_fails:
  assumes "memory_perform op p w = None" "performs (memory_names (rp_table p)) p (dv_rows (memory_view w)) found rows"
  shows False
  using assms by (auto simp: memory_perform_def performs_def Let_def split: row_intent.splits if_splits option.splits)

lemma performs_rows:
  "performs names p rows found rows1 \<Longrightarrow> performs names p rows found2 rows2 \<Longrightarrow> rows2 = rows1"
  by (auto simp: performs_def Let_def split: row_intent.splits)

lemma memory_commit_aborts:
  assumes "memory_commit defs w = None"
  shows "memory_aborts (map (\<lambda>d. fst (snd d)) defs) (dv_rows (memory_view w))"
  using assms
proof (induction defs w rule: memory_commit.induct)
  case (2 op p rs defs w)
  show ?case
  proof (cases "memory_perform op p w")
    case None
    then show ?thesis using memory_perform_fails unfolding memory_aborts_def by fastforce
  next
    case (Some w1)
    with 2(2) have "memory_commit defs w1 = None" by simp
    note later = 2(1) [OF Some this]
    from memory_perform_performs [OF Some] obtain found rows where
      one: "performs (memory_names (rp_table p)) p (dv_rows (memory_view w)) found rows"
      and rows: "dv_rows (memory_view w1) = rows"
      by (metis db_view.select_convs(2) db_view.surjective db_view.update_convs(2) deliver_simps(2))
    show ?thesis
      unfolding memory_aborts_def
    proof (intro notI, elim exE)
      fix founds rows1
      assume "performs_all memory_names (map (\<lambda>d. fst (snd d)) ((op, p, rs) # defs)) (dv_rows (memory_view w)) founds rows1"
      then obtain found2 rows2 founds2 where
        "performs (memory_names (rp_table p)) p (dv_rows (memory_view w)) found2 rows2"
        and rest: "performs_all memory_names (map (\<lambda>d. fst (snd d)) defs) rows2 founds2 rows1"
        unfolding list.map performs_all.simps fst_conv snd_conv by blast
      with performs_rows [OF one] have "rows2 = dv_rows (memory_view w1)" unfolding rows by blast
      with later rest show False unfolding memory_aborts_def by blast
    qed
  qed
qed simp

lemma memory_complete_completes:
  "completes memory_names memory_aborts (fst (memory_complete ts w)) (memory_view w) (memory_view (snd (memory_complete ts w)))"
proof (induction ts w rule: memory_complete.induct)
  case (2 t ts w)
  show ?case
  proof (cases "memory_commit (defs_of t (memory_view w)) w")
    case None
    with 2(1) [OF None] memory_commit_aborts [OF None] show ?thesis
      by (simp add: split_beta Let_def plans_of_def)
  next
    case (Some w1)
    from memory_commit_commits [OF Some] 2(2) [OF Some] Some show ?thesis
      by (auto simp: split_beta Let_def)
  qed
qed simp

lemma memory_poll_view:
  "memory_poll w = ((count, completed), w') \<Longrightarrow> completes memory_names memory_aborts completed (memory_view w) (memory_view w')"
  using memory_complete_completes [of "remdups (mm_prepared w)" w]
  by (auto simp: memory_poll_def split_beta Let_def)

lemma memory_next_fetched: "memory_next op w = (res, w') \<Longrightarrow> row_fetched op res (memory_view w) (memory_view w')"
  by (auto simp: memory_next_def row_fetched_def memory_view_def split: list.splits)

lemma memory_operation_open:
  assumes "view_ok (memory_view w)" "(t, op, p, rs) \<in> set (mm_defs w)"
  shows "memory_operation w op = Some p"
  unfolding memory_operation_def
proof (rule map_of_is_SomeI)
  have "map fst (map (\<lambda>(t, op, p, rs). (op, p)) (mm_defs w)) = open_operations (memory_view w)"
    by (auto simp: open_operations_def)
  then show "distinct (map fst (map (\<lambda>(t, op, p, rs). (op, p)) (mm_defs w)))"
    using assms(1) by (simp add: view_ok_def)
qed (use assms(2) in force)

lemma distinct_concat_part:
  assumes "distinct (concat (map f xs))" "\<And>x. set (g x) \<subseteq> set (f x)" "\<And>x. distinct (f x) \<Longrightarrow> distinct (g x)"
  shows "distinct (concat (map g xs))"
  using assms(1)
proof (induction xs)
  case (Cons x xs)
  have "set (concat (map g xs)) \<subseteq> set (concat (map f xs))" using assms(2) by fastforce
  with Cons assms(2) [of x] assms(3) [of x] show ?case by auto
qed simp

lemma memory_record_open:
  assumes "view_ok (memory_view w)" "(t, op, p, rs) \<in> set (mm_defs w)" "length rs = length (rp_columns p)" "j < length rs"
  shows "memory_record w (rs ! j) = Some (op, rp_table p, rp_columns p ! j)"
  unfolding memory_record_def
proof (rule map_of_is_SomeI)
  let ?entries = "\<lambda>(t, op, p, rs). zip rs (map (\<lambda>i. (op, rp_table p, i)) (rp_columns p))"
  have "distinct (concat (map (\<lambda>d. map fst (?entries d)) (mm_defs w)))"
  proof (rule distinct_concat_part)
    show "distinct (concat (map (\<lambda>(t, op, p, rs). rs) (mm_defs w)))"
      using assms(1) by (simp add: view_ok_def open_records_def)
    show "set (map fst (?entries d)) \<subseteq> set (case d of (t, op, p, rs) \<Rightarrow> rs)" for d
      by (auto split: prod.splits dest: set_zip_leftD)
    show "distinct (map fst (?entries d))" if "distinct (case d of (t, op, p, rs) \<Rightarrow> rs)" for d
      using that by (auto simp: map_fst_zip_take split: prod.splits)
  qed
  then show "distinct (map fst (concat (map ?entries (mm_defs w))))"
    by (simp add: map_concat comp_def)
  have "(rs ! j, op, rp_table p, rp_columns p ! j) \<in> set (?entries (t, op, p, rs))"
    using assms(3,4) by (auto simp: set_zip)
  with assms(2) show "(rs ! j, op, rp_table p, rp_columns p ! j) \<in> set (concat (map ?entries (mm_defs w)))"
    unfolding set_concat set_map by (intro UN_I [OF imageI]) assumption+
qed

lemma memory_attr_open:
  assumes "view_ok (memory_view w)" "(t, op, p, rs) \<in> set (mm_defs w)" "length rs = length (rp_columns p)" "j < length rs"
  shows "memory_attr_name w (rs ! j) = memory_names (rp_table p) (rp_columns p ! j)"
    and "mm_current w op = Some row \<Longrightarrow> row (memory_names (rp_table p) (rp_columns p ! j)) = Some v \<Longrightarrow>
      memory_attr_bytes w (rs ! j) = v"
  using memory_record_open [OF assms] by (simp_all add: memory_attr_name_def memory_attr_bytes_def)

lemma memory_start_some: "fst (memory_start w) \<noteq> None"
  by (simp add: memory_start_def)

lemma memory_open_some: "position ref_tables table = Some tab \<Longrightarrow> fst (memory_open t access table w) \<noteq> None"
  by (simp add: memory_open_def Let_def)

lemma memory_open_column:
  "open_on op tab access (memory_view w) \<Longrightarrow> position (ref_columns tab) name \<noteq> None \<Longrightarrow> memory_column w op name"
  using memory_operation_open by (fastforce simp: open_on_def memory_column_def)

interpretation memory_database:
  ndb_database memory_api "\<lambda>w. set (mm_prepared w)" "\<lambda>_. 0" "\<lambda>op w. length (mm_left w op)" memory_view ref_column_name memory_promise
proof unfold_locales
  have names: "column_names ref_column_name (dv_tables (memory_view w)) = memory_names" for w
    by (simp add: memory_names_def)
  show "completes (column_names ref_column_name (dv_tables (memory_view w))) (pr_aborts memory_promise) completed (memory_view w) (memory_view w')"
    if "pollNdb memory_api n k w = ((count, completed), w')" for n k w count completed w'
    using that memory_poll_view unfolding names by (simp add: memory_promise_def)
  show "completes (column_names ref_column_name (dv_tables (memory_view w))) (pr_aborts memory_promise) completed (memory_view w) (memory_view w')"
    if "sendPollNdb memory_api n k w = ((count, completed), w')" for n k w count completed w'
    using that memory_poll_view unfolding names by (simp add: memory_promise_def)
  show "attrName memory_api (rs ! j) w =
      column_names ref_column_name (dv_tables (memory_view w)) (rp_table p) (rp_columns p ! j)"
    if "view_ok (memory_view w)" "(t, op, p, rs) \<in> set (dv_defs (memory_view w))"
      "length rs = length (rp_columns p)" "j < length rs" for w t op p rs j
    using that memory_attr_open(1) unfolding names by simp
  show "attrBytes memory_api (rs ! j) w = v"
    if "view_ok (memory_view w)" "(t, op, p, rs) \<in> set (dv_defs (memory_view w))"
      "length rs = length (rp_columns p)" "j < length rs" "dv_current (memory_view w) op = Some row"
      "row (attrName memory_api (rs ! j) w) = Some v" for w t op p rs j row v
    using that memory_attr_open [of w t op p rs j] by simp
  show "isScanOperation memory_api op w \<longleftrightarrow> rp_access p \<noteq> ByKey"
    if "view_ok (memory_view w)" "(t, op, p, rs) \<in> set (dv_defs (memory_view w))" for w t op p rs
    using that memory_operation_open by simp
  show "case r of None \<Rightarrow> \<exists>f. memory_view w' = redefine op f [] (memory_view w)
      | Some a \<Rightarrow> a \<notin> set (open_records (memory_view w)) \<and> memory_view w' = redefine op (with_column i) [a] (memory_view w)"
    if "getValueColumn memory_api op i w = (r, w')" for op i w r w'
    using that unused_sum [of "open_records (memory_view w)"] by (auto simp: Let_def)
  show "memory_view (closeTransaction memory_api t w) = forget t (memory_view w)" for t w
    by (simp add: memory_view_def forget_def)
  show "memory_view (executeAsynchPrepare memory_api t w) = memory_view w" for t w by simp
  show "row_fetched op res (memory_view w) (memory_view w')" if "nextResult memory_api op w = (res, w')" for op w res w'
    using that memory_next_fetched by simp
  show "operation_added t ByKey table r (memory_view w) (memory_view w')"
    if "getNdbOperation memory_api t table w = (r, w')" for t table w r w'
    using that memory_open_added by simp
  show "operation_added t (ByIndex idx) table r (memory_view w) (memory_view w')"
    if "getNdbIndexScanOperation memory_api t idx table w = (r, w')" for t idx table w r w'
    using that memory_open_added by simp
  show "operation_added t ByFilter table r (memory_view w) (memory_view w')"
    if "getNdbScanOperation memory_api t table w = (r, w')" for t table w r w'
    using that memory_open_added by simp
  show "memory_view w' = memory_view w \<and> (\<forall>t. r = Some t \<longrightarrow> defs_of t (memory_view w) = [])"
    if "startTransactionWithHint memory_api n tab hint w = (r, w')" for n tab hint w r w'
    using that memory_start_fresh(2) by (auto simp: memory_start_def)
  show "memory_view w' = memory_view w \<and> (\<forall>t. r = Some t \<longrightarrow> defs_of t (memory_view w) = [])"
    if "startTransactionOn memory_api n tab w = (r, w')" for n tab w r w'
    using that memory_start_fresh(2) by (auto simp: memory_start_def)
  show "\<exists>f. memory_view w' = redefine op f [] (memory_view w) \<and> (res \<noteq> -1 \<longrightarrow> f = with_key name v)"
    if "equalColumn memory_api op name v w = (res, w')" for op name v w res w'
    using that by (auto split: if_splits)
  show "\<exists>f. memory_view w' = redefine op f [] (memory_view w) \<and> (res \<noteq> -1 \<longrightarrow> f = with_value name v)"
    if "setValueColumn memory_api op name v w = (res, w')" for op name v w res w'
    using that by (auto split: if_splits)
  show "(res = 0 \<or> res = -1) \<and> (\<exists>f. memory_view w' = redefine op f [] (memory_view w) \<and> (res = 0 \<longrightarrow> f = with_condition i v))"
    if "filterCmpEq memory_api op i v w = (res, w')" for op i v w res w'
    using that by auto
  show "res = 0 \<or> res = 1" if "nextResult memory_api op w = (res, w')" for op w res w'
    using that by (auto simp: memory_next_def split: list.splits)
  show "fst (equalColumn memory_api op name v w) \<noteq> -1"
    if "open_on op tab access (memory_view w)" "pr_key memory_promise tab name v" for op tab access w name v
    using memory_open_column [OF that(1), of name] that(2) by (simp add: memory_promise_def)
  show "fst (setValueColumn memory_api op name v w) \<noteq> -1"
    if "open_on op tab access (memory_view w)" "pr_value memory_promise tab name v" for op tab access w name v
    using memory_open_column [OF that(1), of name] that(2) by (simp add: memory_promise_def)
qed (simp_all add: memory_start_some memory_open_some del: not_None_eq)

end
