(* ===== verification/RowRequests.thy ===== *)
theory RowRequests
  imports MemoryDatabase ExecutorProperties
begin

text \<open>
  What a manipulation request asks of the rows, and that the executor defines exactly this on the
  transaction it prepares: one operation per message, on the store, with the keys, values, conditions
  and columns the message names.
\<close>

section \<open>The plan of a message\<close>

definition named_values :: "column_value list \<Rightarrow> (bytes \<times> bytes) list" where
  "named_values columns = map (\<lambda>c. (c_str (ColumnValue_name c), ColumnValue_value c)) columns"

definition read_access :: "'w ndb_api \<Rightarrow> ndb_table \<Rightarrow> column_value list \<Rightarrow> row_access" where
  "read_access A tab keys =
     (if int (length keys) = getNoOfPrimaryKeys A tab then ByKey
      else if keys \<noteq> [] \<and> int (length keys) < getNoOfPrimaryKeys A tab then ByIndex ''VOLODB_PRUNE_INDEX''
      else ByFilter)"

definition read_plan :: "'w ndb_api \<Rightarrow> bytes \<Rightarrow> ndb_table \<Rightarrow> get_operation \<Rightarrow> row_plan" where
  "read_plan A table tab operation =
     (let access = read_access A tab (go_primary_key operation) in
      \<lparr>rp_access = access, rp_table = table, rp_intent = ReadRows,
       rp_keys = (if access = ByFilter then [] else named_values (go_primary_key operation)), rp_values = [],
       rp_filter = (if access = ByFilter
                    then map (\<lambda>c. (the (getColumnNo A tab (c_str (ColumnValue_name c))), ColumnValue_value c)) (go_value operation)
                    else []),
       rp_columns = [0..<getNoOfColumns A tab]\<rparr>)"

definition request_plan :: "'w ndb_api \<Rightarrow> (bytes \<rightharpoonup> ndb_table) \<Rightarrow> message \<Rightarrow> row_plan option" where
  "request_plan A tables message =
     (case message of
        SetMessage operation \<Rightarrow>
          (case so_store_info operation of
             [] \<Rightarrow> None
           | si # _ \<Rightarrow> Some ((new_plan ByKey (c_str (StoreInfo_store_name si)))
               \<lparr>rp_intent := WriteRow, rp_keys := named_values (so_primary_key operation),
                rp_values := named_values (so_value operation)\<rparr>))
      | DeleteMessage operation \<Rightarrow>
          (case dl_store_info operation of
             [] \<Rightarrow> None
           | si # _ \<Rightarrow> Some ((new_plan ByKey (c_str (StoreInfo_store_name si)))
               \<lparr>rp_intent := EraseRow, rp_keys := named_values (dl_primary_key operation)\<rparr>))
      | GetMessage operation \<Rightarrow>
          (case go_store_info operation of
             [] \<Rightarrow> None
           | si # _ \<Rightarrow> (case tables (c_str (StoreInfo_store_name si)) of
                None \<Rightarrow> None
              | Some tab \<Rightarrow> Some (read_plan A (c_str (StoreInfo_store_name si)) tab operation)))
      | _ \<Rightarrow> None)"

text \<open>What the executor remembers of an operation it defined, next to what it defined.\<close>

definition describes ::
  "'w ndb_api \<Rightarrow> (bytes \<rightharpoonup> ndb_table) \<Rightarrow> message
   \<Rightarrow> transaction_operation \<times> ndb_operation \<times> row_plan \<times> ndb_rec_attr list \<Rightarrow> bool" where
  "describes A tables message = (\<lambda>(info, op, p, rs).
     request_plan A tables message = Some p \<and> to_type info = getFrameType message \<and> to_operation info = op \<and>
     length rs = length (rp_columns p) \<and>
     (to_type info = FrameItem_Type_GET \<longrightarrow> to_columns info = Some rs))"

definition add_defs ::
  "ndb_transaction \<Rightarrow> (ndb_operation \<times> row_plan \<times> ndb_rec_attr list) list \<Rightarrow> db_view \<Rightarrow> db_view" where
  "add_defs t ds v = v\<lparr>dv_defs := dv_defs v @ map (Pair t) ds\<rparr>"

lemma add_defs_Nil [simp]: "add_defs t [] v = v"
  by (simp add: add_defs_def)

lemma add_defs_snoc: "add_def t op p rs (add_defs t ds v) = add_defs t (ds @ [(op, p, rs)]) v"
  by (simp add: add_defs_def add_def_def)

lemma forget_defs [simp]: "forget t (add_defs t ds v) = forget t v"
  by (simp add: forget_def add_defs_def)

lemma add_defs_tables [simp]: "dv_tables (add_defs t ds v) = dv_tables v"
  by (simp add: add_defs_def)

lemma defs_of_defs: "defs_of u (add_defs t ds v) = defs_of u v @ (if u = t then ds else [])"
  by (simp add: defs_of_def add_defs_def comp_def)

text \<open>The cache only has tables the database has.\<close>

definition cache_fits :: "(bytes \<rightharpoonup> ndb_table) \<Rightarrow> table_info_cache \<Rightarrow> bool" where
  "cache_fits tables tic \<longleftrightarrow> (\<forall>name tab. tic_entries tic name = Some tab \<longrightarrow> tables (c_str name) = Some tab)"

lemma c_str_idem [simp]: "c_str (c_str name) = c_str name"
  by (simp add: c_str_def)

context ndb_database
begin

definition V :: "'w server \<Rightarrow> db_view" where
  "V s = view (sv_world s)"

lemma V_update [simp]:
  "V (s\<lparr>sv_world := w\<rparr>) = view w" "V (s\<lparr>sv_cache := c\<rparr>) = V s" "V (s\<lparr>sv_pending := pnd\<rparr>) = V s"
  "V (s\<lparr>sv_sent := snt\<rparr>) = V s" "V (s\<lparr>sv_unsent := u\<rparr>) = V s" "V (s\<lparr>sv_stats := st\<rparr>) = V s"
  by (simp_all add: V_def)

lemma with_world_V:
  assumes "with_world call s = (x, s1)"
  shows "call (sv_world s) = (x, sv_world s1)" and "s1 = s\<lparr>sv_world := sv_world s1\<rparr>"
  using assms by (auto simp: with_world_def split: prod.splits)

section \<open>Defining an operation\<close>

lemma setEqual_defines:
  assumes "setEqual A op columns w = (res, w1)" "view w = add_def t op p rs v" "op \<notin> set (open_operations v)"
  shows "\<exists>q. view w1 = add_def t op q rs v \<and>
    (res \<noteq> -1 \<longrightarrow> q = p\<lparr>rp_keys := rp_keys p @ named_values columns\<rparr>)"
  using assms(1,2)
proof (induction columns arbitrary: w p)
  case Nil
  then show ?case by (auto simp: named_values_def)
next
  case (Cons c columns)
  let ?name = "c_str (ColumnValue_name c)" and ?v = "ColumnValue_value c"
  obtain res2 w2 where call: "equalColumn A op ?name ?v w = (res2, w2)" by (metis surj_pair)
  from view_equal [OF call] Cons.prems(2) obtain f where
    w2: "view w2 = add_def t op (f p) rs v" and f: "res2 \<noteq> -1 \<longrightarrow> f = with_key ?name ?v"
    by (auto simp: redefine_added [OF assms(3)])
  show ?case
  proof (cases "res2 = -1 \<or> columns = []")
    case True
    with Cons.prems(1) call have "res = res2" "w1 = w2" by (auto split: if_splits)
    with w2 f True show ?thesis by (cases "res2 = -1") (auto simp: named_values_def with_key_def)
  next
    case False
    with Cons.prems(1) call have "setEqual A op columns w2 = (res, w1)" by simp
    from Cons.IH [OF this w2] False f show ?thesis by (auto simp: named_values_def with_key_def)
  qed
qed

lemma setValues_defines:
  assumes "setValues A op columns w = (ok, w1)" "view w = add_def t op p rs v" "op \<notin> set (open_operations v)"
  shows "\<exists>q. view w1 = add_def t op q rs v \<and>
    (ok \<longrightarrow> q = p\<lparr>rp_values := rp_values p @ named_values columns\<rparr>)"
  using assms(1,2)
proof (induction columns arbitrary: w p)
  case Nil
  then show ?case by (auto simp: named_values_def)
next
  case (Cons c columns)
  let ?name = "c_str (ColumnValue_name c)" and ?v = "ColumnValue_value c"
  obtain res2 w2 where call: "setValueColumn A op ?name ?v w = (res2, w2)" by (metis surj_pair)
  from view_set_value [OF call] Cons.prems(2) obtain f where
    w2: "view w2 = add_def t op (f p) rs v" and f: "res2 \<noteq> -1 \<longrightarrow> f = with_value ?name ?v"
    by (auto simp: redefine_added [OF assms(3)])
  show ?case
  proof (cases "res2 = -1")
    case True
    with Cons.prems(1) call w2 show ?thesis by auto
  next
    case False
    with Cons.prems(1) call have "setValues A op columns w2 = (ok, w1)" by simp
    from Cons.IH [OF this w2] False f show ?thesis by (auto simp: named_values_def with_value_def)
  qed
qed

lemma compareColumns_defines:
  assumes "compareColumns A op tab columns res0 w = Inr (res, w1)" "view w = add_def t op p rs v"
    and "op \<notin> set (open_operations v)" "res0 = 0"
  shows "(res = 0 \<or> res = -1) \<and> (\<exists>q. view w1 = add_def t op q rs v \<and>
    (res = 0 \<longrightarrow> q = p\<lparr>rp_filter := rp_filter p @
       map (\<lambda>c. (the (getColumnNo A tab (c_str (ColumnValue_name c))), ColumnValue_value c)) columns\<rparr>))"
  using assms(1,2,4)
proof (induction columns arbitrary: w p res0)
  case Nil
  then show ?case by auto
next
  case (Cons c columns)
  then obtain no where no: "getColumnNo A tab (c_str (ColumnValue_name c)) = Some no"
    by (auto split: option.splits)
  obtain res2 w2 where call: "filterCmpEq A op no (ColumnValue_value c) w = (res2, w2)" by (metis surj_pair)
  from view_filter_cmp [OF call] Cons.prems(2) obtain f where
    w2: "view w2 = add_def t op (f p) rs v" and f: "res2 = 0 \<longrightarrow> f = with_condition no (ColumnValue_value c)"
    and res2: "res2 = 0 \<or> res2 = -1"
    by (auto simp: redefine_added [OF assms(3)])
  show ?case
  proof (cases "res2 = -1")
    case True
    with Cons.prems(1) no call w2 show ?thesis by auto
  next
    case False
    with Cons.prems(1) no call have "compareColumns A op tab columns res2 w2 = Inr (res, w1)" by simp
    from Cons.IH [OF this w2] False f res2 no show ?thesis by (auto simp: with_condition_def)
  qed
qed

lemma getValues_defines:
  assumes "getValues A op i k rs w = ((ok, rs1), w1)" "view w = add_def t op p rs v" "op \<notin> set (open_operations v)"
  shows "\<exists>q new. view w1 = add_def t op q new v \<and>
    (view_ok (add_def t op p rs v) \<longrightarrow> view_ok (add_def t op q new v)) \<and>
    (ok \<longrightarrow> q = p\<lparr>rp_columns := rp_columns p @ [i..<i + k]\<rparr> \<and> new = rs1 \<and> length rs1 = length rs + k)"
  using assms(1,2)
proof (induction k arbitrary: i rs w p)
  case 0
  then show ?case by auto
next
  case (Suc k)
  obtain r w2 where call: "getValueColumn A op i w = (r, w2)" by (metis surj_pair)
  show ?case
  proof (cases r)
    case None
    with view_get_value [OF call] Suc.prems obtain f where "view w2 = add_def t op (f p) rs v"
      by (auto simp: redefine_added [OF assms(3)])
    with Suc.prems None call show ?thesis by (auto simp: view_ok_added)
  next
    case (Some a)
    with view_get_value [OF call] Suc.prems(2) have
      w2: "view w2 = add_def t op (with_column i p) (rs @ [a]) v" and a: "a \<notin> set (open_records v)" "a \<notin> set rs"
      by (auto simp: redefine_added [OF assms(3)])
    from Suc.prems(1) Some call have "getValues A op (Suc i) k (rs @ [a]) w2 = ((ok, rs1), w1)" by simp
    from Suc.IH [OF this w2] obtain q new where
      "view w1 = add_def t op q new v"
      "view_ok (add_def t op (with_column i p) (rs @ [a]) v) \<longrightarrow> view_ok (add_def t op q new v)"
      "ok \<longrightarrow> q = (with_column i p)\<lparr>rp_columns := rp_columns (with_column i p) @ [Suc i..<Suc i + k]\<rparr> \<and>
        new = rs1 \<and> length rs1 = length (rs @ [a]) + k"
      by blast
    with a show ?thesis
      by (intro exI [of _ q] exI [of _ new]) (auto simp: view_ok_added with_column_def upt_conv_Cons)
  qed
qed

text \<open>Opening an operation, with its intent.\<close>

lemma operation_opened:
  assumes "operation_added t access table r v v1"
  shows "r = None \<Longrightarrow> v1 = v"
    and "r = Some op \<Longrightarrow> op \<notin> set (open_operations v) \<and> v1 = add_def t op (new_plan access table) [] v"
  using assms by (auto simp: operation_added_def)

lemma opened_with_keys:
  assumes "with_world call s = (r, s1)" "\<And>w' r'. call (sv_world s) = (r', w') \<Longrightarrow>
      operation_added t access table r' (V s) (view w')"
    and "r = Some op" "\<And>w. view (intend op w) = redefine op (\<lambda>p. p\<lparr>rp_intent := intent\<rparr>) [] (view w)"
    and "with_world (setEqual A op columns) (s1\<lparr>sv_world := intend op (sv_world s1)\<rparr>) = (res, s2)"
  shows "op \<notin> set (open_operations (V s)) \<and> sv_cache s2 = sv_cache s \<and> (\<exists>q. V s2 = add_def t op q [] (V s) \<and>
    (res \<noteq> -1 \<longrightarrow> q = (new_plan access table)\<lparr>rp_intent := intent, rp_keys := named_values columns\<rparr>))"
proof -
  note call = with_world_V [OF assms(1)] and eq = with_world_V [OF assms(5)]
  from operation_opened(2) [OF assms(2) [OF call(1)] assms(3)] have
    new: "op \<notin> set (open_operations (V s))" and v1: "view (sv_world s1) = add_def t op (new_plan access table) [] (V s)"
    by auto
  then have "view (intend op (sv_world s1)) = add_def t op ((new_plan access table)\<lparr>rp_intent := intent\<rparr>) [] (V s)"
    by (simp add: assms(4) redefine_added)
  moreover have "setEqual A op columns (intend op (sv_world s1)) = (res, sv_world s2)" using eq(1) by simp
  ultimately obtain q where
    "view (sv_world s2) = add_def t op q [] (V s)"
    "res \<noteq> -1 \<longrightarrow> q = (new_plan access table)\<lparr>rp_intent := intent, rp_keys := named_values columns\<rparr>"
    using setEqual_defines [OF _ _ new] by (fastforce simp: new_plan_def)
  moreover have "sv_cache s2 = sv_cache s"
    using arg_cong [OF call(2), of sv_cache] arg_cong [OF eq(2), of sv_cache] by simp
  ultimately show ?thesis using new by (auto simp: V_def)
qed

lemma not_opened:
  assumes "with_world call s = (None, s1)" "\<And>w' r'. call (sv_world s) = (r', w') \<Longrightarrow>
      operation_added t access table r' (V s) (view w')"
  shows "V s1 = V s \<and> sv_cache s1 = sv_cache s"
  using with_world_V [OF assms(1)] operation_opened(1) [OF assms(2)] by (metis V_def server.update_convs(1) server.surjective server.simps(2))

text \<open>What an attempt to define a message's operation on a transaction leaves.\<close>

definition message_outcome ::
  "ndb_transaction \<Rightarrow> message \<Rightarrow> (ndb_operation \<times> ndb_rec_attr list option) option \<Rightarrow> db_view \<Rightarrow> db_view \<Rightarrow> bool" where
  "message_outcome t message r v v1 \<longleftrightarrow>
     (case r of
        None \<Rightarrow> forget t v1 = forget t v
      | Some (op, columns) \<Rightarrow> \<exists>p rs. op \<notin> set (open_operations v) \<and> request_plan A (dv_tables v) message = Some p \<and>
          v1 = add_def t op p rs v \<and> length rs = length (rp_columns p) \<and>
          (getFrameType message = FrameItem_Type_GET \<longrightarrow> columns = Some rs) \<and> (view_ok v \<longrightarrow> view_ok v1))"

lemma executeSet_defines:
  assumes "executeSet A operation t s = Inr (r, s1)"
  shows "message_outcome t (SetMessage operation) (map_option (\<lambda>op. (op, None)) r) (V s) (V s1) \<and>
    sv_cache s1 = sv_cache s"
proof -
  from assms obtain si sis where si: "so_store_info operation = si # sis"
    by (cases "so_store_info operation") (auto simp: executeSet_def SetOperation_store_info_def)
  let ?name = "c_str (StoreInfo_store_name si)"
  note added = view_operation [of t ?name "sv_world s", folded V_def]
  obtain o1 s2 where get: "with_world (getNdbOperation A t ?name) s = (o1, s2)" by (metis surj_pair)
  show ?thesis
  proof (cases o1)
    case None
    with not_opened [OF get [unfolded None] added] assms get show ?thesis
      by (auto simp: executeSet_def SetOperation_store_info_def si message_outcome_def)
  next
    case (Some op)
    let ?s3 = "s2\<lparr>sv_world := writeTuple A op (sv_world s2)\<rparr>"
    obtain res s4 where eq: "with_world (setEqual A op (so_primary_key operation)) ?s3 = (res, s4)"
      by (metis surj_pair)
    from opened_with_keys [where intend = "writeTuple A" and intent = WriteRow, OF get added Some view_write eq] obtain q where
      new: "op \<notin> set (open_operations (V s))" and c4: "sv_cache s4 = sv_cache s" and v4: "V s4 = add_def t op q [] (V s)"
      and q: "res \<noteq> -1 \<Longrightarrow> q = (new_plan ByKey ?name)\<lparr>rp_intent := WriteRow, rp_keys := named_values (so_primary_key operation)\<rparr>"
      by blast
    show ?thesis
    proof (cases "res = -1")
      case True
      with assms get Some eq c4 v4 show ?thesis
        by (auto simp: executeSet_def SetOperation_store_info_def si message_outcome_def setEqualPrimaryKey_def Let_def)
    next
      case False
      obtain ok s5 where vals: "with_world (setValues A op (so_value operation)) s4 = (ok, s5)" by (metis surj_pair)
      from setValues_defines [OF with_world_V(1) [OF vals] v4 [unfolded V_def] new [unfolded V_def]] obtain q1 where
        v5: "V s5 = add_def t op q1 [] (V s)"
        and q1: "ok \<Longrightarrow> q1 = q\<lparr>rp_values := rp_values q @ named_values (so_value operation)\<rparr>"
        by (auto simp: V_def)
      have "sv_cache s5 = sv_cache s" using arg_cong [OF with_world_V(2) [OF vals], of sv_cache] c4 by simp
      with False assms get Some eq vals v5 q1 q new show ?thesis
        by (auto simp: executeSet_def SetOperation_store_info_def si message_outcome_def setEqualPrimaryKey_def Let_def
            request_plan_def new_plan_def view_ok_added split: if_splits)
    qed
  qed
qed

lemma executeDelete_defines:
  assumes "executeDelete A operation t s = Inr (r, s1)"
  shows "message_outcome t (DeleteMessage operation) (map_option (\<lambda>op. (op, None)) r) (V s) (V s1) \<and>
    sv_cache s1 = sv_cache s"
proof -
  from assms obtain si sis where si: "dl_store_info operation = si # sis"
    by (cases "dl_store_info operation") (auto simp: executeDelete_def DeleteOperation_store_info_def)
  let ?name = "c_str (StoreInfo_store_name si)"
  note added = view_operation [of t ?name "sv_world s", folded V_def]
  obtain o1 s2 where get: "with_world (getNdbOperation A t ?name) s = (o1, s2)" by (metis surj_pair)
  show ?thesis
  proof (cases o1)
    case None
    with not_opened [OF get [unfolded None] added] assms get show ?thesis
      by (auto simp: executeDelete_def DeleteOperation_store_info_def si message_outcome_def)
  next
    case (Some op)
    let ?s3 = "s2\<lparr>sv_world := deleteTuple A op (sv_world s2)\<rparr>"
    obtain res s4 where eq: "with_world (setEqual A op (dl_primary_key operation)) ?s3 = (res, s4)"
      by (metis surj_pair)
    from opened_with_keys [where intend = "deleteTuple A" and intent = EraseRow, OF get added Some view_delete eq] assms get Some eq show ?thesis
      by (auto simp: executeDelete_def DeleteOperation_store_info_def si message_outcome_def setEqualPrimaryKey_def Let_def
          request_plan_def new_plan_def view_ok_added split: if_splits)
  qed
qed

section \<open>Reading\<close>

definition read_opened ::
  "ndb_transaction \<Rightarrow> row_plan \<Rightarrow> ndb_operation option \<Rightarrow> 'w server \<Rightarrow> 'w server \<Rightarrow> bool" where
  "read_opened t p r s s1 \<longleftrightarrow> sv_cache s1 = sv_cache s \<and>
     (case r of
        None \<Rightarrow> forget t (V s1) = forget t (V s)
      | Some op \<Rightarrow> op \<notin> set (open_operations (V s)) \<and> V s1 = add_def t op p [] (V s))"

lemma readByPrimaryKey_opens:
  assumes "readByPrimaryKey A name keys t s = (r, s1)"
  shows "read_opened t ((new_plan ByKey (c_str name))\<lparr>rp_intent := ReadRows, rp_keys := named_values keys\<rparr>) r s s1"
proof -
  note added = view_operation [of t "c_str name" "sv_world s", folded V_def]
  obtain o1 s2 where get: "with_world (getNdbOperation A t (c_str name)) s = (o1, s2)" by (metis surj_pair)
  show ?thesis
  proof (cases o1)
    case None
    with not_opened [OF get [unfolded None] added] assms get show ?thesis
      by (auto simp: readByPrimaryKey_def read_opened_def)
  next
    case (Some op)
    obtain res s4 where eq: "with_world (setEqual A op keys) (s2\<lparr>sv_world := simpleRead A op (sv_world s2)\<rparr>) = (res, s4)"
      by (metis surj_pair)
    from opened_with_keys [where intend = "simpleRead A" and intent = ReadRows, OF get added Some view_read eq]
      assms get Some eq show ?thesis
      by (auto simp: readByPrimaryKey_def read_opened_def setEqualPrimaryKey_def Let_def split: if_splits)
  qed
qed

lemma readByIndex_opens:
  assumes "readByIndex A name keys t s = (r, s1)"
  shows "read_opened t ((new_plan (ByIndex ''VOLODB_PRUNE_INDEX'') (c_str name))
    \<lparr>rp_intent := ReadRows, rp_keys := named_values keys\<rparr>) r s s1"
proof -
  note added = view_index_scan [of t "''VOLODB_PRUNE_INDEX''" "c_str name" "sv_world s", folded V_def]
  obtain o1 s2 where get: "with_world (getNdbIndexScanOperation A t ''VOLODB_PRUNE_INDEX'' (c_str name)) s = (o1, s2)"
    by (metis surj_pair)
  show ?thesis
  proof (cases o1)
    case None
    with not_opened [OF get [unfolded None] added] assms get show ?thesis
      by (auto simp: readByIndex_def read_opened_def)
  next
    case (Some op)
    obtain res s4 where eq: "with_world (setEqual A op keys) (s2\<lparr>sv_world := readTuples A op (sv_world s2)\<rparr>) = (res, s4)"
      by (metis surj_pair)
    from opened_with_keys [where intend = "readTuples A" and intent = ReadRows, OF get added Some view_read_tuples eq]
      assms get Some eq show ?thesis
      by (auto simp: readByIndex_def read_opened_def setEqualDistributedKey_def Let_def split: if_splits)
  qed
qed

lemma setEqualValue_defines:
  assumes "setEqualValue A columns op tab s = Inr (res, s1)" "V s = add_def t op p rs v" "op \<notin> set (open_operations v)"
  shows "sv_cache s1 = sv_cache s \<and> (\<exists>q. V s1 = add_def t op q rs v \<and>
    (res \<noteq> -1 \<longrightarrow> q = p\<lparr>rp_filter := rp_filter p @
       map (\<lambda>c. (the (getColumnNo A tab (c_str (ColumnValue_name c))), ColumnValue_value c)) columns\<rparr>))"
proof -
  obtain res0 s2 where begin_call: "with_world (filterBegin A op) s = (res0, s2)" by (metis surj_pair)
  note w2 = with_world_V [OF begin_call]
  from view_filter_begin [OF w2(1)] have v2: "view (sv_world s2) = add_def t op p rs v" and res0: "res0 = 0 \<or> res0 = -1"
    using assms(2) by (auto simp: V_def)
  have c2: "sv_cache s2 = sv_cache s" using arg_cong [OF w2(2), of sv_cache] by simp
  show ?thesis
  proof (cases "res0 = 0")
    case False
    with res0 assms(1) begin_call v2 c2 show ?thesis by (auto simp: setEqualValue_def V_def)
  next
    case True
    with assms(1) begin_call obtain y where "compareColumns A op tab columns res0 (sv_world s2) = Inr y"
      by (auto simp: setEqualValue_def bind_result_Inr_iff)
    moreover obtain res1 w1 where "y = (res1, w1)" by (cases y)
    ultimately have cmp: "compareColumns A op tab columns res0 (sv_world s2) = Inr (res1, w1)" by simp
    with True assms(1) begin_call have
      rest: "(if res1 = 0 then Inr (with_world (filterEnd A op) (s2\<lparr>sv_world := w1\<rparr>)) else Inr (res1, s2\<lparr>sv_world := w1\<rparr>)) = Inr (res, s1)"
      by (simp add: setEqualValue_def Let_def split: if_splits)
    from compareColumns_defines [OF cmp v2 assms(3) True] obtain q where
      v1: "view w1 = add_def t op q rs v" and res1: "res1 = 0 \<or> res1 = -1"
      and q: "res1 = 0 \<longrightarrow> q = p\<lparr>rp_filter := rp_filter p @
       map (\<lambda>c. (the (getColumnNo A tab (c_str (ColumnValue_name c))), ColumnValue_value c)) columns\<rparr>"
      by blast
    show ?thesis
    proof (cases "res1 = 0")
      case False
      with rest res1 v1 c2 show ?thesis by (auto simp: V_def)
    next
      case zero: True
      with rest have fin: "with_world (filterEnd A op) (s2\<lparr>sv_world := w1\<rparr>) = (res, s1)" by simp
      note w3 = with_world_V [OF fin]
      from view_filter_end [OF w3(1)] have "V s1 = view w1" by (simp add: V_def)
      moreover have "sv_cache s1 = sv_cache s2" using arg_cong [OF w3(2), of sv_cache] by simp
      ultimately show ?thesis using v1 q zero c2 by auto
    qed
  qed
qed

lemma readByScan_opens:
  assumes "readByScan A name columns tab t s = Inr (r, s1)"
  shows "read_opened t ((new_plan ByFilter (c_str name))\<lparr>rp_intent := ReadRows,
    rp_filter := map (\<lambda>c. (the (getColumnNo A tab (c_str (ColumnValue_name c))), ColumnValue_value c)) columns\<rparr>) r s s1"
proof -
  note added = view_scan [of t "c_str name" "sv_world s", folded V_def]
  obtain o1 s2 where get: "with_world (getNdbScanOperation A t (c_str name)) s = (o1, s2)" by (metis surj_pair)
  show ?thesis
  proof (cases o1)
    case None
    with not_opened [OF get [unfolded None] added] assms get show ?thesis
      by (auto simp: readByScan_def read_opened_def)
  next
    case (Some op)
    note w2 = with_world_V [OF get]
    from operation_opened(2) [OF added [OF w2(1)] Some] have new: "op \<notin> set (open_operations (V s))"
      and v2: "V (s2\<lparr>sv_world := readTuples A op (sv_world s2)\<rparr>) =
        add_def t op ((new_plan ByFilter (c_str name))\<lparr>rp_intent := ReadRows\<rparr>) [] (V s)"
      by (simp_all add: view_read_tuples redefine_added)
    have c2: "sv_cache s2 = sv_cache s" using arg_cong [OF w2(2), of sv_cache] by simp
    from assms get Some obtain res where
      val: "setEqualValue A columns op tab (s2\<lparr>sv_world := readTuples A op (sv_world s2)\<rparr>) = Inr (res, s1)"
      and r: "r = (if res = -1 then None else Some op)"
      by (auto simp: readByScan_def bind_result_Inr_iff)
    from setEqualValue_defines [OF val v2 new] r c2 new show ?thesis
      by (auto simp: read_opened_def new_plan_def)
  qed
qed

lemma lookupTable_found:
  assumes "lookupTable A n getName name s = (found, s1)" "c_str getName = c_str name"
    and "cache_fits (dv_tables (V s)) (sv_cache s)"
  shows "V s1 = V s \<and> cache_fits (dv_tables (V s)) (sv_cache s1) \<and>
    (\<forall>tab. found = Some tab \<longrightarrow> dv_tables (V s) (c_str name) = Some tab)"
proof (cases "cache_get (sv_cache s) getName")
  case (Some tab)
  then have "tic_entries (sv_cache s) getName = Some tab" by (simp add: cache_get_def split: option.splits)
  with assms(3) have "dv_tables (V s) (c_str getName) = Some tab" by (simp add: cache_fits_def)
  with Some assms show ?thesis by (auto simp: lookupTable_def cache_lookup_def)
next
  case None
  show ?thesis
  proof (cases "hasDictionary A n (sv_world s)")
    case False
    with None assms show ?thesis by (auto simp: lookupTable_def cache_lookup_def cache_set_def getInternal_def)
  next
    case True
    obtain r w1 where call: "getTable A n (c_str name) (sv_world s) = (r, w1)" by (metis surj_pair)
    from view_table [OF call] have "view w1 = V s" "\<And>tab. r = Some tab \<Longrightarrow> dv_tables (V s) (c_str name) = Some tab"
      by (auto simp: V_def)
    with None True assms call show ?thesis
      by (cases r) (auto simp: lookupTable_def cache_lookup_def cache_set_def getInternal_def cache_store_def cache_fits_def split: if_splits)
  qed
qed

lemma executeGet_defines:
  assumes "executeGet A n operation t s = Inr (r, s1)" "cache_fits (dv_tables (V s)) (sv_cache s)"
  shows "message_outcome t (GetMessage operation) (map_option (\<lambda>(op, rs). (op, Some rs)) r) (V s) (V s1) \<and>
    cache_fits (dv_tables (V s)) (sv_cache s1)"
proof -
  from assms obtain si sis where si: "go_store_info operation = si # sis"
    by (cases "go_store_info operation") (auto simp: executeGet_def GetOperation_store_info_def)
  let ?name = "StoreInfo_store_name si" and ?keys = "go_primary_key operation"
  obtain found s2 where look: "lookupTable A n ?name ?name s = (found, s2)" by (metis surj_pair)
  note f = lookupTable_found [OF look refl assms(2)]
  show ?thesis
  proof (cases found)
    case None
    with assms(1) look f show ?thesis
      by (auto simp: executeGet_def GetOperation_store_info_def si message_outcome_def)
  next
    case (Some tab)
    let ?read = "if int (length ?keys) = getNoOfPrimaryKeys A tab then Inr (readByPrimaryKey A ?name ?keys t s2)
      else if length ?keys \<noteq> 0 \<and> int (length ?keys) < getNoOfPrimaryKeys A tab then Inr (readByIndex A ?name ?keys t s2)
      else readByScan A ?name (go_value operation) tab t s2"
    let ?rest = "\<lambda>(o1, s3). case o1 of
          None \<Rightarrow> Inr (None, s3) :: ((ndb_operation \<times> ndb_rec_attr list) option \<times> 'w server) result
        | Some ndbGetOperation \<Rightarrow>
            (let ((ok, records), s4) = with_world (getValues A ndbGetOperation 0 (getNoOfColumns A tab) []) s3
             in Inr (if ok then Some (ndbGetOperation, records) else None, s4))"
    have "bind_result ?read ?rest = Inr (r, s1)"
      using assms(1) look Some unfolding executeGet_def
      by (simp only: GetOperation_store_info_def si index_Cons_0 bind_result_simps Let_def prod.case option.case)
    then obtain y where y: "?read = Inr y" "?rest y = Inr (r, s1)"
      unfolding bind_result_Inr_iff by blast
    obtain o1 s3 where pair: "y = (o1, s3)" by (cases y)
    note read = y(1) [unfolded pair] and rest = y(2) [unfolded pair]
    let ?p = "(read_plan A (c_str ?name) tab operation)\<lparr>rp_columns := []\<rparr>"
    have opened: "read_opened t ?p o1 s2 s3"
    proof (cases "int (length ?keys) = getNoOfPrimaryKeys A tab")
      case True
      with read readByPrimaryKey_opens [of ?name ?keys t s2 o1 s3] show ?thesis
        by (simp add: read_plan_def read_access_def new_plan_def)
    next
      case False
      show ?thesis
      proof (cases "length ?keys \<noteq> 0 \<and> int (length ?keys) < getNoOfPrimaryKeys A tab")
        case True
        with False read readByIndex_opens [of ?name ?keys t s2 o1 s3] show ?thesis
          by (simp add: read_plan_def read_access_def new_plan_def)
      next
        case scan: False
        with False read readByScan_opens [of ?name "go_value operation" tab t s2 o1 s3] show ?thesis
          by (auto simp: read_plan_def read_access_def new_plan_def)
      qed
    qed
    then have c3: "sv_cache s3 = sv_cache s2" by (simp add: read_opened_def)
    show ?thesis
    proof (cases o1)
      case None
      with rest opened f c3 show ?thesis by (auto simp: message_outcome_def read_opened_def)
    next
      case (Some op)
      obtain ok rs s4 where vals: "with_world (getValues A op 0 (getNoOfColumns A tab) []) s3 = ((ok, rs), s4)"
        by (metis surj_pair)
      note w4 = with_world_V [OF vals]
      from opened Some f have new: "op \<notin> set (open_operations (V s))" and v3: "view (sv_world s3) = add_def t op ?p [] (V s)"
        by (auto simp: read_opened_def V_def)
      from getValues_defines [OF w4(1) v3 new] obtain q new_rs where
        v4: "V s4 = add_def t op q new_rs (V s)"
        and ok4: "view_ok (add_def t op ?p [] (V s)) \<longrightarrow> view_ok (V s4)"
        and q: "ok \<Longrightarrow> q = ?p\<lparr>rp_columns := rp_columns ?p @ [0..<getNoOfColumns A tab]\<rparr> \<and> new_rs = rs \<and>
          length rs = getNoOfColumns A tab"
        by (auto simp: V_def)
      have c4: "sv_cache s4 = sv_cache s3" using arg_cong [OF w4(2), of sv_cache] by simp
      have r: "r = (if ok then Some (op, rs) else None)" and s1: "s1 = s4"
        using rest Some vals by simp_all
      show ?thesis
      proof (cases ok)
        case False
        with r s1 v4 f c3 c4 show ?thesis by (simp add: message_outcome_def)
      next
        case True
        from q [OF this] have "q = read_plan A (c_str ?name) tab operation" by (simp add: read_plan_def Let_def)
        moreover have "length rs = length (rp_columns (read_plan A (c_str ?name) tab operation))"
          using q [OF True] by (simp add: read_plan_def Let_def)
        moreover have "request_plan A (dv_tables (V s)) (GetMessage operation) = Some (read_plan A (c_str ?name) tab operation)"
          using f \<open>found = Some tab\<close> by (simp add: request_plan_def si)
        moreover have "view_ok (V s) \<longrightarrow> view_ok (V s4)" using ok4 new by (simp add: view_ok_added)
        ultimately show ?thesis
          using True r s1 v4 q [OF True] f c3 c4 new by (simp add: message_outcome_def)
      qed
    qed
  qed
qed

end

end
