(* ===== verification/RowAcceptance.thy ===== *)
theory RowAcceptance
  imports RowRequests
begin

text \<open>
  When the executor can define a manipulation request: if the cluster promises the accesses, columns and
  values the messages name, no call fails and an operation is defined for every message.
\<close>

section \<open>Requests the cluster promises to take\<close>

definition store_table :: "(bytes \<rightharpoonup> ndb_table) \<Rightarrow> store_info list \<Rightarrow> ndb_table option" where
  "store_table tables infos =
     (case infos of [] \<Rightarrow> None | si # _ \<Rightarrow> tables (c_str (StoreInfo_store_name si)))"

definition keys_taken :: "ndb_promise \<Rightarrow> ndb_table \<Rightarrow> column_value list \<Rightarrow> bool" where
  "keys_taken P tab columns \<longleftrightarrow> list_all (\<lambda>(name, v). pr_key P tab name v) (named_values columns)"

definition values_taken :: "ndb_promise \<Rightarrow> ndb_table \<Rightarrow> column_value list \<Rightarrow> bool" where
  "values_taken P tab columns \<longleftrightarrow> list_all (\<lambda>(name, v). pr_value P tab name v) (named_values columns)"

definition read_taken :: "'w ndb_api \<Rightarrow> ndb_promise \<Rightarrow> ndb_table \<Rightarrow> get_operation \<Rightarrow> bool" where
  "read_taken A P tab operation \<longleftrightarrow>
     (let access = read_access A tab (go_primary_key operation) in
      pr_access P tab access \<and>
      (if access = ByFilter then values_taken P tab (go_value operation)
       else keys_taken P tab (go_primary_key operation)))"

definition request_taken :: "'w ndb_api \<Rightarrow> ndb_promise \<Rightarrow> (bytes \<rightharpoonup> ndb_table) \<Rightarrow> message \<Rightarrow> bool" where
  "request_taken A P tables message \<longleftrightarrow>
     (case message of
        SetMessage operation \<Rightarrow>
          (case store_table tables (so_store_info operation) of
             None \<Rightarrow> False
           | Some tab \<Rightarrow> pr_access P tab ByKey \<and> keys_taken P tab (so_primary_key operation) \<and>
               values_taken P tab (so_value operation))
      | DeleteMessage operation \<Rightarrow>
          (case store_table tables (dl_store_info operation) of
             None \<Rightarrow> False
           | Some tab \<Rightarrow> pr_access P tab ByKey \<and> keys_taken P tab (dl_primary_key operation))
      | GetMessage operation \<Rightarrow>
          (case store_table tables (go_store_info operation) of
             None \<Rightarrow> False
           | Some tab \<Rightarrow> read_taken A P tab operation)
      | _ \<Rightarrow> False)"

lemma named_values_simps [simp]:
  "named_values [] = []"
  "named_values (c # columns) = (c_str (ColumnValue_name c), ColumnValue_value c) # named_values columns"
  by (simp_all add: named_values_def)

lemma open_on_added:
  assumes "view_ok (add_def t op p rs v)" "dv_tables v (rp_table p) = Some tab" "rp_access p = access"
  shows "open_on op tab access (add_def t op p rs v)"
  using assms by (auto simp: open_on_def add_def_def)

context ndb_database
begin

section \<open>No call fails\<close>

lemma setEqual_taken:
  assumes "setEqual A op columns w = (res, w1)" "view w = add_def t op p rs v" "view_ok (add_def t op p rs v)"
    and "dv_tables v (rp_table p) = Some tab" "pr_access P tab (rp_access p)" "keys_taken P tab columns"
  shows "res \<noteq> -1"
  using assms
proof (induction columns arbitrary: w p)
  case Nil
  then show ?case by simp
next
  case (Cons c columns)
  let ?name = "c_str (ColumnValue_name c)" and ?v = "ColumnValue_value c"
  obtain res2 w2 where call: "equalColumn A op ?name ?v w = (res2, w2)" by (metis surj_pair)
  have key: "pr_key P tab ?name ?v" "keys_taken P tab columns" using Cons.prems(6) by (simp_all add: keys_taken_def)
  have "open_on op tab (rp_access p) (view w)"
    unfolding Cons.prems(2) by (rule open_on_added [OF Cons.prems(3,4) refl])
  from takes_key [OF this Cons.prems(5) key(1)] call have res2: "res2 \<noteq> -1" by (metis fst_conv)
  have new: "op \<notin> set (open_operations v)" using Cons.prems(3) by (simp add: view_ok_added)
  from view_equal [OF call] res2 Cons.prems(2) have "view w2 = add_def t op (with_key ?name ?v p) rs v"
    by (auto simp: redefine_added [OF new])
  with Cons.IH [of w2 "with_key ?name ?v p"] Cons.prems(1,3-5) call res2 key(2) show ?case
    by (auto simp: with_key_def view_ok_added split: if_splits)
qed

lemma setValues_taken:
  assumes "setValues A op columns w = (ok, w1)" "view w = add_def t op p rs v" "view_ok (add_def t op p rs v)"
    and "dv_tables v (rp_table p) = Some tab" "pr_access P tab (rp_access p)" "values_taken P tab columns"
  shows "ok"
  using assms
proof (induction columns arbitrary: w p)
  case Nil
  then show ?case by simp
next
  case (Cons c columns)
  let ?name = "c_str (ColumnValue_name c)" and ?v = "ColumnValue_value c"
  obtain res2 w2 where call: "setValueColumn A op ?name ?v w = (res2, w2)" by (metis surj_pair)
  have taken: "pr_value P tab ?name ?v" "values_taken P tab columns" using Cons.prems(6) by (simp_all add: values_taken_def)
  have "open_on op tab (rp_access p) (view w)"
    unfolding Cons.prems(2) by (rule open_on_added [OF Cons.prems(3,4) refl])
  from takes_value [OF this Cons.prems(5) taken(1)] call have res2: "res2 \<noteq> -1" by (metis fst_conv)
  have new: "op \<notin> set (open_operations v)" using Cons.prems(3) by (simp add: view_ok_added)
  from view_set_value [OF call] res2 Cons.prems(2) have "view w2 = add_def t op (with_value ?name ?v p) rs v"
    by (auto simp: redefine_added [OF new])
  with Cons.IH [of w2 "with_value ?name ?v p"] Cons.prems(1,3-5) call res2 taken(2) show ?case
    by (auto simp: with_value_def view_ok_added)
qed

lemma getValues_taken:
  assumes "getValues A op i k rs0 w = ((ok, rs1), w1)" "view w = add_def t op p rs v" "view_ok (add_def t op p rs v)"
    and "dv_tables v (rp_table p) = Some tab" "pr_access P tab (rp_access p)" "i + k \<le> getNoOfColumns A tab"
  shows "ok"
  using assms
proof (induction k arbitrary: i rs0 rs w p)
  case 0
  then show ?case by simp
next
  case (Suc k)
  obtain r w2 where call: "getValueColumn A op i w = (r, w2)" by (metis surj_pair)
  have "open_on op tab (rp_access p) (view w)"
    unfolding Suc.prems(2) by (rule open_on_added [OF Suc.prems(3,4) refl])
  from takes_column [OF this Suc.prems(5), of i] Suc.prems(6) call obtain a where a: "r = Some a" by auto
  have new: "op \<notin> set (open_operations v)" using Suc.prems(3) by (simp add: view_ok_added)
  from view_get_value [OF call] a Suc.prems(2) have
    w2: "view w2 = add_def t op (with_column i p) (rs @ [a]) v" and fresh: "a \<notin> set rs \<union> set (open_records v)"
    by (auto simp: redefine_added [OF new])
  from Suc.prems(1) call a have "getValues A op (Suc i) k (rs0 @ [a]) w2 = ((ok, rs1), w1)" by simp
  from Suc.IH [OF this w2] Suc.prems(3-6) fresh show ?case by (auto simp: with_column_def view_ok_added)
qed

lemma compareColumns_taken:
  assumes "compareColumns A op tab columns res0 w = Inr (res, w1)" "view w = add_def t op p rs v"
    and "view_ok (add_def t op p rs v)" "dv_tables v (rp_table p) = Some tab" "rp_access p = ByFilter"
    and "pr_access P tab ByFilter" "values_taken P tab columns" "res0 = 0"
  shows "res = 0"
  using assms
proof (induction columns arbitrary: w p res0)
  case Nil
  then show ?case by simp
next
  case (Cons c columns)
  then obtain no where no: "getColumnNo A tab (c_str (ColumnValue_name c)) = Some no"
    by (auto split: option.splits)
  obtain res2 w2 where call: "filterCmpEq A op no (ColumnValue_value c) w = (res2, w2)" by (metis surj_pair)
  have taken: "pr_value P tab (c_str (ColumnValue_name c)) (ColumnValue_value c)" "values_taken P tab columns"
    using Cons.prems(7) by (simp_all add: values_taken_def)
  have "open_on op tab ByFilter (view w)"
    unfolding Cons.prems(2) by (rule open_on_added [OF Cons.prems(3-5)])
  from takes_condition [OF this Cons.prems(6) no taken(1)] call have res2: "res2 = 0" by (metis fst_conv)
  have new: "op \<notin> set (open_operations v)" using Cons.prems(3) by (simp add: view_ok_added)
  from view_filter_cmp [OF call] res2 Cons.prems(2) have "view w2 = add_def t op (with_condition no (ColumnValue_value c) p) rs v"
    by (auto simp: redefine_added [OF new])
  moreover from Cons.prems(1) no call res2 have "compareColumns A op tab columns res2 w2 = Inr (res, w1)" by simp
  ultimately show ?case
    using Cons.IH [of res2 w2 "with_condition no (ColumnValue_value c) p"] Cons.prems(3-6) taken(2) res2
    by (simp add: with_condition_def view_ok_added)
qed

text \<open>An operation by key, from its creation to its keys.\<close>

lemma opened_takes_keys:
  assumes "with_world call s = (r, s1)" "\<And>w' r'. call (sv_world s) = (r', w') \<Longrightarrow>
      operation_added t access table r' (V s) (view w')"
    and "r = Some op" "\<And>w. view (intend op w) = redefine op (\<lambda>p. p\<lparr>rp_intent := intent\<rparr>) [] (view w)"
    and "with_world (setEqual A op columns) (s1\<lparr>sv_world := intend op (sv_world s1)\<rparr>) = (res, s2)"
    and "view_ok (V s)" "dv_tables (V s) table = Some tab" "pr_access P tab access" "keys_taken P tab columns"
  shows "res \<noteq> -1"
proof -
  note call = with_world_V [OF assms(1)] and eq = with_world_V [OF assms(5)]
  let ?p = "(new_plan access table)\<lparr>rp_intent := intent\<rparr>"
  from operation_opened(2) [OF assms(2) [OF call(1)] assms(3)] have
    new: "op \<notin> set (open_operations (V s))" and v1: "view (sv_world s1) = add_def t op (new_plan access table) [] (V s)"
    by auto
  then have "view (intend op (sv_world s1)) = add_def t op ?p [] (V s)"
    by (simp add: assms(4) redefine_added)
  moreover have "setEqual A op columns (intend op (sv_world s1)) = (res, sv_world s2)" using eq(1) by simp
  moreover have "view_ok (add_def t op ?p [] (V s))" using assms(6) new by (simp add: view_ok_added)
  ultimately show ?thesis
    using setEqual_taken [of op columns _ res "sv_world s2" t ?p] assms(7-9) by (simp add: new_plan_def)
qed

lemma executeSet_taken:
  assumes "executeSet A operation t s = Inr (r, s1)" "view_ok (V s)"
    and "request_taken A P (dv_tables (V s)) (SetMessage operation)"
  shows "r \<noteq> None"
proof -
  from assms(3) obtain si sis tab where si: "so_store_info operation = si # sis"
    and tab: "dv_tables (V s) (c_str (StoreInfo_store_name si)) = Some tab" "pr_access P tab ByKey"
      "keys_taken P tab (so_primary_key operation)" "values_taken P tab (so_value operation)"
    by (auto simp: request_taken_def store_table_def split: list.splits option.splits)
  let ?name = "c_str (StoreInfo_store_name si)"
  note added = view_operation [of t ?name "sv_world s", folded V_def]
  obtain o1 s2 where get: "with_world (getNdbOperation A t ?name) s = (o1, s2)" by (metis surj_pair)
  from ready_operation [OF tab(1) [unfolded V_def] tab(2), of t] with_world_V(1) [OF get] obtain op where op: "o1 = Some op"
    by auto
  obtain res s4 where eq: "with_world (setEqual A op (so_primary_key operation)) (s2\<lparr>sv_world := writeTuple A op (sv_world s2)\<rparr>) = (res, s4)"
    by (metis surj_pair)
  note opened = opened_with_keys [where intend = "writeTuple A" and intent = WriteRow, OF get added op view_write eq]
  have res: "res \<noteq> -1"
    by (rule opened_takes_keys [where intend = "writeTuple A" and intent = WriteRow, OF get added op view_write eq assms(2) tab(1-3)])
  with opened have new: "op \<notin> set (open_operations (V s))" and
    v4: "V s4 = add_def t op ((new_plan ByKey ?name)\<lparr>rp_intent := WriteRow, rp_keys := named_values (so_primary_key operation)\<rparr>) [] (V s)"
    by auto
  obtain ok s5 where vals: "with_world (setValues A op (so_value operation)) s4 = (ok, s5)" by (metis surj_pair)
  from setValues_taken [OF with_world_V(1) [OF vals] v4 [unfolded V_def]] new assms(2) tab have ok
    by (simp add: view_ok_added new_plan_def V_def)
  with assms(1) get op eq res vals show ?thesis
    by (auto simp: executeSet_def SetOperation_store_info_def si setEqualPrimaryKey_def Let_def)
qed

lemma executeDelete_taken:
  assumes "executeDelete A operation t s = Inr (r, s1)" "view_ok (V s)"
    and "request_taken A P (dv_tables (V s)) (DeleteMessage operation)"
  shows "r \<noteq> None"
proof -
  from assms(3) obtain si sis tab where si: "dl_store_info operation = si # sis"
    and tab: "dv_tables (V s) (c_str (StoreInfo_store_name si)) = Some tab" "pr_access P tab ByKey"
      "keys_taken P tab (dl_primary_key operation)"
    by (auto simp: request_taken_def store_table_def split: list.splits option.splits)
  let ?name = "c_str (StoreInfo_store_name si)"
  note added = view_operation [of t ?name "sv_world s", folded V_def]
  obtain o1 s2 where get: "with_world (getNdbOperation A t ?name) s = (o1, s2)" by (metis surj_pair)
  from ready_operation [OF tab(1) [unfolded V_def] tab(2), of t] with_world_V(1) [OF get] obtain op where op: "o1 = Some op"
    by auto
  obtain res s4 where eq: "with_world (setEqual A op (dl_primary_key operation)) (s2\<lparr>sv_world := deleteTuple A op (sv_world s2)\<rparr>) = (res, s4)"
    by (metis surj_pair)
  have "res \<noteq> -1"
    by (rule opened_takes_keys [where intend = "deleteTuple A" and intent = EraseRow, OF get added op view_delete eq assms(2) tab])
  with assms(1) get op eq show ?thesis
    by (auto simp: executeDelete_def DeleteOperation_store_info_def si setEqualPrimaryKey_def Let_def)
qed

section \<open>Reading\<close>

lemma lookupTable_taken:
  assumes "lookupTable A n getName name s = (found, s1)" "c_str getName = c_str name"
    and "cache_fits (dv_tables (V s)) (sv_cache s)" "dv_tables (V s) (c_str name) = Some tab" "pr_access P tab access"
  shows "found = Some tab"
proof (cases "cache_get (sv_cache s) getName")
  case (Some tab1)
  then have "tic_entries (sv_cache s) getName = Some tab1" by (simp add: cache_get_def split: option.splits)
  with assms(3) have "dv_tables (V s) (c_str getName) = Some tab1" by (simp add: cache_fits_def)
  with assms(2,4) have "tab1 = tab" by simp
  with Some assms(1) show ?thesis by (simp add: lookupTable_def cache_lookup_def)
next
  case None
  obtain r w1 where call: "getTable A n (c_str name) (sv_world s) = (r, w1)" by (metis surj_pair)
  with ready_table [OF assms(4) [unfolded V_def] assms(5), of n] have "hasDictionary A n (sv_world s)" "r = Some tab" by simp_all
  with None assms(1) call show ?thesis
    by (auto simp: lookupTable_def cache_lookup_def cache_set_def getInternal_def)
qed

lemma readByPrimaryKey_taken:
  assumes "readByPrimaryKey A name keys t s = (r, s1)" "view_ok (V s)"
    and "dv_tables (V s) (c_str name) = Some tab" "pr_access P tab ByKey" "keys_taken P tab keys"
  shows "r \<noteq> None"
proof -
  note added = view_operation [of t "c_str name" "sv_world s", folded V_def]
  obtain o1 s2 where get: "with_world (getNdbOperation A t (c_str name)) s = (o1, s2)" by (metis surj_pair)
  from ready_operation [OF assms(3) [unfolded V_def] assms(4), of t] with_world_V(1) [OF get] obtain op where op: "o1 = Some op"
    by auto
  obtain res s4 where eq: "with_world (setEqual A op keys) (s2\<lparr>sv_world := simpleRead A op (sv_world s2)\<rparr>) = (res, s4)"
    by (metis surj_pair)
  have "res \<noteq> -1"
    by (rule opened_takes_keys [where intend = "simpleRead A" and intent = ReadRows, OF get added op view_read eq assms(2-5)])
  with assms(1) get op eq show ?thesis by (auto simp: readByPrimaryKey_def setEqualPrimaryKey_def Let_def)
qed

lemma readByIndex_taken:
  assumes "readByIndex A name keys t s = (r, s1)" "view_ok (V s)"
    and "dv_tables (V s) (c_str name) = Some tab" "pr_access P tab (ByIndex ''VOLODB_PRUNE_INDEX'')" "keys_taken P tab keys"
  shows "r \<noteq> None"
proof -
  note added = view_index_scan [of t "''VOLODB_PRUNE_INDEX''" "c_str name" "sv_world s", folded V_def]
  obtain o1 s2 where get: "with_world (getNdbIndexScanOperation A t ''VOLODB_PRUNE_INDEX'' (c_str name)) s = (o1, s2)"
    by (metis surj_pair)
  from ready_index_scan [OF assms(3) [unfolded V_def] assms(4), of t] with_world_V(1) [OF get] obtain op where op: "o1 = Some op"
    by auto
  obtain res s4 where eq: "with_world (setEqual A op keys) (s2\<lparr>sv_world := readTuples A op (sv_world s2)\<rparr>) = (res, s4)"
    by (metis surj_pair)
  have "res \<noteq> -1"
    by (rule opened_takes_keys [where intend = "readTuples A" and intent = ReadRows, OF get added op view_read_tuples eq assms(2-5)])
  with assms(1) get op eq show ?thesis by (auto simp: readByIndex_def setEqualDistributedKey_def Let_def)
qed

lemma setEqualValue_taken:
  assumes "setEqualValue A columns op tab s = Inr (res, s1)" "V s = add_def t op p rs v" "view_ok (V s)"
    and "dv_tables v (rp_table p) = Some tab" "rp_access p = ByFilter" "pr_access P tab ByFilter" "values_taken P tab columns"
  shows "res \<noteq> -1"
proof -
  have new: "op \<notin> set (open_operations v)" using assms(2,3) by (simp add: view_ok_added)
  have on: "open_on op tab ByFilter (view w)" if "view w = add_def t op q rs v" "rp_table q = rp_table p" "rp_access q = ByFilter" for w q
    unfolding that(1) by (rule open_on_added) (use assms(2-4) that in \<open>simp_all add: view_ok_added\<close>)
  obtain res0 s2 where begin_call: "with_world (filterBegin A op) s = (res0, s2)" by (metis surj_pair)
  note w2 = with_world_V [OF begin_call]
  have v: "view (sv_world s) = add_def t op p rs v" using assms(2) by (simp add: V_def)
  have res0: "res0 = 0" using takes_filter [OF on [OF v refl assms(5)] assms(6)] w2(1) by simp
  with view_filter_begin [OF w2(1)] v have v2: "view (sv_world s2) = add_def t op p rs v" by simp
  from assms(1) begin_call res0 obtain y where "compareColumns A op tab columns 0 (sv_world s2) = Inr y"
    by (auto simp: setEqualValue_def bind_result_Inr_iff)
  moreover obtain res1 w1 where "y = (res1, w1)" by (cases y)
  ultimately have cmp: "compareColumns A op tab columns 0 (sv_world s2) = Inr (res1, w1)" by simp
  with assms(1) begin_call res0 have
    rest: "(if res1 = 0 then Inr (with_world (filterEnd A op) (s2\<lparr>sv_world := w1\<rparr>)) else Inr (res1, s2\<lparr>sv_world := w1\<rparr>)) = Inr (res, s1)"
    by (simp add: setEqualValue_def Let_def split: if_splits)
  from compareColumns_taken [OF cmp v2 _ assms(4,5,6,7) refl] assms(2,3) have res1: "res1 = 0" by simp
  from compareColumns_defines [OF cmp v2 new refl] res1 obtain q where
    "view w1 = add_def t op q rs v" "rp_table q = rp_table p" "rp_access q = ByFilter"
    using assms(5) by auto
  from takes_filter [OF on [OF this] assms(6)] rest res1 show ?thesis
    by (auto simp: with_world_def split: prod.splits)
qed

lemma readByScan_taken:
  assumes "readByScan A name columns tab t s = Inr (r, s1)" "view_ok (V s)"
    and "dv_tables (V s) (c_str name) = Some tab" "pr_access P tab ByFilter" "values_taken P tab columns"
  shows "r \<noteq> None"
proof -
  obtain o1 s2 where get: "with_world (getNdbScanOperation A t (c_str name)) s = (o1, s2)" by (metis surj_pair)
  note w2 = with_world_V [OF get]
  from ready_scan [OF assms(3) [unfolded V_def] assms(4), of t] w2(1) obtain op where op: "o1 = Some op" by auto
  let ?s3 = "s2\<lparr>sv_world := readTuples A op (sv_world s2)\<rparr>"
  let ?p = "(new_plan ByFilter (c_str name))\<lparr>rp_intent := ReadRows\<rparr>"
  from operation_opened(2) [OF view_scan [OF w2(1)] op] have
    new: "op \<notin> set (open_operations (V s))" and v2: "view (sv_world s2) = add_def t op (new_plan ByFilter (c_str name)) [] (V s)"
    by (auto simp: V_def)
  from new v2 have v3: "V ?s3 = add_def t op ?p [] (V s)" by (simp add: view_read_tuples redefine_added)
  from assms(1) get op obtain res s4 where eq: "setEqualValue A columns op tab ?s3 = Inr (res, s4)"
    and r: "r = (if res = -1 then None else Some op)"
    by (auto simp: readByScan_def bind_result_Inr_iff)
  from setEqualValue_taken [OF eq v3] new assms(2-5) r show ?thesis
    unfolding v3 by (simp add: view_ok_added new_plan_def)
qed

lemma executeGet_taken:
  assumes "executeGet A n operation t s = Inr (r, s1)" "view_ok (V s)" "cache_fits (dv_tables (V s)) (sv_cache s)"
    and "request_taken A P (dv_tables (V s)) (GetMessage operation)"
  shows "r \<noteq> None"
proof -
  from assms(4) obtain si sis tab where si: "go_store_info operation = si # sis"
    and tab: "dv_tables (V s) (c_str (StoreInfo_store_name si)) = Some tab" "read_taken A P tab operation"
    by (auto simp: request_taken_def store_table_def split: list.splits option.splits)
  let ?name = "StoreInfo_store_name si" and ?keys = "go_primary_key operation"
  let ?access = "read_access A tab ?keys"
  from tab(2) have access: "pr_access P tab ?access" by (simp add: read_taken_def Let_def)
  obtain found s2 where look: "lookupTable A n ?name ?name s = (found, s2)" by (metis surj_pair)
  have found: "found = Some tab" by (rule lookupTable_taken [OF look refl assms(3) tab(1) access])
  from lookupTable_found [OF look refl assms(3)] have v2: "V s2 = V s" by blast
  let ?read = "if int (length ?keys) = getNoOfPrimaryKeys A tab then Inr (readByPrimaryKey A ?name ?keys t s2)
    else if length ?keys \<noteq> 0 \<and> int (length ?keys) < getNoOfPrimaryKeys A tab then Inr (readByIndex A ?name ?keys t s2)
    else readByScan A ?name (go_value operation) tab t s2"
  let ?rest = "\<lambda>(o1, s3). case o1 of
        None \<Rightarrow> Inr (None, s3) :: ((ndb_operation \<times> ndb_rec_attr list) option \<times> 'w server) result
      | Some ndbGetOperation \<Rightarrow>
          (let ((ok, records), s4) = with_world (getValues A ndbGetOperation 0 (getNoOfColumns A tab) []) s3
           in Inr (if ok then Some (ndbGetOperation, records) else None, s4))"
  have "bind_result ?read ?rest = Inr (r, s1)"
    using assms(1) look found unfolding executeGet_def
    by (simp only: GetOperation_store_info_def si index_Cons_0 bind_result_simps Let_def prod.case option.case)
  then obtain y where y: "?read = Inr y" "?rest y = Inr (r, s1)"
    unfolding bind_result_Inr_iff by blast
  obtain o1 s3 where pair: "y = (o1, s3)" by (cases y)
  note read = y(1) [unfolded pair] and rest = y(2) [unfolded pair]
  let ?p = "(read_plan A (c_str ?name) tab operation)\<lparr>rp_columns := []\<rparr>"
  note ok2 = assms(2) [folded v2] and tab2 = tab(1) [folded v2]
  have opened: "read_opened t ?p o1 s2 s3 \<and> o1 \<noteq> None"
  proof (cases "int (length ?keys) = getNoOfPrimaryKeys A tab")
    case True
    then have "?access = ByKey" by (simp add: read_access_def)
    with tab(2) have "pr_access P tab ByKey" "keys_taken P tab ?keys" by (simp_all add: read_taken_def)
    from readByPrimaryKey_taken [OF _ ok2 tab2 this] True read readByPrimaryKey_opens [of ?name ?keys t s2 o1 s3] show ?thesis
      by (simp add: read_plan_def read_access_def new_plan_def del: not_None_eq)
  next
    case False
    show ?thesis
    proof (cases "length ?keys \<noteq> 0 \<and> int (length ?keys) < getNoOfPrimaryKeys A tab")
      case True
      with False have "?access = ByIndex ''VOLODB_PRUNE_INDEX''" by (simp add: read_access_def)
      with tab(2) have "pr_access P tab (ByIndex ''VOLODB_PRUNE_INDEX'')" "keys_taken P tab ?keys" by (simp_all add: read_taken_def)
      from readByIndex_taken [OF _ ok2 tab2 this] True False read readByIndex_opens [of ?name ?keys t s2 o1 s3] show ?thesis
        by (simp add: read_plan_def read_access_def new_plan_def del: not_None_eq)
    next
      case scan: False
      with False have "?access = ByFilter" by (auto simp: read_access_def)
      with tab(2) have "pr_access P tab ByFilter" "values_taken P tab (go_value operation)" by (simp_all add: read_taken_def)
      from readByScan_taken [OF _ ok2 tab2 this] False scan read readByScan_opens [of ?name "go_value operation" tab t s2 o1 s3] show ?thesis
        by (auto simp: read_plan_def read_access_def new_plan_def)
    qed
  qed
  then obtain op where op: "o1 = Some op" by auto
  with opened have "op \<notin> set (open_operations (V s2))" and "V s3 = add_def t op ?p [] (V s2)"
    by (simp_all add: read_opened_def)
  then have new: "op \<notin> set (open_operations (V s))" and v3: "view (sv_world s3) = add_def t op ?p [] (V s)"
    by (simp_all add: v2 V_def [symmetric])
  obtain ok rs s4 where vals: "with_world (getValues A op 0 (getNoOfColumns A tab) []) s3 = ((ok, rs), s4)"
    by (metis surj_pair)
  have "view_ok (add_def t op ?p [] (V s))" using new assms(2) by (simp add: view_ok_added)
  from getValues_taken [OF with_world_V(1) [OF vals] v3 this] tab(1) access have ok
    by (simp add: read_plan_def Let_def)
  with rest op vals show ?thesis by (auto simp: Let_def)
qed

section \<open>A message\<close>

lemma with_world_start:
  assumes "with_world call s = (r, s1)"
    and "\<And>r' w'. call (sv_world s) = (r', w') \<Longrightarrow> view w' = view (sv_world s) \<and> (\<forall>t. r' = Some t \<longrightarrow> defs_of t (view (sv_world s)) = [])"
  shows "V s1 = V s \<and> sv_cache s1 = sv_cache s \<and> (\<forall>t. r = Some t \<longrightarrow> defs_of t (V s) = [])"
  using with_world_V [OF assms(1)] assms(2) by (metis V_def server.select_convs(2) server.update_convs(1) server.surjective)

lemma startTransaction_view:
  assumes "startTransaction A n columns name s = Inr (r, s1)" "cache_fits (dv_tables (V s)) (sv_cache s)"
  shows "V s1 = V s \<and> cache_fits (dv_tables (V s)) (sv_cache s1) \<and> (\<forall>t. r = Some t \<longrightarrow> defs_of t (V s) = [])"
proof -
  obtain found s0 where look: "lookupTable A n (c_str name) name s = (found, s0)" by (metis surj_pair)
  note f = lookupTable_found [OF look _ assms(2), simplified]
  show ?thesis
  proof (cases found)
    case None
    with assms(1) look f show ?thesis by (auto simp: startTransaction_def)
  next
    case (Some tab)
    show ?thesis
    proof (cases "getNoDistributionKeyIndexes columns > 0")
      case True
      with assms(1) look Some obtain hint where
        "with_world (startTransactionWithHint A n tab hint) s0 = (r, s1)"
        by (auto simp: startTransaction_def bind_result_Inr_iff)
      from with_world_start [OF this view_start_hint] f show ?thesis by auto
    next
      case False
      with assms(1) look Some have "with_world (startTransactionOn A n tab) s0 = (r, s1)"
        by (simp add: startTransaction_def)
      from with_world_start [OF this view_start] f show ?thesis by auto
    qed
  qed
qed

lemma startTransaction_taken:
  assumes "startTransaction A n columns name s = Inr (r, s1)" "cache_fits (dv_tables (V s)) (sv_cache s)"
    and "dv_tables (V s) (c_str name) = Some tab" "pr_access P tab access"
  shows "r \<noteq> None"
proof -
  obtain found s0 where look: "lookupTable A n (c_str name) name s = (found, s0)" by (metis surj_pair)
  from lookupTable_taken [OF look _ assms(2-4)] have found: "found = Some tab" by simp
  show ?thesis
  proof (cases "getNoDistributionKeyIndexes columns > 0")
    case True
    with assms(1) look found obtain hint where
      "with_world (startTransactionWithHint A n tab hint) s0 = (r, s1)"
      by (auto simp: startTransaction_def bind_result_Inr_iff)
    from with_world_V(1) [OF this] ready_start_hint [OF assms(4)] show ?thesis by (metis fst_conv)
  next
    case False
    with assms(1) look found have "with_world (startTransactionOn A n tab) s0 = (r, s1)"
      by (simp add: startTransaction_def)
    from with_world_V(1) [OF this] ready_start [OF assms(4)] show ?thesis by (metis fst_conv)
  qed
qed

lemma ensure_define_taken:
  assumes "bind_result (ensureTransaction A n columns si transaction s) (defineOn exec) = Inr (transaction1, r, s1)"
    and "cache_fits (dv_tables (V s)) (sv_cache s)" "view_ok (V s)"
    and "dv_tables (V s) (c_str (StoreInfo_store_name si)) = Some tab" "pr_access P tab access"
    and "\<And>t r s0 s1. exec t s0 = Inr (r, s1) \<Longrightarrow> V s0 = V s \<Longrightarrow> cache_fits (dv_tables (V s)) (sv_cache s0) \<Longrightarrow> r \<noteq> None"
  shows "r \<noteq> None"
proof -
  obtain t0 s0 where ensured: "ensureTransaction A n columns si transaction s = Inr (t0, s0)"
    and defined: "defineOn exec (t0, s0) = Inr (transaction1, r, s1)"
    using assms(1) by (auto simp: bind_result_Inr_iff)
  have t0: "V s0 = V s" "cache_fits (dv_tables (V s)) (sv_cache s0)" "t0 \<noteq> None"
    using ensured startTransaction_view [OF _ assms(2)] startTransaction_taken [OF _ assms(2,4,5)] assms(2)
    by (auto simp: ensureTransaction_def simp del: not_None_eq split: option.splits)
  then obtain t where "t0 = Some t" by blast
  with defined obtain r' where "exec t s0 = Inr (r, s1)"
    by (auto simp: defineOn_def bind_result_Inr_iff)
  from assms(6) [OF this t0(1,2)] show ?thesis .
qed

lemma executeManipulation_taken:
  assumes "executeManipulation A n message transaction s = Inr (transaction1, r, s1)"
    and "cache_fits (dv_tables (V s)) (sv_cache s)" "view_ok (V s)" "request_taken A P (dv_tables (V s)) message"
  shows "r \<noteq> None"
proof (cases message)
  case (SetMessage op)
  with assms(4) obtain si sis tab where si: "so_store_info op = si # sis"
    and tab: "dv_tables (V s) (c_str (StoreInfo_store_name si)) = Some tab" "pr_access P tab ByKey"
    by (auto simp: request_taken_def store_table_def split: list.splits option.splits)
  from assms(1) have "bind_result (ensureTransaction A n (so_primary_key op) si transaction s)
      (defineOn (\<lambda>t s1. bind_result (executeSet A op t s1) (\<lambda>(op, s2). Inr (map_option (\<lambda>o1. (o1, None :: ndb_rec_attr list option)) op, s2)))) =
    Inr (transaction1, r, s1)"
    by (simp add: SetMessage executeManipulation_def SetOperation_store_info_def si)
  then show ?thesis
    by (rule ensure_define_taken [OF _ assms(2,3) tab])
      (use executeSet_taken assms(3,4) in \<open>fastforce simp: SetMessage bind_result_Inr_iff\<close>)
next
  case (DeleteMessage op)
  with assms(4) obtain si sis tab where si: "dl_store_info op = si # sis"
    and tab: "dv_tables (V s) (c_str (StoreInfo_store_name si)) = Some tab" "pr_access P tab ByKey"
    by (auto simp: request_taken_def store_table_def split: list.splits option.splits)
  from assms(1) have "bind_result (ensureTransaction A n (dl_primary_key op) si transaction s)
      (defineOn (\<lambda>t s1. bind_result (executeDelete A op t s1) (\<lambda>(op, s2). Inr (map_option (\<lambda>o1. (o1, None :: ndb_rec_attr list option)) op, s2)))) =
    Inr (transaction1, r, s1)"
    by (simp add: DeleteMessage executeManipulation_def DeleteOperation_store_info_def si)
  then show ?thesis
    by (rule ensure_define_taken [OF _ assms(2,3) tab])
      (use executeDelete_taken assms(3,4) in \<open>fastforce simp: DeleteMessage bind_result_Inr_iff\<close>)
next
  case (GetMessage op)
  with assms(4) obtain si sis tab where si: "go_store_info op = si # sis"
    and tab: "dv_tables (V s) (c_str (StoreInfo_store_name si)) = Some tab" "read_taken A P tab op"
    by (auto simp: request_taken_def store_table_def split: list.splits option.splits)
  from assms(1) have "bind_result (ensureTransaction A n (go_primary_key op) si transaction s)
      (defineOn (\<lambda>t s1. bind_result (executeGet A n op t s1) (\<lambda>(op, s2). Inr (map_option (\<lambda>(o1, records). (o1, Some records)) op, s2)))) =
    Inr (transaction1, r, s1)"
    by (simp add: GetMessage executeManipulation_def GetOperation_store_info_def si)
  moreover from tab(2) have "pr_access P tab (read_access A tab (go_primary_key op))" by (simp add: read_taken_def Let_def)
  ultimately show ?thesis
    by (rule ensure_define_taken [OF _ assms(2,3) tab(1)])
      (use executeGet_taken assms(3,4) in \<open>fastforce simp: GetMessage bind_result_Inr_iff\<close>)
qed (use assms(4) in \<open>simp_all add: request_taken_def\<close>)

end

end
