(* ===== verification/RowTransactions.thy ===== *)
theory RowTransactions
  imports RowAcceptance
begin

text \<open>
  From single operations to whole requests: a manipulation request is either prepared with exactly the
  plans of its messages in their order, or leaves no operation behind and is answered with an error.
\<close>

section \<open>Replies\<close>

definition reply_bytes :: "pb_lib \<Rightarrow> server_result \<Rightarrow> bytes option" where
  "reply_bytes L r = (case getBytesOfFrameWithMessage L (ResultMessage r) of Inr (b, _) \<Rightarrow> b | Inl _ \<Rightarrow> None)"

definition reply_parts :: "pb_lib \<Rightarrow> bytes \<Rightarrow> server_result \<Rightarrow> (bytes \<times> bytes) list" where
  "reply_parts L ident r = (case reply_bytes L r of Some b \<Rightarrow> [(ident, b)] | None \<Rightarrow> [])"

definition reply_lost :: "pb_lib \<Rightarrow> bytes \<Rightarrow> server_result \<Rightarrow> bytes list" where
  "reply_lost L ident r = (if reply_bytes L r = None then [ident] else [])"

definition replied :: "pb_lib \<Rightarrow> bytes \<Rightarrow> server_result \<Rightarrow> 'w server \<Rightarrow> 'w server \<Rightarrow> bool" where
  "replied L ident r s s1 \<longleftrightarrow>
     sv_sent s1 = sv_sent s @ reply_parts L ident r \<and> sv_unsent s1 = sv_unsent s @ reply_lost L ident r"

lemma reply_replied:
  assumes "replyWithResult L r ident s = Inr (b, s1)"
  shows "replied L ident r s s1 \<and> s1 = s\<lparr>sv_sent := sv_sent s1, sv_unsent := sv_unsent s1\<rparr>"
proof -
  obtain bytes frameID where framed: "getBytesOfFrameWithMessage L (ResultMessage r) = Inr (bytes, frameID)"
    by (simp add: getBytesOfFrameWithMessage_def addFrame_def Let_def)
  with assms show ?thesis
    by (cases bytes) (auto simp: replyWithResult_def replied_def reply_parts_def reply_lost_def reply_bytes_def)
qed

text \<open>A result that reports an error, and no operation.\<close>

definition failure_of :: "bytes \<Rightarrow> server_result \<Rightarrow> bool" where
  "failure_of tid r \<longleftrightarrow> rs_transaction_identifier r = Some tid \<and> rs_error_code r \<noteq> None \<and> rs_result r = []"

lemma makeResultForError_failure: "failure_of tid (makeResultForError tid description code)"
  by (simp add: failure_of_def makeResultForError_def accessors Result_new_def)

section \<open>One message\<close>

context ndb_database
begin

text \<open>What executing a message with or without a transaction gives.\<close>

definition manipulated ::
  "message \<Rightarrow> ndb_transaction option \<Rightarrow> ndb_transaction option
   \<Rightarrow> (ndb_operation \<times> ndb_rec_attr list option) option \<Rightarrow> 'w server \<Rightarrow> 'w server \<Rightarrow> bool" where
  "manipulated message transaction transaction1 r s s1 \<longleftrightarrow>
     cache_fits (dv_tables (V s)) (sv_cache s1) \<and>
     (transaction \<noteq> None \<longrightarrow> transaction1 = transaction) \<and>
     (transaction = None \<longrightarrow> (\<forall>t. transaction1 = Some t \<longrightarrow> defs_of t (V s) = [])) \<and>
     (case transaction1 of
        None \<Rightarrow> r = None \<and> V s1 = V s
      | Some t \<Rightarrow> message_outcome t message r (V s) (V s1))"

lemma ensure_define_manipulates:
  assumes "bind_result (ensureTransaction A n columns si transaction s) (defineOn exec) = Inr (transaction1, r, s1)"
    and "cache_fits (dv_tables (V s)) (sv_cache s)"
    and "\<And>t r s s1. exec t s = Inr (r, s1) \<Longrightarrow> cache_fits (dv_tables (V s)) (sv_cache s) \<Longrightarrow>
      message_outcome t message r (V s) (V s1) \<and> cache_fits (dv_tables (V s)) (sv_cache s1)"
  shows "manipulated message transaction transaction1 r s s1"
proof -
  obtain t0 s0 where ensured: "ensureTransaction A n columns si transaction s = Inr (t0, s0)"
    and defined: "defineOn exec (t0, s0) = Inr (transaction1, r, s1)"
    using assms(1) by (auto simp: bind_result_Inr_iff)
  have t0: "V s0 = V s" "cache_fits (dv_tables (V s)) (sv_cache s0)" "transaction \<noteq> None \<longrightarrow> t0 = transaction"
      "transaction = None \<longrightarrow> (\<forall>t. t0 = Some t \<longrightarrow> defs_of t (V s) = [])"
    using ensured startTransaction_view [OF _ assms(2)] assms(2)
    by (auto simp: ensureTransaction_def split: option.splits)
  show ?thesis
  proof (cases t0)
    case None
    with defined t0 show ?thesis by (auto simp: defineOn_def manipulated_def)
  next
    case (Some t)
    with defined obtain r' where exec: "exec t s0 = Inr (r, s1)" "transaction1 = Some t"
      by (auto simp: defineOn_def bind_result_Inr_iff)
    from assms(3) [OF exec(1)] t0 exec(2) Some show ?thesis by (auto simp: manipulated_def)
  qed
qed

lemma executeManipulation_manipulates:
  assumes "executeManipulation A n message transaction s = Inr (transaction1, r, s1)"
    and "cache_fits (dv_tables (V s)) (sv_cache s)"
  shows "manipulated message transaction transaction1 r s s1"
proof -
  have other: ?thesis if "Inr (transaction, None, s) = (Inr (transaction1, r, s1) ::
      (ndb_transaction option \<times> (ndb_operation \<times> ndb_rec_attr list option) option \<times> 'w server) result)"
    using that assms(2) by (auto simp: manipulated_def message_outcome_def split: option.split)
  show ?thesis
  proof (cases message)
    case (SetMessage op)
    with assms(1) obtain si where "bind_result (ensureTransaction A n (so_primary_key op) si transaction s)
        (defineOn (\<lambda>t s1. bind_result (executeSet A op t s1) (\<lambda>(op, s2). Inr (map_option (\<lambda>o1. (o1, None :: ndb_rec_attr list option)) op, s2)))) =
      Inr (transaction1, r, s1)"
      by (auto simp: executeManipulation_def bind_result_Inr_iff)
    then show ?thesis
    proof (rule ensure_define_manipulates [OF _ assms(2)])
      fix t r s s1
      assume "bind_result (executeSet A op t s) (\<lambda>(op, s2). Inr (map_option (\<lambda>o1. (o1, None :: ndb_rec_attr list option)) op, s2)) = Inr (r, s1)"
        "cache_fits (dv_tables (V s)) (sv_cache s)"
      then show "message_outcome t message r (V s) (V s1) \<and> cache_fits (dv_tables (V s)) (sv_cache s1)"
        using executeSet_defines unfolding SetMessage by (fastforce simp: bind_result_Inr_iff)
    qed
  next
    case (DeleteMessage op)
    with assms(1) obtain si where "bind_result (ensureTransaction A n (dl_primary_key op) si transaction s)
        (defineOn (\<lambda>t s1. bind_result (executeDelete A op t s1) (\<lambda>(op, s2). Inr (map_option (\<lambda>o1. (o1, None :: ndb_rec_attr list option)) op, s2)))) =
      Inr (transaction1, r, s1)"
      by (auto simp: executeManipulation_def bind_result_Inr_iff)
    then show ?thesis
    proof (rule ensure_define_manipulates [OF _ assms(2)])
      fix t r s s1
      assume "bind_result (executeDelete A op t s) (\<lambda>(op, s2). Inr (map_option (\<lambda>o1. (o1, None :: ndb_rec_attr list option)) op, s2)) = Inr (r, s1)"
        "cache_fits (dv_tables (V s)) (sv_cache s)"
      then show "message_outcome t message r (V s) (V s1) \<and> cache_fits (dv_tables (V s)) (sv_cache s1)"
        using executeDelete_defines unfolding DeleteMessage by (fastforce simp: bind_result_Inr_iff)
    qed
  next
    case (GetMessage op)
    with assms(1) obtain si where "bind_result (ensureTransaction A n (go_primary_key op) si transaction s)
        (defineOn (\<lambda>t s1. bind_result (executeGet A n op t s1) (\<lambda>(op, s2). Inr (map_option (\<lambda>(o1, records). (o1, Some records)) op, s2)))) =
      Inr (transaction1, r, s1)"
      by (auto simp: executeManipulation_def bind_result_Inr_iff)
    then show ?thesis
    proof (rule ensure_define_manipulates [OF _ assms(2)])
      fix t r s s1
      assume "bind_result (executeGet A n op t s) (\<lambda>(op, s2). Inr (map_option (\<lambda>(o1, records). (o1, Some records)) op, s2)) = Inr (r, s1)"
        "cache_fits (dv_tables (V s)) (sv_cache s)"
      then show "message_outcome t message r (V s) (V s1) \<and> cache_fits (dv_tables (V s)) (sv_cache s1)"
        using executeGet_defines unfolding GetMessage by (fastforce simp: bind_result_Inr_iff)
    qed
  qed (use assms(1) other in \<open>simp_all add: executeManipulation_def\<close>)
qed

section \<open>A request\<close>

text \<open>
  The loop over the messages between a transaction's start and its end: \<open>ys\<close> are the operations defined
  for the messages \<open>before\<close>, on a view that had none of this transaction.
\<close>

definition in_progress ::
  "db_view \<Rightarrow> message list \<Rightarrow> ndb_transaction option \<Rightarrow> transaction_operation list \<Rightarrow> db_view \<Rightarrow> bool" where
  "in_progress v0 before transaction operations v \<longleftrightarrow> view_ok v \<and>
     (case transaction of
        None \<Rightarrow> before = [] \<and> operations = [] \<and> v = v0
      | Some t \<Rightarrow> defs_of t v0 = [] \<and> (\<exists>ys. operations = map fst ys \<and>
          list_all2 (describes A (dv_tables v0)) before ys \<and> v = add_defs t (map snd ys) v0))"

lemma in_progress_step:
  assumes "in_progress v0 before transaction operations v" "manipulated m transaction (Some t) (Some (op, columns)) s s1"
    and "v = V s"
  shows "in_progress v0 (before @ [m]) (Some t)
    (operations @ [\<lparr>to_type = getFrameType m, to_operation = op, to_columns = columns, to_thread = n\<rparr>]) (V s1)"
proof -
  let ?info = "\<lparr>to_type = getFrameType m, to_operation = op, to_columns = columns, to_thread = n\<rparr>"
  obtain ys where ys: "operations = map fst ys" "list_all2 (describes A (dv_tables v0)) before ys"
    "v = add_defs t (map snd ys) v0" "defs_of t v0 = []"
  proof (cases transaction)
    case None
    with assms that [of "[]"] show ?thesis by (auto simp: in_progress_def manipulated_def)
  next
    case (Some u)
    with assms that show ?thesis by (auto simp: in_progress_def manipulated_def)
  qed
  from assms(2) obtain p rs where p: "request_plan A (dv_tables v) m = Some p" "V s1 = add_def t op p rs v"
    "length rs = length (rp_columns p)" "getFrameType m = FrameItem_Type_GET \<longrightarrow> columns = Some rs"
    "view_ok v \<longrightarrow> view_ok (V s1)"
    using assms(3) by (auto simp: manipulated_def message_outcome_def)
  have "describes A (dv_tables v0) m (?info, op, p, rs)"
    using p(1,3,4) ys(3) by (simp add: describes_def)
  with ys(2) have "list_all2 (describes A (dv_tables v0)) (before @ [m]) (ys @ [(?info, op, p, rs)])"
    by (simp add: list_all2_appendI)
  moreover have "V s1 = add_defs t (map snd (ys @ [(?info, op, p, rs)])) v0"
    using p(2) ys(3) by (simp add: add_defs_snoc)
  moreover have "view_ok (V s1)" using p(5) assms(1) by (simp add: in_progress_def)
  moreover have "operations @ [?info] = map fst (ys @ [(?info, op, p, rs)])" using ys(1) by simp
  ultimately show ?thesis using ys(4) unfolding in_progress_def option.case by blast
qed

lemma failureResult_forgets:
  assumes "failureResult A transaction tid s = (r, s1)"
  shows "failure_of tid r" and "V s1 = (case transaction of None \<Rightarrow> V s | Some t \<Rightarrow> forget t (V s))"
    and "sv_cache s1 = sv_cache s" and "sv_sent s1 = sv_sent s" and "sv_unsent s1 = sv_unsent s"
  using assms makeResultForError_failure
  by (auto simp: failureResult_def view_close V_def split: option.splits)

lemma replied_V:
  assumes "replyWithResult L r ident s = Inr (b, s1)"
  shows "V s1 = V s" and "sv_cache s1 = sv_cache s"
  using arg_cong [OF reply_replied [OF assms, THEN conjunct2], of sv_world]
    arg_cong [OF reply_replied [OF assms, THEN conjunct2], of sv_cache]
  by (simp_all add: V_def)

lemma manipulated_failed:
  assumes "in_progress v0 before transaction operations v" "manipulated m transaction transaction1 None s s1" "v = V s"
  shows "(case transaction1 of None \<Rightarrow> V s1 | Some t \<Rightarrow> forget t (V s1)) = v0"
proof (cases transaction1)
  case None
  with assms show ?thesis by (auto simp: manipulated_def in_progress_def split: option.splits)
next
  case (Some t)
  with assms(2,3) have same: "forget t (V s1) = forget t v" by (auto simp: manipulated_def message_outcome_def)
  show ?thesis
  proof (cases transaction)
    case None
    with Some assms have "v = v0" "defs_of t v0 = []" by (auto simp: manipulated_def in_progress_def)
    with Some same show ?thesis by (simp add: forget_none)
  next
    case (Some u)
    with \<open>transaction1 = Some t\<close> assms obtain ds where "v = add_defs t ds v0" "defs_of t v0 = []"
      by (auto simp: manipulated_def in_progress_def)
    with \<open>transaction1 = Some t\<close> same show ?thesis by (simp add: forget_none)
  qed
qed

lemma operation_needs_transaction: "manipulated m transaction transaction1 (Some x) s s1 \<Longrightarrow> \<exists>t. transaction1 = Some t"
  by (auto simp: manipulated_def split: option.splits)

lemma executeMessages_defines:
  assumes "executeMessages L A n tid ident messages transaction operations s = Inr (transaction1, operations1, s1)"
    and "list_all (\<lambda>m. \<not> isDefinitionFrame m) messages" "list_all (safe_message A) messages" "fresh transaction s"
    and "cache_fits (dv_tables v0) (sv_cache s)" "in_progress v0 before transaction operations (V s)"
  shows "cache_fits (dv_tables v0) (sv_cache s1) \<and>
    (in_progress v0 (before @ messages) transaction1 operations1 (V s1) \<and> sv_sent s1 = sv_sent s \<and> sv_unsent s1 = sv_unsent s \<or>
     transaction1 = None \<and> V s1 = v0 \<and> \<not> list_all (request_taken A P (dv_tables v0)) messages \<and>
       (\<exists>r. failure_of tid r \<and> replied L ident r s s1))"
  using assms
proof (induction messages arbitrary: before transaction operations s)
  case Nil
  then show ?case by simp
next
  case (Cons m messages)
  from Cons.prems obtain tr r s2 where exec: "executeManipulation A n m transaction s = Inr (tr, r, s2)"
    by (auto simp: bind_result_Inr_iff)
  have tables: "dv_tables (V s) = dv_tables v0"
    using Cons.prems(6) by (auto simp: in_progress_def split: option.splits)
  from executeManipulation_manipulates [OF exec] Cons.prems(5) have
    man: "manipulated m transaction tr r s s2"
    by (simp add: tables)
  then have c2: "cache_fits (dv_tables v0) (sv_cache s2)" by (simp add: manipulated_def tables)
  from executeManipulation_total [of m transaction s n] Cons.prems(3,4) exec have
    quiet_replies: "sv_sent s2 = sv_sent s \<and> sv_unsent s2 = sv_unsent s" and fresh2: "fresh tr s2"
    by (auto simp: quiet_def)
  show ?case
  proof (cases r)
    case None
    obtain reply s3 where fail: "failureResult A tr tid s2 = (reply, s3)" by (metis surj_pair)
    note f = failureResult_forgets [OF fail]
    from Cons.prems(1,2) exec None fail obtain b where rep: "replyWithResult L reply ident s3 = Inr (b, s1)"
      and tr1: "transaction1 = None"
      by (auto simp: bind_result_Inr_iff)
    from man None have "manipulated m transaction tr None s s2" by simp
    from manipulated_failed [OF Cons.prems(6) this refl] f(2) replied_V [OF rep] have "V s1 = v0" by simp
    moreover have "replied L ident reply s s1"
      using reply_replied [OF rep] f quiet_replies by (simp add: replied_def)
    moreover have "\<not> request_taken A P (dv_tables v0) m"
      using executeManipulation_taken [OF exec] Cons.prems(5,6) None tables by (auto simp: in_progress_def)
    ultimately show ?thesis using f(1,3) c2 tr1 replied_V(2) [OF rep] by auto
  next
    case (Some x)
    obtain op columns where x: "x = (op, columns)" by (cases x)
    from man Some x have man1: "manipulated m transaction tr (Some (op, columns)) s s2" by simp
    from operation_needs_transaction [OF this] obtain t where t: "tr = Some t" by blast
    let ?ops = "operations @ [\<lparr>to_type = getFrameType m, to_operation = op, to_columns = columns, to_thread = n\<rparr>]"
    from Cons.prems(1,2) exec Some x have
      rest: "executeMessages L A n tid ident messages tr ?ops s2 = Inr (transaction1, operations1, s1)"
      by simp
    from in_progress_step [OF Cons.prems(6) man1 [unfolded t] refl] have
      prog: "in_progress v0 (before @ [m]) tr ?ops (V s2)" by (simp add: t)
    from Cons.IH [OF rest _ _ fresh2 c2 prog] Cons.prems(2,3) quiet_replies show ?thesis by (auto simp: replied_def)
  qed
qed

text \<open>
  What \<open>execute\<close> does with a manipulation request: either it prepares one transaction with exactly the
  operations the messages plan, or it leaves the database as it was and the client gets an error, which
  happens only to requests the cluster does not promise to take.
\<close>

definition request_prepared ::
  "frame_messages_tuple \<Rightarrow> ndb_transaction \<Rightarrow> transaction_state \<Rightarrow> db_view \<Rightarrow> db_view \<Rightarrow> bool" where
  "request_prepared tuple t state v v1 \<longleftrightarrow> (case tuple of (tid, ident, messages) \<Rightarrow>
     defs_of t v = [] \<and> ts_transaction state = t \<and> ts_transactionID state = tid \<and> ts_identifier state = ident \<and>
     (\<exists>ys. ts_operations state = map fst ys \<and> list_all2 (describes A (dv_tables v)) messages ys \<and>
        v1 = add_defs t (map snd ys) v))"

lemma executeTuple_prepares:
  assumes "executeTuple L A n (tid, ident, messages) s = Inr (b, s1)"
    and "list_all (\<lambda>m. \<not> isDefinitionFrame m) messages" "list_all (safe_message A) messages" "messages \<noteq> []"
    and "cache_fits (dv_tables (V s)) (sv_cache s)" "view_ok (V s)" "cache_real A (sv_cache s)"
  shows "cache_fits (dv_tables (V s)) (sv_cache s1) \<and> view_ok (V s1) \<and>
    (if b then \<exists>t state. sv_pending s1 = (sv_pending s)(t \<mapsto> state) \<and>
        request_prepared (tid, ident, messages) t state (V s) (V s1) \<and>
        sv_sent s1 = sv_sent s \<and> sv_unsent s1 = sv_unsent s
     else sv_pending s1 = sv_pending s \<and> V s1 = V s \<and> \<not> list_all (request_taken A P (dv_tables (V s))) messages \<and>
       (\<exists>r. failure_of tid r \<and> replied L ident r s s1))"
proof -
  obtain tr ops s2 where exec: "executeMessages L A n tid ident messages None [] s = Inr (tr, ops, s2)"
    and rest: "(case tr of None \<Rightarrow> (False, s2)
      | Some t \<Rightarrow> (True, s2\<lparr>sv_world := executeAsynchPrepare A t (sv_world s2),
          sv_pending := (sv_pending s2)(t \<mapsto> \<lparr>ts_transaction = t, ts_transactionID = tid,
            ts_identifier = ident, ts_operations = ops\<rparr>)\<rparr>)) = (b, s1)"
    using assms(1) by (auto simp: executeTuple_def bind_result_Inr_iff split: option.splits)
  have "fresh None s" using assms(7) by (simp add: fresh_def)
  moreover have "in_progress (V s) [] None [] (V s)" using assms(6) by (simp add: in_progress_def)
  ultimately have c2: "cache_fits (dv_tables (V s)) (sv_cache s2)"
    and out: "in_progress (V s) messages tr ops (V s2) \<and> sv_sent s2 = sv_sent s \<and> sv_unsent s2 = sv_unsent s \<or>
     tr = None \<and> V s2 = V s \<and> \<not> list_all (request_taken A P (dv_tables (V s))) messages \<and>
       (\<exists>r. failure_of tid r \<and> replied L ident r s s2)"
    using executeMessages_defines [where before = "[]", OF exec assms(2,3) _ assms(5)] by auto
  have p2: "sv_pending s2 = sv_pending s"
    using executeMessages_manipulations [OF assms(2,3) \<open>fresh None s\<close>, of n "[]" L tid ident] exec
    by (auto simp: same_work_def)
  show ?thesis
  proof (cases tr)
    case None
    with out assms(4) have "V s2 = V s \<and> \<not> list_all (request_taken A P (dv_tables (V s))) messages \<and>
        (\<exists>r. failure_of tid r \<and> replied L ident r s s2)"
      by (auto simp: in_progress_def)
    with None rest p2 c2 assms(6) show ?thesis by auto
  next
    case (Some t)
    with out obtain ys where ys: "defs_of t (V s) = []" "ops = map fst ys"
      "list_all2 (describes A (dv_tables (V s))) messages ys" "V s2 = add_defs t (map snd ys) (V s)" "view_ok (V s2)"
      "sv_sent s2 = sv_sent s" "sv_unsent s2 = sv_unsent s"
      by (auto simp: in_progress_def)
    let ?state = "\<lparr>ts_transaction = t, ts_transactionID = tid, ts_identifier = ident, ts_operations = ops\<rparr>"
    from ys have "request_prepared (tid, ident, messages) t ?state (V s) (V s2)"
      by (auto simp: request_prepared_def)
    moreover from rest Some have "b" "sv_pending s1 = (sv_pending s2)(t \<mapsto> ?state)" "V s1 = V s2"
      "sv_cache s1 = sv_cache s2" "sv_sent s1 = sv_sent s2" "sv_unsent s1 = sv_unsent s2"
      by (auto simp: view_prepare V_def)
    ultimately show ?thesis using p2 c2 ys(5-7) by auto
  qed
qed

end

end
