(* ===== verification/RowRefinement.thy ===== *)
theory RowRefinement
  imports RowTransactions
begin

text \<open>
  A batch of manipulation requests acts on the rows like some serial execution of the requests that
  succeeded, each as a whole, and what the clients are told is what that execution found.
\<close>

section \<open>The specification\<close>

definition shows_row :: "(nat \<Rightarrow> bytes) \<Rightarrow> row_plan \<Rightarrow> db_row \<Rightarrow> row \<Rightarrow> bool" where
  "shows_row names p row r \<longleftrightarrow>
     map ColumnValue_name (rw_column r) = map names (rp_columns p) \<and>
     list_all (\<lambda>c. case row (ColumnValue_name c) of None \<Rightarrow> True | Some v \<Rightarrow> ColumnValue_value c = v) (rw_column r)"

text \<open>
  A read by key shows the row it found. A scan shows rows it found in their order; it may stop early in a
  cluster whose scans may fail, since the end of the rows and an error look the same to the executor.
\<close>

definition shows_operation ::
  "ndb_promise \<Rightarrow> (nat \<Rightarrow> bytes) \<Rightarrow> message \<Rightarrow> row_plan \<Rightarrow> db_row list \<Rightarrow> operation_result \<Rightarrow> bool" where
  "shows_operation P names message p found opr \<longleftrightarrow>
     opr_type opr = Some (getFrameType message) \<and>
     (if rp_intent p \<noteq> ReadRows then opr_row opr = []
      else if rp_access p = ByKey then list_all2 (shows_row names p) found (opr_row opr)
      else \<exists>n. list_all2 (shows_row names p) (take n found) (opr_row opr) \<and> (pr_scans P \<longrightarrow> length found \<le> n))"

fun shows_all ::
  "ndb_promise \<Rightarrow> (bytes \<Rightarrow> nat \<Rightarrow> bytes) \<Rightarrow> message list \<Rightarrow> row_plan list \<Rightarrow> db_row list list \<Rightarrow> operation_result list \<Rightarrow> bool" where
  "shows_all P names [] [] [] [] \<longleftrightarrow> True"
| "shows_all P names (m # ms) (p # ps) (f # fs) (opr # oprs) \<longleftrightarrow>
     shows_operation P (names (rp_table p)) m p f opr \<and> shows_all P names ms ps fs oprs"
| "shows_all P names _ _ _ _ \<longleftrightarrow> False"

definition serves ::
  "'w ndb_api \<Rightarrow> (ndb_table \<Rightarrow> nat \<Rightarrow> bytes) \<Rightarrow> ndb_promise \<Rightarrow> (bytes \<rightharpoonup> ndb_table) \<Rightarrow> frame_messages_tuple \<Rightarrow> server_result
   \<Rightarrow> db_rows \<Rightarrow> db_rows \<Rightarrow> bool" where
  "serves A columnName P tables tuple r rows rows1 \<longleftrightarrow> (case tuple of (tid, ident, messages) \<Rightarrow>
     rs_transaction_identifier r = Some tid \<and> rs_error_code r = None \<and>
     (\<exists>plans founds. map (request_plan A tables) messages = map Some plans \<and>
        performs_all (column_names columnName tables) plans rows founds rows1 \<and>
        shows_all P (column_names columnName tables) messages plans founds (rs_result r)))"

text \<open>
  A request may fail only if the cluster does not promise to take it, or may abort it on the rows it finds.
\<close>

definition may_fail ::
  "'w ndb_api \<Rightarrow> ndb_promise \<Rightarrow> (bytes \<rightharpoonup> ndb_table) \<Rightarrow> frame_messages_tuple \<Rightarrow> db_rows \<Rightarrow> bool" where
  "may_fail A P tables tuple rows \<longleftrightarrow> (case tuple of (tid, ident, messages) \<Rightarrow>
     \<not> list_all (request_taken A P tables) messages \<or>
     (\<exists>plans. map (request_plan A tables) messages = map Some plans \<and> pr_aborts P plans rows))"

text \<open>Requests with their results, in the order of a serial execution.\<close>

fun serial ::
  "'w ndb_api \<Rightarrow> (ndb_table \<Rightarrow> nat \<Rightarrow> bytes) \<Rightarrow> ndb_promise \<Rightarrow> (bytes \<rightharpoonup> ndb_table) \<Rightarrow> (frame_messages_tuple \<times> server_result) list
   \<Rightarrow> db_rows \<Rightarrow> db_rows \<Rightarrow> bool" where
  "serial A columnName P tables [] rows rows1 \<longleftrightarrow> rows1 = rows"
| "serial A columnName P tables ((tuple, r) # outs) rows rows1 \<longleftrightarrow>
     (if rs_error_code r \<noteq> None then failure_of (fst tuple) r \<and> may_fail A P tables tuple rows \<and> serial A columnName P tables outs rows rows1
      else \<exists>rows2. serves A columnName P tables tuple r rows rows2 \<and> serial A columnName P tables outs rows2 rows1)"

lemma serial_append:
  "serial A columnName P tables (outs @ outs1) rows rows1 \<longleftrightarrow>
   (\<exists>rows2. serial A columnName P tables outs rows rows2 \<and> serial A columnName P tables outs1 rows2 rows1)"
proof (induction outs arbitrary: rows)
  case (Cons out outs)
  obtain tuple r where "out = (tuple, r)" by (cases out)
  with Cons show ?case by (cases "rs_error_code r") (simp_all, blast)
qed simp

definition replies_of :: "pb_lib \<Rightarrow> (frame_messages_tuple \<times> server_result) list \<Rightarrow> (bytes \<times> bytes) list" where
  "replies_of L outs = concat (map (\<lambda>((tid, ident, messages), r). reply_parts L ident r) outs)"

definition lost_of :: "pb_lib \<Rightarrow> (frame_messages_tuple \<times> server_result) list \<Rightarrow> bytes list" where
  "lost_of L outs = concat (map (\<lambda>((tid, ident, messages), r). reply_lost L ident r) outs)"

lemma replies_simps [simp]:
  "replies_of L [] = []" "replies_of L (outs @ outs1) = replies_of L outs @ replies_of L outs1"
  "replies_of L (((tid, ident, messages), r) # outs) = reply_parts L ident r @ replies_of L outs"
  "lost_of L [] = []" "lost_of L (outs @ outs1) = lost_of L outs @ lost_of L outs1"
  "lost_of L (((tid, ident, messages), r) # outs) = reply_lost L ident r @ lost_of L outs"
  by (simp_all add: replies_of_def lost_of_def)

section \<open>What a completed transaction leaves to read\<close>

definition readied :: "db_view \<Rightarrow> ndb_operation \<times> row_plan \<times> ndb_rec_attr list \<Rightarrow> db_row list \<Rightarrow> bool" where
  "readied v = (\<lambda>(op, p, rs) found. rp_intent p = ReadRows \<longrightarrow>
     (if rp_access p = ByKey then \<exists>row. found = [row] \<and> dv_current v op = Some row else dv_left v op = found))"

definition operations_of :: "ndb_transaction \<Rightarrow> db_view \<Rightarrow> ndb_operation list" where
  "operations_of t v = map fst (defs_of t v)"

text \<open>Two views that differ in what is read of the operations of a set at most.\<close>

definition same_except :: "ndb_operation set \<Rightarrow> db_view \<Rightarrow> db_view \<Rightarrow> bool" where
  "same_except S v v1 \<longleftrightarrow> dv_tables v1 = dv_tables v \<and> dv_defs v1 = dv_defs v \<and>
     (\<forall>op. op \<notin> S \<longrightarrow> dv_left v1 op = dv_left v op \<and> dv_current v1 op = dv_current v op)"

lemma same_except_refl [simp]: "same_except S v v"
  by (simp add: same_except_def)

lemma same_except_trans: "same_except S v v1 \<Longrightarrow> same_except S1 v1 v2 \<Longrightarrow> same_except (S \<union> S1) v v2"
  by (simp add: same_except_def)

lemma readied_same: "same_except S v v1 \<Longrightarrow> fst d \<notin> S \<Longrightarrow> readied v1 d found \<longleftrightarrow> readied v d found"
  by (cases d) (simp add: same_except_def readied_def)

lemma commits_readies:
  assumes "commits names ds v v1" "distinct (map fst ds)"
  shows "\<exists>founds. performs_all names (map (\<lambda>d. fst (snd d)) ds) (dv_rows v) founds (dv_rows v1) \<and>
    list_all2 (readied v1) ds founds \<and> same_except (fst ` set ds) v v1"
  using assms
proof (induction ds arbitrary: v)
  case Nil
  then show ?case by (intro exI [of _ "[]"]) simp
next
  case (Cons d ds)
  obtain op p rs where d: "d = (op, p, rs)" by (cases d)
  from Cons.prems(1) d obtain found rows where
    one: "performs (names (rp_table p)) p (dv_rows v) found rows"
    and rest: "commits names ds (deliver op p found (v\<lparr>dv_rows := rows\<rparr>)) v1"
    by auto
  let ?v = "deliver op p found (v\<lparr>dv_rows := rows\<rparr>)"
  from Cons.IH [OF rest] Cons.prems(2) obtain founds where
    more: "performs_all names (map (\<lambda>d. fst (snd d)) ds) (dv_rows ?v) founds (dv_rows v1)"
      "list_all2 (readied v1) ds founds" "same_except (fst ` set ds) ?v v1"
    by auto
  have "readied ?v d found"
    using one by (auto simp: d readied_def deliver_def performs_def Let_def)
  with readied_same [OF more(3), of d] Cons.prems(2) have "readied v1 d found" by simp
  moreover have "same_except {op} v ?v" by (simp add: same_except_def deliver_def)
  from same_except_trans [OF this more(3)] have "same_except (fst ` set (d # ds)) v v1" by (simp add: d)
  ultimately show ?case
    using one more by (intro exI [of _ "found # founds"]) (auto simp: d)
qed

text \<open>
  What a list of completed transactions will be found to have done: \<open>v\<close> is the view after all of
  them, \<open>rows\<close> are the rows before the first.
\<close>

fun foresees ::
  "(bytes \<Rightarrow> nat \<Rightarrow> bytes) \<Rightarrow> (row_plan list \<Rightarrow> db_rows \<Rightarrow> bool) \<Rightarrow> db_view \<Rightarrow> (int \<times> ndb_transaction) list \<Rightarrow> db_rows \<Rightarrow> db_rows \<Rightarrow> bool" where
  "foresees names aborts v [] rows rows1 \<longleftrightarrow> rows1 = rows"
| "foresees names aborts v ((res, t) # completed) rows rows1 \<longleftrightarrow>
     (\<exists>rows2. (if res = -1 then rows2 = rows \<and> aborts (plans_of t v) rows
        else \<exists>founds. performs_all names (plans_of t v) rows founds rows2 \<and> list_all2 (readied v) (defs_of t v) founds) \<and>
      foresees names aborts v completed rows2 rows1)"

lemma foresees_cong:
  assumes "\<And>t. t \<in> snd ` set completed \<Longrightarrow> defs_of t v1 = defs_of t v"
    and "\<And>t op. t \<in> snd ` set completed \<Longrightarrow> op \<in> set (operations_of t v) \<Longrightarrow>
      dv_left v1 op = dv_left v op \<and> dv_current v1 op = dv_current v op"
  shows "foresees names aborts v1 completed rows rows1 \<longleftrightarrow> foresees names aborts v completed rows rows1"
  using assms
proof (induction completed arbitrary: rows)
  case (Cons c completed)
  obtain res t where c: "c = (res, t)" by (cases c)
  have "list_all2 (readied v1) (defs_of t v) founds \<longleftrightarrow> list_all2 (readied v) (defs_of t v) founds" for founds
  proof (rule list.rel_cong [OF refl refl])
    fix d found assume "d \<in> set (defs_of t v)"
    then have "dv_left v1 (fst d) = dv_left v (fst d) \<and> dv_current v1 (fst d) = dv_current v (fst d)"
      by (intro Cons.prems(2) [of t]) (simp_all add: c operations_of_def)
    then show "readied v1 d found = readied v d found"
      by (cases d) (simp add: readied_def)
  qed
  moreover have "foresees names aborts v1 completed rows2 rows1 = foresees names aborts v completed rows2 rows1" for rows2
    by (rule Cons.IH) (use Cons.prems in \<open>auto simp: c\<close>)
  ultimately show ?case using Cons.prems(1) [of t] by (simp add: c plans_of_def)
qed simp

lemma operations_of_distinct:
  assumes "view_ok v"
  shows "distinct (operations_of t v)" and "t \<noteq> u \<Longrightarrow> set (operations_of t v) \<inter> set (operations_of u v) = {}"
proof -
  have ops: "distinct (map (\<lambda>(t, op, p, rs). op) (dv_defs v))"
    using assms by (simp add: view_ok_def open_operations_def)
  have f: "(\<lambda>(t, op, p, rs). op) = (fst \<circ> snd)" by auto
  from ops show "distinct (operations_of t v)"
    unfolding operations_of_def defs_of_def f by (simp add: distinct_map_filter)
  show "t \<noteq> u \<Longrightarrow> set (operations_of t v) \<inter> set (operations_of u v) = {}"
    using ops unfolding operations_of_def f distinct_map by (auto simp: defs_of_iff inj_on_def) (metis Pair_inject fst_conv snd_conv)
qed

lemma view_ok_same: "same_except S v v1 \<Longrightarrow> view_ok v1 \<longleftrightarrow> view_ok v"
  by (simp add: same_except_def view_ok_def open_operations_def open_records_def)

lemma defs_of_same: "same_except S v v1 \<Longrightarrow> defs_of t v1 = defs_of t v"
  by (simp add: same_except_def defs_of_def)

lemma completes_foresees:
  assumes "completes names aborts completed v v1" "view_ok v" "distinct (map snd completed)"
  shows "foresees names aborts v1 completed (dv_rows v) (dv_rows v1) \<and>
    same_except (\<Union>t \<in> snd ` set completed. set (operations_of t v)) v v1"
  using assms
proof (induction completed arbitrary: v)
  case Nil
  then show ?case by simp
next
  case (Cons c completed)
  obtain res t where c: "c = (res, t)" by (cases c)
  from Cons.prems(1) obtain v2 where step: "if res = -1 then v2 = v \<and> aborts (plans_of t v) (dv_rows v) else commits names (defs_of t v) v v2"
    and rest: "completes names aborts completed v2 v1"
    by (auto simp: c)
  have first: "same_except (set (operations_of t v)) v v2 \<and> (res \<noteq> -1 \<longrightarrow>
      (\<exists>founds. performs_all names (plans_of t v) (dv_rows v) founds (dv_rows v2) \<and> list_all2 (readied v2) (defs_of t v) founds))"
  proof (cases "res = -1")
    case False
    with step operations_of_distinct(1) [OF Cons.prems(2), of t] commits_readies [of names "defs_of t v" v v2]
    show ?thesis by (auto simp: operations_of_def plans_of_def)
  qed (use step in simp)
  then have ok2: "view_ok v2" and d2: "\<And>u. defs_of u v2 = defs_of u v"
    using Cons.prems(2) view_ok_same defs_of_same by blast+
  from Cons.IH [OF rest ok2] Cons.prems(3) have
    more: "foresees names aborts v1 completed (dv_rows v2) (dv_rows v1)"
      "same_except (\<Union>u \<in> snd ` set completed. set (operations_of u v)) v2 v1"
    by (simp_all add: operations_of_def d2)
  have "readied v1 d found = readied v2 d found" if "d \<in> set (defs_of t v)" for d found
  proof (rule readied_same [OF more(2)])
    have "fst d \<in> set (operations_of t v)" using that by (simp add: operations_of_def)
    moreover have "u \<noteq> t" if "u \<in> snd ` set completed" for u
      using that Cons.prems(3) by (auto simp: c)
    ultimately show "fst d \<notin> (\<Union>u \<in> snd ` set completed. set (operations_of u v))"
      using operations_of_distinct(2) [OF Cons.prems(2)] by blast
  qed
  then have "list_all2 (readied v1) (defs_of t v) founds \<longleftrightarrow> list_all2 (readied v2) (defs_of t v) founds" for founds
    by (intro list.rel_cong) auto
  moreover have "defs_of t v1 = defs_of t v" using defs_of_same [OF more(2)] d2 by simp
  moreover have "dv_rows v2 = dv_rows v \<and> aborts (plans_of t v) (dv_rows v)" if "res = -1" using step that by simp
  ultimately have "foresees names aborts v1 (c # completed) (dv_rows v) (dv_rows v1)"
    using first more(1) by (auto simp: c plans_of_def)
  moreover have "same_except (\<Union>u \<in> snd ` set (c # completed). set (operations_of u v)) v v1"
    using same_except_trans [OF _ more(2)] first by (simp add: c)
  ultimately show ?case by blast
qed

section \<open>What the callback tells the client\<close>

lemma request_plan_reads: "request_plan A tables m = Some p \<Longrightarrow> rp_intent p = ReadRows \<longleftrightarrow> getFrameType m = FrameItem_Type_GET"
  by (auto simp: request_plan_def new_plan_def read_plan_def Let_def split: message.splits list.splits option.splits)

context ndb_database
begin

abbreviation names_in :: "'w \<Rightarrow> bytes \<Rightarrow> nat \<Rightarrow> bytes" where
  "names_in w \<equiv> column_names columnName (dv_tables (view w))"

lemma addColumns_shows:
  assumes "list_all2 (\<lambda>a i. attrName A a w = names i \<and> (\<forall>v. row (names i) = Some v \<longrightarrow> attrBytes A a w = v)) rs is"
    and "addColumns A w rs r0 = Inr r1"
  shows "\<exists>cs. rw_column r1 = rw_column r0 @ cs \<and> map ColumnValue_name cs = map names is \<and>
    list_all (\<lambda>c. case row (ColumnValue_name c) of None \<Rightarrow> True | Some v \<Rightarrow> ColumnValue_value c = v) cs"
  using assms
proof (induction rs "is" arbitrary: r0 rule: list_all2_induct)
  case Nil
  then show ?case by simp
next
  case (Cons a rs i "is")
  from Cons.prems obtain type where type: "Column_Type_of (attrType A a w) = Some type"
    by (auto split: option.splits)
  let ?c = "ColumnValue_set_value (attrBytes A a w)
    (ColumnValue_set_type type (ColumnValue_set_name (attrName A a w) ColumnValue_new))"
  from Cons.prems type have "addColumns A w rs (Row_add_column (\<lambda>_. ?c) r0) = Inr r1"
    by (simp add: accessors)
  from Cons.IH [OF this] obtain cs where
    "rw_column r1 = rw_column (Row_add_column (\<lambda>_. ?c) r0) @ cs"
    and cs: "map ColumnValue_name cs = map names is"
      "list_all (\<lambda>c. case row (ColumnValue_name c) of None \<Rightarrow> True | Some v \<Rightarrow> ColumnValue_value c = v) cs"
    by blast
  then have "rw_column r1 = rw_column r0 @ ?c # cs" by (simp add: Row_add_column_def)
  moreover note cs
  moreover have "ColumnValue_name ?c = names i" "row (names i) = Some v \<Longrightarrow> ColumnValue_value ?c = v" for v
    using Cons.hyps(1) by (simp_all add: accessors)
  ultimately show ?case by (intro exI [of _ "?c # cs"]) (simp split: option.split)
qed

lemma record_shows:
  assumes "view_ok (view w)" "(t, op, p, rs) \<in> set (dv_defs (view w))" "length rs = length (rp_columns p)"
    and "dv_current (view w) op = Some row" "addColumns A w rs Row_new = Inr r"
  shows "shows_row (names_in w (rp_table p)) p row r"
proof -
  have "list_all2 (\<lambda>a i. attrName A a w = names_in w (rp_table p) i \<and>
      (\<forall>v. row (names_in w (rp_table p) i) = Some v \<longrightarrow> attrBytes A a w = v)) rs (rp_columns p)"
    unfolding list_all2_conv_all_nth
    using assms(3) view_attr_name [OF assms(1-3)] view_attr_bytes [OF assms(1-3) _ assms(4)] by auto
  from addColumns_shows [OF this assms(5)] show ?thesis by (auto simp: shows_row_def Row_new_def)
qed

lemma scan_shows:
  assumes "scan_reads A op rs w rows res w1" "view_ok (view w)" "(t, op, p, rs) \<in> set (dv_defs (view w))"
    and "length rs = length (rp_columns p)"
  shows "(\<exists>n. list_all2 (shows_row (names_in w (rp_table p)) p) (take n (dv_left (view w) op)) rows \<and>
      (pr_scans P \<longrightarrow> length (dv_left (view w) op) \<le> n)) \<and>
    same_except {op} (view w) (view w1) \<and> dv_rows (view w1) = dv_rows (view w)"
  using assms
proof induction
  case (stop w res w1)
  from view_next [OF stop(1)] stop(2) have "view w1 = view w" "res = 1 \<longrightarrow> dv_left (view w) op = []"
    by (simp_all add: row_fetched_def)
  moreover have "res = 1" if "pr_scans P" using scans_end [OF that stop(1)] stop(2) by simp
  ultimately show ?case by (auto intro: exI [of _ 0])
next
  case (more w w2 r rows res w1)
  from view_next [OF more(1)] obtain row left where left: "dv_left (view w) op = row # left"
    and w2: "view w2 = (view w)\<lparr>dv_left := (dv_left (view w))(op := left), dv_current := (dv_current (view w))(op \<mapsto> row)\<rparr>"
    by (auto simp: row_fetched_def)
  then have same: "same_except {op} (view w) (view w2)" "dv_left (view w2) op = left" "dv_current (view w2) op = Some row"
    "dv_defs (view w2) = dv_defs (view w)" "dv_tables (view w2) = dv_tables (view w)" "dv_rows (view w2) = dv_rows (view w)"
    by (simp_all add: same_except_def)
  with more.prems view_ok_same [OF same(1)] have ok2: "view_ok (view w2)" "(t, op, p, rs) \<in> set (dv_defs (view w2))"
    by simp_all
  from more.IH [OF ok2 more.prems(3)] same obtain n where
    n: "list_all2 (shows_row (names_in w (rp_table p)) p) (take n left) rows" "pr_scans P \<longrightarrow> length left \<le> n"
    and rest: "same_except {op} (view w2) (view w1)" "dv_rows (view w1) = dv_rows (view w)"
    by auto
  have "shows_row (names_in w (rp_table p)) p row r"
    using record_shows [OF ok2 more.prems(3) same(3) more(2)] same(5) by simp
  with n have "list_all2 (shows_row (names_in w (rp_table p)) p) (take (Suc n) (dv_left (view w) op)) (r # rows) \<and>
      (pr_scans P \<longrightarrow> length (dv_left (view w) op) \<le> Suc n)"
    by (simp add: left)
  with same_except_trans [OF same(1) rest(1)] rest(2) show ?case by auto
qed

lemma operation_outcome_shows:
  assumes "operation_outcome A info w = Some (Inr (opr, w1))" "view_ok (view w)"
    and "(t, op, p, rs) \<in> set (dv_defs (view w))" "describes A tables m (info, op, p, rs)" "readied (view w) (op, p, rs) found"
  shows "shows_operation P (names_in w (rp_table p)) m p found opr \<and> same_except {op} (view w) (view w1) \<and>
    dv_rows (view w1) = dv_rows (view w)"
proof -
  from assms(4) have info: "to_type info = getFrameType m" "to_operation info = op" "length rs = length (rp_columns p)"
    and plan: "request_plan A tables m = Some p"
    and cols: "getFrameType m = FrameItem_Type_GET \<Longrightarrow> to_columns info = Some rs"
    by (auto simp: describes_def)
  note reads = request_plan_reads [OF plan]
  let ?opr = "OperationResult_set_type (to_type info) OperationResult_new"
  have fresh: "opr_type ?opr = Some (getFrameType m)" "opr_row ?opr = []"
    using info by (simp_all add: accessors OperationResult_new_def)
  show ?thesis
  proof (cases "getFrameType m = FrameItem_Type_GET")
    case False
    with assms(1) info reads fresh show ?thesis by (auto simp: operation_outcome_def shows_operation_def Let_def)
  next
    case True
    note scan = view_is_scan [OF assms(2,3)]
    show ?thesis
    proof (cases "rp_access p = ByKey")
      case key: True
      with assms(1) True info cols scan obtain opr1 where "addRecordToResult A w ?opr rs = Inr opr1" and out: "opr = opr1" "w1 = w"
        by (auto simp: operation_outcome_def Let_def split: sum.splits)
      then obtain r where r: "addColumns A w rs Row_new = Inr r" "opr = ?opr\<lparr>opr_row := opr_row ?opr @ [r]\<rparr>"
        by (auto simp: addRecordToResult_iff)
      from assms(5) key True reads obtain row where row: "found = [row]" "dv_current (view w) op = Some row"
        by (auto simp: readied_def)
      from record_shows [OF assms(2,3) info(3) row(2) r(1)] r(2) row(1) fresh key reads True out show ?thesis
        by (simp add: shows_operation_def)
    next
      case False
      with assms(1) True info cols scan have "scan_rows A op rs ?opr w = Some (Inr (opr, w1))"
        by (simp add: operation_outcome_def Let_def)
      from scan_rows_reads [OF this] obtain rows res where
        rows: "scan_reads A op rs w rows res w1" "opr = ?opr\<lparr>opr_row := opr_row ?opr @ rows\<rparr>"
        by blast
      from scan_shows [OF rows(1) assms(2,3) info(3)] assms(5) False True reads fresh rows(2) show ?thesis
        by (simp add: shows_operation_def readied_def)
    qed
  qed
qed

lemma collect_operations_shows:
  assumes "collect_operations A (map fst ys) r w = Some (Inr (r1, w1))" "view_ok (view w)"
    and "list_all2 (describes A tables) ms ys" "set (map snd ys) \<subseteq> set (defs_of t (view w))" "distinct (map (fst \<circ> snd) ys)"
    and "list_all2 (readied (view w)) (map snd ys) founds"
  shows "\<exists>oprs. rs_result r1 = rs_result r @ oprs \<and>
    shows_all P (names_in w) ms (map (\<lambda>d. fst (snd d)) (map snd ys)) founds oprs \<and>
    same_except (set (map (fst \<circ> snd) ys)) (view w) (view w1) \<and> dv_rows (view w1) = dv_rows (view w)"
  using assms
proof (induction ys arbitrary: ms founds r w)
  case Nil
  then show ?case by simp
next
  case (Cons y ys)
  obtain info op p rs where y: "y = (info, op, p, rs)" by (cases y) auto
  from Cons.prems(3) y obtain m ms1 where m: "ms = m # ms1" "describes A tables m (info, op, p, rs)"
    "list_all2 (describes A tables) ms1 ys"
    by (auto simp: list_all2_Cons2)
  from Cons.prems(6) y obtain f fs where f: "founds = f # fs" "readied (view w) (op, p, rs) f"
    "list_all2 (readied (view w)) (map snd ys) fs"
    by (auto simp: list_all2_Cons1)
  from Cons.prems(1) y obtain opr w2 where one: "operation_outcome A info w = Some (Inr (opr, w2))"
    and rest: "collect_operations A (map fst ys) (Result_add_result (\<lambda>_. opr) r) w2 = Some (Inr (r1, w1))"
    by (auto simp: bind_run_Some_Inr_iff)
  have "(t, op, p, rs) \<in> set (dv_defs (view w))" using Cons.prems(4) y by (simp add: defs_of_iff)
  from operation_outcome_shows [OF one Cons.prems(2) this m(2) f(2)] have
    shown: "shows_operation P (names_in w (rp_table p)) m p f opr" and same: "same_except {op} (view w) (view w2)"
    and rows2: "dv_rows (view w2) = dv_rows (view w)"
    by blast+
  have ok2: "view_ok (view w2)" using view_ok_same [OF same] Cons.prems(2) by simp
  have sub: "set (map snd ys) \<subseteq> set (defs_of t (view w2))" using Cons.prems(4) defs_of_same [OF same] by simp
  have "list_all2 (readied (view w2)) (map snd ys) fs"
  proof -
    have "readied (view w2) d found = readied (view w) d found" if "d \<in> set (map snd ys)" for d found
      by (rule readied_same [OF same]) (use that Cons.prems(5) y in force)
    then have "list_all2 (readied (view w2)) (map snd ys) fs = list_all2 (readied (view w)) (map snd ys) fs"
      by (intro list.rel_cong) auto
    with f(3) show ?thesis by simp
  qed
  from Cons.IH [OF rest ok2 m(3) sub _ this] Cons.prems(5) obtain oprs where
    oprs: "rs_result r1 = rs_result (Result_add_result (\<lambda>_. opr) r) @ oprs"
      "shows_all P (names_in w2) ms1 (map (\<lambda>d. fst (snd d)) (map snd ys)) fs oprs"
      "same_except (set (map (fst \<circ> snd) ys)) (view w2) (view w1)" "dv_rows (view w1) = dv_rows (view w2)"
    by auto
  have "names_in w2 = names_in w" using same by (simp add: same_except_def)
  with shown oprs same_except_trans [OF same oprs(3)] rows2 show ?case
    by (intro exI [of _ "opr # oprs"]) (simp add: y m f accessors)
qed

text \<open>What the executor and the database hold of a request between its preparation and its callback.\<close>

definition holds_request :: "frame_messages_tuple \<Rightarrow> ndb_transaction \<Rightarrow> transaction_state \<Rightarrow> db_view \<Rightarrow> bool" where
  "holds_request tuple t state v \<longleftrightarrow> (case tuple of (tid, ident, messages) \<Rightarrow>
     ts_transaction state = t \<and> ts_transactionID state = tid \<and> ts_identifier state = ident \<and>
     (\<exists>ys. ts_operations state = map fst ys \<and> list_all2 (describes A (dv_tables v)) messages ys \<and>
        defs_of t v = map snd ys))"

lemma prepared_held: "request_prepared tuple t state v v1 \<Longrightarrow> holds_request tuple t state v1"
  by (auto simp: request_prepared_def holds_request_def defs_of_defs split: prod.splits)

lemma holds_request_cong:
  "defs_of t v1 = defs_of t v \<Longrightarrow> dv_tables v1 = dv_tables v \<Longrightarrow> holds_request tuple t state v1 = holds_request tuple t state v"
  by (simp add: holds_request_def)

lemma held_plans: "list_all2 (describes A tables) ms ys \<Longrightarrow> map (request_plan A tables) ms = map Some (map (\<lambda>d. fst (snd d)) (map snd ys))"
  by (induction rule: list_all2_induct) (auto simp: describes_def)

lemma callback_serves:
  assumes "ndbExecuteCallback L A res t s = Some (Inr s1)" "sv_pending s t = Some state"
    and "holds_request (tid, ident, ms) t state (V s)" "view_ok (V s)"
    and "if res = -1 then rows1 = rows \<and> pr_aborts P (plans_of t (V s)) rows else performs_all (names_in (sv_world s)) (plans_of t (V s)) rows founds rows1 \<and>
      list_all2 (readied (V s)) (defs_of t (V s)) founds"
  shows "\<exists>r v. replied L ident r s s1 \<and> serial A columnName P (dv_tables (V s)) [((tid, ident, ms), r)] rows rows1 \<and>
    sv_pending s1 = (sv_pending s)(t := None) \<and> sv_cache s1 = sv_cache s \<and>
    same_except (set (operations_of t (V s))) (V s) v \<and> dv_rows v = dv_rows (V s) \<and> V s1 = forget t v"
proof -
  from assms(3) obtain ys where state: "ts_transaction state = t" "ts_transactionID state = tid" "ts_identifier state = ident"
    and ys: "ts_operations state = map fst ys" "list_all2 (describes A (dv_tables (V s))) ms ys" "defs_of t (V s) = map snd ys"
    by (auto simp: holds_request_def)
  let ?s0 = "\<lambda>w. s\<lparr>sv_pending := (sv_pending s)(t := None), sv_world := closeTransaction A t w\<rparr>"
  have closed: "replied L ident r s s2 \<and> sv_pending s2 = (sv_pending s)(t := None) \<and> sv_cache s2 = sv_cache s \<and>
      V s2 = forget t (view w)" if "replyWithResult L r ident (?s0 w) = Inr (b, s2)" for r w b s2
    using reply_replied [OF that] by (auto simp: replied_def V_def view_close)
  have plans: "map (request_plan A (dv_tables (V s))) ms = map Some (plans_of t (V s))"
    using held_plans [OF ys(2)] by (simp add: plans_of_def ys(3))
  show ?thesis
  proof (cases "res = -1")
    case True
    let ?r = "makeResultForError tid (errorMessage A t (sv_world s)) (errorCode A t (sv_world s))"
    from assms(1,2) state True obtain b where "replyWithResult L ?r ident (?s0 (sv_world s)) = Inr (b, s1)"
      by (auto simp: ndbExecuteCallback_def Let_def split: sum.splits)
    note done1 = closed [OF this]
    from plans True assms(5) have "may_fail A P (dv_tables (V s)) (tid, ident, ms) rows"
      by (auto simp: may_fail_def)
    with done1 show ?thesis using True assms(5) makeResultForError_failure [of tid]
      by (intro exI [of _ ?r] exI [of _ "V s"]) (auto simp: V_def failure_of_def)
  next
    case False
    from assms(1,2) state ys(1) False obtain r w1 where
      col: "collect_operations A (map fst ys) (makeResult tid) (sv_world s) = Some (Inr (r, w1))"
      by (auto simp: ndbExecuteCallback_def Let_def bind_run_Some_Inr_iff)
    with assms(1,2) state ys(1) False obtain b s2 stats where
      rep: "replyWithResult L r ident (?s0 w1) = Inr (b, s2)" and s1: "s1 = s2\<lparr>sv_stats := stats\<rparr>"
      by (auto simp: ndbExecuteCallback_def Let_def bind_run_Some_Inr_iff split: sum.splits)
    have ops: "map (fst \<circ> snd) ys = operations_of t (V s)" by (simp add: operations_of_def ys(3))
    then have dist: "distinct (map (fst \<circ> snd) ys)" using operations_of_distinct(1) [OF assms(4)] by simp
    from False assms(5) have perf: "performs_all (names_in (sv_world s)) (plans_of t (V s)) rows founds rows1"
      and ready: "list_all2 (readied (V s)) (map snd ys) founds"
      by (simp_all add: ys(3))
    from collect_operations_shows [OF col _ ys(2) _ dist ready [unfolded V_def], of t] assms(4) ys(3) obtain oprs where
      oprs: "rs_result r = rs_result (makeResult tid) @ oprs"
        "shows_all P (names_in (sv_world s)) ms (plans_of t (V s)) founds oprs"
      and same: "same_except (set (map (fst \<circ> snd) ys)) (V s) (view w1)" "dv_rows (view w1) = dv_rows (V s)"
      by (auto simp: V_def plans_of_def)
    from collect_operations_results [OF col] have res: "rs_transaction_identifier r = Some tid" "rs_error_code r = None"
      by (simp_all add: makeResult_def accessors Result_new_def)
    from plans res oprs perf have "serves A columnName P (dv_tables (V s)) (tid, ident, ms) r rows rows1"
      by (auto simp: serves_def V_def makeResult_def accessors Result_new_def)
    with res closed [OF rep] same ops s1 show ?thesis
      by (intro exI [of _ r] exI [of _ "view w1"]) (simp add: replied_def)
  qed
qed

end

end
