(* ===== verification/BatchSerial.thy ===== *)
theory BatchSerial
  imports RowRefinement
begin

text \<open>
  From one callback to a whole batch: at every point between two requests the clients answered so far
  have been served serially, and the transactions under way hold the requests still to be served.
\<close>

section \<open>Requests under way\<close>

type_synonym requests = "ndb_transaction \<rightharpoonup> frame_messages_tuple"

definition requests_mset :: "requests \<Rightarrow> frame_messages_tuple multiset" where
  "requests_mset reqs = image_mset (\<lambda>t. the (reqs t)) (mset_set (dom reqs))"

lemma requests_mset_empty [simp]: "requests_mset Map.empty = {#}"
  by (simp add: requests_mset_def)

lemma requests_mset_add:
  assumes "finite (dom reqs)" "t \<notin> dom reqs"
  shows "requests_mset (reqs(t \<mapsto> tuple)) = add_mset tuple (requests_mset reqs)"
proof -
  have "image_mset (\<lambda>u. the ((reqs(t \<mapsto> tuple)) u)) (mset_set (dom reqs)) = requests_mset reqs"
    unfolding requests_mset_def by (rule image_mset_cong) (use assms in auto)
  with assms show ?thesis by (simp add: requests_mset_def)
qed

lemma requests_mset_remove:
  assumes "finite (dom reqs)" "reqs t = Some tuple"
  shows "requests_mset reqs = add_mset tuple (requests_mset (reqs(t := None)))"
proof -
  have "requests_mset ((reqs(t := None))(t \<mapsto> tuple)) = add_mset tuple (requests_mset (reqs(t := None)))"
    by (rule requests_mset_add) (use assms(1) in auto)
  moreover have "(reqs(t := None))(t \<mapsto> tuple) = reqs" using assms(2) by auto
  ultimately show ?thesis by simp
qed

text \<open>Requests of manipulation operations, whose stores and columns the code can look at.\<close>

definition row_request :: "'w ndb_api \<Rightarrow> frame_messages_tuple \<Rightarrow> bool" where
  "row_request A tuple \<longleftrightarrow> (case tuple of (tid, ident, messages) \<Rightarrow>
     messages \<noteq> [] \<and> list_all (\<lambda>m. \<not> isDefinitionFrame m) messages \<and> list_all (safe_message A) messages)"

context ndb_database
begin

definition tracked :: "requests \<Rightarrow> 'w server \<Rightarrow> bool" where
  "tracked reqs s \<longleftrightarrow> view_ok (V s) \<and> cache_fits (dv_tables (V s)) (sv_cache s) \<and>
     finite (dom (sv_pending s)) \<and> dom reqs = dom (sv_pending s) \<and>
     (\<forall>t state. sv_pending s t = Some state \<longrightarrow> holds_request (the (reqs t)) t state (V s))"

lemma trackedD:
  assumes "tracked reqs s"
  shows "view_ok (V s)" "cache_fits (dv_tables (V s)) (sv_cache s)" "dom reqs = dom (sv_pending s)" "finite (dom reqs)"
  using assms unfolding tracked_def by auto

lemma tracked_held:
  "tracked reqs s \<Longrightarrow> reqs t = Some tuple \<Longrightarrow> sv_pending s t = Some state \<Longrightarrow> holds_request tuple t state (V s)"
  unfolding tracked_def by (metis option.sel)

text \<open>From one such point to another: who was answered in between, with what, and to what effect.\<close>

definition advanced ::
  "pb_lib \<Rightarrow> requests \<Rightarrow> 'w server \<Rightarrow> frame_messages_tuple multiset \<Rightarrow> requests \<Rightarrow> 'w server
   \<Rightarrow> (frame_messages_tuple \<times> server_result) list \<Rightarrow> bool" where
  "advanced L reqs s new reqs1 s1 outs \<longleftrightarrow>
     tracked reqs1 s1 \<and> dv_tables (V s1) = dv_tables (V s) \<and>
     serial A columnName P (dv_tables (V s)) outs (dv_rows (V s)) (dv_rows (V s1)) \<and>
     sv_sent s1 = sv_sent s @ replies_of L outs \<and> sv_unsent s1 = sv_unsent s @ lost_of L outs \<and>
     mset (map fst outs) + requests_mset reqs1 = requests_mset reqs + new"

lemma advanced_refl: "tracked reqs s \<Longrightarrow> advanced L reqs s {#} reqs s []"
  by (simp add: advanced_def)

lemma advanced_trans:
  assumes "advanced L reqs s new reqs1 s1 outs" "advanced L reqs1 s1 new1 reqs2 s2 outs1"
  shows "advanced L reqs s (new + new1) reqs2 s2 (outs @ outs1)"
proof -
  have "mset (map fst (outs @ outs1)) + requests_mset reqs2 =
      mset (map fst outs) + (mset (map fst outs1) + requests_mset reqs2)"
    by (simp only: map_append mset_append add.assoc)
  also have "\<dots> = (mset (map fst outs) + requests_mset reqs1) + new1"
    using assms(2) by (simp only: advanced_def add.assoc)
  also have "\<dots> = requests_mset reqs + (new + new1)"
    using assms(1) by (simp only: advanced_def add.assoc)
  finally show ?thesis using assms unfolding advanced_def serial_append by auto
qed

section \<open>Callbacks\<close>

lemma tracked_callback:
  assumes "tracked reqs s" "reqs t = Some tuple"
    and "sv_pending s1 = (sv_pending s)(t := None)" "sv_cache s1 = sv_cache s"
    and "same_except (set (operations_of t (V s))) (V s) v" "V s1 = forget t v"
  shows "tracked (reqs(t := None)) s1" and "dv_tables (V s1) = dv_tables (V s)"
proof -
  have v: "dv_tables v = dv_tables (V s)" "view_ok v" "\<And>u. defs_of u v = defs_of u (V s)"
    using assms(1,5) view_ok_same defs_of_same by (auto simp: tracked_def same_except_def)
  then show "dv_tables (V s1) = dv_tables (V s)" by (simp add: assms(6))
  have "holds_request (the ((reqs(t := None)) u)) u state (V s1)" if "sv_pending s1 u = Some state" for u state
  proof -
    from that assms(3) have "u \<noteq> t" "sv_pending s u = Some state" by (auto split: if_splits)
    with assms(1) have "holds_request (the (reqs u)) u state (V s)" unfolding tracked_def by blast
    then show ?thesis
      using holds_request_cong [of u "V s1" "V s" "the (reqs u)" state] v \<open>u \<noteq> t\<close> by (simp add: assms(6))
  qed
  moreover have "view_ok (V s1)" using v(2) by (simp add: assms(6) view_ok_forget)
  ultimately show "tracked (reqs(t := None)) s1"
    using assms(1,3,4) v(1) by (auto simp: tracked_def assms(6))
qed

lemma callbacks_serve:
  assumes "callbacks L A completed s = Some (Inr s1)" "tracked reqs s" "distinct (map snd completed)"
    and "set (map snd completed) \<subseteq> dom reqs" "foresees (names_in (sv_world s)) (pr_aborts P) (V s) completed rows rows1"
  shows "\<exists>reqs1 outs. tracked reqs1 s1 \<and> dv_tables (V s1) = dv_tables (V s) \<and> dv_rows (V s1) = dv_rows (V s) \<and>
    serial A columnName P (dv_tables (V s)) outs rows rows1 \<and>
    sv_sent s1 = sv_sent s @ replies_of L outs \<and> sv_unsent s1 = sv_unsent s @ lost_of L outs \<and>
    mset (map fst outs) + requests_mset reqs1 = requests_mset reqs"
  using assms
proof (induction completed arbitrary: s reqs rows)
  case Nil
  then show ?case by (intro exI [of _ reqs] exI [of _ "[]"]) simp
next
  case (Cons c completed)
  obtain res t where c: "c = (res, t)" by (cases c)
  from Cons.prems(1) c obtain s2 where one: "ndbExecuteCallback L A res t s = Some (Inr s2)"
    and rest: "callbacks L A completed s2 = Some (Inr s1)"
    by (auto simp: bind_run_Some_Inr_iff)
  from Cons.prems(4) c obtain tuple where tuple: "reqs t = Some tuple" by auto
  obtain tid ident ms where tup: "tuple = (tid, ident, ms)" by (cases tuple)
  from Cons.prems(2) tuple obtain state where state: "sv_pending s t = Some state"
    unfolding tracked_def by (metis domD domI)
  have held: "holds_request (tid, ident, ms) t state (V s)" and ok: "view_ok (V s)" and fin: "finite (dom reqs)"
    using tracked_held [OF Cons.prems(2) tuple state] trackedD [OF Cons.prems(2)] unfolding tup by blast+
  from Cons.prems(5) [unfolded c foresees.simps] obtain rows2 where
    "if res = -1 then rows2 = rows \<and> pr_aborts P (plans_of t (V s)) rows else \<exists>founds. performs_all (names_in (sv_world s)) (plans_of t (V s)) rows founds rows2 \<and>
      list_all2 (readied (V s)) (defs_of t (V s)) founds"
    and later: "foresees (names_in (sv_world s)) (pr_aborts P) (V s) completed rows2 rows1"
    by blast
  then obtain founds where
    "if res = -1 then rows2 = rows \<and> pr_aborts P (plans_of t (V s)) rows else performs_all (names_in (sv_world s)) (plans_of t (V s)) rows founds rows2 \<and>
      list_all2 (readied (V s)) (defs_of t (V s)) founds"
    by (cases "res = -1") auto
  from callback_serves [OF one state held ok this(1)] obtain r v where
    rep: "replied L ident r s s2" and ser: "serial A columnName P (dv_tables (V s)) [((tid, ident, ms), r)] rows rows2"
    and s2: "sv_pending s2 = (sv_pending s)(t := None)" "sv_cache s2 = sv_cache s"
      "same_except (set (operations_of t (V s))) (V s) v" "dv_rows v = dv_rows (V s)" "V s2 = forget t v"
    by blast
  note track = tracked_callback [OF Cons.prems(2) tuple s2(1,2,3,5)]
  have "foresees (names_in (sv_world s)) (pr_aborts P) (V s2) completed rows2 rows1 \<longleftrightarrow>
      foresees (names_in (sv_world s)) (pr_aborts P) (V s) completed rows2 rows1"
  proof (rule foresees_cong)
    fix u assume u: "u \<in> snd ` set completed"
    with Cons.prems(3) have ne: "u \<noteq> t" by (auto simp: c)
    then show "defs_of u (V s2) = defs_of u (V s)" using defs_of_same [OF s2(3)] by (simp add: s2(5))
    fix op assume "op \<in> set (operations_of u (V s))"
    with operations_of_distinct(2) [OF ok ne] have "op \<notin> set (operations_of t (V s))" by blast
    with s2(3) show "dv_left (V s2) op = dv_left (V s) op \<and> dv_current (V s2) op = dv_current (V s) op"
      by (simp add: s2(5) same_except_def)
  qed
  with later track(2) have "foresees (names_in (sv_world s2)) (pr_aborts P) (V s2) completed rows2 rows1"
    by (simp add: V_def)
  moreover have "set (map snd completed) \<subseteq> dom (reqs(t := None))" "distinct (map snd completed)"
    using Cons.prems(3,4) by (auto simp: c)
  ultimately obtain reqs1 outs where
    "tracked reqs1 s1" "dv_tables (V s1) = dv_tables (V s2)" "dv_rows (V s1) = dv_rows (V s2)"
    "serial A columnName P (dv_tables (V s2)) outs rows2 rows1"
    "sv_sent s1 = sv_sent s2 @ replies_of L outs" "sv_unsent s1 = sv_unsent s2 @ lost_of L outs"
    "mset (map fst outs) + requests_mset reqs1 = requests_mset (reqs(t := None))"
    using Cons.IH [OF rest track(1)] by blast
  moreover from ser this(4) track(2) have "serial A columnName P (dv_tables (V s)) ((tuple, r) # outs) rows rows1"
    using serial_append [of A columnName P "dv_tables (V s)" "[(tuple, r)]" outs rows rows1] by (auto simp: tup)
  moreover have "requests_mset reqs = add_mset tuple (requests_mset (reqs(t := None)))"
    by (rule requests_mset_remove [OF fin tuple])
  ultimately show ?case
    using rep track(2) s2(4,5) by (intro exI [of _ reqs1] exI [of _ "(tuple, r) # outs"]) (simp add: replied_def tup)
qed

lemma polled_serves:
  assumes "polled L A call c s = Some (Inr (c1, s1))" "call (sv_world s) = ((cnt, completed), w)"
    and "distinct (map snd completed)" "set (map snd completed) \<subseteq> dom (sv_pending s)"
    and "completes (names_in (sv_world s)) (pr_aborts P) completed (V s) (view w)" "tracked reqs s"
  shows "\<exists>reqs1 outs. advanced L reqs s {#} reqs1 s1 outs"
proof -
  let ?s = "s\<lparr>sv_world := w\<rparr>"
  from assms(1,2) have cb: "callbacks L A completed ?s = Some (Inr s1)"
    by (auto simp: polled_def with_world_def bind_run_Some_Inr_iff)
  have "view_ok (V s)" using assms(6) by (simp add: tracked_def)
  from completes_foresees [OF assms(5) this assms(3)] have
    fore: "foresees (names_in (sv_world s)) (pr_aborts P) (view w) completed (dv_rows (V s)) (dv_rows (view w))"
    and same: "same_except (\<Union>t \<in> snd ` set completed. set (operations_of t (V s))) (V s) (view w)"
    by blast+
  have tables: "dv_tables (view w) = dv_tables (V s)" using same by (simp add: same_except_def)
  have "tracked reqs ?s"
    using assms(6) view_ok_same [OF same] holds_request_cong [OF defs_of_same [OF same] tables]
    unfolding tracked_def by (simp add: tables)
  moreover have "set (map snd completed) \<subseteq> dom reqs" using assms(4,6) by (simp add: tracked_def)
  moreover have "foresees (names_in (sv_world ?s)) (pr_aborts P) (V ?s) completed (dv_rows (V s)) (dv_rows (view w))"
    using fore by (simp add: tables V_def)
  ultimately obtain reqs1 outs where
    "tracked reqs1 s1" "dv_tables (V s1) = dv_tables (V ?s)" "dv_rows (V s1) = dv_rows (V ?s)"
    "serial A columnName P (dv_tables (V ?s)) outs (dv_rows (V s)) (dv_rows (view w))"
    "sv_sent s1 = sv_sent ?s @ replies_of L outs" "sv_unsent s1 = sv_unsent ?s @ lost_of L outs"
    "mset (map fst outs) + requests_mset reqs1 = requests_mset reqs"
    using callbacks_serve [OF cb _ assms(3)] by blast
  then show ?thesis using tables by (intro exI [of _ reqs1] exI [of _ outs]) (simp add: advanced_def)
qed

section \<open>Waiting\<close>

lemma send_polled_serves:
  assumes "polled L A (sendPollNdb A n k) c s = Some (Inr (c1, s1))" "settled n s" "tracked reqs s"
  shows "\<exists>reqs1 outs. advanced L reqs s {#} reqs1 s1 outs"
proof -
  obtain cnt completed w where call: "sendPollNdb A n k (sv_world s) = ((cnt, completed), w)" by (metis surj_pair)
  from polled_serves [OF assms(1) call _ _ _ assms(3)] send_poll [OF call] view_send_poll [OF call]
    settledD(2) [OF assms(2)] show ?thesis by (simp add: V_def)
qed

lemma poll_serves:
  assumes "polled L A (pollNdb A n k) c s = Some (Inr (c1, s1))" "settled n s" "tracked reqs s"
  shows "\<exists>reqs1 outs. advanced L reqs s {#} reqs1 s1 outs"
proof -
  obtain cnt completed w where call: "pollNdb A n k (sv_world s) = ((cnt, completed), w)" by (metis surj_pair)
  from polled_serves [OF assms(1) call _ _ _ assms(3)] poll [OF call] view_poll [OF call]
    settledD(2) [OF assms(2)] show ?thesis by (simp add: V_def)
qed

lemma poll_settles:
  assumes "polled L A (pollNdb A n k) c s = Some (Inr (c1, s1))" "settled n s" "int tot = c + int (card (dom (sv_pending s)))"
  shows "settled n s1 \<and> int tot = c1 + int (card (dom (sv_pending s1)))"
proof -
  obtain cnt completed w where call: "pollNdb A n k (sv_world s) = ((cnt, completed), w)" by (metis surj_pair)
  from polled_accounts [where call = "pollNdb A n k" and L = L, OF assms(2,3) call poll [OF call]] assms(1)
  show ?thesis by auto
qed

lemma send_poll_settles:
  assumes "polled L A (sendPollNdb A n k) c s = Some (Inr (c1, s1))" "settled n s" "int tot = c + int (card (dom (sv_pending s)))"
  shows "settled n s1 \<and> int tot = c1 + int (card (dom (sv_pending s1)))"
proof -
  obtain cnt completed w where call: "sendPollNdb A n k (sv_world s) = ((cnt, completed), w)" by (metis surj_pair)
  from polled_accounts [where call = "sendPollNdb A n k" and L = L, OF assms(2,3) call send_poll [OF call]] assms(1)
  show ?thesis by auto
qed

lemma wait_serves:
  assumes "waitForTransactionsToComplete L A n tot s = Some (Inr s1)" "settled n s" "tot = card (dom (sv_pending s))"
    and "tracked reqs s"
  shows "\<exists>reqs1 outs. advanced L reqs s {#} reqs1 s1 outs"
proof (cases "tot > 0")
  case False
  with assms(1) advanced_refl [OF assms(4)] show ?thesis by (auto simp: waitForTransactionsToComplete_def)
next
  case True
  define P where "P = (\<lambda>st :: (int \<times> 'w server) run. \<forall>c s2. st = Some (Inr (c, s2)) \<longrightarrow> settled n s2 \<and>
    int tot = c + int (card (dom (sv_pending s2))) \<and> (\<exists>reqs1 outs. advanced L reqs s {#} reqs1 s2 outs))"
  from assms(1) True obtain c where
    final: "while_option (wait_continues (int tot)) (wait_step L A n (int tot)) (polled L A (sendPollNdb A n (int tot)) 0 s) =
      Some (Some (Inr (c, s1)))"
    by (auto simp: waitForTransactionsToComplete_def bind_run_Some_Inr_iff split: option.splits)
  have step: "P (wait_step L A n (int tot) st)" if "P st" "wait_continues (int tot) st" for st
    unfolding P_def
  proof (intro allI impI)
    fix c2 s3 assume res: "wait_step L A n (int tot) st = Some (Inr (c2, s3))"
    then obtain c1 s2 where st: "st = Some (Inr (c1, s2))"
      and poll: "polled L A (pollNdb A n (int tot - c1)) c1 s2 = Some (Inr (c2, s3))"
      by (auto simp: wait_step_def bind_run_Some_Inr_iff)
    from that(1) st obtain reqs1 outs where s2: "settled n s2" "int tot = c1 + int (card (dom (sv_pending s2)))"
      and adv: "advanced L reqs s {#} reqs1 s2 outs"
      by (auto simp: P_def)
    from adv have "tracked reqs1 s2" by (simp add: advanced_def)
    from poll_serves [OF poll s2(1) this] advanced_trans [OF adv] poll_settles [OF poll s2]
    show "settled n s3 \<and> int tot = c2 + int (card (dom (sv_pending s3))) \<and>
      (\<exists>reqs1 outs. advanced L reqs s {#} reqs1 s3 outs)"
      by fastforce
  qed
  have "P (polled L A (sendPollNdb A n (int tot)) 0 s)"
    unfolding P_def using send_polled_serves [OF _ assms(2,4)] send_poll_settles [OF _ assms(2)] assms(3)
    by (metis add_0)
  from while_option_rule [where P = P, OF step final this] show ?thesis by (auto simp: P_def)
qed

section \<open>A batch\<close>

lemma row_request_safe: "row_request A tuple \<Longrightarrow> safe_tuple A tuple"
  by (auto simp: row_request_def safe_tuple_def homogeneous_def)

lemma executeTuple_serves:
  assumes "executeTuple L A n tuple s = Inr (b, s1)" "settled n s" "tracked reqs s" "row_request A tuple"
  shows "\<exists>reqs1 outs. advanced L reqs s {#tuple#} reqs1 s1 outs"
proof -
  obtain tid ident ms where tup: "tuple = (tid, ident, ms)" by (cases tuple)
  note D = trackedD [OF assms(3)]
  from assms(4) have req: "list_all (\<lambda>m. \<not> isDefinitionFrame m) ms" "list_all (safe_message A) ms" "ms \<noteq> []"
    by (simp_all add: row_request_def tup)
  from executeTuple_prepares [OF assms(1) [unfolded tup] req D(2,1) settledD(4) [OF assms(2)]] have
    fit: "cache_fits (dv_tables (V s)) (sv_cache s1)" and ok1: "view_ok (V s1)"
    and out: "if b then \<exists>t state. sv_pending s1 = (sv_pending s)(t \<mapsto> state) \<and>
        request_prepared (tid, ident, ms) t state (V s) (V s1) \<and> sv_sent s1 = sv_sent s \<and> sv_unsent s1 = sv_unsent s
      else sv_pending s1 = sv_pending s \<and> V s1 = V s \<and> \<not> list_all (request_taken A P (dv_tables (V s))) ms \<and>
        (\<exists>r. failure_of tid r \<and> replied L ident r s s1)"
    by blast+
  show ?thesis
  proof (cases b)
    case False
    with out obtain r where r: "failure_of tid r" "replied L ident r s s1" and same: "sv_pending s1 = sv_pending s" "V s1 = V s"
      and fails: "may_fail A P (dv_tables (V s)) tuple (dv_rows (V s))"
      by (auto simp: may_fail_def tup)
    have "tracked reqs s1" using assms(3) fit unfolding tracked_def same by simp
    with r same fails show ?thesis
      by (intro exI [of _ reqs] exI [of _ "[(tuple, r)]"]) (auto simp: advanced_def tup replied_def failure_of_def)
  next
    case True
    with out obtain t state where p1: "sv_pending s1 = (sv_pending s)(t \<mapsto> state)"
      and prep: "request_prepared (tid, ident, ms) t state (V s) (V s1)"
      and sent: "sv_sent s1 = sv_sent s" "sv_unsent s1 = sv_unsent s"
      by auto
    from prep obtain ds where v1: "V s1 = add_defs t ds (V s)" by (auto simp: request_prepared_def)
    have new: "t \<notin> dom (sv_pending s)"
    proof
      assume "t \<in> dom (sv_pending s)"
      then obtain old where old: "sv_pending s t = Some old" by auto
      with assms(3) have "holds_request (the (reqs t)) t old (V s)" unfolding tracked_def by blast
      then obtain ys where "ts_operations old = map fst ys" "defs_of t (V s) = map snd ys"
        by (auto simp: holds_request_def split: prod.splits)
      moreover have "defs_of t (V s) = []" using prep by (simp add: request_prepared_def)
      moreover have "ts_operations old \<noteq> []"
        using settledD(3) [OF assms(2)] old by (auto simp: pending_ok_def)
      ultimately show False by simp
    qed
    have "holds_request (the ((reqs(t \<mapsto> tuple)) u)) u st (V s1)" if "sv_pending s1 u = Some st" for u st
    proof (cases "u = t")
      case True
      with that p1 prepared_held [OF prep] show ?thesis by (simp add: tup)
    next
      case False
      with that p1 assms(3) have "holds_request (the (reqs u)) u st (V s)" unfolding tracked_def by simp
      with False show ?thesis
        using holds_request_cong [of u "V s1" "V s" "the (reqs u)" st] by (simp add: v1 defs_of_defs)
    qed
    moreover have "dv_tables (V s1) = dv_tables (V s)" "dv_rows (V s1) = dv_rows (V s)"
      by (simp_all add: v1 add_defs_def)
    ultimately have "tracked (reqs(t \<mapsto> tuple)) s1"
      using ok1 fit D(3,4) p1 by (simp add: tracked_def)
    moreover have "requests_mset (reqs(t \<mapsto> tuple)) = add_mset tuple (requests_mset reqs)"
      by (rule requests_mset_add [OF D(4)]) (use new D(3) in simp)
    ultimately show ?thesis
      using sent v1 by (intro exI [of _ "reqs(t \<mapsto> tuple)"] exI [of _ "[]"]) (simp add: advanced_def add_defs_def)
  qed
qed

lemma executeTuples_serve:
  assumes "settled n s" "tot = card (dom (sv_pending s))" "tot < 1024" "list_all (row_request A) tuples" "tracked reqs s"
    and "executeTuples L A n tuples tot s = Some (Inr (tot1, s1))"
  shows "\<exists>reqs1 outs. advanced L reqs s (mset tuples) reqs1 s1 outs"
  using assms
proof (induction tuples arbitrary: tot s reqs)
  case Nil
  then have "advanced L reqs s (mset []) reqs s1 []" using advanced_refl [OF Nil(5)] by simp
  then show ?case by blast
next
  case (Cons tuple tuples)
  then have req: "row_request A tuple" "list_all (row_request A) tuples" by simp_all
  from executeTuple_accounts [OF Cons.prems(1) row_request_safe [OF req(1)], of L] obtain b s2 where
    exec: "executeTuple L A n tuple s = Inr (b, s2)" and s2: "settled n s2"
    and card: "card (dom (sv_pending s2)) = tot + (if b then 1 else 0)"
    using Cons.prems(2) by blast
  from executeTuple_serves [OF exec Cons.prems(1,5) req(1)] obtain reqs2 outs2 where
    adv2: "advanced L reqs s {#tuple#} reqs2 s2 outs2" by blast
  then have t2: "tracked reqs2 s2" by (simp add: advanced_def)
  show ?case
  proof (cases "b \<and> tot + 1 = 1024")
    case True
    with card have c2: "tot + 1 = card (dom (sv_pending s2))" by simp
    from wait_accounts [OF s2 this, of L] obtain s3 where
      wait: "waitForTransactionsToComplete L A n (tot + 1) s2 = Some (Inr s3)" and s3: "settled n s3" "sv_pending s3 = Map.empty"
      by blast
    from wait_serves [OF wait s2 c2 t2] obtain reqs3 outs3 where
      adv3: "advanced L reqs2 s2 {#} reqs3 s3 outs3" by blast
    then have t3: "tracked reqs3 s3" by (simp add: advanced_def)
    from Cons.prems(6) exec True wait have "executeTuples L A n tuples 0 s3 = Some (Inr (tot1, s1))" by simp
    from Cons.IH [OF s3(1) _ _ req(2) t3 this] s3(2) obtain reqs4 outs4 where
      "advanced L reqs3 s3 (mset tuples) reqs4 s1 outs4" by auto
    from advanced_trans [OF advanced_trans [OF adv2 adv3] this] show ?thesis by auto
  next
    case False
    let ?tot = "tot + (if b then 1 else 0)"
    from False Cons.prems(3) have less: "?tot < 1024" by auto
    from False have "executeTuples L A n (tuple # tuples) tot s = executeTuples L A n tuples ?tot s2"
      using exec by (cases b) auto
    with Cons.prems(6) have "executeTuples L A n tuples ?tot s2 = Some (Inr (tot1, s1))" by simp
    from Cons.IH [OF s2 card [symmetric] less req(2) t2 this] advanced_trans [OF adv2] show ?thesis
      by fastforce
  qed
qed

lemma executeLists_serve:
  assumes "settled n s" "tot = card (dom (sv_pending s))" "tot < 1024" "list_all (list_all (row_request A)) tasks" "tracked reqs s"
    and "executeLists L A n tasks tot s = Some (Inr (tot1, s1))"
  shows "\<exists>reqs1 outs. advanced L reqs s (mset (concat tasks)) reqs1 s1 outs"
  using assms
proof (induction tasks arbitrary: tot s reqs)
  case Nil
  then have "advanced L reqs s (mset (concat [])) reqs s1 []" using advanced_refl [OF Nil(5)] by simp
  then show ?case by blast
next
  case (Cons task tasks)
  then have req: "list_all (row_request A) task" "list_all (list_all (row_request A)) tasks" by simp_all
  from req(1) have safe: "list_all (safe_tuple A) task" by (auto simp: list_all_iff row_request_safe)
  from executeTuples_account [OF Cons.prems(1-3) safe, of L] obtain tot2 s2 where
    first: "executeTuples L A n task tot s = Some (Inr (tot2, s2))"
    and s2: "settled n s2" "tot2 = card (dom (sv_pending s2))" "tot2 < 1024"
    by blast
  from executeTuples_serve [OF Cons.prems(1-3) req(1) Cons.prems(5) first] obtain reqs2 outs2 where
    adv: "advanced L reqs s (mset task) reqs2 s2 outs2" by blast
  then have "tracked reqs2 s2" by (simp add: advanced_def)
  moreover from Cons.prems(6) first have "executeLists L A n tasks tot2 s2 = Some (Inr (tot1, s1))" by simp
  ultimately obtain reqs3 outs3 where "advanced L reqs2 s2 (mset (concat tasks)) reqs3 s1 outs3"
    using Cons.IH [OF s2 req(2)] by blast
  from advanced_trans [OF adv this] show ?case by auto
qed

lemma executeBatch_serves:
  assumes "settled n s" "sv_pending s = Map.empty" "list_all (list_all (row_request A)) tasks"
    and "view_ok (V s)" "cache_fits (dv_tables (V s)) (sv_cache s)"
  shows "\<exists>s1 outs. executeBatch L A n tasks s = Some (Inr s1) \<and> mset (map fst outs) = mset (concat tasks) \<and>
    serial A columnName P (dv_tables (V s)) outs (dv_rows (V s)) (dv_rows (V s1)) \<and>
    sv_sent s1 = sv_sent s @ replies_of L outs \<and> sv_unsent s1 = sv_unsent s @ lost_of L outs \<and>
    settled n s1 \<and> sv_pending s1 = Map.empty \<and> view_ok (V s1) \<and> dv_tables (V s1) = dv_tables (V s) \<and>
    cache_fits (dv_tables (V s1)) (sv_cache s1)"
proof -
  have start: "tracked Map.empty s" using assms(2,4,5) by (simp add: tracked_def)
  have safe: "list_all (list_all (safe_tuple A)) tasks" using assms(3) by (auto simp: list_all_iff row_request_safe)
  from executeBatch_accounts [OF assms(1,2) safe] obtain s1 where
    batch: "executeBatch L A n tasks s = Some (Inr s1)" and s1: "settled n s1" "sv_pending s1 = Map.empty"
    by blast
  from executeLists_account [OF assms(1) _ _ safe, of 0 L] assms(2) obtain tot s2 where
    lists: "executeLists L A n tasks 0 s = Some (Inr (tot, s2))" and s2: "settled n s2" "tot = card (dom (sv_pending s2))"
    by auto
  from executeLists_serve [OF assms(1) _ _ assms(3) start lists] assms(2) obtain reqs2 outs2 where
    adv: "advanced L Map.empty s (mset (concat tasks)) reqs2 s2 outs2" by auto
  then have t2: "tracked reqs2 s2" by (simp add: advanced_def)
  have "\<exists>reqs1 outs. advanced L reqs2 s2 {#} reqs1 s1 outs"
  proof (cases "tot > 0")
    case True
    with batch lists have "waitForTransactionsToComplete L A n tot s2 = Some (Inr s1)" by (simp add: executeBatch_def)
    from wait_serves [OF this s2 t2] show ?thesis .
  next
    case False
    with batch lists have "s1 = s2" by (simp add: executeBatch_def)
    with advanced_refl [OF t2] show ?thesis by blast
  qed
  then obtain reqs1 outs1 where "advanced L reqs2 s2 {#} reqs1 s1 outs1" by blast
  from advanced_trans [OF adv this] have all: "advanced L Map.empty s (mset (concat tasks)) reqs1 s1 (outs2 @ outs1)" by simp
  then have t1: "tracked reqs1 s1" by (simp add: advanced_def)
  from trackedD(3) [OF t1] s1(2) have "reqs1 = Map.empty" by simp
  with all batch s1 trackedD(1,2) [OF t1] show ?thesis
    unfolding advanced_def by (intro exI [of _ s1] exI [of _ "outs2 @ outs1"]) simp
qed

end

end
