(* ===== verification/RowProperties.thy ===== *)
theory RowProperties
  imports BatchSerial
begin

text \<open>
  The theorems on what the executor does to the rows of the database, over \<open>ndb_database\<close>, with
  witnesses on the database in memory.
\<close>

definition executor_ready ::
  "'w ndb_api \<Rightarrow> ('w \<Rightarrow> ndb_transaction set) \<Rightarrow> ('w \<Rightarrow> db_view) \<Rightarrow> nat \<Rightarrow> 'w server \<Rightarrow> bool" where
  "executor_ready A prepared view threadNo s \<longleftrightarrow> executor_idle A prepared threadNo s \<and>
     view_ok (view (sv_world s)) \<and> cache_fits (dv_tables (view (sv_world s))) (sv_cache s)"

definition sample_note :: column_value where
  "sample_note = ColumnValue_set_value ''hello'' (ColumnValue_set_name ''note'' ColumnValue_new)"

definition sample_write :: set_operation where
  "sample_write =
     SetValues SetOperation_add_value
       (SetPrimaryKeys SetOperation_add_primary_key
         (SetOperation_add_store_info (StoreInfo_set_store_name ''orders'') SetOperation_new)
         [sample_key ''customer'', sample_key ''number''])
       [sample_note]"

definition sample_get :: get_operation where
  "sample_get =
     SetPrimaryKeys GetOperation_add_primary_key
       (GetOperation_add_store_info (StoreInfo_set_store_name ''orders'') GetOperation_new)
       [sample_key ''customer'', sample_key ''number'']"

definition sample_erase :: delete_operation where
  "sample_erase =
     SetPrimaryKeys DeleteOperation_add_primary_key
       (DeleteOperation_add_store_info (StoreInfo_set_store_name ''orders'') DeleteOperation_new)
       [sample_key ''customer'', sample_key ''number'']"

definition memory_empty :: memory_db where
  "memory_empty = \<lparr>mm_rows = (\<lambda>_. []), mm_defs = [], mm_left = (\<lambda>_. []), mm_current = Map.empty, mm_prepared = []\<rparr>"

definition memory_server :: "memory_db server" where
  "memory_server =
     \<lparr>sv_world = memory_empty, sv_cache = \<lparr>tic_entries = Map.empty\<rparr>, sv_pending = Map.empty,
      sv_sent = [], sv_unsent = [], sv_stats = TestStats_initial\<rparr>"

lemma memory_server_ready: "executor_ready memory_api (\<lambda>w. set (mm_prepared w)) memory_view 0 memory_server"
  by (simp add: executor_ready_def executor_idle_def cache_real_def memory_server_def memory_empty_def TestStats_initial_def stats_ready_def
      view_ok_def open_operations_def open_records_def cache_fits_def)

lemmas sample_row_eval = sample_write_def sample_get_def sample_erase_def sample_note_def sample_key_def
  SetPrimaryKeys_def SetValues_def accessors SetOperation_new_def GetOperation_new_def DeleteOperation_new_def
  StoreInfo_new_def ColumnValue_new_def

lemma sample_row_requests:
  "row_request memory_api (tid, ident, [SetMessage sample_write])"
  "row_request memory_api (tid, ident, [GetMessage sample_get])"
  "row_request memory_api (tid, ident, [DeleteMessage sample_erase])"
  by (simp_all add: row_request_def safe_message_def get_safe_def sample_row_eval)

lemma sample_requests_taken:
  "request_taken memory_api memory_promise (dv_tables (memory_view (sv_world memory_server))) (SetMessage sample_write)"
  "request_taken memory_api memory_promise (dv_tables (memory_view (sv_world memory_server))) (GetMessage sample_get)"
  by (simp_all add: request_taken_def store_table_def keys_taken_def values_taken_def read_taken_def read_access_def
      memory_promise_def sample_row_eval c_str_def ref_tables_def ref_columns_def)

section \<open>A batch is a serial execution\<close>

lemma batch_serial:
  assumes "ndb_database A prepared patience rowsLeft view columnName P"
    and "executor_ready A prepared view threadNo s" "list_all (list_all (row_request A)) taskLists"
  shows "\<exists>s1 outs. executeBatch L A threadNo taskLists s = Some (Inr s1) \<and> executor_ready A prepared view threadNo s1 \<and>
    mset (map fst outs) = mset (concat taskLists) \<and>
    serial A columnName P (dv_tables (view (sv_world s))) outs (dv_rows (view (sv_world s))) (dv_rows (view (sv_world s1))) \<and>
    dv_tables (view (sv_world s1)) = dv_tables (view (sv_world s)) \<and>
    sv_sent s1 = sv_sent s @ replies_of L outs \<and> sv_unsent s1 = sv_unsent s @ lost_of L outs"
proof -
  note cluster = ndb_database.axioms(1) [OF assms(1)]
  have "ndb_cluster.settled A prepared threadNo s" "sv_pending s = Map.empty"
    using assms(2) unfolding executor_ready_def ndb_cluster.idle_settled [OF cluster] by blast+
  from ndb_database.executeBatch_serves [OF assms(1) this assms(3), of L] assms(2) obtain s1 outs where
    out: "executeBatch L A threadNo taskLists s = Some (Inr s1)" "mset (map fst outs) = mset (concat taskLists)"
      "serial A columnName P (dv_tables (view (sv_world s))) outs (dv_rows (view (sv_world s))) (dv_rows (view (sv_world s1)))"
      "sv_sent s1 = sv_sent s @ replies_of L outs" "sv_unsent s1 = sv_unsent s @ lost_of L outs"
      "dv_tables (view (sv_world s1)) = dv_tables (view (sv_world s))"
    and s1: "ndb_cluster.settled A prepared threadNo s1" "sv_pending s1 = Map.empty" "view_ok (view (sv_world s1))"
      "cache_fits (dv_tables (view (sv_world s1))) (sv_cache s1)"
    by (auto simp: executor_ready_def ndb_database.V_def [OF assms(1)])
  have "executor_ready A prepared view threadNo s1"
    using s1 unfolding executor_ready_def ndb_cluster.idle_settled [OF cluster] by blast
  with out show ?thesis by blast
qed



section \<open>Reading what was written\<close>

text \<open>The outcome of one request, and the outcomes of two that are executed one after the other.\<close>

definition request_outcome ::
  "'w ndb_api \<Rightarrow> (ndb_table \<Rightarrow> nat \<Rightarrow> bytes) \<Rightarrow> ndb_promise \<Rightarrow> (bytes \<rightharpoonup> ndb_table) \<Rightarrow> frame_messages_tuple \<Rightarrow> server_result
   \<Rightarrow> db_rows \<Rightarrow> db_rows \<Rightarrow> bool" where
  "request_outcome A columnName P tables tuple r rows rows1 \<longleftrightarrow>
     (if rs_error_code r \<noteq> None then failure_of (fst tuple) r \<and> may_fail A P tables tuple rows \<and> rows1 = rows
      else serves A columnName P tables tuple r rows rows1)"

lemma single_request:
  assumes "ndb_database A prepared patience rowsLeft view columnName P"
    and "executor_ready A prepared view threadNo s" "row_request A (tid, ident, messages)"
  shows "\<exists>s1 r. executeBatch L A threadNo [[(tid, ident, messages)]] s = Some (Inr s1) \<and>
    executor_ready A prepared view threadNo s1 \<and> sv_sent s1 = sv_sent s @ reply_parts L ident r \<and>
    dv_tables (view (sv_world s1)) = dv_tables (view (sv_world s)) \<and>
    request_outcome A columnName P (dv_tables (view (sv_world s))) (tid, ident, messages) r
      (dv_rows (view (sv_world s))) (dv_rows (view (sv_world s1)))"
proof -
  from batch_serial [OF assms(1,2), of "[[(tid, ident, messages)]]" L] assms(3) obtain s1 outs where
    b: "executeBatch L A threadNo [[(tid, ident, messages)]] s = Some (Inr s1)" "executor_ready A prepared view threadNo s1"
      "mset (map fst outs) = {#(tid, ident, messages)#}"
      "serial A columnName P (dv_tables (view (sv_world s))) outs (dv_rows (view (sv_world s))) (dv_rows (view (sv_world s1)))"
      "dv_tables (view (sv_world s1)) = dv_tables (view (sv_world s))" "sv_sent s1 = sv_sent s @ replies_of L outs"
    by auto
  from b(3) have "map fst outs = [(tid, ident, messages)]" by (metis mset_single_iff)
  then obtain r where "outs = [((tid, ident, messages), r)]" by (cases outs) auto
  with b show ?thesis by (intro exI [of _ s1] exI [of _ r]) (auto simp: request_outcome_def)
qed

lemma two_requests:
  assumes "ndb_database A prepared patience rowsLeft view columnName P" "executor_ready A prepared view threadNo s"
    and "row_request A (tid1, ident1, messages1)" "row_request A (tid2, ident2, messages2)"
  obtains s1 s2 r1 r2 where
    "executeBatch L A threadNo [[(tid1, ident1, messages1)]] s = Some (Inr s1)"
    "executeBatch L A threadNo [[(tid2, ident2, messages2)]] s1 = Some (Inr s2)"
    "sv_sent s2 = sv_sent s @ reply_parts L ident1 r1 @ reply_parts L ident2 r2"
    "request_outcome A columnName P (dv_tables (view (sv_world s))) (tid1, ident1, messages1) r1
      (dv_rows (view (sv_world s))) (dv_rows (view (sv_world s1)))"
    "request_outcome A columnName P (dv_tables (view (sv_world s))) (tid2, ident2, messages2) r2
      (dv_rows (view (sv_world s1))) (dv_rows (view (sv_world s2)))"
proof -
  from single_request [OF assms(1-3), of L] obtain s1 r1 where
    b1: "executeBatch L A threadNo [[(tid1, ident1, messages1)]] s = Some (Inr s1)" "executor_ready A prepared view threadNo s1"
      "sv_sent s1 = sv_sent s @ reply_parts L ident1 r1" "dv_tables (view (sv_world s1)) = dv_tables (view (sv_world s))"
      "request_outcome A columnName P (dv_tables (view (sv_world s))) (tid1, ident1, messages1) r1
        (dv_rows (view (sv_world s))) (dv_rows (view (sv_world s1)))"
    by blast
  from single_request [OF assms(1) b1(2) assms(4), of L, unfolded b1(4)] obtain s2 r2 where
    "executeBatch L A threadNo [[(tid2, ident2, messages2)]] s1 = Some (Inr s2)" "sv_sent s2 = sv_sent s1 @ reply_parts L ident2 r2"
    "request_outcome A columnName P (dv_tables (view (sv_world s))) (tid2, ident2, messages2) r2
      (dv_rows (view (sv_world s1))) (dv_rows (view (sv_world s2)))"
    by blast
  with b1 that show thesis by simp
qed

lemma serves_single:
  assumes "serves A columnName P tables (tid, ident, [m]) r rows rows1"
  shows "\<exists>p found opr. request_plan A tables m = Some p \<and>
    performs (column_names columnName tables (rp_table p)) p rows found rows1 \<and>
    shows_operation P (column_names columnName tables (rp_table p)) m p found opr \<and> rs_result r = [opr]"
proof -
  from assms [unfolded serves_def prod.case list.map] obtain plans founds where
    plans: "[request_plan A tables m] = map Some plans" and perf: "performs_all (column_names columnName tables) plans rows founds rows1"
    and told: "shows_all P (column_names columnName tables) [m] plans founds (rs_result r)"
    by (elim conjE exE) (erule that)
  from plans obtain p where p: "plans = [p]" "request_plan A tables m = Some p" by (cases plans) auto
  with perf obtain found where f: "founds = [found]" "performs (column_names columnName tables (rp_table p)) p rows found rows1"
    by auto
  with told p obtain opr where "rs_result r = [opr]" "shows_operation P (column_names columnName tables (rp_table p)) m p found opr"
    by (cases "rs_result r" rule: list.exhaust; cases "tl (rs_result r)") auto
  with p f show ?thesis by blast
qed

text \<open>What a read by all key columns shows of a table.\<close>

lemma read_by_key:
  assumes "serves A columnName P tables (tid, ident, [GetMessage g]) r rows rows1"
    and "go_store_info g \<noteq> []" "tables (c_str (StoreInfo_store_name (hd (go_store_info g)))) = Some tab"
    and "int (length (go_primary_key g)) = getNoOfPrimaryKeys A tab"
  shows "\<exists>row shown opr. rows (c_str (StoreInfo_store_name (hd (go_store_info g)))) (map_of (named_values (go_primary_key g))) = Some row \<and>
    rs_result r = [opr] \<and> opr_row opr = [shown] \<and>
    map ColumnValue_name (rw_column shown) = map (columnName tab) [0..<getNoOfColumns A tab] \<and>
    list_all (\<lambda>c. case row (ColumnValue_name c) of None \<Rightarrow> True | Some v \<Rightarrow> ColumnValue_value c = v) (rw_column shown)"
proof -
  let ?table = "c_str (StoreInfo_store_name (hd (go_store_info g)))"
  from serves_single [OF assms(1)] obtain p found opr where
    p: "request_plan A tables (GetMessage g) = Some p"
    and perf: "performs (column_names columnName tables (rp_table p)) p rows found rows1"
    and told: "shows_operation P (column_names columnName tables (rp_table p)) (GetMessage g) p found opr" "rs_result r = [opr]"
    by blast
  have plan: "p = read_plan A ?table tab g"
    using p assms(2,3) by (cases "go_store_info g") (auto simp: request_plan_def)
  then have q: "rp_access p = ByKey" "rp_table p = ?table" "rp_intent p = ReadRows"
    "rp_keys p = named_values (go_primary_key g)" "rp_columns p = [0..<getNoOfColumns A tab]"
    using assms(4) by (simp_all add: read_plan_def read_access_def Let_def)
  from perf q obtain row where row: "rows ?table (map_of (named_values (go_primary_key g))) = Some row" "found = [row]"
    by (auto simp: performs_def Let_def)
  from told(1) q row(2) obtain shown where "opr_row opr = [shown]"
    "shows_row (column_names columnName tables ?table) p row shown"
    by (auto simp: shows_operation_def list_all2_Cons1)
  moreover have "column_names columnName tables ?table = columnName tab"
    using assms(3) by (simp add: column_names_def fun_eq_iff)
  ultimately show ?thesis using row(1) told(2) q(5) by (auto simp: shows_row_def)
qed

text \<open>What a set operation leaves behind, and what a read by the same key then shows.\<close>

lemma row_after_set:
  assumes "serves A columnName P tables (tid, ident, [SetMessage w]) r rows rows1" "so_store_info w \<noteq> []"
  shows "\<exists>old. rows1 (c_str (StoreInfo_store_name (hd (so_store_info w)))) (map_of (named_values (so_primary_key w))) =
    Some (old ++ (map_of (rev (named_values (so_value w))) ++ map_of (named_values (so_primary_key w))))"
proof -
  let ?table = "c_str (StoreInfo_store_name (hd (so_store_info w)))"
  from serves_single [OF assms(1)] obtain p found where
    "request_plan A tables (SetMessage w) = Some p"
    "performs (column_names columnName tables (rp_table p)) p rows found rows1"
    by blast
  moreover from this(1) assms(2) have "p = (new_plan ByKey ?table)\<lparr>rp_intent := WriteRow,
      rp_keys := named_values (so_primary_key w), rp_values := named_values (so_value w)\<rparr>"
    by (cases "so_store_info w") (auto simp: request_plan_def)
  ultimately show ?thesis
    by (auto simp: performs_def new_plan_def put_row_def written_row_def Let_def)
qed

lemma shown_after_set:
  assumes "serves A columnName P tables (tid1, ident1, [SetMessage w]) r1 rows rows1"
    and "serves A columnName P tables (tid2, ident2, [GetMessage g]) r2 rows1 rows2"
    and "so_store_info w \<noteq> []" "go_store_info g \<noteq> []"
    and "StoreInfo_store_name (hd (go_store_info g)) = StoreInfo_store_name (hd (so_store_info w))"
    and "map_of (named_values (go_primary_key g)) = map_of (named_values (so_primary_key w))"
    and "tables (c_str (StoreInfo_store_name (hd (so_store_info w)))) = Some tab"
    and "int (length (go_primary_key g)) = getNoOfPrimaryKeys A tab"
  shows "\<exists>opr row. rs_result r2 = [opr] \<and> opr_row opr = [row] \<and>
    map ColumnValue_name (rw_column row) = map (columnName tab) [0..<getNoOfColumns A tab] \<and>
    list_all (\<lambda>c. case (map_of (rev (named_values (so_value w))) ++ map_of (named_values (so_primary_key w))) (ColumnValue_name c) of
      None \<Rightarrow> True | Some v \<Rightarrow> ColumnValue_value c = v) (rw_column row)"
proof -
  let ?written = "map_of (rev (named_values (so_value w))) ++ map_of (named_values (so_primary_key w))"
  from row_after_set [OF assms(1,3)] obtain old where
    row: "rows1 (c_str (StoreInfo_store_name (hd (so_store_info w)))) (map_of (named_values (so_primary_key w))) = Some (old ++ ?written)"
    by blast
  from read_by_key [OF assms(2,4) _ assms(8)] assms(5-7) obtain row2 shown opr where
    "rows1 (c_str (StoreInfo_store_name (hd (so_store_info w)))) (map_of (named_values (so_primary_key w))) = Some row2"
    and shown: "rs_result r2 = [opr]" "opr_row opr = [shown]"
      "map ColumnValue_name (rw_column shown) = map (columnName tab) [0..<getNoOfColumns A tab]"
    and vals: "list_all (\<lambda>c. case row2 (ColumnValue_name c) of None \<Rightarrow> True | Some v \<Rightarrow> ColumnValue_value c = v) (rw_column shown)"
    by auto
  with row have row2: "row2 = old ++ ?written" by simp
  from vals have "list_all (\<lambda>c. case ?written (ColumnValue_name c) of
      None \<Rightarrow> True | Some v \<Rightarrow> ColumnValue_value c = v) (rw_column shown)"
    unfolding row2 by (rule list.pred_mono_strong) (auto simp: map_add_def split: option.splits)
  with shown show ?thesis by blast
qed

text \<open>
  C4: a row that was set is read back: after a successful set operation, a get operation by the
  same key in a later request returns one row with all columns of the table in order, of which the
  columns of the set operation have the values it gave them, unless it fails, for one of the reasons a
  request may fail.
\<close>

theorem get_returns_what_was_set:
  assumes "ndb_database A prepared patience rowsLeft view columnName P" "executor_ready A prepared view threadNo s"
    and "row_request A (tid1, ident1, [SetMessage w])" "row_request A (tid2, ident2, [GetMessage g])"
    and "StoreInfo_store_name (hd (go_store_info g)) = StoreInfo_store_name (hd (so_store_info w))"
    and "map_of (named_values (go_primary_key g)) = map_of (named_values (so_primary_key w))"
    and "dv_tables (view (sv_world s)) (c_str (StoreInfo_store_name (hd (so_store_info w)))) = Some tab"
    and "int (length (go_primary_key g)) = getNoOfPrimaryKeys A tab"
  shows "\<exists>s1 s2 r1 r2. executeBatch L A threadNo [[(tid1, ident1, [SetMessage w])]] s = Some (Inr s1) \<and>
    executeBatch L A threadNo [[(tid2, ident2, [GetMessage g])]] s1 = Some (Inr s2) \<and>
    sv_sent s2 = sv_sent s @ reply_parts L ident1 r1 @ reply_parts L ident2 r2 \<and>
    (if rs_error_code r1 = None \<and> rs_error_code r2 = None then
       \<exists>opr row. rs_result r2 = [opr] \<and> opr_row opr = [row] \<and>
         map ColumnValue_name (rw_column row) = map (columnName tab) [0..<getNoOfColumns A tab] \<and>
         list_all (\<lambda>c. case (map_of (rev (named_values (so_value w))) ++ map_of (named_values (so_primary_key w))) (ColumnValue_name c) of
           None \<Rightarrow> True | Some v \<Rightarrow> ColumnValue_value c = v) (rw_column row)
     else if rs_error_code r1 \<noteq> None then failure_of tid1 r1 \<and>
       may_fail A P (dv_tables (view (sv_world s))) (tid1, ident1, [SetMessage w]) (dv_rows (view (sv_world s)))
     else failure_of tid2 r2 \<and>
       may_fail A P (dv_tables (view (sv_world s))) (tid2, ident2, [GetMessage g]) (dv_rows (view (sv_world s1))))"
proof -
  have w: "so_store_info w \<noteq> []" and g: "go_store_info g \<noteq> []"
    using assms(3,4) by (auto simp: row_request_def safe_message_def get_safe_def)
  obtain s1 s2 r1 r2 where
    b: "executeBatch L A threadNo [[(tid1, ident1, [SetMessage w])]] s = Some (Inr s1)"
      "executeBatch L A threadNo [[(tid2, ident2, [GetMessage g])]] s1 = Some (Inr s2)"
      "sv_sent s2 = sv_sent s @ reply_parts L ident1 r1 @ reply_parts L ident2 r2"
    and o1: "request_outcome A columnName P (dv_tables (view (sv_world s))) (tid1, ident1, [SetMessage w]) r1
      (dv_rows (view (sv_world s))) (dv_rows (view (sv_world s1)))"
    and o2: "request_outcome A columnName P (dv_tables (view (sv_world s))) (tid2, ident2, [GetMessage g]) r2
      (dv_rows (view (sv_world s1))) (dv_rows (view (sv_world s2)))"
    by (rule two_requests [OF assms(1-4)])
  show ?thesis
  proof (cases "rs_error_code r1 = None \<and> rs_error_code r2 = None")
    case True
    with o1 o2 have
      "serves A columnName P (dv_tables (view (sv_world s))) (tid1, ident1, [SetMessage w]) r1
        (dv_rows (view (sv_world s))) (dv_rows (view (sv_world s1)))"
      "serves A columnName P (dv_tables (view (sv_world s))) (tid2, ident2, [GetMessage g]) r2
        (dv_rows (view (sv_world s1))) (dv_rows (view (sv_world s2)))"
      by (simp_all add: request_outcome_def)
    note shown = shown_after_set [OF this w g assms(5-8)]
    show ?thesis
      by (rule exI [of _ s1], rule exI [of _ s2], rule exI [of _ r1], rule exI [of _ r2]) (use b True shown in simp)
  next
    case False
    with o1 o2 b show ?thesis
      by (intro exI [of _ s1] exI [of _ s2] exI [of _ r1] exI [of _ r2]) (auto simp: request_outcome_def split: if_splits)
  qed
qed

theorem get_returns_what_was_set_witness:
  "\<exists>s1 s2 r1 r2. executeBatch ref_lib memory_api 0 [[(''t1'', ''c1'', [SetMessage sample_write])]] memory_server = Some (Inr s1) \<and>
    executeBatch ref_lib memory_api 0 [[(''t2'', ''c2'', [GetMessage sample_get])]] s1 = Some (Inr s2) \<and>
    sv_sent s2 = sv_sent memory_server @ reply_parts ref_lib ''c1'' r1 @ reply_parts ref_lib ''c2'' r2 \<and>
    (if rs_error_code r1 = None \<and> rs_error_code r2 = None then
       \<exists>opr row. rs_result r2 = [opr] \<and> opr_row opr = [row] \<and>
         map ColumnValue_name (rw_column row) = map (ref_column_name 0) [0..<getNoOfColumns memory_api 0] \<and>
         list_all (\<lambda>c. case (map_of (rev (named_values (so_value sample_write))) ++
             map_of (named_values (so_primary_key sample_write))) (ColumnValue_name c) of
           None \<Rightarrow> True | Some v \<Rightarrow> ColumnValue_value c = v) (rw_column row)
     else if rs_error_code r1 \<noteq> None then failure_of ''t1'' r1 \<and>
       may_fail memory_api memory_promise (dv_tables (memory_view (sv_world memory_server))) (''t1'', ''c1'', [SetMessage sample_write])
         (dv_rows (memory_view (sv_world memory_server)))
     else failure_of ''t2'' r2 \<and>
       may_fail memory_api memory_promise (dv_tables (memory_view (sv_world memory_server))) (''t2'', ''c2'', [GetMessage sample_get])
         (dv_rows (memory_view (sv_world s1))))"
  by (rule get_returns_what_was_set [where tab = 0, OF memory_database.ndb_database_axioms memory_server_ready sample_row_requests(1,2)])
    (simp_all add: sample_row_eval c_str_def memory_server_def memory_empty_def ref_tables_def)

section \<open>An available cluster\<close>

definition sound_aborts :: "(bytes \<Rightarrow> nat \<Rightarrow> bytes) \<Rightarrow> ndb_promise \<Rightarrow> bool" where
  "sound_aborts names P \<longleftrightarrow> (\<forall>plans rows. pr_aborts P plans rows \<longrightarrow> (\<nexists>founds rows1. performs_all names plans rows founds rows1))"

lemma memory_aborts_sound:
  "sound_aborts (column_names ref_column_name (dv_tables (memory_view (sv_world memory_server)))) memory_promise"
  by (simp add: sound_aborts_def memory_promise_def memory_aborts_def memory_names_def)

lemma taken_request_served:
  assumes "request_outcome A columnName P tables (tid, ident, [m]) r rows rows1" "request_taken A P tables m"
    and "request_plan A tables m = Some p" "sound_aborts (column_names columnName tables) P"
    and "performs (column_names columnName tables (rp_table p)) p rows found rows2"
  shows "rs_error_code r = None \<and> serves A columnName P tables (tid, ident, [m]) r rows rows1"
proof -
  from assms(5) have "performs_all (column_names columnName tables) [p] rows [found] rows2" by simp
  with assms(4) have "\<not> pr_aborts P [p] rows" unfolding sound_aborts_def by blast
  with assms(2,3) have "\<not> may_fail A P tables (tid, ident, [m]) rows" by (auto simp: may_fail_def)
  with assms(1) show ?thesis by (auto simp: request_outcome_def split: if_splits)
qed

text \<open>
  In a cluster that aborts a transaction only when it cannot be performed, a set operation on names and
  values the cluster takes succeeds, and so does a get operation by the same key in a later request.
\<close>

lemma set_and_get:
  assumes "ndb_database A prepared patience rowsLeft view columnName P" "executor_ready A prepared view threadNo s"
    and "row_request A (tid1, ident1, [SetMessage w])" "row_request A (tid2, ident2, [GetMessage g])"
    and "StoreInfo_store_name (hd (go_store_info g)) = StoreInfo_store_name (hd (so_store_info w))"
    and "map_of (named_values (go_primary_key g)) = map_of (named_values (so_primary_key w))"
    and "dv_tables (view (sv_world s)) (c_str (StoreInfo_store_name (hd (so_store_info w)))) = Some tab"
    and "int (length (go_primary_key g)) = getNoOfPrimaryKeys A tab"
    and "request_taken A P (dv_tables (view (sv_world s))) (SetMessage w)"
    and "request_taken A P (dv_tables (view (sv_world s))) (GetMessage g)"
    and "sound_aborts (column_names columnName (dv_tables (view (sv_world s)))) P"
  shows "\<exists>s1 s2 r1 r2. executeBatch L A threadNo [[(tid1, ident1, [SetMessage w])]] s = Some (Inr s1) \<and>
    executeBatch L A threadNo [[(tid2, ident2, [GetMessage g])]] s1 = Some (Inr s2) \<and>
    sv_sent s2 = sv_sent s @ reply_parts L ident1 r1 @ reply_parts L ident2 r2 \<and>
    rs_transaction_identifier r1 = Some tid1 \<and> rs_transaction_identifier r2 = Some tid2 \<and>
    rs_error_code r1 = None \<and> rs_error_code r2 = None \<and>
    (\<exists>opr row. rs_result r2 = [opr] \<and> opr_row opr = [row] \<and>
      map ColumnValue_name (rw_column row) = map (columnName tab) [0..<getNoOfColumns A tab] \<and>
      list_all (\<lambda>c. case (map_of (rev (named_values (so_value w))) ++ map_of (named_values (so_primary_key w))) (ColumnValue_name c) of
        None \<Rightarrow> True | Some v \<Rightarrow> ColumnValue_value c = v) (rw_column row))"
proof -
  let ?tables = "dv_tables (view (sv_world s))" and ?table = "c_str (StoreInfo_store_name (hd (so_store_info w)))"
  have w: "so_store_info w \<noteq> []" and g: "go_store_info g \<noteq> []"
    using assms(3,4) by (auto simp: row_request_def safe_message_def get_safe_def)
  obtain s1 s2 r1 r2 where
    b: "executeBatch L A threadNo [[(tid1, ident1, [SetMessage w])]] s = Some (Inr s1)"
      "executeBatch L A threadNo [[(tid2, ident2, [GetMessage g])]] s1 = Some (Inr s2)"
      "sv_sent s2 = sv_sent s @ reply_parts L ident1 r1 @ reply_parts L ident2 r2"
    and o1: "request_outcome A columnName P ?tables (tid1, ident1, [SetMessage w]) r1
      (dv_rows (view (sv_world s))) (dv_rows (view (sv_world s1)))"
    and o2: "request_outcome A columnName P ?tables (tid2, ident2, [GetMessage g]) r2
      (dv_rows (view (sv_world s1))) (dv_rows (view (sv_world s2)))"
    by (rule two_requests [OF assms(1-4)])
  let ?p = "(new_plan ByKey ?table)\<lparr>rp_intent := WriteRow,
    rp_keys := named_values (so_primary_key w), rp_values := named_values (so_value w)\<rparr>"
  have p: "request_plan A ?tables (SetMessage w) = Some ?p"
    using w by (cases "so_store_info w") (simp_all add: request_plan_def)
  have "\<exists>rows. performs (column_names columnName ?tables (rp_table ?p)) ?p (dv_rows (view (sv_world s))) [] rows"
    by (simp add: performs_def new_plan_def Let_def)
  with taken_request_served [OF o1 assms(9) p assms(11)] have
    r1: "rs_error_code r1 = None" and serves1: "serves A columnName P ?tables (tid1, ident1, [SetMessage w]) r1
      (dv_rows (view (sv_world s))) (dv_rows (view (sv_world s1)))"
    by blast+
  from row_after_set [OF serves1 w] obtain row where
    row: "dv_rows (view (sv_world s1)) ?table (map_of (named_values (so_primary_key w))) = Some row" by blast
  let ?q = "read_plan A ?table tab g"
  have q: "request_plan A ?tables (GetMessage g) = Some ?q"
    using g assms(5,7) by (cases "go_store_info g") (simp_all add: request_plan_def)
  have "performs (column_names columnName ?tables (rp_table ?q)) ?q (dv_rows (view (sv_world s1))) [row] (dv_rows (view (sv_world s1)))"
    using row assms(6,8) by (simp add: performs_def read_plan_def read_access_def Let_def)
  with taken_request_served [OF o2 assms(10) q assms(11)] have
    r2: "rs_error_code r2 = None" and serves2: "serves A columnName P ?tables (tid2, ident2, [GetMessage g]) r2
      (dv_rows (view (sv_world s1))) (dv_rows (view (sv_world s2)))"
    by blast+
  from serves1 serves2 have ids: "rs_transaction_identifier r1 = Some tid1" "rs_transaction_identifier r2 = Some tid2"
    by (simp_all add: serves_def)
  note shown = shown_after_set [OF serves1 serves2 w g assms(5-8)]
  show ?thesis
    by (rule exI [of _ s1], rule exI [of _ s2], rule exI [of _ r1], rule exI [of _ r2]) (use b r1 r2 ids shown in simp)
qed

lemma performs_scan:
  "rp_intent p = ReadRows \<Longrightarrow> rp_access p \<noteq> ByKey \<Longrightarrow> performs names p rows found rows1 \<longleftrightarrow> rows1 = rows \<and>
    (\<exists>keys. distinct keys \<and> set keys = {k. \<exists>row. rows (rp_table p) k = Some row \<and> selected names p row} \<and>
      found = map (\<lambda>k. the (rows (rp_table p) k)) keys)"
  by (simp add: performs_def Let_def)


definition sample_search :: get_operation where
  "sample_search =
     SetValues GetOperation_add_value
       (GetOperation_add_store_info (StoreInfo_set_store_name ''orders'') GetOperation_new) [sample_note]"

definition memory_filled :: "memory_db server" where
  "memory_filled = memory_server\<lparr>sv_world := memory_empty
     \<lparr>mm_rows := (\<lambda>_. [])(''orders'' := [([''number'' \<mapsto> ''0001''], [''number'' \<mapsto> ''0001'', ''note'' \<mapsto> ''hello'']),
        ([''number'' \<mapsto> ''0002''], [''number'' \<mapsto> ''0002'', ''note'' \<mapsto> ''bye''])])\<rparr>\<rparr>"

lemma memory_filled_ready: "executor_ready memory_api (\<lambda>w. set (mm_prepared w)) memory_view 0 memory_filled"
  by (simp add: executor_ready_def executor_idle_def cache_real_def memory_filled_def memory_server_def memory_empty_def TestStats_initial_def stats_ready_def
      view_ok_def open_operations_def open_records_def cache_fits_def)

lemma sample_search_searches:
  "row_request memory_api (tid, ident, [GetMessage sample_search])"
  "dv_tables (memory_view (sv_world memory_filled)) (c_str (StoreInfo_store_name (hd (go_store_info sample_search)))) = Some 0"
  "read_access memory_api 0 (go_primary_key sample_search) \<noteq> ByKey"
  "request_taken memory_api memory_promise (dv_tables (memory_view (sv_world memory_filled))) (GetMessage sample_search)"
  by (simp_all add: sample_search_def sample_row_eval row_request_def safe_message_def get_safe_def table_named_def c_str_def ref_tables_def
      ref_columns_def read_access_def request_taken_def store_table_def read_taken_def values_taken_def memory_promise_def)


lemma row_after_delete:
  assumes "serves A columnName P tables (tid, ident, [DeleteMessage d]) r rows rows1" "dl_store_info d \<noteq> []"
  shows "rows1 (c_str (StoreInfo_store_name (hd (dl_store_info d)))) (map_of (named_values (dl_primary_key d))) = None"
proof -
  let ?table = "c_str (StoreInfo_store_name (hd (dl_store_info d)))"
  from serves_single [OF assms(1)] obtain p found where
    "request_plan A tables (DeleteMessage d) = Some p"
    "performs (column_names columnName tables (rp_table p)) p rows found rows1"
    by blast
  moreover from this(1) assms(2) have "p = (new_plan ByKey ?table)\<lparr>rp_intent := EraseRow, rp_keys := named_values (dl_primary_key d)\<rparr>"
    by (cases "dl_store_info d") (auto simp: request_plan_def)
  ultimately show ?thesis by (auto simp: performs_def new_plan_def put_row_def Let_def)
qed



section \<open>What is prepared\<close>

text \<open>
  C9: executing a manipulation request either prepares one transaction with exactly the operations its
  messages state, in their order, with their store, keys, values, conditions and columns, or leaves
  no trace in the database and answers the client with one error; the latter only if some message names
  something the cluster does not promise to take.
\<close>

theorem request_defined_exactly:
  assumes "ndb_database A prepared patience rowsLeft view columnName P"
    and "row_request A (tid, ident, messages)" "view_ok (view (sv_world s))"
    and "cache_fits (dv_tables (view (sv_world s))) (sv_cache s)" "cache_real A (sv_cache s)"
  shows "\<exists>b s1. executeTuple L A threadNo (tid, ident, messages) s = Inr (b, s1) \<and>
    (if b then
      \<exists>t state ys. sv_pending s1 = (sv_pending s)(t \<mapsto> state) \<and> ts_transactionID state = tid \<and> ts_identifier state = ident \<and>
        ts_operations state = map fst ys \<and> view (sv_world s1) = add_defs t (map snd ys) (view (sv_world s)) \<and>
        map (request_plan A (dv_tables (view (sv_world s)))) messages = map (\<lambda>(info, op, p, rs). Some p) ys \<and>
        sv_sent s1 = sv_sent s \<and> sv_unsent s1 = sv_unsent s
    else sv_pending s1 = sv_pending s \<and> view (sv_world s1) = view (sv_world s) \<and>
      \<not> list_all (request_taken A P (dv_tables (view (sv_world s)))) messages \<and>
      (\<exists>r. failure_of tid r \<and> replied L ident r s s1))"
proof -
  have req: "list_all (\<lambda>m. \<not> isDefinitionFrame m) messages" "list_all (safe_message A) messages" "messages \<noteq> []"
    using assms(2) by (simp_all add: row_request_def)
  note V = ndb_database.V_def [OF assms(1)]
  have "safe_tuple A (tid, ident, messages)" by (rule ndb_database.row_request_safe [OF assms(1,2)])
  from ndb_cluster.executeTuple_commit [OF ndb_database.axioms(1) [OF assms(1)] this req(1,3) assms(5), of L threadNo]
  obtain b s1 where exec: "executeTuple L A threadNo (tid, ident, messages) s = Inr (b, s1)" by blast
  from ndb_database.executeTuple_prepares [OF assms(1) exec req, unfolded V] assms(3-5) have
    out: "if b then \<exists>t state. sv_pending s1 = (sv_pending s)(t \<mapsto> state) \<and>
        ndb_database.request_prepared A (tid, ident, messages) t state (view (sv_world s)) (view (sv_world s1)) \<and>
        sv_sent s1 = sv_sent s \<and> sv_unsent s1 = sv_unsent s
      else sv_pending s1 = sv_pending s \<and> view (sv_world s1) = view (sv_world s) \<and>
        \<not> list_all (request_taken A P (dv_tables (view (sv_world s)))) messages \<and> (\<exists>r. failure_of tid r \<and> replied L ident r s s1)"
    by blast
  show ?thesis
  proof (cases b)
    case True
    with out obtain t state where p: "sv_pending s1 = (sv_pending s)(t \<mapsto> state)"
      "ndb_database.request_prepared A (tid, ident, messages) t state (view (sv_world s)) (view (sv_world s1))"
      "sv_sent s1 = sv_sent s" "sv_unsent s1 = sv_unsent s"
      by auto
    then obtain ys where "ts_transactionID state = tid" "ts_identifier state = ident" "ts_operations state = map fst ys"
      "list_all2 (describes A (dv_tables (view (sv_world s)))) messages ys" "view (sv_world s1) = add_defs t (map snd ys) (view (sv_world s))"
      by (auto simp: ndb_database.request_prepared_def [OF assms(1)])
    moreover from this(4) have "map (request_plan A (dv_tables (view (sv_world s)))) messages = map (\<lambda>(info, op, p, rs). Some p) ys"
      by (induction rule: list_all2_induct) (auto simp: describes_def)
    ultimately show ?thesis using True p exec by auto
  qed (use out exec in auto)
qed

theorem request_defined_exactly_witness:
  "\<exists>b s1. executeTuple ref_lib memory_api 0 (''t1'', ''c1'', [SetMessage sample_write]) memory_server = Inr (b, s1) \<and>
    (if b then
      \<exists>t state ys. sv_pending s1 = (sv_pending memory_server)(t \<mapsto> state) \<and> ts_transactionID state = ''t1'' \<and>
        ts_identifier state = ''c1'' \<and> ts_operations state = map fst ys \<and>
        memory_view (sv_world s1) = add_defs t (map snd ys) (memory_view (sv_world memory_server)) \<and>
        map (request_plan memory_api (dv_tables (memory_view (sv_world memory_server)))) [SetMessage sample_write] =
          map (\<lambda>(info, op, p, rs). Some p) ys \<and>
        sv_sent s1 = sv_sent memory_server \<and> sv_unsent s1 = sv_unsent memory_server
    else sv_pending s1 = sv_pending memory_server \<and> memory_view (sv_world s1) = memory_view (sv_world memory_server) \<and>
      \<not> list_all (request_taken memory_api memory_promise (dv_tables (memory_view (sv_world memory_server)))) [SetMessage sample_write] \<and>
      (\<exists>r. failure_of ''t1'' r \<and> replied ref_lib ''c1'' r memory_server s1))"
proof -
  from memory_server_ready have "view_ok (memory_view (sv_world memory_server))"
    "cache_fits (dv_tables (memory_view (sv_world memory_server))) (sv_cache memory_server)"
    "cache_real memory_api (sv_cache memory_server)"
    by (simp_all add: executor_ready_def executor_idle_def)
  from request_defined_exactly [OF memory_database.ndb_database_axioms sample_row_requests(1) this]
  show ?thesis by blast
qed

end
