(* ===== verification/ReadYourWrites.thy ===== *)
theory ReadYourWrites
  imports RowProperties ClientExecutor
begin

text \<open>
  From the client to the rows and back: what a client frames is decoded by the server, executed on the
  database, and the result the client's delegate is handed shows it.
\<close>

lemma decoded_request:
  assumes "protobuf_wire L" "deliverable L [m]"
    and "length (Frame_Serialize L (request_frame L [m] [tid] True)) < total_bytes_limit"
  shows "\<exists>request. execute_many L [m] [tid] True = Inr request \<and>
    (\<forall>client. decode L request (Some client) = [(tid, client, [m])])"
proof -
  from atomic_request_decoded [OF assms(1,2) _ assms(3)] obtain request where
    request: "execute_many L [m] [tid] True = Inr request" by auto
  moreover have "decode L request (Some client) = [(tid, client, [m])]" for client
    using atomic_request_decoded [OF assms(1,2) _ assms(3), of client] request by auto
  ultimately show ?thesis by blast
qed

lemma replies_delivered:
  assumes "protobuf_wire L" "list_all (replyable L) [r1, r2]"
  shows "\<exists>reply1 reply2. reply_parts L client r1 = [(client, reply1)] \<and> reply_parts L client r2 = [(client, reply2)] \<and>
    didReceiveMessage L True [reply1, reply2] = Inr (Some [r1, r2])"
proof -
  have "didReceiveMessage L True (map (\<lambda>r. Frame_Serialize L (reply_frame L r)) [r1, r2]) = Inr (Some [r1, r2])"
    unfolding didReceiveMessage_def decode_all_unidentified Let_def
    by (simp add: protobuf_wire.replies_received [OF assms] del: map_map list.map)
  with protobuf_wire.reply_bytes [OF assms(1)] assms(2) show ?thesis
    by (simp add: reply_parts_def reply_bytes_def)
qed

lemma sample_rows_sendable:
  "deliverable ref_lib [SetMessage sample_write]" "deliverable ref_lib [GetMessage sample_get]"
  "length (Frame_Serialize ref_lib (request_frame ref_lib [SetMessage sample_write] [''t1''] True)) < total_bytes_limit"
  "length (Frame_Serialize ref_lib (request_frame ref_lib [GetMessage sample_get] [''t2''] True)) < total_bytes_limit"
  "safe_message memory_api (SetMessage sample_write)" "safe_message memory_api (GetMessage sample_get)"
  by (simp_all add: sample_row_eval sample_eval safe_message_def get_safe_def)



end
