(* ===== verification/ZmqHandles.thy ===== *)
theory ZmqHandles
  imports Prelude
begin

text \<open>
  Who owns a handle of the C library: the constructors, moves, \<open>close\<close> and destructors of \<open>context_t\<close>
  and \<open>socket_t\<close> in \<open>volodb-common/Transport/zmq.hpp\<close>. The C++ objects in existence are a map
  from their addresses to the handle each holds, and handles are numbered as the library creates them.
\<close>

section \<open>Contexts and sockets\<close>

record handle_heap =
  hh_objects :: "nat \<rightharpoonup> nat option" \<comment> \<open>\<open>ptr\<close>, with \<open>None\<close> for null\<close>
  hh_created :: nat
  hh_closed :: "nat list"

definition no_handles :: handle_heap where
  "no_handles = \<lparr>hh_objects = Map.empty, hh_created = 0, hh_closed = []\<rparr>"

text \<open>\<open>zmq_ctx_new\<close> and \<open>zmq_socket\<close> may fail; the object is then not constructed.\<close>

definition handle_new :: "nat \<Rightarrow> bool \<Rightarrow> handle_heap \<Rightarrow> handle_heap" where
  "handle_new a works s =
     (if works then s\<lparr>hh_objects := (hh_objects s)(a \<mapsto> Some (hh_created s)), hh_created := hh_created s + 1\<rparr>
      else s)"

definition handle_move_new :: "nat \<Rightarrow> nat \<Rightarrow> handle_heap \<Rightarrow> handle_heap" where
  "handle_move_new a rhs s =
     s\<lparr>hh_objects := (hh_objects s)(a \<mapsto> the (hh_objects s rhs), rhs \<mapsto> None)\<rparr>"

definition handle_move_assign :: "nat \<Rightarrow> nat \<Rightarrow> handle_heap \<Rightarrow> handle_heap" where
  "handle_move_assign a rhs s =
     s\<lparr>hh_objects := (hh_objects s)(a \<mapsto> the (hh_objects s rhs), rhs \<mapsto> the (hh_objects s a))\<rparr>"

definition handle_close :: "nat \<Rightarrow> handle_heap \<Rightarrow> handle_heap" where
  "handle_close a s =
     (case the (hh_objects s a) of
        None \<Rightarrow> s
      | Some h \<Rightarrow> s\<lparr>hh_objects := (hh_objects s)(a \<mapsto> None), hh_closed := hh_closed s @ [h]\<rparr>)"

definition handle_destroy :: "nat \<Rightarrow> handle_heap \<Rightarrow> handle_heap" where
  "handle_destroy a s = (let s1 = handle_close a s in s1\<lparr>hh_objects := (hh_objects s1)(a := None)\<rparr>)"

section \<open>Every handle is closed once\<close>

text \<open>The objects a program may name in an operation: new ones for constructors, existing ones otherwise.\<close>

inductive handle_step :: "handle_heap \<Rightarrow> handle_heap \<Rightarrow> bool" where
  "a \<notin> dom (hh_objects s) \<Longrightarrow> handle_step s (handle_new a works s)"
| "a \<notin> dom (hh_objects s) \<Longrightarrow> rhs \<in> dom (hh_objects s) \<Longrightarrow> handle_step s (handle_move_new a rhs s)"
| "a \<in> dom (hh_objects s) \<Longrightarrow> rhs \<in> dom (hh_objects s) \<Longrightarrow> handle_step s (handle_move_assign a rhs s)"
| "a \<in> dom (hh_objects s) \<Longrightarrow> handle_step s (handle_close a s)"
| "a \<in> dom (hh_objects s) \<Longrightarrow> handle_step s (handle_destroy a s)"

definition holds :: "handle_heap \<Rightarrow> nat \<Rightarrow> nat \<Rightarrow> bool" where
  "holds s a h \<longleftrightarrow> hh_objects s a = Some (Some h)"

definition handles_ok :: "handle_heap \<Rightarrow> bool" where
  "handles_ok s \<longleftrightarrow> distinct (hh_closed s) \<and> set (hh_closed s) \<subseteq> {..<hh_created s} \<and>
     (\<forall>h < hh_created s. h \<in> set (hh_closed s) \<or> (\<exists>a. holds s a h)) \<and>
     (\<forall>a h. holds s a h \<longrightarrow> h < hh_created s \<and> h \<notin> set (hh_closed s)) \<and>
     (\<forall>a b h. holds s a h \<longrightarrow> holds s b h \<longrightarrow> a = b)"

lemma handles_okI:
  assumes "distinct (hh_closed s)" "\<And>h. h \<in> set (hh_closed s) \<Longrightarrow> h < hh_created s"
    "\<And>h. h < hh_created s \<Longrightarrow> h \<notin> set (hh_closed s) \<Longrightarrow> \<exists>a. holds s a h"
    "\<And>a h. holds s a h \<Longrightarrow> h < hh_created s" "\<And>a h. holds s a h \<Longrightarrow> h \<notin> set (hh_closed s)"
    "\<And>a b h. holds s a h \<Longrightarrow> holds s b h \<Longrightarrow> a = b"
  shows "handles_ok s"
  using assms unfolding handles_ok_def by blast

lemma handles_okD:
  assumes "handles_ok s"
  shows "distinct (hh_closed s)" "h \<in> set (hh_closed s) \<Longrightarrow> h < hh_created s"
    "h < hh_created s \<Longrightarrow> h \<notin> set (hh_closed s) \<Longrightarrow> \<exists>a. holds s a h"
    "holds s a h \<Longrightarrow> h < hh_created s" "holds s a h \<Longrightarrow> h \<notin> set (hh_closed s)"
    "holds s a h \<Longrightarrow> holds s b h \<Longrightarrow> a = b"
  using assms unfolding handles_ok_def by blast+

text \<open>What the objects hold after each operation.\<close>

lemma holds_new:
  "holds (handle_new a works s) b h \<longleftrightarrow>
     (if works \<and> b = a then h = hh_created s else holds s b h)"
  by (auto simp: handle_new_def holds_def)

lemma holds_close:
  assumes "a \<in> dom (hh_objects s)"
  shows "holds (handle_close a s) b h \<longleftrightarrow> b \<noteq> a \<and> holds s b h"
  using assms by (auto simp: handle_close_def holds_def split: option.splits)

lemma holds_move_new:
  assumes "a \<notin> dom (hh_objects s)" "rhs \<in> dom (hh_objects s)"
  shows "holds (handle_move_new a rhs s) b h \<longleftrightarrow>
    (if b = rhs then False else if b = a then holds s rhs h else holds s b h)"
  using assms by (auto simp: handle_move_new_def holds_def)

lemma holds_move_assign:
  assumes "a \<in> dom (hh_objects s)" "rhs \<in> dom (hh_objects s)"
  shows "holds (handle_move_assign a rhs s) b h \<longleftrightarrow>
    (if b = rhs then holds s a h else if b = a then holds s rhs h else holds s b h)"
  using assms by (auto simp: handle_move_assign_def holds_def)

lemma handle_new_ok:
  assumes "a \<notin> dom (hh_objects s)" "handles_ok s"
  shows "handles_ok (handle_new a works s)"
proof (cases works)
  case True
  note D = handles_okD [OF assms(2)]
  have a: "holds s b h \<Longrightarrow> b \<noteq> a" for b h
    using assms(1) by (auto simp: holds_def)
  have same: "hh_closed (handle_new a works s) = hh_closed s"
    "hh_created (handle_new a works s) = Suc (hh_created s)"
    using True by (simp_all add: handle_new_def)
  show ?thesis
  proof (rule handles_okI, unfold same holds_new)
    fix h assume "h < Suc (hh_created s)" "h \<notin> set (hh_closed s)"
    then show "\<exists>b. if works \<and> b = a then h = hh_created s else holds s b h"
      by (metis D(3) True a less_SucE)
  next
    fix b c h
    assume "if works \<and> b = a then h = hh_created s else holds s b h"
      "if works \<and> c = a then h = hh_created s else holds s c h"
    then show "b = c"
      using D(4,6) by (auto split: if_splits)
  qed (use D in \<open>auto split: if_splits simp: less_SucI\<close>)
qed (use assms(2) in \<open>simp add: handle_new_def\<close>)

lemma handle_close_ok:
  assumes "a \<in> dom (hh_objects s)" "handles_ok s"
  shows "handles_ok (handle_close a s)"
proof (cases "the (hh_objects s a)")
  case (Some h)
  note D = handles_okD [OF assms(2)]
  have h: "holds s a h"
    using assms(1) Some by (auto simp: holds_def)
  have same: "hh_closed (handle_close a s) = hh_closed s @ [h]" "hh_created (handle_close a s) = hh_created s"
    using Some by (simp_all add: handle_close_def)
  show ?thesis
  proof (rule handles_okI, unfold same holds_close [OF assms(1)])
    fix k assume "k < hh_created s" "k \<notin> set (hh_closed s @ [h])"
    then obtain b where "holds s b k" "k \<noteq> h" using D(3) by auto
    then show "\<exists>b. b \<noteq> a \<and> holds s b k"
      using D(6) h Some by (metis holds_def option.inject option.sel)
  next
    fix b k assume "b \<noteq> a \<and> holds s b k"
    then show "k \<notin> set (hh_closed s @ [h])"
      using D(5) D(6) [OF _ h] by auto
  qed (use D(1,2,4,6) D(4,5) [OF h] in auto)
qed (use assms(2) in \<open>simp add: handle_close_def\<close>)

lemma handle_move_new_ok:
  assumes "a \<notin> dom (hh_objects s)" "rhs \<in> dom (hh_objects s)" "handles_ok s"
  shows "handles_ok (handle_move_new a rhs s)"
proof -
  note D = handles_okD [OF assms(3)]
  have a: "holds s b h \<Longrightarrow> b \<noteq> a" for b h
    using assms(1) by (auto simp: holds_def)
  have ne: "a \<noteq> rhs"
    using assms(1,2) by auto
  have same: "hh_closed (handle_move_new a rhs s) = hh_closed s"
    "hh_created (handle_move_new a rhs s) = hh_created s"
    by (simp_all add: handle_move_new_def)
  show ?thesis
  proof (rule handles_okI, unfold same holds_move_new [OF assms(1,2)])
    fix h assume "h < hh_created s" "h \<notin> set (hh_closed s)"
    then obtain b where "holds s b h" using D(3) by blast
    then show "\<exists>b. if b = rhs then False else if b = a then holds s rhs h else holds s b h"
      using a ne by (cases "b = rhs") auto
  qed (use D in \<open>auto split: if_splits\<close>)
qed

lemma handle_move_assign_ok:
  assumes "a \<in> dom (hh_objects s)" "rhs \<in> dom (hh_objects s)" "handles_ok s"
  shows "handles_ok (handle_move_assign a rhs s)"
proof -
  note D = handles_okD [OF assms(3)]
  have same: "hh_closed (handle_move_assign a rhs s) = hh_closed s"
    "hh_created (handle_move_assign a rhs s) = hh_created s"
    by (simp_all add: handle_move_assign_def)
  show ?thesis
  proof (rule handles_okI, unfold same holds_move_assign [OF assms(1,2)])
    fix h assume "h < hh_created s" "h \<notin> set (hh_closed s)"
    then obtain b where "holds s b h" using D(3) by blast
    then show "\<exists>b. if b = rhs then holds s a h else if b = a then holds s rhs h else holds s b h"
      by (cases "b = rhs"; cases "b = a") auto
  qed (use D in \<open>auto split: if_splits\<close>)
qed

lemma handle_destroy_ok:
  assumes "a \<in> dom (hh_objects s)" "handles_ok s"
  shows "handles_ok (handle_destroy a s)"
proof -
  have "holds (handle_destroy a s) b h \<longleftrightarrow> holds (handle_close a s) b h" for b h
    using holds_close [OF assms(1)] by (auto simp: handle_destroy_def holds_def Let_def)
  then show ?thesis
    using handle_close_ok [OF assms] by (simp add: handles_ok_def handle_destroy_def Let_def)
qed

lemma handle_step_ok: "handle_step s t \<Longrightarrow> handles_ok s \<Longrightarrow> handles_ok t"
  by (induction rule: handle_step.induct)
    (simp_all add: handle_new_ok handle_move_new_ok handle_move_assign_ok handle_close_ok handle_destroy_ok)

lemma reachable_handles_ok: "handle_step\<^sup>*\<^sup>* no_handles s \<Longrightarrow> handles_ok s"
proof (induction rule: rtranclp_induct)
  case base
  then show ?case by (simp add: handles_ok_def no_handles_def holds_def)
qed (simp add: handle_step_ok)

text \<open>No handle is closed twice, none of an object is closed, and none leaks once the objects are gone.\<close>

lemma handles_closed_once:
  assumes "handle_step\<^sup>*\<^sup>* no_handles s" "hh_objects s = Map.empty"
  shows "distinct (hh_closed s) \<and> set (hh_closed s) = {..<hh_created s}"
  using reachable_handles_ok [OF assms(1)] assms(2) unfolding handles_ok_def holds_def by auto

end
