(* ===== verification/ZmqSockets.thy ===== *)
theory ZmqSockets
  imports Prelude
begin

text \<open>
  The ZeroMQ sockets under both transports. The C library is a record of calls over a state of its
  own; the wrappers of \<open>volodb-common/Transport/zmq.hpp\<close> and the drain loop of
  \<open>volodbserver/Utils/TransportUtils.cpp\<close> are modelled on it. Sockets are numbers.
\<close>

section \<open>The library as a parameter\<close>

datatype socket_type =
    ZMQ_ROUTER
  | ZMQ_DEALER
  | ZMQ_PUSH
  | ZMQ_PULL

datatype socket_option =
    ZMQ_RCVHWM
  | ZMQ_SNDHWM
  | ZMQ_LINGER

text \<open>
  \<open>zmq_msg_recv\<close> and \<open>zmq_msg_send\<close> return a negative number (here \<open>None\<close> and \<open>False\<close>) on failure
  and leave the reason in \<open>zmq_errno\<close>. The flags are \<open>ZMQ_NOBLOCK\<close> and \<open>ZMQ_SNDMORE\<close>.
\<close>

record 'z zmq_lib =
  zmq_msg_recv :: "nat \<Rightarrow> bool \<Rightarrow> 'z \<Rightarrow> bytes option \<times> 'z"
  zmq_msg_send :: "nat \<Rightarrow> bytes \<Rightarrow> bool \<Rightarrow> 'z \<Rightarrow> bool \<times> 'z"
  zmq_recv :: "nat \<Rightarrow> nat \<Rightarrow> 'z \<Rightarrow> nat option \<times> 'z" \<comment> \<open>blocking; buffer length, size of the message\<close>
  zmq_socket :: "socket_type \<Rightarrow> 'z \<Rightarrow> nat option \<times> 'z"
  zmq_close :: "nat \<Rightarrow> 'z \<Rightarrow> 'z"
  zmq_setsockopt :: "nat \<Rightarrow> socket_option \<Rightarrow> int \<Rightarrow> 'z \<Rightarrow> bool \<times> 'z"
  zmq_bind :: "nat \<Rightarrow> string \<Rightarrow> 'z \<Rightarrow> bool \<times> 'z"
  zmq_connect :: "nat \<Rightarrow> string \<Rightarrow> 'z \<Rightarrow> bool \<times> 'z"
  zmq_errno :: "'z \<Rightarrow> int"
  zmq_strerror :: "'z \<Rightarrow> string"
  EAGAIN :: int

text \<open>Sequencing of calls that may throw.\<close>

definition bind_io :: "'a result \<times> 'z \<Rightarrow> ('a \<Rightarrow> 'z \<Rightarrow> 'b result \<times> 'z) \<Rightarrow> 'b result \<times> 'z" where
  "bind_io r f = (case r of (Inl e, w) \<Rightarrow> (Inl e, w) | (Inr x, w) \<Rightarrow> f x w)"

lemma bind_io_simps [simp]:
  "bind_io (Inl e, w) f = (Inl e, w)"
  "bind_io (Inr x, w) f = f x w"
  by (simp_all add: bind_io_def)

text \<open>The members of \<open>zmq::socket_t\<close> that make and configure a socket throw on any failure.\<close>

definition socket_new :: "'z zmq_lib \<Rightarrow> socket_type \<Rightarrow> 'z \<Rightarrow> nat result \<times> 'z" where
  "socket_new Z type w =
     (case zmq_socket Z type w of
        (Some sock, w1) \<Rightarrow> (Inr sock, w1)
      | (None, w1) \<Rightarrow> (Inl (Thrown (zmq_strerror Z w1)), w1))"

definition or_throw :: "'z zmq_lib \<Rightarrow> bool \<times> 'z \<Rightarrow> unit result \<times> 'z" where
  "or_throw Z r = (case r of (ok, w) \<Rightarrow> if ok then (Inr (), w) else (Inl (Thrown (zmq_strerror Z w)), w))"

definition socket_setsockopt :: "'z zmq_lib \<Rightarrow> nat \<Rightarrow> socket_option \<Rightarrow> int \<Rightarrow> 'z \<Rightarrow> unit result \<times> 'z" where
  "socket_setsockopt Z sock opt optval w = or_throw Z (zmq_setsockopt Z sock opt optval w)"

definition socket_bind :: "'z zmq_lib \<Rightarrow> nat \<Rightarrow> string \<Rightarrow> 'z \<Rightarrow> unit result \<times> 'z" where
  "socket_bind Z sock addr w = or_throw Z (zmq_bind Z sock (c_str addr) w)"

definition socket_connect :: "'z zmq_lib \<Rightarrow> nat \<Rightarrow> string \<Rightarrow> 'z \<Rightarrow> unit result \<times> 'z" where
  "socket_connect Z sock addr w = or_throw Z (zmq_connect Z sock (c_str addr) w)"

text \<open>\<open>Utils::setUnlimitedQueueLength\<close> and \<open>Utils::setLingerOff\<close>.\<close>

definition setUnlimitedQueueLength :: "'z zmq_lib \<Rightarrow> nat \<Rightarrow> 'z \<Rightarrow> unit result \<times> 'z" where
  "setUnlimitedQueueLength Z sock w =
     bind_io (socket_setsockopt Z sock ZMQ_RCVHWM 0 w) (\<lambda>_. socket_setsockopt Z sock ZMQ_SNDHWM 0)"

definition setLingerOff :: "'z zmq_lib \<Rightarrow> nat \<Rightarrow> 'z \<Rightarrow> unit result \<times> 'z" where
  "setLingerOff Z sock w = socket_setsockopt Z sock ZMQ_LINGER 0 w"

text \<open>The members of \<open>zmq::socket_t\<close> that move messages: \<open>EAGAIN\<close> is a false result, any other failure an exception.\<close>

definition socket_recv :: "'z zmq_lib \<Rightarrow> nat \<Rightarrow> bool \<Rightarrow> 'z \<Rightarrow> bytes option result \<times> 'z" where
  "socket_recv Z sock noblock w =
     (case zmq_msg_recv Z sock noblock w of
        (Some msg, w1) \<Rightarrow> (Inr (Some msg), w1)
      | (None, w1) \<Rightarrow>
          if zmq_errno Z w1 = EAGAIN Z then (Inr None, w1) else (Inl (Thrown (zmq_strerror Z w1)), w1))"

definition socket_send :: "'z zmq_lib \<Rightarrow> nat \<Rightarrow> bytes \<Rightarrow> bool \<Rightarrow> 'z \<Rightarrow> bool result \<times> 'z" where
  "socket_send Z sock msg sndmore w =
     (case zmq_msg_send Z sock msg sndmore w of
        (True, w1) \<Rightarrow> (Inr True, w1)
      | (False, w1) \<Rightarrow>
          if zmq_errno Z w1 = EAGAIN Z then (Inr False, w1) else (Inl (Thrown (zmq_strerror Z w1)), w1))"

definition socket_recv_buffer :: "'z zmq_lib \<Rightarrow> nat \<Rightarrow> nat \<Rightarrow> 'z \<Rightarrow> nat result \<times> 'z" where
  "socket_recv_buffer Z sock len w =
     (case zmq_recv Z sock len w of
        (Some nbytes, w1) \<Rightarrow> (Inr nbytes, w1)
      | (None, w1) \<Rightarrow>
          if zmq_errno Z w1 = EAGAIN Z then (Inr 0, w1) else (Inl (Thrown (zmq_strerror Z w1)), w1))"

section \<open>Draining a socket\<close>

text \<open>
  The loop may go on for ever while messages keep coming and there is no limit; then the result is
  \<open>None\<close>. After an exception the messages received so far are gone with the vector.
\<close>

partial_function (option) receive_loop ::
  "'z zmq_lib \<Rightarrow> nat \<Rightarrow> int \<Rightarrow> bytes list \<Rightarrow> 'z \<Rightarrow> (bytes list result \<times> 'z) option" where
  "receive_loop Z sock readLimit receivedMessages w =
     (case socket_recv Z sock True w of
        (Inl e, w1) \<Rightarrow> Some (Inl e, w1)
      | (Inr (Some msg), w1) \<Rightarrow>
          if readLimit > 0 \<and> int (length (receivedMessages @ [msg])) = readLimit then
            Some (Inr (receivedMessages @ [msg]), w1)
          else receive_loop Z sock readLimit (receivedMessages @ [msg]) w1
      | (Inr None, w1) \<Rightarrow>
          if zmq_errno Z w1 \<noteq> EAGAIN Z then
            Some (Inl (Thrown ''Error while receiving messages from socket''), w1)
          else Some (Inr receivedMessages, w1))"

definition receiveQueuedMessages ::
  "'z zmq_lib \<Rightarrow> nat \<Rightarrow> int \<Rightarrow> 'z \<Rightarrow> (bytes list result \<times> 'z) option" where
  "receiveQueuedMessages Z sock readLimit w = receive_loop Z sock readLimit [] w"

text \<open>Successive receives of a socket and the messages they delivered.\<close>

inductive delivered :: "'z zmq_lib \<Rightarrow> nat \<Rightarrow> 'z \<Rightarrow> bytes list \<Rightarrow> 'z \<Rightarrow> bool"
  for Z :: "'z zmq_lib" and sock :: nat where
  nothing: "delivered Z sock w [] w"
| next_one: "zmq_msg_recv Z sock True w = (Some msg, w1) \<Longrightarrow> delivered Z sock w1 msgs w2 \<Longrightarrow>
    delivered Z sock w (msg # msgs) w2"

inductive_cases delivered_NilE: "delivered Z sock w [] w1"
inductive_cases delivered_ConsE: "delivered Z sock w (msg # msgs) w1"

lemma receive_loop_more:
  assumes "zmq_msg_recv Z sock True w = (Some msg, w1)"
    "\<not> (readLimit > 0 \<and> int (length received + 1) = readLimit)"
  shows "receive_loop Z sock readLimit received w = receive_loop Z sock readLimit (received @ [msg]) w1"
  using assms by (subst receive_loop.simps) (auto simp: socket_recv_def)

lemma receive_loop_full:
  assumes "zmq_msg_recv Z sock True w = (Some msg, w1)" "readLimit > 0" "int (length received + 1) = readLimit"
  shows "receive_loop Z sock readLimit received w = Some (Inr (received @ [msg]), w1)"
  using assms by (subst receive_loop.simps) (auto simp: socket_recv_def)

lemma receive_loop_none:
  assumes "zmq_msg_recv Z sock True w = (None, w1)"
  shows "receive_loop Z sock readLimit received w =
    Some (if zmq_errno Z w1 = EAGAIN Z then Inr received else Inl (Thrown (zmq_strerror Z w1)), w1)"
  using assms by (subst receive_loop.simps) (simp add: socket_recv_def)

lemma receive_loop_unlimited:
  assumes "delivered Z sock w msgs w1" "zmq_msg_recv Z sock True w1 = (None, w2)" "readLimit \<le> 0"
  shows "receive_loop Z sock readLimit received w =
    Some (if zmq_errno Z w2 = EAGAIN Z then Inr (received @ msgs) else Inl (Thrown (zmq_strerror Z w2)), w2)"
  using assms
proof (induction arbitrary: received rule: delivered.induct)
  case (nothing w)
  then show ?case by (simp add: receive_loop_none)
next
  case (next_one w msg w1 msgs w2)
  then show ?case by (simp add: receive_loop_more)
qed

lemma receive_loop_limited:
  assumes "int (length received) < readLimit"
  shows "\<exists>msgs w1 w2. delivered Z sock w msgs w1 \<and> int (length (received @ msgs)) \<le> readLimit \<and>
    (receive_loop Z sock readLimit received w = Some (Inr (received @ msgs), w1) \<and>
       int (length (received @ msgs)) = readLimit \<or>
     zmq_msg_recv Z sock True w1 = (None, w2) \<and>
       receive_loop Z sock readLimit received w =
         Some (if zmq_errno Z w2 = EAGAIN Z then Inr (received @ msgs) else Inl (Thrown (zmq_strerror Z w2)), w2))"
  using assms
proof (induction "nat (readLimit - int (length received))" arbitrary: received w rule: less_induct)
  case less
  obtain got w1 where recv: "zmq_msg_recv Z sock True w = (got, w1)" by (metis surj_pair)
  show ?case
  proof (cases got)
    case None
    with recv less.prems show ?thesis
      by - (rule exI [of _ "[]"], rule exI [of _ w], rule exI [of _ w1], simp add: delivered.nothing receive_loop_none)
  next
    case (Some msg)
    with recv have one: "delivered Z sock w (msg # msgs) w2" if "delivered Z sock w1 msgs w2" for msgs w2
      using that by (simp add: delivered.next_one)
    show ?thesis
    proof (cases "int (length received + 1) = readLimit")
      case True
      with Some recv one [OF delivered.nothing] show ?thesis
        by - (rule exI [of _ "[msg]"], rule exI [of _ w1], simp add: receive_loop_full)
    next
      case False
      with less.prems have lt: "int (length (received @ [msg])) < readLimit" by simp
      moreover from lt have "nat (readLimit - int (length (received @ [msg]))) < nat (readLimit - int (length received))"
        by simp
      ultimately obtain msgs w2 w3 where rest: "delivered Z sock w1 msgs w2"
        "int (length ((received @ [msg]) @ msgs)) \<le> readLimit"
        "receive_loop Z sock readLimit (received @ [msg]) w1 = Some (Inr ((received @ [msg]) @ msgs), w2) \<and>
           int (length ((received @ [msg]) @ msgs)) = readLimit \<or>
         zmq_msg_recv Z sock True w2 = (None, w3) \<and>
           receive_loop Z sock readLimit (received @ [msg]) w1 =
             Some (if zmq_errno Z w3 = EAGAIN Z then Inr ((received @ [msg]) @ msgs)
                   else Inl (Thrown (zmq_strerror Z w3)), w3)"
        using less.hyps [of "received @ [msg]" w1] by blast
      have more: "receive_loop Z sock readLimit received w = receive_loop Z sock readLimit (received @ [msg]) w1"
        using recv Some False by (simp add: receive_loop_more)
      from one [OF rest(1)] rest(2,3) show ?thesis
        unfolding more by - (rule exI [of _ "msg # msgs"], rule exI [of _ w2], rule exI [of _ w3], auto)
    qed
  qed
qed

text \<open>Whenever the loop returns messages, the socket delivered just these.\<close>

lemma receive_loop_delivered:
  assumes "receive_loop Z sock readLimit received w = Some (Inr msgs, w1)"
  shows "\<exists>new w2. msgs = received @ new \<and> delivered Z sock w new w2 \<and>
    (w1 = w2 \<or> zmq_msg_recv Z sock True w2 = (None, w1))"
proof -
  have "\<forall>msgs w1. out = (Inr msgs, w1) \<longrightarrow> (\<exists>new w2. msgs = received @ new \<and> delivered Z sock w new w2 \<and>
      (w1 = w2 \<or> zmq_msg_recv Z sock True w2 = (None, w1)))"
    if "receive_loop Z sock readLimit received w = Some out" for out
  proof (rule receive_loop.raw_induct [OF _ that, of "\<lambda>Z sock readLimit received w out.
      \<forall>msgs w1. out = (Inr msgs, w1) \<longrightarrow> (\<exists>new w2. msgs = received @ new \<and> delivered Z sock w new w2 \<and>
        (w1 = w2 \<or> zmq_msg_recv Z sock True w2 = (None, w1)))"])
    fix loop and Z :: "'a zmq_lib" and sock readLimit received w out
    assume IH: "\<And>Z sock readLimit received w out. loop Z sock readLimit received w = Some out \<Longrightarrow>
        \<forall>msgs w1. out = (Inr msgs, w1) \<longrightarrow> (\<exists>new w2. msgs = received @ new \<and> delivered Z sock w new w2 \<and>
          (w1 = w2 \<or> zmq_msg_recv Z sock True w2 = (None, w1)))"
      and step: "(case socket_recv Z sock True w of
          (Inl e, w1) \<Rightarrow> Some (Inl e, w1)
        | (Inr (Some msg), w1) \<Rightarrow>
            if readLimit > 0 \<and> int (length (received @ [msg])) = readLimit then
              Some (Inr (received @ [msg]), w1)
            else loop Z sock readLimit (received @ [msg]) w1
        | (Inr None, w1) \<Rightarrow>
            if zmq_errno Z w1 \<noteq> EAGAIN Z then
              Some (Inl (Thrown ''Error while receiving messages from socket''), w1)
            else Some (Inr received, w1)) = Some out"
    obtain got w1 where recv: "zmq_msg_recv Z sock True w = (got, w1)" by (rule prod.exhaust)
    show "\<forall>msgs w1. out = (Inr msgs, w1) \<longrightarrow> (\<exists>new w2. msgs = received @ new \<and> delivered Z sock w new w2 \<and>
        (w1 = w2 \<or> zmq_msg_recv Z sock True w2 = (None, w1)))"
    proof (cases got)
      case None
      with step recv delivered.nothing [of Z sock w] show ?thesis
        by (auto simp: socket_recv_def split: if_splits)
    next
      case (Some msg)
      with recv have one: "delivered Z sock w (msg # new) w2" if "delivered Z sock w1 new w2" for new w2
        using that by (simp add: delivered.next_one)
      show ?thesis
      proof (cases "readLimit > 0 \<and> int (length (received @ [msg])) = readLimit")
        case True
        with step recv Some one [OF delivered.nothing] show ?thesis
          by (auto simp: socket_recv_def)
      next
        case False
        with step recv Some have "loop Z sock readLimit (received @ [msg]) w1 = Some out"
          by (auto simp: socket_recv_def)
        from IH [OF this] one show ?thesis by fastforce
      qed
    qed
  qed
  with assms show ?thesis by blast
qed

lemma receiveQueuedMessages_delivered:
  "receiveQueuedMessages Z sock readLimit w = Some (Inr msgs, w1) \<Longrightarrow>
    \<exists>w2. delivered Z sock w msgs w2 \<and> (w1 = w2 \<or> zmq_msg_recv Z sock True w2 = (None, w1))"
  using receive_loop_delivered [of Z sock readLimit "[]" w msgs w1]
  by (auto simp: receiveQueuedMessages_def)

text \<open>
  C34: with a limit, draining a socket always returns after at most that many messages: with what
  the socket delivered, in order, when the limit is reached or the socket has nothing more; and
  with an exception, losing what was delivered, when the socket fails.
\<close>

theorem receive_bounded:
  assumes "0 < readLimit"
  shows "\<exists>msgs w1 w2. delivered Z sock w msgs w1 \<and> int (length msgs) \<le> readLimit \<and>
    (receiveQueuedMessages Z sock readLimit w = Some (Inr msgs, w1) \<and> int (length msgs) = readLimit \<or>
     zmq_msg_recv Z sock True w1 = (None, w2) \<and>
       receiveQueuedMessages Z sock readLimit w =
         Some (if zmq_errno Z w2 = EAGAIN Z then Inr msgs else Inl (Thrown (zmq_strerror Z w2)), w2))"
  unfolding receiveQueuedMessages_def
  by (rule receive_loop_limited [of "[]", unfolded append_Nil]) (simp add: assms)

text \<open>
  Without a limit, draining a socket that delivers some messages and then fails returns exactly
  these messages in order when the failure was \<open>EAGAIN\<close>, and otherwise throws and loses them.
\<close>

lemma receive_drains:
  assumes "delivered Z sock w msgs w1" "zmq_msg_recv Z sock True w1 = (None, w2)" "readLimit \<le> 0"
  shows "receiveQueuedMessages Z sock readLimit w =
    Some (if zmq_errno Z w2 = EAGAIN Z then Inr msgs else Inl (Thrown (zmq_strerror Z w2)), w2)"
  using receive_loop_unlimited [OF assms, of "[]"] by (simp add: receiveQueuedMessages_def)

section \<open>A library in memory\<close>

record ref_zmq =
  rz_fresh :: nat
  rz_waiting :: "nat \<Rightarrow> bytes list"
  rz_sent :: "(nat \<times> bytes \<times> bool) list"

definition ref_zmq_lib :: "ref_zmq zmq_lib" where
  "ref_zmq_lib =
     \<lparr>zmq_msg_recv = (\<lambda>sock noblock w.
        case rz_waiting w sock of
          [] \<Rightarrow> (None, w)
        | msg # msgs \<Rightarrow> (Some msg, w\<lparr>rz_waiting := (rz_waiting w)(sock := msgs)\<rparr>)),
      zmq_msg_send = (\<lambda>sock msg sndmore w. (True, w\<lparr>rz_sent := rz_sent w @ [(sock, msg, sndmore)]\<rparr>)),
      zmq_recv = (\<lambda>sock len w.
        case rz_waiting w sock of
          [] \<Rightarrow> (None, w)
        | msg # msgs \<Rightarrow> (Some (length msg), w\<lparr>rz_waiting := (rz_waiting w)(sock := msgs)\<rparr>)),
      zmq_socket = (\<lambda>type w. (Some (rz_fresh w), w\<lparr>rz_fresh := Suc (rz_fresh w)\<rparr>)),
      zmq_close = (\<lambda>sock w. w),
      zmq_setsockopt = (\<lambda>sock opt value w. (True, w)),
      zmq_bind = (\<lambda>sock addr w. (True, w)),
      zmq_connect = (\<lambda>sock addr w. (True, w)),
      zmq_errno = (\<lambda>w. 11), zmq_strerror = (\<lambda>w. ''Resource temporarily unavailable''), EAGAIN = 11\<rparr>"

lemma ref_zmq_calls [simp]:
  "zmq_msg_recv ref_zmq_lib sock noblock w =
    (case rz_waiting w sock of [] \<Rightarrow> (None, w)
     | msg # msgs \<Rightarrow> (Some msg, w\<lparr>rz_waiting := (rz_waiting w)(sock := msgs)\<rparr>))"
  "zmq_msg_send ref_zmq_lib sock msg sndmore w = (True, w\<lparr>rz_sent := rz_sent w @ [(sock, msg, sndmore)]\<rparr>)"
  "zmq_recv ref_zmq_lib sock len w =
    (case rz_waiting w sock of [] \<Rightarrow> (None, w)
     | msg # msgs \<Rightarrow> (Some (length msg), w\<lparr>rz_waiting := (rz_waiting w)(sock := msgs)\<rparr>))"
  "zmq_socket ref_zmq_lib type w = (Some (rz_fresh w), w\<lparr>rz_fresh := Suc (rz_fresh w)\<rparr>)"
  "zmq_close ref_zmq_lib sock w = w"
  "zmq_setsockopt ref_zmq_lib sock opt value w = (True, w)"
  "zmq_bind ref_zmq_lib sock addr w = (True, w)"
  "zmq_connect ref_zmq_lib sock addr w = (True, w)"
  "zmq_errno ref_zmq_lib w = 11" "EAGAIN ref_zmq_lib = 11"
  by (simp_all add: ref_zmq_lib_def)

definition sample_sockets :: ref_zmq where
  "sample_sockets =
     \<lparr>rz_fresh = 2, rz_waiting = (\<lambda>_. [])(0 := [''client'', ''request''], 1 := [''client'', ''reply'']), rz_sent = []\<rparr>"

theorem receive_bounded_witness:
  "\<exists>msgs w1 w2. delivered ref_zmq_lib 0 sample_sockets msgs w1 \<and> int (length msgs) \<le> 1 \<and>
    (receiveQueuedMessages ref_zmq_lib 0 1 sample_sockets = Some (Inr msgs, w1) \<and> int (length msgs) = 1 \<or>
     zmq_msg_recv ref_zmq_lib 0 True w1 = (None, w2) \<and>
       receiveQueuedMessages ref_zmq_lib 0 1 sample_sockets =
         Some (if zmq_errno ref_zmq_lib w2 = EAGAIN ref_zmq_lib then Inr msgs
               else Inl (Thrown (zmq_strerror ref_zmq_lib w2)), w2))"
  by (rule receive_bounded) simp

lemma ref_delivered:
  "delivered ref_zmq_lib sock w (rz_waiting w sock) (w\<lparr>rz_waiting := (rz_waiting w)(sock := [])\<rparr>)"
proof (induction "rz_waiting w sock" arbitrary: w)
  case Nil
  then have "(rz_waiting w)(sock := []) = rz_waiting w" by (simp add: fun_upd_idem)
  then have same: "w\<lparr>rz_waiting := (rz_waiting w)(sock := [])\<rparr> = w" by (cases w) simp
  show ?case unfolding same Nil [symmetric] by (rule delivered.nothing)
next
  case (Cons msg msgs)
  let ?w = "w\<lparr>rz_waiting := (rz_waiting w)(sock := msgs)\<rparr>"
  from Cons(1) [of ?w] have "delivered ref_zmq_lib sock ?w msgs (w\<lparr>rz_waiting := (rz_waiting w)(sock := [])\<rparr>)"
    by simp
  moreover have "zmq_msg_recv ref_zmq_lib sock True w = (Some msg, ?w)" by (simp flip: Cons(2))
  ultimately have "delivered ref_zmq_lib sock w (msg # msgs) (w\<lparr>rz_waiting := (rz_waiting w)(sock := [])\<rparr>)"
    by (rule delivered.next_one [rotated])
  then show ?case using Cons(2) by simp
qed

section \<open>What is sent\<close>

text \<open>
  The documented behaviour the transports rely on, over a log of what the library has accepted for
  sending: a send that succeeds appends its part to the log, one that fails appends nothing, only a
  non-blocking send fails with \<open>EAGAIN\<close>, and receiving sends nothing.
\<close>

locale zmq_sending =
  fixes Z :: "'z zmq_lib" and sent :: "'z \<Rightarrow> (nat \<times> bytes \<times> bool) list"
  assumes send_accepted: "zmq_msg_send Z sock msg sndmore w = (True, w1) \<Longrightarrow> sent w1 = sent w @ [(sock, msg, sndmore)]"
    and send_failed: "zmq_msg_send Z sock msg sndmore w = (False, w1) \<Longrightarrow> sent w1 = sent w \<and> zmq_errno Z w1 \<noteq> EAGAIN Z"
    and recv_sends_nothing: "sent (snd (zmq_msg_recv Z sock noblock w)) = sent w"
begin

lemma socket_send_sent:
  "socket_send Z sock msg sndmore w = (Inr b, w1) \<Longrightarrow> b \<and> sent w1 = sent w @ [(sock, msg, sndmore)]"
  "socket_send Z sock msg sndmore w = (Inl e, w1) \<Longrightarrow> sent w1 = sent w"
proof -
  obtain ok w2 where call: "zmq_msg_send Z sock msg sndmore w = (ok, w2)" by (rule prod.exhaust)
  show "socket_send Z sock msg sndmore w = (Inr b, w1) \<Longrightarrow> b \<and> sent w1 = sent w @ [(sock, msg, sndmore)]"
    using send_accepted [of sock msg sndmore w w2] send_failed [of sock msg sndmore w w2] call
    by (cases ok) (auto simp: socket_send_def)
  show "socket_send Z sock msg sndmore w = (Inl e, w1) \<Longrightarrow> sent w1 = sent w"
    using send_failed [of sock msg sndmore w w2] call
    by (cases ok) (auto simp: socket_send_def split: if_splits)
qed

lemma delivered_sent: "delivered Z sock w msgs w1 \<Longrightarrow> sent w1 = sent w"
proof (induction rule: delivered.induct)
  case (next_one w msg w1 msgs w2)
  then show ?case using recv_sends_nothing [of sock True w] by simp
qed simp

end

interpretation reference_sockets: zmq_sending ref_zmq_lib rz_sent
  by unfold_locales (auto split: list.split)

section \<open>Endpoints\<close>

definition getSinkName :: "string \<Rightarrow> uint16 \<Rightarrow> string" where
  "getSinkName baseName threadNo = baseName @ ''_'' @ to_string (uint threadNo)"

lemma getSinkName_inject: "getSinkName baseName i = getSinkName baseName j \<longleftrightarrow> i = j"
  by (auto simp: getSinkName_def to_string_inject word_uint_eq_iff)

lemma c_str_getSinkName:
  "CHR 0x00 \<notin> set baseName \<Longrightarrow> c_str (getSinkName baseName threadNo) = getSinkName baseName threadNo"
  by (rule c_str_id) (auto simp: getSinkName_def to_string_def digits_no_null)

end
