(* ===== verification/ZmqMessages.thy ===== *)
theory ZmqMessages
  imports ZmqSockets
begin

text \<open>
  The message objects of \<open>volodb-common/Transport/zmq.hpp\<close>: \<open>message_t\<close> over the \<open>zmq_msg\<close> calls of the C
  library, and how \<open>NDBMessageExecutor.cpp\<close> uses them to reply: a send empties the message it is given,
  so the identity of the client is copied for every reply. Messages are numbered by their addresses.
\<close>

section \<open>The calls of the library\<close>

record 'm msg_lib =
  msg_init :: "nat \<Rightarrow> 'm \<Rightarrow> bool \<times> 'm"
  msg_init_size :: "nat \<Rightarrow> nat \<Rightarrow> 'm \<Rightarrow> bool \<times> 'm"
  msg_init_data :: "nat \<Rightarrow> bytes \<Rightarrow> 'm \<Rightarrow> bool \<times> 'm"
  msg_close :: "nat \<Rightarrow> 'm \<Rightarrow> bool \<times> 'm"
  msg_move :: "nat \<Rightarrow> nat \<Rightarrow> 'm \<Rightarrow> bool \<times> 'm"
  msg_copy :: "nat \<Rightarrow> nat \<Rightarrow> 'm \<Rightarrow> bool \<times> 'm"
  msg_more :: "nat \<Rightarrow> 'm \<Rightarrow> bool"
  msg_bytes :: "nat \<Rightarrow> 'm \<Rightarrow> bytes" \<comment> \<open>the \<open>zmq_msg_size\<close> bytes at \<open>zmq_msg_data\<close>\<close>
  msg_send :: "nat \<Rightarrow> nat \<Rightarrow> bool \<Rightarrow> 'm \<Rightarrow> bool \<times> 'm"
  msg_recv :: "nat \<Rightarrow> nat \<Rightarrow> bool \<Rightarrow> 'm \<Rightarrow> bool \<times> 'm"
  msg_again :: "'m \<Rightarrow> bool" \<comment> \<open>\<open>zmq_errno() == EAGAIN\<close>\<close>
  msg_strerror :: "'m \<Rightarrow> string"

section \<open>The members of \<open>message_t\<close>\<close>

definition msg_or_throw :: "'m msg_lib \<Rightarrow> bool \<times> 'm \<Rightarrow> unit result \<times> 'm" where
  "msg_or_throw M r = (case r of (ok, w) \<Rightarrow> if ok then (Inr (), w) else (Inl (Thrown (msg_strerror M w)), w))"

definition message_new :: "'m msg_lib \<Rightarrow> nat \<Rightarrow> 'm \<Rightarrow> unit result \<times> 'm" where
  "message_new M a w = msg_or_throw M (msg_init M a w)"

definition message_new_size :: "'m msg_lib \<Rightarrow> nat \<Rightarrow> nat \<Rightarrow> 'm \<Rightarrow> unit result \<times> 'm" where
  "message_new_size M a sz w = msg_or_throw M (msg_init_size M a sz w)"

definition message_new_data :: "'m msg_lib \<Rightarrow> nat \<Rightarrow> bytes \<Rightarrow> 'm \<Rightarrow> unit result \<times> 'm" where
  "message_new_data M a dat w = msg_or_throw M (msg_init_data M a dat w)"

definition message_destroy :: "'m msg_lib \<Rightarrow> nat \<Rightarrow> 'm \<Rightarrow> unit result \<times> 'm" where
  "message_destroy M a w = (case msg_close M a w of (ok, w1) \<Rightarrow> (if ok then Inr () else Inl AssertFailed, w1))"

definition message_rebuild :: "'m msg_lib \<Rightarrow> nat \<Rightarrow> 'm \<Rightarrow> unit result \<times> 'm" where
  "message_rebuild M a w = bind_io (msg_or_throw M (msg_close M a w)) (\<lambda>_. message_new M a)"

definition message_rebuild_size :: "'m msg_lib \<Rightarrow> nat \<Rightarrow> nat \<Rightarrow> 'm \<Rightarrow> unit result \<times> 'm" where
  "message_rebuild_size M a sz w = bind_io (msg_or_throw M (msg_close M a w)) (\<lambda>_. message_new_size M a sz)"

definition message_rebuild_data :: "'m msg_lib \<Rightarrow> nat \<Rightarrow> bytes \<Rightarrow> 'm \<Rightarrow> unit result \<times> 'm" where
  "message_rebuild_data M a dat w = bind_io (msg_or_throw M (msg_close M a w)) (\<lambda>_. message_new_data M a dat)"

definition message_move :: "'m msg_lib \<Rightarrow> nat \<Rightarrow> nat \<Rightarrow> 'm \<Rightarrow> unit result \<times> 'm" where
  "message_move M a b w = msg_or_throw M (msg_move M a b w)"

definition message_copy :: "'m msg_lib \<Rightarrow> nat \<Rightarrow> nat \<Rightarrow> 'm \<Rightarrow> unit result \<times> 'm" where
  "message_copy M a b w = msg_or_throw M (msg_copy M a b w)"

definition message_more :: "'m msg_lib \<Rightarrow> nat \<Rightarrow> 'm \<Rightarrow> bool" where
  "message_more M a w = msg_more M a w"

definition message_data :: "'m msg_lib \<Rightarrow> nat \<Rightarrow> 'm \<Rightarrow> bytes" where
  "message_data M a w = msg_bytes M a w"

definition message_size :: "'m msg_lib \<Rightarrow> nat \<Rightarrow> 'm \<Rightarrow> nat" where
  "message_size M a w = length (msg_bytes M a w)"

text \<open>The members of \<open>socket_t\<close> that take a message object.\<close>

definition again_or_throw :: "'m msg_lib \<Rightarrow> bool \<times> 'm \<Rightarrow> bool result \<times> 'm" where
  "again_or_throw M r =
     (case r of (ok, w) \<Rightarrow>
        if ok then (Inr True, w) else if msg_again M w then (Inr False, w) else (Inl (Thrown (msg_strerror M w)), w))"

definition message_send :: "'m msg_lib \<Rightarrow> nat \<Rightarrow> nat \<Rightarrow> bool \<Rightarrow> 'm \<Rightarrow> bool result \<times> 'm" where
  "message_send M sock a sndmore w = again_or_throw M (msg_send M sock a sndmore w)"

definition message_recv :: "'m msg_lib \<Rightarrow> nat \<Rightarrow> nat \<Rightarrow> bool \<Rightarrow> 'm \<Rightarrow> bool result \<times> 'm" where
  "message_recv M sock a noblock w = again_or_throw M (msg_recv M sock a noblock w)"

section \<open>Replying with message objects\<close>

text \<open>A local message: its destructor runs however its scope is left.\<close>

definition scoped :: "'m msg_lib \<Rightarrow> nat \<Rightarrow> ('m \<Rightarrow> 'a result \<times> 'm) \<Rightarrow> 'm \<Rightarrow> 'a result \<times> 'm" where
  "scoped M a body w =
     (case body w of (r, w1) \<Rightarrow>
        (case message_destroy M a w1 of (Inl e, w2) \<Rightarrow> (Inl e, w2) | (Inr _, w2) \<Rightarrow> (r, w2)))"

text \<open>\<open>replyWithResult\<close> from the bytes of the frame on, \<open>None\<close> if it could not be serialised.\<close>

definition send_reply :: "'m msg_lib \<Rightarrow> nat \<Rightarrow> nat \<Rightarrow> nat \<Rightarrow> 'm \<Rightarrow> bool result \<times> 'm" where
  "send_reply M sock serverReply identifier w =
     bind_io (message_send M sock identifier True w) (\<lambda>_ w1.
     bind_io (message_send M sock serverReply False w1) (\<lambda>_ w2. (Inr True, w2)))"

definition reply_with_message :: "'m msg_lib \<Rightarrow> nat \<Rightarrow> nat \<Rightarrow> nat \<Rightarrow> bytes option \<Rightarrow> 'm \<Rightarrow> bool result \<times> 'm" where
  "reply_with_message M sock serverReply identifier frame w =
     (case frame of
        None \<Rightarrow> (Inr False, w)
      | Some dat \<Rightarrow>
          bind_io (message_new_data M serverReply dat w)
            (\<lambda>_. scoped M serverReply (send_reply M sock serverReply identifier)))"

text \<open>A round of \<open>execute\<close>, or the callback, that replies: a fresh message takes a copy of the identity.\<close>

definition reply_round :: "'m msg_lib \<Rightarrow> nat \<Rightarrow> nat \<Rightarrow> nat \<Rightarrow> nat \<Rightarrow> bytes option \<Rightarrow> 'm \<Rightarrow> bool result \<times> 'm" where
  "reply_round M sock serverReply identifier originalIdentifier frame w =
     bind_io (message_new M identifier w) (\<lambda>_.
       scoped M identifier (\<lambda>w1.
         bind_io (message_copy M identifier originalIdentifier w1) (\<lambda>_.
           reply_with_message M sock serverReply identifier frame)))"

fun reply_rounds :: "'m msg_lib \<Rightarrow> nat \<Rightarrow> nat \<Rightarrow> nat \<Rightarrow> nat \<Rightarrow> bytes option list \<Rightarrow> 'm \<Rightarrow> unit result \<times> 'm" where
  "reply_rounds M sock serverReply identifier originalIdentifier [] w = (Inr (), w)"
| "reply_rounds M sock serverReply identifier originalIdentifier (frame # frames) w =
     bind_io (reply_round M sock serverReply identifier originalIdentifier frame w)
       (\<lambda>_. reply_rounds M sock serverReply identifier originalIdentifier frames)"

text \<open>The parts of a reply: the identity of the client with more to come, and the frame.\<close>

definition message_parts :: "nat \<Rightarrow> bytes \<Rightarrow> bytes option \<Rightarrow> (nat \<times> bytes \<times> bool) list" where
  "message_parts sock identity frame =
     (case frame of None \<Rightarrow> [] | Some dat \<Rightarrow> [(sock, identity, True), (sock, dat, False)])"

section \<open>The documented behaviour\<close>

text \<open>
  \<open>content\<close> is what an initialised message holds, \<open>accepted\<close> the parts the library has taken for sending.
  A copy shares the content, a move leaves the source empty, a successful send leaves the message
  empty, and \<open>close\<close>, \<open>copy\<close> and \<open>move\<close> of initialised messages succeed. A blocking send does not fail
  with \<open>EAGAIN\<close>.
\<close>

locale zmq_messages =
  fixes M :: "'m msg_lib" and content :: "'m \<Rightarrow> nat \<rightharpoonup> bytes" and accepted :: "'m \<Rightarrow> (nat \<times> bytes \<times> bool) list"
  assumes initialises: "content w a = None \<Longrightarrow> msg_init M a w = (ok, w1) \<Longrightarrow>
      content w1 = (if ok then (content w)(a \<mapsto> []) else content w) \<and> accepted w1 = accepted w"
    and initialises_size: "content w a = None \<Longrightarrow> msg_init_size M a sz w = (ok, w1) \<Longrightarrow>
      (\<exists>c. length c = sz \<and> content w1 = (if ok then (content w)(a \<mapsto> c) else content w)) \<and> accepted w1 = accepted w"
    and initialises_data: "content w a = None \<Longrightarrow> msg_init_data M a dat w = (ok, w1) \<Longrightarrow>
      content w1 = (if ok then (content w)(a \<mapsto> dat) else content w) \<and> accepted w1 = accepted w"
    and closes: "content w a = Some c \<Longrightarrow> msg_close M a w = (ok, w1) \<Longrightarrow>
      ok \<and> content w1 = (content w)(a := None) \<and> accepted w1 = accepted w"
    and copies: "content w a = Some c \<Longrightarrow> content w b = Some d \<Longrightarrow> msg_copy M a b w = (ok, w1) \<Longrightarrow>
      ok \<and> content w1 = (content w)(a \<mapsto> d) \<and> accepted w1 = accepted w"
    and moves: "content w a = Some c \<Longrightarrow> content w b = Some d \<Longrightarrow> a \<noteq> b \<Longrightarrow> msg_move M a b w = (ok, w1) \<Longrightarrow>
      ok \<and> content w1 = (content w)(a \<mapsto> d, b \<mapsto> []) \<and> accepted w1 = accepted w"
    and shows_content: "content w a = Some c \<Longrightarrow> msg_bytes M a w = c"
    and sends: "content w a = Some c \<Longrightarrow> msg_send M sock a sndmore w = (ok, w1) \<Longrightarrow>
      (if ok then content w1 = (content w)(a \<mapsto> []) \<and> accepted w1 = accepted w @ [(sock, c, sndmore)]
       else content w1 = content w \<and> accepted w1 = accepted w \<and> \<not> msg_again M w1)"
    and receives: "content w a = Some c \<Longrightarrow> msg_recv M sock a noblock w = (ok, w1) \<Longrightarrow>
      (\<exists>d. content w1 = (content w)(a \<mapsto> d)) \<and> accepted w1 = accepted w"
begin

lemma new_message:
  assumes "content w a = None" "message_new M a w = (r, w1)"
  shows "accepted w1 = accepted w \<and> content w1 = (case r of Inl _ \<Rightarrow> content w | Inr _ \<Rightarrow> (content w)(a \<mapsto> []))"
  using assms initialises [of w a "fst (msg_init M a w)" "snd (msg_init M a w)"]
  by (auto simp: message_new_def msg_or_throw_def split: prod.splits if_splits)

lemma new_message_data:
  assumes "content w a = None" "message_new_data M a dat w = (r, w1)"
  shows "accepted w1 = accepted w \<and> content w1 = (case r of Inl _ \<Rightarrow> content w | Inr _ \<Rightarrow> (content w)(a \<mapsto> dat))"
  using assms initialises_data [of w a dat "fst (msg_init_data M a dat w)" "snd (msg_init_data M a dat w)"]
  by (auto simp: message_new_data_def msg_or_throw_def split: prod.splits if_splits)

lemma destroyed_message:
  assumes "content w a = Some c" "message_destroy M a w = (r, w1)"
  shows "r = Inr () \<and> content w1 = (content w)(a := None) \<and> accepted w1 = accepted w"
  using assms closes [of w a c "fst (msg_close M a w)" "snd (msg_close M a w)"]
  by (auto simp: message_destroy_def split: prod.splits if_splits)

lemma copied_message:
  assumes "content w a = Some c" "content w b = Some d" "message_copy M a b w = (r, w1)"
  shows "r = Inr () \<and> content w1 = (content w)(a \<mapsto> d) \<and> accepted w1 = accepted w"
  using assms copies [of w a c b d "fst (msg_copy M a b w)" "snd (msg_copy M a b w)"]
  by (auto simp: message_copy_def msg_or_throw_def split: prod.splits if_splits)

lemma moved_message:
  assumes "content w a = Some c" "content w b = Some d" "a \<noteq> b" "message_move M a b w = (r, w1)"
  shows "r = Inr () \<and> content w1 = (content w)(a \<mapsto> d, b \<mapsto> []) \<and> accepted w1 = accepted w"
  using assms moves [of w a c b d "fst (msg_move M a b w)" "snd (msg_move M a b w)"]
  by (auto simp: message_move_def msg_or_throw_def split: prod.splits if_splits)

lemma rebuilt_message:
  assumes "content w a = Some c" "message_rebuild_data M a dat w = (Inr (), w1)"
  shows "content w1 = (content w)(a \<mapsto> dat) \<and> accepted w1 = accepted w"
proof -
  obtain ok w2 where call: "msg_close M a w = (ok, w2)" by (rule prod.exhaust)
  from closes [OF assms(1) call] have "ok" "content w2 = (content w)(a := None)" "accepted w2 = accepted w" by simp_all
  with assms(2) call new_message_data [of w2 a dat "Inr ()" w1] show ?thesis
    by (simp add: message_rebuild_data_def msg_or_throw_def)
qed

lemma shown_message:
  assumes "content w a = Some c"
  shows "message_data M a w = c" "message_size M a w = length c"
  using shows_content [OF assms] by (simp_all add: message_data_def message_size_def)

lemma sent_message:
  assumes "content w a = Some c" "message_send M sock a sndmore w = (r, w1)"
  shows "case r of
      Inl _ \<Rightarrow> content w1 = content w \<and> accepted w1 = accepted w
    | Inr b \<Rightarrow> b \<and> content w1 = (content w)(a \<mapsto> []) \<and> accepted w1 = accepted w @ [(sock, c, sndmore)]"
  using assms sends [of w a c sock sndmore "fst (msg_send M sock a sndmore w)" "snd (msg_send M sock a sndmore w)"]
  by (auto simp: message_send_def again_or_throw_def split: prod.splits if_splits)

lemma scoped_message:
  assumes "scoped M a body w = (r, w2)"
    and "\<And>r1 w1. body w = (r1, w1) \<Longrightarrow> \<exists>c. content w1 a = Some c"
  shows "\<exists>w1. body w = (r, w1) \<and> content w2 = (content w1)(a := None) \<and> accepted w2 = accepted w1"
proof -
  obtain r1 w1 where body: "body w = (r1, w1)" by (rule prod.exhaust)
  with assms(2) obtain c where c: "content w1 a = Some c" by blast
  obtain d w3 where "message_destroy M a w1 = (d, w3)" by (rule prod.exhaust)
  with destroyed_message [OF c this] assms(1) body show ?thesis by (auto simp: scoped_def)
qed

text \<open>What a reply hands to the library, and what it does to the messages that exist.\<close>

lemma sent_reply:
  assumes "content w identifier = Some c" "content w serverReply = Some dat" "identifier \<noteq> serverReply"
    and "send_reply M sock serverReply identifier w = (r, w1)"
  shows "\<exists>d. content w1 serverReply = Some d" "\<forall>a. a \<noteq> identifier \<and> a \<noteq> serverReply \<longrightarrow> content w1 a = content w a"
    and "\<exists>d. content w1 identifier = Some d"
    and "r = Inr b \<Longrightarrow> b \<and> accepted w1 = accepted w @ message_parts sock c (Some dat)"
proof -
  obtain x w2 where first: "message_send M sock identifier True w = (x, w2)" by (rule prod.exhaust)
  note one = sent_message [OF assms(1) first]
  have all: "(\<exists>d. content w1 serverReply = Some d) \<and> (\<forall>a. a \<noteq> identifier \<and> a \<noteq> serverReply \<longrightarrow> content w1 a = content w a) \<and>
    (\<exists>d. content w1 identifier = Some d) \<and>
    (r = Inr b \<longrightarrow> b \<and> accepted w1 = accepted w @ message_parts sock c (Some dat))"
  proof (cases x)
    case (Inl e)
    with one first assms show ?thesis by (auto simp: send_reply_def)
  next
    case (Inr ok)
    with one assms(2,3) have dat: "content w2 serverReply = Some dat" by simp
    obtain y w3 where second: "message_send M sock serverReply False w2 = (y, w3)" by (rule prod.exhaust)
    from one Inr first second assms sent_message [OF dat second] show ?thesis
      by (cases y) (auto simp: send_reply_def message_parts_def)
  qed
  then show "\<exists>d. content w1 serverReply = Some d" "\<forall>a. a \<noteq> identifier \<and> a \<noteq> serverReply \<longrightarrow> content w1 a = content w a"
    "\<exists>d. content w1 identifier = Some d"
    "r = Inr b \<Longrightarrow> b \<and> accepted w1 = accepted w @ message_parts sock c (Some dat)" by blast+
qed

lemma replied_with_message:
  assumes "content w identifier = Some c" "content w serverReply = None"
    and "reply_with_message M sock serverReply identifier frame w = (r, w1)"
  shows "\<forall>a. a \<noteq> identifier \<longrightarrow> content w1 a = content w a" and "\<exists>d. content w1 identifier = Some d"
    and "r = Inr b \<Longrightarrow> b = (frame \<noteq> None) \<and> accepted w1 = accepted w @ message_parts sock c frame"
proof -
  have ne: "identifier \<noteq> serverReply" using assms(1,2) by auto
  have all: "(\<forall>a. a \<noteq> identifier \<longrightarrow> content w1 a = content w a) \<and> (\<exists>d. content w1 identifier = Some d) \<and>
    (r = Inr b \<longrightarrow> b = (frame \<noteq> None) \<and> accepted w1 = accepted w @ message_parts sock c frame)"
  proof (cases frame)
    case None
    with assms show ?thesis by (auto simp: reply_with_message_def message_parts_def)
  next
    case (Some dat)
    obtain n w2 where new: "message_new_data M serverReply dat w = (n, w2)" by (rule prod.exhaust)
    note made = new_message_data [OF assms(2) new]
    show ?thesis
    proof (cases n)
      case (Inl e)
      with made new Some assms show ?thesis by (auto simp: reply_with_message_def)
    next
      case (Inr u)
      with made assms(1) ne have held: "content w2 identifier = Some c" "content w2 serverReply = Some dat" by simp_all
      note body = sent_reply [OF held ne]
      have "scoped M serverReply (send_reply M sock serverReply identifier) w2 = (r, w1)"
        using assms(3) new Some Inr by (simp add: reply_with_message_def)
      then have "\<exists>w3. send_reply M sock serverReply identifier w2 = (r, w3) \<and>
          content w1 = (content w3)(serverReply := None) \<and> accepted w1 = accepted w3"
        by (rule scoped_message) (rule body(1))
      then obtain w3 where ran: "send_reply M sock serverReply identifier w2 = (r, w3)"
        and left: "content w1 = (content w3)(serverReply := None)" "accepted w1 = accepted w3" by blast
      from body(2-4) [OF ran] left made Inr ne assms(2) Some show ?thesis by (cases r) auto
    qed
  qed
  then show "\<forall>a. a \<noteq> identifier \<longrightarrow> content w1 a = content w a" "\<exists>d. content w1 identifier = Some d"
    "r = Inr b \<Longrightarrow> b = (frame \<noteq> None) \<and> accepted w1 = accepted w @ message_parts sock c frame" by blast+
qed

lemma replied_round:
  assumes "content w originalIdentifier = Some c" "content w identifier = None" "content w serverReply = None"
    "identifier \<noteq> serverReply"
    and "reply_round M sock serverReply identifier originalIdentifier frame w = (r, w1)"
  shows "content w1 = content w"
    and "r = Inr b \<Longrightarrow> b = (frame \<noteq> None) \<and> accepted w1 = accepted w @ message_parts sock c frame"
proof -
  have ne: "identifier \<noteq> originalIdentifier" using assms(1,2) by auto
  obtain n w2 where new: "message_new M identifier w = (n, w2)" by (rule prod.exhaust)
  note made = new_message [OF assms(2) new]
  have "content w1 = content w \<and>
    (r = Inr b \<longrightarrow> b = (frame \<noteq> None) \<and> accepted w1 = accepted w @ message_parts sock c frame)"
  proof (cases n)
    case (Inl e)
    with made new assms(5) show ?thesis by (auto simp: reply_round_def)
  next
    case (Inr u)
    with made ne assms(1) have held: "content w2 identifier = Some []" "content w2 originalIdentifier = Some c" by simp_all
    obtain k w3 where copy: "message_copy M identifier originalIdentifier w2 = (k, w3)" by (rule prod.exhaust)
    note copied = copied_message [OF held copy]
    let ?body = "\<lambda>w1. bind_io (message_copy M identifier originalIdentifier w1)
      (\<lambda>_. reply_with_message M sock serverReply identifier frame)"
    have body: "?body w2 = reply_with_message M sock serverReply identifier frame w3" using copy copied by simp
    have c: "content w3 identifier = Some c" "content w3 serverReply = None"
      using copied made Inr assms(3,4) by simp_all
    have "scoped M identifier ?body w2 = (r, w1)" using assms(5) new Inr by (simp add: reply_round_def)
    then have "\<exists>w4. ?body w2 = (r, w4) \<and> content w1 = (content w4)(identifier := None) \<and> accepted w1 = accepted w4"
      by (rule scoped_message) (use body replied_with_message(2) [OF c] in auto)
    then obtain w4 where ran: "reply_with_message M sock serverReply identifier frame w3 = (r, w4)"
      and left: "content w1 = (content w4)(identifier := None)" "accepted w1 = accepted w4" unfolding body by blast
    from replied_with_message(1) [OF c ran] left copied made Inr assms(2) have "content w1 = content w" by (auto simp: fun_eq_iff)
    with replied_with_message(3) [OF c ran] left copied made Inr show ?thesis by simp
  qed
  then show "content w1 = content w"
    "r = Inr b \<Longrightarrow> b = (frame \<noteq> None) \<and> accepted w1 = accepted w @ message_parts sock c frame" by blast+
qed

lemma replied_rounds:
  assumes "content w originalIdentifier = Some c" "content w identifier = None" "content w serverReply = None"
    "identifier \<noteq> serverReply"
    and "reply_rounds M sock serverReply identifier originalIdentifier frames w = (r, w1)"
  shows "content w1 = content w \<and> (r = Inr () \<longrightarrow> accepted w1 = accepted w @ concat (map (message_parts sock c) frames))"
  using assms
proof (induction frames arbitrary: w)
  case (Cons frame frames)
  obtain x w2 where one: "reply_round M sock serverReply identifier originalIdentifier frame w = (x, w2)" by (rule prod.exhaust)
  note first = replied_round [OF Cons.prems(1-4) one]
  show ?case
  proof (cases x)
    case (Inl e)
    with one first Cons.prems(5) show ?thesis by auto
  next
    case (Inr b)
    with one first Cons.prems Cons.IH [of w2] show ?thesis by simp
  qed
qed simp

end

section \<open>Messages in memory\<close>

record ref_messages =
  rm_content :: "nat \<rightharpoonup> bytes"
  rm_accepted :: "(nat \<times> bytes \<times> bool) list"

definition ref_holds :: "nat \<Rightarrow> bytes \<Rightarrow> ref_messages \<Rightarrow> bool \<times> ref_messages" where
  "ref_holds a c w = (True, w\<lparr>rm_content := (rm_content w)(a \<mapsto> c)\<rparr>)"

definition ref_msg_lib :: "ref_messages msg_lib" where
  "ref_msg_lib =
     \<lparr>msg_init = (\<lambda>a. ref_holds a []), msg_init_size = (\<lambda>a sz. ref_holds a (replicate sz (CHR 0x00))),
      msg_init_data = ref_holds, msg_close = (\<lambda>a w. (True, w\<lparr>rm_content := (rm_content w)(a := None)\<rparr>)),
      msg_move = (\<lambda>a b w. (True, w\<lparr>rm_content := (rm_content w)(a := rm_content w b, b \<mapsto> [])\<rparr>)),
      msg_copy = (\<lambda>a b w. (True, w\<lparr>rm_content := (rm_content w)(a := rm_content w b)\<rparr>)),
      msg_more = (\<lambda>a w. False), msg_bytes = (\<lambda>a w. case rm_content w a of None \<Rightarrow> [] | Some c \<Rightarrow> c),
      msg_send = (\<lambda>sock a sndmore w. (True, w\<lparr>rm_content := (rm_content w)(a \<mapsto> []),
        rm_accepted := rm_accepted w @ [(sock, case rm_content w a of None \<Rightarrow> [] | Some c \<Rightarrow> c, sndmore)]\<rparr>)),
      msg_recv = (\<lambda>sock a noblock w. (False, w)), msg_again = (\<lambda>w. False), msg_strerror = (\<lambda>w. [])\<rparr>"

interpretation reference_messages: zmq_messages ref_msg_lib rm_content rm_accepted
proof unfold_locales
  show "(\<exists>d. rm_content w1 = (rm_content w)(a \<mapsto> d)) \<and> rm_accepted w1 = rm_accepted w"
    if "rm_content w a = Some c" "msg_recv ref_msg_lib sock a noblock w = (ok, w1)" for w a c sock noblock ok w1
    using that by (auto simp: ref_msg_lib_def fun_upd_idem intro!: exI [of _ c])
  show "(\<exists>c. length c = sz \<and> rm_content w1 = (if ok then (rm_content w)(a \<mapsto> c) else rm_content w)) \<and>
      rm_accepted w1 = rm_accepted w"
    if "rm_content w a = None" "msg_init_size ref_msg_lib a sz w = (ok, w1)" for w a sz ok w1
    using that by (auto simp: ref_msg_lib_def ref_holds_def intro!: exI [of _ "replicate sz (CHR 0x00)"])
qed (auto simp: ref_msg_lib_def ref_holds_def)

end
