(* ===== verification/ReplyMessages.thy ===== *)
theory ReplyMessages
  imports RowTransactions ZmqMessages ProtoReference
begin

text \<open>
  What a request of the executor sends, and that its loop over message objects sends the same. In the
  model of \<open>NDBMessageExecutor.cpp\<close> an identity is a value and what is sent a list of pairs; in the
  program every round of \<open>execute\<close> makes a message object with a copy of the identity.
\<close>

section \<open>The replies of a request\<close>

text \<open>Defining operations sends nothing.\<close>

lemma with_world_sent: "sv_sent (snd (with_world call s)) = sv_sent s"
  by (simp add: with_world_def split_beta)

lemma lookupTable_sent: "sv_sent (snd (lookupTable A n getName name s)) = sv_sent s"
  by (simp add: lookupTable_def split_beta Let_def)

lemma setEqual_sent:
  "sv_sent (snd (setEqualPrimaryKey A key op s)) = sv_sent s"
  "sv_sent (snd (setEqualDistributedKey A key op s)) = sv_sent s"
  by (simp_all add: setEqualPrimaryKey_def setEqualDistributedKey_def with_world_sent)

lemma readBy_sent:
  "sv_sent (snd (readByPrimaryKey A name key t s)) = sv_sent s"
  "sv_sent (snd (readByIndex A name key t s)) = sv_sent s"
  by (auto simp: readByPrimaryKey_def readByIndex_def split_beta Let_def with_world_sent setEqual_sent split: option.split)

lemmas world_calls = with_world_sent lookupTable_sent setEqual_sent readBy_sent split_beta Let_def bind_result_Inr_iff

lemma executeSet_sent: "executeSet A op t s = Inr (r, s1) \<Longrightarrow> sv_sent s1 = sv_sent s"
  by (auto simp: executeSet_def world_calls split: option.splits if_splits)

lemma executeDelete_sent: "executeDelete A op t s = Inr (r, s1) \<Longrightarrow> sv_sent s1 = sv_sent s"
  by (auto simp: executeDelete_def world_calls split: option.splits if_splits)

lemma setEqualValue_sent: "setEqualValue A value op tab s = Inr r \<Longrightarrow> sv_sent (snd r) = sv_sent s"
  by (auto simp: setEqualValue_def world_calls split: if_splits)

lemma readByScan_sent: "readByScan A name value tab t s = Inr r \<Longrightarrow> sv_sent (snd r) = sv_sent s"
  by (auto simp: readByScan_def world_calls dest!: setEqualValue_sent split: option.splits if_splits)

text \<open>The part of \<open>executeGet\<close> that chooses the operation to read with.\<close>

lemma chosen_read_sent:
  assumes "(if b then Inr (readByPrimaryKey A name key t s) else if c then Inr (readByIndex A name key t s)
    else readByScan A name vals tab t s) = Inr (op, s1)"
  shows "sv_sent s1 = sv_sent s"
  using assms readBy_sent [of A name key t s] readByScan_sent [of A name vals tab t s "(op, s1)"]
  by (auto split: if_splits)

lemma bind_sent:
  assumes "bind_result x f = Inr (r, s1)" "\<And>a s2. x = Inr (a, s2) \<Longrightarrow> sv_sent s2 = sent"
    and "\<And>a s2 r s1. f (a, s2) = Inr (r, s1) \<Longrightarrow> sv_sent s1 = sv_sent s2"
  shows "sv_sent s1 = sent"
  using assms by (auto simp: bind_result_Inr_iff)

lemma executeGet_sent:
  assumes "executeGet A n op t s = Inr (r, s1)"
  shows "sv_sent s1 = sv_sent s"
proof -
  from assms obtain info where info: "GetOperation_store_info op 0 = Inr info" by (auto simp: executeGet_def bind_result_Inr_iff)
  obtain found s0 where look: "lookupTable A n (StoreInfo_store_name info) (StoreInfo_store_name info) s = (found, s0)"
    by (rule prod.exhaust)
  have s0: "sv_sent s0 = sv_sent s"
    using lookupTable_sent [of A n "StoreInfo_store_name info" "StoreInfo_store_name info" s] look by simp
  show ?thesis
  proof (cases found)
    case None
    with assms info look s0 show ?thesis by (simp add: executeGet_def)
  next
    case (Some tab)
    have get: "sv_sent s1 = sv_sent s2"
      if "(case op1 of None \<Rightarrow> Inr (None, s2)
        | Some op2 \<Rightarrow> (case with_world (getValues A op2 0 (getNoOfColumns A tab) []) s2 of
            (x, s3) \<Rightarrow> (case x of (ok, records) \<Rightarrow> \<lambda>s3. Inr (if ok then Some (op2, records) else None, s3)) s3)) = Inr (r, s1)"
      for op1 s2 r s1
      using that with_world_sent [of "getValues A _ 0 (getNoOfColumns A tab) []" s2]
      by (cases op1) (auto simp: split_beta)
    from assms have "sv_sent s1 = sv_sent s0"
      unfolding executeGet_def info bind_result_simps Let_def look prod.case Some option.case
      by (rule bind_sent) (auto dest: chosen_read_sent get)
    with s0 show ?thesis by simp
  qed
qed

lemma ensureTransaction_sent: "ensureTransaction A n columns info t s = Inr r \<Longrightarrow> sv_sent (snd r) = sv_sent s"
  by (auto simp: ensureTransaction_def startTransaction_def world_calls split: option.splits if_splits)

lemma defineOn_sent:
  assumes "defineOn exec started = Inr (t1, r, s1)"
    and "\<And>t r s1. exec t (snd started) = Inr (r, s1) \<Longrightarrow> sv_sent s1 = sv_sent (snd started)"
  shows "sv_sent s1 = sv_sent (snd started)"
  using assms by (auto simp: defineOn_def split_beta bind_result_Inr_iff split: option.splits)

lemma executeManipulation_sent:
  assumes "executeManipulation A n message t s = Inr (t1, r, s1)"
  shows "sv_sent s1 = sv_sent s"
proof -
  have one: "sv_sent s1 = sv_sent s" if "ensureTransaction A n columns info t s = Inr started"
    "defineOn exec started = Inr (t1, r, s1)" "\<And>t s r s1. exec t s = Inr (r, s1) \<Longrightarrow> sv_sent s1 = sv_sent s"
    for columns info started exec
    using ensureTransaction_sent [OF that(1)] defineOn_sent [OF that(2)] that(3) by metis
  show ?thesis using assms
    by (cases message)
      (auto simp: executeManipulation_def bind_result_Inr_iff dest: executeSet_sent executeDelete_sent executeGet_sent
        elim!: one)
qed

lemma runQuery_sent: "sv_sent (snd (runQuery A n query tid s)) = sv_sent s"
  by (simp add: runQuery_def world_calls)

lemma executeCreateStore_sent: "executeCreateStore A n op tid s = Inr (r, s1) \<Longrightarrow> sv_sent s1 = sv_sent s"
proof -
  assume run: "executeCreateStore A n op tid s = Inr (r, s1)"
  then obtain str where str: "createTableStr op = Inr str" by (auto simp: executeCreateStore_def bind_result_Inr_iff)
  with run runQuery_sent [of A n "projr str" tid s] show ?thesis
    by (cases str) (auto simp: executeCreateStore_def)
qed

lemma executeDefinition_sent: "executeDefinition A n message tid s = Inr (r, s1) \<Longrightarrow> sv_sent s1 = sv_sent s"
  by (cases message)
    (auto simp: executeDefinition_def executeCreateDatabase_def executeDropDatabase_def
      executeDropStore_def createDatabase_def runQuery_sent world_calls dest: executeCreateStore_sent split: if_splits)

lemma failureResult_sent: "failureResult A t tid s = (r, s1) \<Longrightarrow> sv_sent s1 = sv_sent s"
  by (auto simp: failureResult_def split: option.splits)

text \<open>So what a request sends before its transaction is executed are the replies with at most one result per message.\<close>

lemma executeMessages_replies:
  assumes "executeMessages L A n tid identity messages t operations s = Inr (t1, operations1, s1)"
  shows "\<exists>results. length results \<le> length messages \<and>
    sv_sent s1 = sv_sent s @ concat (map (reply_parts L identity) results)"
  using assms
proof (induction messages arbitrary: t operations s)
  case Nil
  then show ?case by simp
next
  case (Cons m messages)
  show ?case
  proof (cases "isDefinitionFrame m")
    case True
    with Cons.prems obtain res s2 reply b s3 where exec: "executeDefinition A n m tid s = Inr (res, s2)"
      "replyWithResult L reply identity s2 = Inr (b, s3)"
      "executeMessages L A n tid identity messages t operations s3 = Inr (t1, operations1, s1)"
      by (auto simp: bind_result_Inr_iff Let_def)
    from Cons.IH [OF exec(3)] obtain results where rest: "length results \<le> length messages"
      "sv_sent s1 = sv_sent s3 @ concat (map (reply_parts L identity) results)" by blast
    with reply_replied [OF exec(2)] executeDefinition_sent [OF exec(1)] show ?thesis
      by (intro exI [of _ "reply # results"]) (simp add: replied_def)
  next
    case False
    with Cons.prems obtain t2 new s2 where exec: "executeManipulation A n m t s = Inr (t2, new, s2)"
      by (auto simp: bind_result_Inr_iff)
    show ?thesis
    proof (cases new)
      case None
      obtain reply s3 where fail: "failureResult A t2 tid s2 = (reply, s3)" by (rule prod.exhaust)
      with Cons.prems False exec None obtain b where "replyWithResult L reply identity s3 = Inr (b, s1)"
        by (auto simp: bind_result_Inr_iff)
      with reply_replied [OF this] failureResult_sent [OF fail] executeManipulation_sent [OF exec] show ?thesis
        by (intro exI [of _ "[reply]"]) (simp add: replied_def)
    next
      case (Some o1)
      with Cons.prems False exec obtain operations2 where
        "executeMessages L A n tid identity messages t2 operations2 s2 = Inr (t1, operations1, s1)"
        by (cases o1) auto
      from Cons.IH [OF this] executeManipulation_sent [OF exec] show ?thesis by (auto intro: le_SucI)
    qed
  qed
qed

section \<open>The same replies over message objects\<close>

text \<open>What a list of identities and frames is on the socket it is sent to.\<close>

definition socket_log :: "nat \<Rightarrow> (bytes \<times> bytes) list \<Rightarrow> (nat \<times> bytes \<times> bool) list" where
  "socket_log sock sent = concat (map (\<lambda>(identity, frame). message_parts sock identity (Some frame)) sent)"

lemma socket_log_append: "socket_log sock (xs @ ys) = socket_log sock xs @ socket_log sock ys"
  by (simp add: socket_log_def)

lemma socket_log_replies:
  "socket_log sock (concat (map (reply_parts L identity) results)) =
    concat (map (message_parts sock identity) (map (RowTransactions.reply_bytes L) results))"
  by (induction results)
    (auto simp: socket_log_def reply_parts_def message_parts_def split: option.splits)

text \<open>
  C12: the executor's replies over message objects do what the model says. The loop over the messages of
  a request sends the replies with at most one result per message; run with message objects, which copy
  the identity for each reply since a send empties it, these results reach the socket as exactly the
  parts the model lists, the identity of the request is intact and no message is left over, the
  last two also when the library fails.
\<close>

theorem replies_refined:
  assumes "zmq_messages M content accepted"
    and "content w originalIdentifier = Some identity" "content w identifier = None" "content w serverReply = None"
      "identifier \<noteq> serverReply"
    and "accepted w = socket_log sock (sv_sent s)"
    and "executeMessages L A threadNo transactionID identity messages transaction operations s =
      Inr (transaction1, operations1, s1)"
  shows "\<exists>results. length results \<le> length messages \<and>
    (case reply_rounds M sock serverReply identifier originalIdentifier (map (RowTransactions.reply_bytes L) results) w of
       (r, w1) \<Rightarrow> content w1 = content w \<and> (r = Inr () \<longrightarrow> accepted w1 = socket_log sock (sv_sent s1)))"
proof -
  from executeMessages_replies [OF assms(7)] obtain results where results: "length results \<le> length messages"
    "sv_sent s1 = sv_sent s @ concat (map (reply_parts L identity) results)" by blast
  obtain r w1 where run: "reply_rounds M sock serverReply identifier originalIdentifier
      (map (RowTransactions.reply_bytes L) results) w = (r, w1)"
    by (rule prod.exhaust)
  from zmq_messages.replied_rounds [OF assms(1-5) run] assms(6) results show ?thesis
    by (intro exI [of _ results]) (simp add: run socket_log_append socket_log_replies)
qed

definition sample_messages :: ref_messages where
  "sample_messages = \<lparr>rm_content = [1 \<mapsto> ''c1''], rm_accepted = []\<rparr>"

theorem replies_refined_witness:
  "\<exists>s1 results. executeMessages ref_lib ref_cluster_api 0 ''t1'' ''c1'' [DropStoreMessage DropStoreOperation_new] None []
      server_start = Inr (None, [], s1) \<and> length results \<le> 1 \<and>
    (case reply_rounds ref_msg_lib 5 3 2 1 (map (RowTransactions.reply_bytes ref_lib) results) sample_messages of
       (r, w1) \<Rightarrow> rm_content w1 = [1 \<mapsto> ''c1''] \<and> (if r = Inr () then rm_accepted w1 = socket_log 5 (sv_sent s1) else True))"
proof -
  have "list_all isDefinitionFrame [DropStoreMessage DropStoreOperation_new]" by (simp add: isDefinitionFrame_def)
  from reference_cluster.executeMessages_definitions [OF this] obtain s1 where run: "executeMessages ref_lib ref_cluster_api 0 ''t1'' ''c1'' [DropStoreMessage DropStoreOperation_new] None []
      server_start = Inr (None, [], s1)"
    by blast
  have start: "rm_content sample_messages 1 = Some ''c1''" "rm_content sample_messages 2 = None"
    "rm_content sample_messages 3 = None" "(2::nat) \<noteq> 3" "rm_accepted sample_messages = socket_log 5 (sv_sent server_start)"
    by (simp_all add: sample_messages_def socket_log_def server_start_def)
  have one: "length [DropStoreMessage DropStoreOperation_new] = 1" "rm_content sample_messages = [1 \<mapsto> ''c1'']"
    by (simp_all add: sample_messages_def)
  have iff: "(if b then P else True) = (b \<longrightarrow> P)" for b P by simp
  show ?thesis unfolding iff
    by (rule exI, rule ex_forward [OF replies_refined [OF reference_messages.zmq_messages_axioms start run, unfolded one]],
        rule conjI, rule run)
qed

end
