(* ===== verification/ServerTransport.thy ===== *)
theory ServerTransport
  imports ZmqSockets
begin

text \<open>
  \<open>volodbserver/Transport/ServerTransport.cpp\<close>: the worker threads between the clients and the store,
  and the life of the transport itself. The delegate is a function from the messages of a round to
  its effect; the plain flag \<open>_stopFlag\<close>, written by another thread, is a list of the values the
  successive reads return.
\<close>

section \<open>One round of a worker\<close>

text \<open>
  The replies come as identity and body; a reply is sent on with the flag that keeps the two
  together. The second part is read by index without a check that there is one.
\<close>

fun relayReplies :: "'z zmq_lib \<Rightarrow> nat \<Rightarrow> bytes list \<Rightarrow> 'z \<Rightarrow> unit result \<times> 'z" where
  "relayReplies Z workerSocket [] w = (Inr (), w)"
| "relayReplies Z workerSocket [identity] w =
     bind_io (socket_send Z workerSocket identity True w) (\<lambda>_ w1. (Inl IndexOutOfRange, w1))"
| "relayReplies Z workerSocket (identity # body # allMessages) w =
     bind_io (socket_send Z workerSocket identity True w)
       (\<lambda>_ w1. bind_io (socket_send Z workerSocket body False w1)
         (\<lambda>_ w2. relayReplies Z workerSocket allMessages w2))"

type_synonym 'z server_delegate = "bytes list \<Rightarrow> 'z \<Rightarrow> unit result \<times> 'z"

definition takeRequests ::
  "'z zmq_lib \<Rightarrow> 'z server_delegate option \<Rightarrow> nat \<Rightarrow> 'z \<Rightarrow> (unit result \<times> 'z) option" where
  "takeRequests Z delegate workerSocket w =
     (case delegate of
        None \<Rightarrow> Some (Inr (), w)
      | Some didReceive \<Rightarrow>
          (case receiveQueuedMessages Z workerSocket (-1) w of
             None \<Rightarrow> None
           | Some r \<Rightarrow>
               Some (bind_io r (\<lambda>allMessages w1.
                 if length allMessages > 0 then didReceive allMessages w1 else (Inr (), w1)))))"

definition server_round ::
  "'z zmq_lib \<Rightarrow> 'z server_delegate option \<Rightarrow> nat \<Rightarrow> nat \<Rightarrow> 'z \<Rightarrow> (unit result \<times> 'z) option" where
  "server_round Z delegate workerSocket sinkSocket w =
     (case takeRequests Z delegate workerSocket w of
        None \<Rightarrow> None
      | Some (Inl e, w1) \<Rightarrow> Some (Inl e, w1)
      | Some (Inr _, w1) \<Rightarrow>
          (case receiveQueuedMessages Z sinkSocket (-1) w1 of
             None \<Rightarrow> None
           | Some r \<Rightarrow> Some (bind_io r (relayReplies Z workerSocket))))"

section \<open>A worker thread\<close>

definition SERVER_SINK_NAME :: string where "SERVER_SINK_NAME = ''inproc://serversink''"
definition BACKEND_PROC_NAME :: string where "BACKEND_PROC_NAME = ''inproc://backend''"

definition worker_sockets :: "'z zmq_lib \<Rightarrow> uint16 \<Rightarrow> 'z \<Rightarrow> (nat \<times> nat) result \<times> 'z" where
  "worker_sockets Z threadNo w =
     bind_io (socket_new Z ZMQ_DEALER w) (\<lambda>workerSocket w1.
     bind_io (socket_new Z ZMQ_PULL w1) (\<lambda>sinkSocket w2.
     bind_io (setUnlimitedQueueLength Z workerSocket w2) (\<lambda>_ w3.
     bind_io (setUnlimitedQueueLength Z sinkSocket w3) (\<lambda>_ w4.
     bind_io (setLingerOff Z workerSocket w4) (\<lambda>_ w5.
     bind_io (socket_connect Z workerSocket BACKEND_PROC_NAME w5) (\<lambda>_ w6.
     bind_io (socket_bind Z sinkSocket (getSinkName SERVER_SINK_NAME threadNo) w6) (\<lambda>_ w7.
       (Inr (workerSocket, sinkSocket), w7))))))))"

text \<open>
  How a thread ended: \<open>Running\<close> is a thread that has not ended after the given reads of the flag,
  \<open>Hanging\<close> one that never leaves a round, \<open>Ended\<close> one whose exception was logged.
\<close>

datatype thread_state =
    Running
  | Stopped
  | Ended fault
  | Hanging

fun worker_loop ::
  "'z zmq_lib \<Rightarrow> 'z server_delegate option \<Rightarrow> nat \<Rightarrow> nat \<Rightarrow> bool list \<Rightarrow> 'z \<Rightarrow> thread_state \<times> 'z" where
  "worker_loop Z delegate workerSocket sinkSocket [] w = (Running, w)"
| "worker_loop Z delegate workerSocket sinkSocket (stopFlag # reads) w =
     (if stopFlag then (Stopped, w)
      else
        (case server_round Z delegate workerSocket sinkSocket w of
           None \<Rightarrow> (Hanging, w)
         | Some (Inl e, w1) \<Rightarrow> (Ended e, w1)
         | Some (Inr _, w1) \<Rightarrow> worker_loop Z delegate workerSocket sinkSocket reads w1))"

definition worker_thread_handler ::
  "'z zmq_lib \<Rightarrow> 'z server_delegate option \<Rightarrow> uint16 \<Rightarrow> bool list \<Rightarrow> 'z \<Rightarrow> thread_state \<times> 'z" where
  "worker_thread_handler Z delegate threadNo reads w =
     (case worker_sockets Z threadNo w of
        (Inl e, w1) \<Rightarrow> (Ended e, w1)
      | (Inr (workerSocket, sinkSocket), w1) \<Rightarrow> worker_loop Z delegate workerSocket sinkSocket reads w1)"

section \<open>The transport\<close>

record server_transport =
  st_context :: bool
  st_sockets :: bool \<comment> \<open>\<open>_frontend\<close> and \<open>_backend\<close>\<close>
  st_totalWorkerThreads :: uint16
  st_workerThreads :: "uint16 list"
  st_mainThread :: bool
  st_isStarted :: bool
  st_stopFlag :: bool

definition ServerTransport_new :: "uint16 \<Rightarrow> server_transport" where
  "ServerTransport_new totalWorkerThreads =
     \<lparr>st_context = True, st_sockets = False, st_totalWorkerThreads = totalWorkerThreads,
      st_workerThreads = [], st_mainThread = False, st_isStarted = False, st_stopFlag = False\<rparr>"

definition transport_start :: "server_transport \<Rightarrow> server_transport" where
  "transport_start st =
     (if \<not> st_isStarted st then st\<lparr>st_mainThread := True, st_isStarted := True\<rparr> else st)"

text \<open>What the main thread does before it enters \<open>zmq::proxy\<close>.\<close>

definition mainThread_begin :: "server_transport \<Rightarrow> server_transport result" where
  "mainThread_begin st =
     (if \<not> st_context st then Inl NullDereference
      else Inr (st\<lparr>st_sockets := True,
                   st_workerThreads := st_workerThreads st @
                     map word_of_nat [0..<unat (st_totalWorkerThreads st)]\<rparr>))"

definition transport_cleanUp :: "server_transport \<Rightarrow> server_transport result" where
  "transport_cleanUp st =
     (let st1 = st\<lparr>st_stopFlag := True\<rparr>;
          st2 = st1\<lparr>st_workerThreads := [], st_stopFlag := False\<rparr>;
          st3 = st2\<lparr>st_sockets := False, st_context := False\<rparr>
      in if \<not> st_mainThread st3 then Inl NullDereference
         else Inr (st3\<lparr>st_mainThread := False\<rparr>))"

definition transport_close :: "server_transport \<Rightarrow> server_transport result" where
  "transport_close st = bind_result (transport_cleanUp st) (\<lambda>st1. Inr (st1\<lparr>st_isStarted := False\<rparr>))"

definition transport_getContext :: "server_transport \<Rightarrow> bool" where
  "transport_getContext st = st_context st"

text \<open>The destructor closes.\<close>

definition ServerTransport_destroy :: "server_transport \<Rightarrow> server_transport result" where
  "ServerTransport_destroy st = transport_close st"

section \<open>Properties\<close>

text \<open>The parts of the replies with the flag each is sent with.\<close>

fun enveloped :: "nat \<Rightarrow> bytes list \<Rightarrow> (nat \<times> bytes \<times> bool) list" where
  "enveloped sock [] = []"
| "enveloped sock [identity] = [(sock, identity, True)]"
| "enveloped sock (identity # body # msgs) = (sock, identity, True) # (sock, body, False) # enveloped sock msgs"

context zmq_sending
begin

lemma relayReplies_sent:
  "relayReplies Z sock msgs w = (Inr (), w1) \<Longrightarrow> even (length msgs) \<and> sent w1 = sent w @ enveloped sock msgs"
proof (induction msgs arbitrary: w rule: induct_list012)
  case (2 identity)
  then show ?case by (cases "socket_send Z sock identity True w") (simp add: bind_io_def split: sum.splits)
next
  case (3 identity body msgs)
  obtain r1 w2 where s1: "socket_send Z sock identity True w = (r1, w2)" by (rule prod.exhaust)
  with 3 obtain b1 where r1: "r1 = Inr b1" by (cases r1) simp_all
  obtain r2 w3 where s2: "socket_send Z sock body False w2 = (r2, w3)" by (rule prod.exhaust)
  with 3 s1 r1 obtain b2 where r2: "r2 = Inr b2" by (cases r2) simp_all
  from 3 s1 s2 r1 r2 socket_send_sent(1) [OF s1 [unfolded r1]] socket_send_sent(1) [OF s2 [unfolded r2]]
  show ?case by simp
qed simp

lemma server_round_sent:
  assumes "server_round Z delegate workerSocket sinkSocket w = Some (Inr (), w4)"
  shows "\<exists>w1 replies w2. takeRequests Z delegate workerSocket w = Some (Inr (), w1) \<and>
    delivered Z sinkSocket w1 replies w2 \<and> even (length replies) \<and>
    sent w4 = sent w1 @ enveloped workerSocket replies"
proof -
  from assms obtain w1 where taken: "takeRequests Z delegate workerSocket w = Some (Inr (), w1)"
    by (auto simp: server_round_def split: option.splits prod.splits sum.splits)
  with assms obtain r where drained: "receiveQueuedMessages Z sinkSocket (-1) w1 = Some r"
    and relay: "bind_io r (relayReplies Z workerSocket) = (Inr (), w4)"
    by (auto simp: server_round_def split: option.splits)
  from relay obtain replies w3 where r: "r = (Inr replies, w3)"
    by (auto simp: bind_io_def split: prod.splits sum.splits)
  with drained obtain w2 where got: "delivered Z sinkSocket w1 replies w2"
    and last: "w3 = w2 \<or> zmq_msg_recv Z sinkSocket True w2 = (None, w3)"
    using receiveQueuedMessages_delivered [of Z sinkSocket "-1" w1 replies w3] by auto
  have "sent w3 = sent w1"
    using delivered_sent [OF got] last recv_sends_nothing [of sinkSocket True w2] by auto
  with relayReplies_sent [of workerSocket replies w3 w4] relay taken got show ?thesis by (auto simp: r)
qed

end

text \<open>
  A round of a worker that ends without an exception first hands the waiting requests to the
  delegate, and then sends on exactly the reply parts its sink delivered, in order, identity and
  body alternating, the identity marked as continued by the body.
\<close>

lemma round_relays_replies:
  assumes "zmq_sending Z sent"
    and "server_round Z delegate workerSocket sinkSocket w = Some (Inr (), w4)"
  shows "\<exists>w1 replies w2. takeRequests Z delegate workerSocket w = Some (Inr (), w1) \<and>
    delivered Z sinkSocket w1 replies w2 \<and> even (length replies) \<and>
    sent w4 = sent w1 @ enveloped workerSocket replies"
  using assms by (rule zmq_sending.server_round_sent)

lemma round_relays_replies_witness:
  "\<exists>w1 replies w2. takeRequests ref_zmq_lib None 0 sample_sockets = Some (Inr (), w1) \<and>
    delivered ref_zmq_lib 1 w1 replies w2 \<and> even (length replies) \<and>
    rz_sent (sample_sockets\<lparr>rz_waiting := (rz_waiting sample_sockets)(1 := []),
      rz_sent := [(0, ''client'', True), (0, ''reply'', False)]\<rparr>) =
    rz_sent w1 @ enveloped 0 replies"
proof (rule round_relays_replies [OF reference_sockets.zmq_sending_axioms])
  show "server_round ref_zmq_lib None 0 1 sample_sockets = Some (Inr (),
      sample_sockets\<lparr>rz_waiting := (rz_waiting sample_sockets)(1 := []),
        rz_sent := [(0, ''client'', True), (0, ''reply'', False)]\<rparr>)"
    using receive_loop_unlimited [OF ref_delivered [of 1 sample_sockets], of _ "-1" "[]"]
    by (simp add: server_round_def takeRequests_def receiveQueuedMessages_def socket_send_def sample_sockets_def)
qed

text \<open>
  A transport can be closed exactly once and only after it was started: closing it before, or a
  second time, joins a null main thread, also when the destructor does it; and a transport that was
  closed cannot be started again, because its context is gone.
\<close>

lemma transport_life:
  "transport_close (ServerTransport_new n) = Inl NullDereference \<and>
   (\<exists>st1 st2. mainThread_begin (transport_start (ServerTransport_new n)) = Inr st1 \<and>
     transport_close st1 = Inr st2 \<and> \<not> st_isStarted st2 \<and> st_workerThreads st2 = [] \<and>
     transport_close st2 = Inl NullDereference \<and> ServerTransport_destroy st2 = Inl NullDereference \<and>
     mainThread_begin (transport_start st2) = Inl NullDereference)"
  by (simp add: transport_close_def transport_cleanUp_def ServerTransport_new_def transport_start_def
      mainThread_begin_def ServerTransport_destroy_def Let_def)

end
