(* ===== verification/ClientTransport.thy ===== *)
theory ClientTransport
  imports ZmqSockets
begin

text \<open>
  \<open>volodb-client/Transport/ClientTransport.cpp\<close>: the sockets and worker threads of a client. The
  operations run on the transport's own fields together with the state of the ZeroMQ library. That
  a worker's own sockets are closed when its thread ends is left out.
\<close>

record client_transport =
  ct_context :: bool
  ct_clientSocket :: "nat option"
  ct_sendPushSocket :: "nat option"
  ct_isConnected :: bool
  ct_totalWorkerThreads :: uint16
  ct_workerThreads :: "(uint16 \<times> string) list"
  ct_stopFlag :: bool
  ct_senderSinkName :: string

definition ClientTransport_new :: "uint16 \<Rightarrow> string \<Rightarrow> client_transport" where
  "ClientTransport_new totalWorkerThreads uuid =
     \<lparr>ct_context = False, ct_clientSocket = None, ct_sendPushSocket = None, ct_isConnected = False,
      ct_totalWorkerThreads = totalWorkerThreads, ct_workerThreads = [], ct_stopFlag = False,
      ct_senderSinkName = ''inproc://sendersink_'' @ uuid\<rparr>"

text \<open>A library call on the pair of states; \<open>shared_ptr::reset\<close> of a socket closes the old one.\<close>

definition on_library :: "('z \<Rightarrow> 'a result \<times> 'z) \<Rightarrow> client_transport \<times> 'z \<Rightarrow> 'a result \<times> client_transport \<times> 'z" where
  "on_library call s = (case s of (ct, w) \<Rightarrow> case call w of (r, w1) \<Rightarrow> (r, ct, w1))"

definition close_socket :: "'z zmq_lib \<Rightarrow> nat option \<Rightarrow> 'z \<Rightarrow> 'z" where
  "close_socket Z sock w = (case sock of None \<Rightarrow> w | Some s \<Rightarrow> zmq_close Z s w)"

section \<open>Connecting and sending\<close>

definition connectSingle :: "'z zmq_lib \<Rightarrow> string \<Rightarrow> client_transport \<times> 'z \<Rightarrow> unit result \<times> client_transport \<times> 'z" where
  "connectSingle Z serverURL s =
     bind_io (on_library (socket_new Z ZMQ_DEALER) s) (\<lambda>sock (ct, w).
     let s1 = (ct\<lparr>ct_clientSocket := Some sock\<rparr>, close_socket Z (ct_clientSocket ct) w) in
     bind_io (on_library (setUnlimitedQueueLength Z sock) s1) (\<lambda>_.
       on_library (socket_connect Z sock serverURL)))"

definition connectThreads :: "'z zmq_lib \<Rightarrow> string \<Rightarrow> client_transport \<times> 'z \<Rightarrow> unit result \<times> client_transport \<times> 'z" where
  "connectThreads Z serverURL s =
     bind_io (on_library (socket_new Z ZMQ_PUSH) s) (\<lambda>sock (ct, w).
     let s1 = (ct\<lparr>ct_sendPushSocket := Some sock\<rparr>, close_socket Z (ct_sendPushSocket ct) w) in
     bind_io (on_library (setUnlimitedQueueLength Z sock) s1) (\<lambda>_ s2.
     bind_io (on_library (socket_bind Z sock (ct_senderSinkName (fst s2))) s2) (\<lambda>_ (ct3, w3).
       (Inr (), ct3\<lparr>ct_workerThreads := ct_workerThreads ct3 @
          map (\<lambda>i. (word_of_nat i, serverURL)) [0..<unat (ct_totalWorkerThreads ct3)]\<rparr>, w3))))"

definition client_connect ::
  "'z zmq_lib \<Rightarrow> bool \<Rightarrow> string \<Rightarrow> 32 word \<Rightarrow> client_transport \<times> 'z \<Rightarrow> unit result \<times> client_transport \<times> 'z" where
  "client_connect Z context serverAddress port s =
     (case s of (ct, w) \<Rightarrow>
        if \<not> ct_isConnected ct then
          (let ct1 = ct\<lparr>ct_context := context\<rparr> in
           if \<not> context then (Inl (Thrown ''Context can not be null''), ct1, w)
           else
             (let serverURL = ''tcp://'' @ serverAddress @ '':'' @ to_string (uint port) in
              bind_io
                (if ct_totalWorkerThreads ct1 = 0 then connectSingle Z serverURL (ct1, w)
                 else connectThreads Z serverURL (ct1, w))
                (\<lambda>_ (ct2, w2). (Inr (), ct2\<lparr>ct_isConnected := True\<rparr>, w2))))
        else (Inr (), ct, w))"

definition client_send :: "'z zmq_lib \<Rightarrow> bytes \<Rightarrow> client_transport \<times> 'z \<Rightarrow> unit result \<times> client_transport \<times> 'z" where
  "client_send Z data s =
     (case s of (ct, w) \<Rightarrow>
        if ct_isConnected ct then
          (case (if ct_totalWorkerThreads ct = 0 then ct_clientSocket ct else ct_sendPushSocket ct) of
             None \<Rightarrow> (Inl NullDereference, ct, w)
           | Some sock \<Rightarrow> bind_io (on_library (socket_send Z sock data False) s) (\<lambda>_ s1. (Inr (), s1)))
        else (Inl (Thrown ''Not connected to the server''), ct, w))"

section \<open>Receiving without threads\<close>

text \<open>
  \<open>recv(&message, flags)\<close> is handed the address of the \<open>shared_ptr\<close>, so it is the overload that takes
  a buffer: the flags are its length, the pointer is the buffer, and the call blocks. A length of 0
  leaves the message empty; a length of 1 writes the first byte over the pointer.
\<close>

definition client_receive ::
  "'z zmq_lib \<Rightarrow> bool \<Rightarrow> client_transport \<times> 'z \<Rightarrow> (bool \<times> bytes option) result \<times> client_transport \<times> 'z" where
  "client_receive Z doBlock s =
     (case s of (ct, w) \<Rightarrow>
        if ct_totalWorkerThreads ct = 0 then
          (case ct_clientSocket ct of
             None \<Rightarrow> (Inl NullDereference, ct, w)
           | Some sock \<Rightarrow>
               bind_io (on_library (socket_recv_buffer Z sock (if doBlock then 0 else 1)) s)
                 (\<lambda>nbytes (ct1, w1).
                    if nbytes = 0 then (Inr (zmq_errno Z w1 \<noteq> EAGAIN Z, None), ct1, w1)
                    else if doBlock then (Inr (False, Some []), ct1, w1)
                    else (Inl CorruptedPointer, ct1, w1)))
        else (Inl (Thrown ''Receive is only allowed on non multi-threaded client''), ct, w))"

partial_function (option) receiveAll ::
  "'z zmq_lib \<Rightarrow> bool \<Rightarrow> bytes list \<Rightarrow> client_transport \<times> 'z
   \<Rightarrow> ((bool \<times> bytes list) result \<times> client_transport \<times> 'z) option" where
  "receiveAll Z doBlock allMessages s =
     (case client_receive Z doBlock s of
        (Inl e, s1) \<Rightarrow> Some (Inl e, s1)
      | (Inr (error, None), s1) \<Rightarrow> Some (Inr (error, allMessages), s1)
      | (Inr (error, Some currentMessage), s1) \<Rightarrow> receiveAll Z doBlock (allMessages @ [currentMessage]) s1)"

section \<open>The worker threads\<close>

type_synonym 'z client_delegate = "bytes list \<Rightarrow> 'z \<Rightarrow> unit result \<times> 'z"

partial_function (option) client_drain ::
  "'z zmq_lib \<Rightarrow> nat \<Rightarrow> bytes list \<Rightarrow> 'z \<Rightarrow> (bytes list result \<times> 'z) option" where
  "client_drain Z sock receivedMessages w =
     (case socket_recv Z sock True w of
        (Inl e, w1) \<Rightarrow> Some (Inl e, w1)
      | (Inr (Some msg), w1) \<Rightarrow> client_drain Z sock (receivedMessages @ [msg]) w1
      | (Inr None, w1) \<Rightarrow> Some (Inr receivedMessages, w1))"

fun forwardAll :: "'z zmq_lib \<Rightarrow> nat \<Rightarrow> bytes list \<Rightarrow> 'z \<Rightarrow> unit result \<times> 'z" where
  "forwardAll Z forward_socket [] w = (Inr (), w)"
| "forwardAll Z forward_socket (currentMessage # messages) w =
     bind_io (socket_send Z forward_socket currentMessage False w)
       (\<lambda>_ w1. forwardAll Z forward_socket messages w1)"

text \<open>\<open>errno\<close> is read again after the messages have been sent on or delivered.\<close>

definition client_receiveQueuedMessages ::
  "'z zmq_lib \<Rightarrow> 'z client_delegate option \<Rightarrow> nat \<Rightarrow> nat option \<Rightarrow> 'z \<Rightarrow> (bool result \<times> 'z) option" where
  "client_receiveQueuedMessages Z delegate sock forward_socket w =
     (case client_drain Z sock [] w of
        None \<Rightarrow> None
      | Some r \<Rightarrow>
          Some (bind_io r (\<lambda>receivedMessages w1.
            bind_io
              (if length receivedMessages > 0 then
                 (case forward_socket of
                    Some f \<Rightarrow> forwardAll Z f receivedMessages w1
                  | None \<Rightarrow>
                      (case delegate of Some d \<Rightarrow> d receivedMessages w1 | None \<Rightarrow> (Inr (), w1)))
               else (Inr (), w1))
              (\<lambda>_ w2. (Inr (zmq_errno Z w2 = EAGAIN Z), w2)))))"

text \<open>One round: the result of the first call is overwritten by the second.\<close>

definition client_round ::
  "'z zmq_lib \<Rightarrow> 'z client_delegate option \<Rightarrow> nat \<Rightarrow> nat \<Rightarrow> 'z \<Rightarrow> (bool result \<times> 'z) option" where
  "client_round Z delegate clientSocket sinkSocket w =
     (case client_receiveQueuedMessages Z delegate clientSocket None w of
        None \<Rightarrow> None
      | Some (Inl e, w1) \<Rightarrow> Some (Inl e, w1)
      | Some (Inr _, w1) \<Rightarrow> client_receiveQueuedMessages Z delegate sinkSocket (Some clientSocket) w1)"

definition client_worker_sockets :: "'z zmq_lib \<Rightarrow> string \<Rightarrow> string \<Rightarrow> 'z \<Rightarrow> (nat \<times> nat) result \<times> 'z" where
  "client_worker_sockets Z serverURL senderSinkName w =
     bind_io (socket_new Z ZMQ_DEALER w) (\<lambda>clientSocket w1.
     bind_io (socket_new Z ZMQ_PULL w1) (\<lambda>sinkSocket w2.
     bind_io (setUnlimitedQueueLength Z clientSocket w2) (\<lambda>_ w3.
     bind_io (setUnlimitedQueueLength Z sinkSocket w3) (\<lambda>_ w4.
     bind_io (setLingerOff Z clientSocket w4) (\<lambda>_ w5.
     bind_io (socket_connect Z clientSocket serverURL w5) (\<lambda>_ w6.
     bind_io (socket_connect Z sinkSocket senderSinkName w6) (\<lambda>_ w7.
       (Inr (clientSocket, sinkSocket), w7))))))))"

text \<open>The loop over the reads of \<open>_stopFlag\<close>; \<open>None\<close> is a thread that never leaves a round.\<close>

fun client_worker_loop ::
  "'z zmq_lib \<Rightarrow> 'z client_delegate option \<Rightarrow> nat \<Rightarrow> nat \<Rightarrow> bool \<Rightarrow> bool list \<Rightarrow> 'z \<Rightarrow> (bool result \<times> 'z) option" where
  "client_worker_loop Z delegate clientSocket sinkSocket isSocketValid [] w = Some (Inr isSocketValid, w)"
| "client_worker_loop Z delegate clientSocket sinkSocket isSocketValid (stopFlag # reads) w =
     (if \<not> isSocketValid \<or> stopFlag then Some (Inr isSocketValid, w)
      else
        (case client_round Z delegate clientSocket sinkSocket w of
           None \<Rightarrow> None
         | Some (Inl e, w1) \<Rightarrow> Some (Inl e, w1)
         | Some (Inr valid, w1) \<Rightarrow> client_worker_loop Z delegate clientSocket sinkSocket valid reads w1))"

section \<open>Closing\<close>

definition client_cleanUp :: "'z zmq_lib \<Rightarrow> client_transport \<times> 'z \<Rightarrow> client_transport \<times> 'z" where
  "client_cleanUp Z s =
     (case s of (ct, w) \<Rightarrow>
        let (ct1, w1) =
              (if unat (ct_totalWorkerThreads ct) > 0 then
                 (ct\<lparr>ct_workerThreads := [], ct_stopFlag := False\<rparr>, w)
               else (ct\<lparr>ct_clientSocket := None\<rparr>, close_socket Z (ct_clientSocket ct) w))
        in (ct1\<lparr>ct_sendPushSocket := None\<rparr>, close_socket Z (ct_sendPushSocket ct1) w1))"

definition client_close :: "'z zmq_lib \<Rightarrow> client_transport \<times> 'z \<Rightarrow> client_transport \<times> 'z" where
  "client_close Z s = (case client_cleanUp Z s of (ct, w) \<Rightarrow> (ct\<lparr>ct_isConnected := False\<rparr>, w))"

definition client_worker_thread_func ::
  "'z zmq_lib \<Rightarrow> 'z client_delegate option \<Rightarrow> string \<Rightarrow> string \<Rightarrow> bool list \<Rightarrow> 'z \<Rightarrow> (bool result \<times> 'z) option" where
  "client_worker_thread_func Z delegate serverURL senderSinkName reads w =
     (case client_worker_sockets Z serverURL senderSinkName w of
        (Inl e, w1) \<Rightarrow> Some (Inl e, w1)
      | (Inr (clientSocket, sinkSocket), w1) \<Rightarrow>
          client_worker_loop Z delegate clientSocket sinkSocket True reads w1)"

section \<open>Properties\<close>

lemma client_drain_delivered:
  assumes "delivered Z sock w msgs w1" "zmq_msg_recv Z sock True w1 = (None, w2)" "zmq_errno Z w2 = EAGAIN Z"
  shows "client_drain Z sock received w = Some (Inr (received @ msgs), w2)"
  using assms
proof (induction arbitrary: received rule: delivered.induct)
  case (nothing w)
  then show ?case by (subst client_drain.simps) (simp add: socket_recv_def)
next
  case (next_one w msg w1 msgs w2)
  then show ?case by (subst client_drain.simps) (simp add: socket_recv_def)
qed

lemma forwardAll_sent:
  assumes "zmq_sending Z sent" "forwardAll Z sock msgs w = (Inr (), w1)"
  shows "sent w1 = sent w @ map (\<lambda>msg. (sock, msg, False)) msgs"
  using assms(2)
proof (induction msgs arbitrary: w)
  case (Cons msg msgs)
  obtain r w2 where send: "socket_send Z sock msg False w = (r, w2)" by (rule prod.exhaust)
  with Cons.prems obtain b where r: "r = Inr b" by (cases r) simp_all
  from Cons send r zmq_sending.socket_send_sent(1) [OF assms(1) send [unfolded r]] show ?case by simp
qed simp



text \<open>
  Sending on a transport that is not connected throws and sends nothing; on a connected one
  with its socket, a send that returns has sent the data as one part, to the server's socket without
  worker threads and to the socket the workers share otherwise.
\<close>

lemma client_send_once:
  assumes "zmq_sending Z sent"
  shows "(if \<not> ct_isConnected ct then client_send Z data (ct, w) = (Inl (Thrown ''Not connected to the server''), ct, w)
     else case (if ct_totalWorkerThreads ct = 0 then ct_clientSocket ct else ct_sendPushSocket ct) of
       None \<Rightarrow> client_send Z data (ct, w) = (Inl NullDereference, ct, w)
     | Some sock \<Rightarrow> \<exists>r w1. client_send Z data (ct, w) = (r, ct, w1) \<and>
         sent w1 = sent w @ (case r of Inr _ \<Rightarrow> [(sock, data, False)] | Inl _ \<Rightarrow> []))"
proof (cases "if ct_totalWorkerThreads ct = 0 then ct_clientSocket ct else ct_sendPushSocket ct")
  case None
  then show ?thesis by (simp add: client_send_def)
next
  case (Some sock)
  obtain r w1 where send: "socket_send Z sock data False w = (r, w1)" by (rule prod.exhaust)
  show ?thesis
    unfolding Some client_send_def
    using zmq_sending.socket_send_sent [OF assms, of sock data False w] send
    by (cases r) (simp_all add: Some on_library_def)
qed

text \<open>
  Without worker threads a client can never read what the server sent: a receive that returns a
  message was a blocking one and its message is empty, and a non-blocking receive of a message
  overwrites the pointer it is about to return.
\<close>

lemma receive_loses_content:
  "(\<forall>error m s1. client_receive Z doBlock (ct, w) = (Inr (error, Some m), s1) \<longrightarrow> m = [] \<and> doBlock) \<and>
   (\<forall>sock n w1. ct_totalWorkerThreads ct = 0 \<longrightarrow> ct_clientSocket ct = Some sock \<longrightarrow> n > 0 \<longrightarrow>
      zmq_recv Z sock 1 w = (Some n, w1) \<longrightarrow>
      client_receive Z False (ct, w) = (Inl CorruptedPointer, ct, w1))"
proof (intro conjI allI impI)
  fix error m s1
  assume got: "client_receive Z doBlock (ct, w) = (Inr (error, Some m), s1)"
  then obtain sock where sock: "ct_totalWorkerThreads ct = 0" "ct_clientSocket ct = Some sock"
    by (auto simp: client_receive_def split: if_splits option.splits)
  obtain r w1 where "socket_recv_buffer Z sock (if doBlock then 0 else 1) w = (r, w1)" by (rule prod.exhaust)
  with got sock show "m = []" "doBlock"
    by (cases r; auto simp: client_receive_def on_library_def split: if_splits)+
next
  fix sock n w1
  assume "ct_totalWorkerThreads ct = 0" "ct_clientSocket ct = Some sock" "0 < n" "zmq_recv Z sock 1 w = (Some n, w1)"
  then show "client_receive Z False (ct, w) = (Inl CorruptedPointer, ct, w1)"
    by (simp add: client_receive_def on_library_def socket_recv_buffer_def)
qed

lemma receive_loses_content_witness:
  "client_receive ref_zmq_lib False ((ClientTransport_new 0 [])\<lparr>ct_clientSocket := Some 0\<rparr>, sample_sockets) =
     (Inl CorruptedPointer, (ClientTransport_new 0 [])\<lparr>ct_clientSocket := Some 0\<rparr>,
      sample_sockets\<lparr>rz_waiting := (rz_waiting sample_sockets)(0 := [''request''])\<rparr>)"
  using receive_loses_content [of ref_zmq_lib True "(ClientTransport_new 0 [])\<lparr>ct_clientSocket := Some 0\<rparr>" sample_sockets]
  by (simp add: ClientTransport_new_def sample_sockets_def)

end
