(* ===== verification/StoreTasks.thy ===== *)
theory StoreTasks
  imports BatchAccounting Columns ClientExecutor ZmqSockets
begin

text \<open>
  The way of a request through \<open>volodbserver/Store/Store.cpp\<close>: decoded by the worker that received
  it, distributed over the executors, handed to each as a pointer to its task list, and executed.
  The task lists between the two threads are a heap; \<open>new_pointer\<close> is the address the allocator
  returns, \<open>None\<close> when there is no memory left.
\<close>

type_synonym task_heap = "nat \<rightharpoonup> frame_messages_tuple list"

definition EXECUTOR_SINK_NAME :: string where "EXECUTOR_SINK_NAME = ''inproc://executorsink''"

section \<open>The sockets to the executors\<close>

fun senderSockets :: "'z zmq_lib \<Rightarrow> nat list \<Rightarrow> 'z \<Rightarrow> nat list result \<times> 'z" where
  "senderSockets Z [] w = (Inr [], w)"
| "senderSockets Z (executorThreadNo # executors) w =
     bind_io (socket_new Z ZMQ_PUSH w) (\<lambda>taskSenderSocket w1.
     bind_io (socket_connect Z taskSenderSocket (getSinkName EXECUTOR_SINK_NAME (word_of_nat executorThreadNo)) w1) (\<lambda>_ w2.
     bind_io (senderSockets Z executors w2) (\<lambda>sockets w3. (Inr (taskSenderSocket # sockets), w3))))"

fun senderSocketLists :: "'z zmq_lib \<Rightarrow> nat list \<Rightarrow> nat list \<Rightarrow> 'z \<Rightarrow> nat list list result \<times> 'z" where
  "senderSocketLists Z [] executors w = (Inr [], w)"
| "senderSocketLists Z (definerThreadNo # definers) executors w =
     bind_io (senderSockets Z executors w) (\<lambda>excutorTaskSubSockets w1.
     bind_io (senderSocketLists Z definers executors w1) (\<lambda>sockets w2. (Inr (excutorTaskSubSockets # sockets), w2)))"

definition createExecutorTaskSenderSockets :: "'z zmq_lib \<Rightarrow> uint16 \<Rightarrow> uint16 \<Rightarrow> 'z \<Rightarrow> nat list list result \<times> 'z" where
  "createExecutorTaskSenderSockets Z noDefinerThread noExecutorThreads w =
     senderSocketLists Z [0..<unat noDefinerThread] [0..<unat noExecutorThreads] w"

definition getResponsibleExecutorTaskSenderSocket :: "nat list list \<Rightarrow> nat \<Rightarrow> nat \<Rightarrow> nat result" where
  "getResponsibleExecutorTaskSenderSocket taskSenderSockets threadNo executorThreadNo =
     bind_result (index taskSenderSockets threadNo) (\<lambda>sockets. index sockets executorThreadNo)"

section \<open>Handing tasks over\<close>

definition sendTaskToExecutor ::
  "'z zmq_lib \<Rightarrow> (task_heap \<Rightarrow> nat option) \<Rightarrow> frame_messages_tuple list \<Rightarrow> nat \<Rightarrow> task_heap \<times> 'z
   \<Rightarrow> unit result \<times> task_heap \<times> 'z" where
  "sendTaskToExecutor Z new_pointer messagesList taskSenderSocket s =
     (case s of (heap, w) \<Rightarrow>
        case new_pointer heap of
          None \<Rightarrow> (Inl (Thrown ''std::bad_alloc''), heap, w)
        | Some taskListPointerToPass \<Rightarrow>
            (let heap1 = heap(taskListPointerToPass \<mapsto> messagesList)
             in case socket_send Z taskSenderSocket (le_bytes 8 taskListPointerToPass) False w of
                  (Inl e, w1) \<Rightarrow> (Inl e, heap1, w1)
                | (Inr _, w1) \<Rightarrow> (Inr (), heap1, w1)))"

text \<open>The loop over the map, in the order of its iteration.\<close>

fun sendTasks ::
  "'z zmq_lib \<Rightarrow> (task_heap \<Rightarrow> nat option) \<Rightarrow> nat list list \<Rightarrow> nat \<Rightarrow> executor_task_map \<Rightarrow> nat list
   \<Rightarrow> task_heap \<times> 'z \<Rightarrow> unit result \<times> task_heap \<times> 'z" where
  "sendTasks Z new_pointer taskSenderSockets threadNo tasksMap [] s = (Inr (), s)"
| "sendTasks Z new_pointer taskSenderSockets threadNo tasksMap (key # keys) s =
     (case getResponsibleExecutorTaskSenderSocket taskSenderSockets threadNo key of
        Inl e \<Rightarrow> (Inl e, s)
      | Inr sock \<Rightarrow>
          bind_io (sendTaskToExecutor Z new_pointer (bucket tasksMap key) sock s)
            (\<lambda>_. sendTasks Z new_pointer taskSenderSockets threadNo tasksMap keys))"

definition processMessages ::
  "pb_lib \<Rightarrow> 'z zmq_lib \<Rightarrow> (task_heap \<Rightarrow> nat option) \<Rightarrow> (nat \<Rightarrow> nat) \<Rightarrow> (executor_task_map \<Rightarrow> nat list) \<Rightarrow> uint16
   \<Rightarrow> bytes list \<Rightarrow> nat list list \<Rightarrow> nat \<Rightarrow> task_heap \<times> 'z \<Rightarrow> unit result \<times> task_heap \<times> 'z" where
  "processMessages L Z new_pointer rand order noExecutorThreads messages taskSenderSockets threadNo s =
     (case bind_result (decode_all L messages True)
             (\<lambda>messagesList. processForExecutor rand messagesList (unat noExecutorThreads)) of
        Inl e \<Rightarrow> (Inl e, s)
      | Inr tasksMap \<Rightarrow> sendTasks Z new_pointer taskSenderSockets threadNo tasksMap (order tasksMap) s)"

text \<open>The transport's delegate: the worker's number selects its own sockets.\<close>

definition store_didReceiveMessage ::
  "pb_lib \<Rightarrow> 'z zmq_lib \<Rightarrow> (task_heap \<Rightarrow> nat option) \<Rightarrow> (nat \<Rightarrow> nat) \<Rightarrow> (executor_task_map \<Rightarrow> nat list) \<Rightarrow> uint16
   \<Rightarrow> nat list list \<Rightarrow> bytes list \<Rightarrow> nat \<Rightarrow> task_heap \<times> 'z \<Rightarrow> unit result \<times> task_heap \<times> 'z" where
  "store_didReceiveMessage L Z new_pointer rand order noExecutorThreads taskSenderSockets messages responsibleWorkerThread s =
     processMessages L Z new_pointer rand order noExecutorThreads messages taskSenderSockets responsibleWorkerThread s"

section \<open>One round of an executor thread\<close>

text \<open>
  The pointers copied out of the messages. A message of another size leaves a pointer that was not
  written as a whole, or writes past it.
\<close>

fun takeTasks :: "task_heap \<Rightarrow> bytes list \<Rightarrow> frame_messages_tuple list list result" where
  "takeTasks heap [] = Inr []"
| "takeTasks heap (message # messages) =
     (if length message \<noteq> 8 then Inl BufferOverrun
      else
        (case heap (le_value message) of
           None \<Rightarrow> Inl NullDereference
         | Some taskList \<Rightarrow> bind_result (takeTasks heap messages) (\<lambda>taskLists. Inr (taskList # taskLists))))"

definition MAX_TRANSACTIONS :: int where "MAX_TRANSACTIONS = 1024"

text \<open>The lists are freed with the vector of their owners when the batch has been executed.\<close>

definition executor_round ::
  "pb_lib \<Rightarrow> 'w ndb_api \<Rightarrow> 'z zmq_lib \<Rightarrow> nat \<Rightarrow> nat \<Rightarrow> task_heap \<times> 'w server \<times> 'z
   \<Rightarrow> (task_heap \<times> 'w server \<times> 'z) run" where
  "executor_round L A Z threadNo taskReceiverSocket st =
     (case st of (heap, s, w) \<Rightarrow>
        (case receiveQueuedMessages Z taskReceiverSocket MAX_TRANSACTIONS w of
           None \<Rightarrow> None
         | Some (Inl e, w1) \<Rightarrow> Some (Inl e)
         | Some (Inr messages, w1) \<Rightarrow>
             if length messages > 0 then
               bind_run (Some (takeTasks heap messages))
                 (\<lambda>taskLists. bind_run (executeBatch L A threadNo taskLists s)
                   (\<lambda>s1. Some (Inr (heap |` (- set (map le_value messages)), s1, w1))))
             else Some (Inr (heap, s, w1))))"

section \<open>What is handed over\<close>

text \<open>An allocator returns the 64-bit address of a cell that is not in use.\<close>

definition allocates :: "(task_heap \<Rightarrow> nat option) \<Rightarrow> bool" where
  "allocates new_pointer \<longleftrightarrow> (\<forall>heap p. new_pointer heap = Some p \<longrightarrow> p \<notin> dom heap \<and> p < 256 ^ 8)"

definition task_parts :: "nat list list \<Rightarrow> nat \<Rightarrow> nat list \<Rightarrow> nat list \<Rightarrow> (nat \<times> bytes \<times> bool) list" where
  "task_parts sockets threadNo keys pointers =
     map2 (\<lambda>k p. (sockets ! threadNo ! k, le_bytes 8 p, False)) keys pointers"

lemma sendTasks_handed:
  assumes "zmq_sending Z sent" "allocates new_pointer"
    and "sendTasks Z new_pointer sockets threadNo m keys (heap, w) = (Inr (), heap1, w1)" "finite (dom heap)"
  shows "\<exists>pointers. length pointers = length keys \<and> list_all (\<lambda>p. p < 256 ^ 8) pointers \<and>
    set pointers \<inter> dom heap = {} \<and> map heap1 pointers = map (\<lambda>k. Some (bucket m k)) keys \<and>
    (\<forall>p. p \<in> dom heap \<longrightarrow> heap1 p = heap p) \<and> finite (dom heap1) \<and>
    sent w1 = sent w @ task_parts sockets threadNo keys pointers"
  using assms(3,4)
proof (induction keys arbitrary: heap w)
  case Nil
  then show ?case by (simp add: task_parts_def)
next
  case (Cons key keys)
  from Cons.prems obtain sock where sock: "getResponsibleExecutorTaskSenderSocket sockets threadNo key = Inr sock"
    by (cases "getResponsibleExecutorTaskSenderSocket sockets threadNo key") simp_all
  then have sock_eq: "sock = sockets ! threadNo ! key"
    by (auto simp: getResponsibleExecutorTaskSenderSocket_def index_def bind_result_Inr_iff split: if_splits)
  from Cons.prems sock obtain q where q: "new_pointer heap = Some q"
    by (cases "new_pointer heap") (simp_all add: sendTaskToExecutor_def)
  let ?p = q and ?heap = "heap(q \<mapsto> bucket m key)"
  obtain r w2 where send: "socket_send Z sock (le_bytes 8 ?p) False w = (r, w2)" by (rule prod.exhaust)
  with Cons.prems sock q obtain b where r: "r = Inr b" by (cases r) (simp_all add: sendTaskToExecutor_def)
  with Cons.prems sock q send have rest: "sendTasks Z new_pointer sockets threadNo m keys (?heap, w2) = (Inr (), heap1, w1)"
    by (simp add: sendTaskToExecutor_def)
  from q assms(2) have p: "?p \<notin> dom heap" "?p < 256 ^ 8" by (simp_all add: allocates_def)
  have "finite (dom ?heap)" using Cons.prems(2) by simp
  from Cons.IH [OF rest this] obtain pointers where IH: "length pointers = length keys"
    "list_all (\<lambda>p. p < 256 ^ 8) pointers" "set pointers \<inter> dom ?heap = {}"
    "map heap1 pointers = map (\<lambda>k. Some (bucket m k)) keys" "\<forall>p. p \<in> dom ?heap \<longrightarrow> heap1 p = ?heap p"
    "finite (dom heap1)" "sent w1 = sent w2 @ task_parts sockets threadNo keys pointers"
    by blast
  from zmq_sending.socket_send_sent(1) [OF assms(1) send [unfolded r]]
  have "sent w2 = sent w @ [(sock, le_bytes 8 ?p, False)]" by simp
  then have sent: "sent w1 = sent w @ task_parts sockets threadNo (key # keys) (?p # pointers)"
    using IH(7) by (simp add: task_parts_def sock_eq del: le_bytes.simps)
  have new: "heap1 ?p = Some (bucket m key)" using IH(5) by simp
  have old: "heap1 q = heap q" if "q \<in> dom heap" for q
  proof -
    from that p(1) have "q \<noteq> ?p" by blast
    moreover from that have "q \<in> dom ?heap" by simp
    ultimately show ?thesis using IH(5) by simp
  qed
  have disjoint: "set (?p # pointers) \<inter> dom heap = {}" using IH(3) p(1) by simp
  have small: "list_all (\<lambda>p. p < 256 ^ 8) (?p # pointers)" using IH(2) p(2) by simp
  have held: "map heap1 (?p # pointers) = map (\<lambda>k. Some (bucket m k)) (key # keys)" using IH(4) new by simp
  from IH(1) have "length (?p # pointers) = length (key # keys)" by simp
  with sent old disjoint small held IH(6) show ?case by blast
qed

lemma takeTasks_pointers:
  assumes "map heap pointers = map Some taskLists" "list_all (\<lambda>p. p < 256 ^ 8) pointers"
  shows "takeTasks heap (map (le_bytes 8) pointers) = Inr taskLists"
  using assms
proof (induction pointers arbitrary: taskLists)
  case Nil
  then show ?case by simp
next
  case (Cons p pointers)
  then obtain t ts where "taskLists = t # ts" "heap p = Some t" "map heap pointers = map Some ts" by auto
  with Cons show ?case by (simp del: le_bytes.simps)
qed

lemma buckets_in_order:
  assumes "distinct keys" "set keys = dom m" "dom m \<subseteq> {..<n}"
  shows "mset (concat (map (bucket m) keys)) = (\<Sum>e<n. mset (bucket m e))"
proof -
  have "mset (concat (map (bucket m) keys)) = (\<Sum>e\<leftarrow>keys. mset (bucket m e))"
    by (induction keys) simp_all
  also have "\<dots> = (\<Sum>e \<in> dom m. mset (bucket m e))"
    using assms(1,2) by (simp add: sum_list_distinct_conv_sum_set)
  also have "\<dots> = (\<Sum>e<n. mset (bucket m e))"
    using assms(3) by (intro sum.mono_neutral_left) (auto simp: bucket_def domIff)
  finally show ?thesis .
qed

lemma processMessages_handed:
  assumes "zmq_sending Z sent" "allocates new_pointer" "\<And>m. finite (dom m) \<Longrightarrow> distinct (order m) \<and> set (order m) = dom m"
    and "0 < noExecutorThreads" "finite (dom heap)"
    and "processMessages L Z new_pointer rand order noExecutorThreads messages sockets threadNo (heap, w) =
      (Inr (), heap1, w1)"
  shows "\<exists>decoded m pointers. decode_all L messages True = Inr decoded \<and>
    processForExecutor rand decoded (unat noExecutorThreads) = Inr m \<and>
    sent w1 = sent w @ task_parts sockets threadNo (order m) pointers \<and> length pointers = length (order m) \<and>
    takeTasks heap1 (map (le_bytes 8) pointers) = Inr (map (bucket m) (order m)) \<and>
    mset (concat (map (bucket m) (order m))) = mset decoded \<and>
    (\<forall>p. p \<in> dom heap \<longrightarrow> heap1 p = heap p)"
proof -
  from assms(6) obtain decoded m where decoded: "decode_all L messages True = Inr decoded"
    and m: "processForExecutor rand decoded (unat noExecutorThreads) = Inr m"
    and send: "sendTasks Z new_pointer sockets threadNo m (order m) (heap, w) = (Inr (), heap1, w1)"
    by (auto simp: processMessages_def bind_result_Inr_iff split: sum.splits)
  from sendTasks_handed [OF assms(1,2) send assms(5)] obtain pointers where handed:
    "length pointers = length (order m)" "list_all (\<lambda>p. p < 256 ^ 8) pointers"
    "map heap1 pointers = map (\<lambda>k. Some (bucket m k)) (order m)"
    "\<forall>p. p \<in> dom heap \<longrightarrow> heap1 p = heap p" "sent w1 = sent w @ task_parts sockets threadNo (order m) pointers"
    by blast
  have "takeTasks heap1 (map (le_bytes 8) pointers) = Inr (map (bucket m) (order m))"
    using handed(2,3) by (intro takeTasks_pointers) (simp_all add: comp_def)
  moreover have "0 < unat noExecutorThreads" using assms(4) by (simp add: unat_gt_0 word_gt_0)
  with processForExecutor_partition [OF this, of rand decoded] m have
    part: "dom m \<subseteq> {..<unat noExecutorThreads}" "(\<Sum>e<unat noExecutorThreads. mset (bucket m e)) = mset decoded"
    by auto
  then have "finite (dom m)" using finite_subset by blast
  with buckets_in_order [of "order m" m "unat noExecutorThreads"] assms(3) [of m] part have "mset (concat (map (bucket m) (order m))) = mset decoded" by simp
  ultimately show ?thesis using decoded m handed(1,4,5) by blast
qed

lemma limited_delivery:
  assumes "delivered Z sock w messages w1" "zmq_msg_recv Z sock True w1 = (None, w2)"
    "zmq_errno Z w2 = EAGAIN Z" "int (length received) + int (length messages) < readLimit"
  shows "receive_loop Z sock readLimit received w = Some (Inr (received @ messages), w2)"
  using assms
proof (induction arbitrary: received rule: delivered.induct)
  case (nothing w)
  then show ?case by (simp add: receive_loop_none)
next
  case (next_one w msg w1 msgs w2)
  then show ?case by (simp add: receive_loop_more)
qed

end
