(* ===== verification/StoreThreads.thy ===== *)
theory StoreThreads
  imports StoreTasks ServerTransport NDBMessageProcessor
begin

text \<open>
  The threads of a \<open>Store\<close> (\<open>volodbserver/Store/Store.cpp\<close>): how an executor thread comes up, the
  endpoints it binds and connects to, its loop, the definer thread, and the limiter of requests that
  both were meant to use. MySQL is a record of calls over a state of its own.
\<close>

section \<open>The connection to MySQL\<close>

record 'm mysql_lib =
  mysql_init :: "'m \<Rightarrow> bool \<times> 'm"
  mysql_real_connect :: "string \<Rightarrow> string \<Rightarrow> string \<Rightarrow> string \<Rightarrow> 32 word \<Rightarrow> 'm \<Rightarrow> bool \<times> 'm"
  mysql_last_error :: "'m \<Rightarrow> string" \<comment> \<open>\<open>mysql_error\<close>\<close>

record mysql_login =
  my_address :: string
  my_port :: "32 word"
  my_userName :: string
  my_password :: string
  my_database :: string

definition mysql_failed :: "'m mysql_lib \<Rightarrow> int \<Rightarrow> 'm \<Rightarrow> string" where
  "mysql_failed M executorNo m =
     ''MySQL init failed on executor worker # '' @ to_string executorNo @ '' :'' @ mysql_last_error M m"

text \<open>A failure is a line of the log and nothing else: the lines, and the state of the library.\<close>

definition initMySQL :: "'m mysql_lib \<Rightarrow> mysql_login \<Rightarrow> int \<Rightarrow> 'm \<Rightarrow> string list \<times> 'm" where
  "initMySQL M login executorNo m =
     (case mysql_init M m of
        (initialised, m1) \<Rightarrow>
          (case mysql_real_connect M (c_str (my_address login)) (c_str (my_userName login))
                  (c_str (my_password login)) (c_str (my_database login)) (my_port login) m1 of
             (connected, m2) \<Rightarrow>
               ((if \<not> initialised then [mysql_failed M executorNo m1] else []) @
                (if \<not> connected then [mysql_failed M executorNo m2] else []), m2)))"

section \<open>An executor thread\<close>

text \<open>The worker of the transport an executor replies through. The remainder is taken as an \<open>int\<close>.\<close>

definition replyWorker :: "uint16 \<Rightarrow> uint16 \<Rightarrow> uint16 result" where
  "replyWorker noDefinerThread threadNo =
     (if noDefinerThread = 0 then Inl DivisionByZero
      else Inr (word_of_nat (unat threadNo mod unat noDefinerThread)))"

definition executor_sockets :: "'z zmq_lib \<Rightarrow> uint16 \<Rightarrow> uint16 \<Rightarrow> 'z \<Rightarrow> (nat \<times> nat) result \<times> 'z" where
  "executor_sockets Z noDefinerThread threadNo w =
     bind_io (socket_new Z ZMQ_PULL w) (\<lambda>taskReceiverSocket w1.
     bind_io (socket_bind Z taskReceiverSocket (getSinkName EXECUTOR_SINK_NAME threadNo) w1) (\<lambda>_ w2.
     bind_io (socket_new Z ZMQ_PUSH w2) (\<lambda>taskSenderSocket w3.
     bind_io (replyWorker noDefinerThread threadNo, w3) (\<lambda>worker w4.
     bind_io (socket_connect Z taskSenderSocket (getSinkName SERVER_SINK_NAME worker) w4) (\<lambda>_ w5.
       (Inr (taskReceiverSocket, taskSenderSocket), w5))))))"

text \<open>
  The loop over the reads of \<open>_stopFlag\<close>. The exception of a round ends the thread; what that round had
  changed by then is not followed, nor that the thread's own sockets are closed.
\<close>

fun executor_loop ::
  "pb_lib \<Rightarrow> 'w ndb_api \<Rightarrow> 'z zmq_lib \<Rightarrow> nat \<Rightarrow> nat \<Rightarrow> bool list \<Rightarrow> task_heap \<times> 'w server \<times> 'z
   \<Rightarrow> thread_state \<times> task_heap \<times> 'w server \<times> 'z" where
  "executor_loop L A Z threadNo taskReceiverSocket [] st = (Running, st)"
| "executor_loop L A Z threadNo taskReceiverSocket (stopFlag # reads) st =
     (if stopFlag then (Stopped, st)
      else
        (case executor_round L A Z threadNo taskReceiverSocket st of
           None \<Rightarrow> (Hanging, st)
         | Some (Inl e) \<Rightarrow> (Ended e, st)
         | Some (Inr st1) \<Rightarrow> executor_loop L A Z threadNo taskReceiverSocket reads st1))"

text \<open>The thread function: what it logged about MySQL, whether it counted itself ready, and how it ended.\<close>

definition executorWorkerThreadFunc ::
  "pb_lib \<Rightarrow> 'w ndb_api \<Rightarrow> 'z zmq_lib \<Rightarrow> 'm mysql_lib \<Rightarrow> mysql_login \<Rightarrow> uint16 \<Rightarrow> uint16 \<Rightarrow> bool list
   \<Rightarrow> 'm \<Rightarrow> task_heap \<times> 'w server \<times> 'z
   \<Rightarrow> string list \<times> bool \<times> thread_state \<times> task_heap \<times> 'w server \<times> 'z" where
  "executorWorkerThreadFunc L A Z M login noDefinerThread threadNo reads m st =
     (case (initMySQL M login (uint threadNo) m, st) of
        ((logged, _), heap, s, w) \<Rightarrow>
          (case executor_sockets Z noDefinerThread threadNo w of
             (Inl e, w1) \<Rightarrow> (logged, False, Ended e, heap, s, w1)
           | (Inr (taskReceiverSocket, taskSenderSocket), w1) \<Rightarrow>
               (logged, True, executor_loop L A Z (unat threadNo) taskReceiverSocket reads (heap, s, w1))))"

section \<open>A definer thread\<close>

text \<open>
  Not started while \<open>_extraDefinerLayer\<close> is compiled out. \<open>poll\<close> is \<open>zmq::poll\<close> on the socket: whether
  \<open>ZMQ_POLLIN\<close> was raised, or an exception.
\<close>

definition DEFINER_SINK_NAME :: string where "DEFINER_SINK_NAME = ''inproc://definersink''"

definition definer_sockets ::
  "'z zmq_lib \<Rightarrow> uint16 \<Rightarrow> uint16 \<Rightarrow> uint16 \<Rightarrow> 'z \<Rightarrow> (nat \<times> nat list list) result \<times> 'z" where
  "definer_sockets Z noDefinerThread noExecutorThreads threadNo w =
     bind_io (socket_new Z ZMQ_PULL w) (\<lambda>taskReceiverSocket w1.
     bind_io (socket_bind Z taskReceiverSocket (getSinkName DEFINER_SINK_NAME threadNo) w1) (\<lambda>_ w2.
     bind_io (createExecutorTaskSenderSockets Z noDefinerThread noExecutorThreads w2) (\<lambda>taskSenderSockets w3.
       (Inr (taskReceiverSocket, taskSenderSockets), w3))))"

definition definer_round ::
  "pb_lib \<Rightarrow> 'z zmq_lib \<Rightarrow> (nat \<Rightarrow> 'z \<Rightarrow> bool result \<times> 'z) \<Rightarrow> (task_heap \<Rightarrow> nat option) \<Rightarrow> (nat \<Rightarrow> nat)
   \<Rightarrow> (executor_task_map \<Rightarrow> nat list) \<Rightarrow> uint16 \<Rightarrow> nat \<Rightarrow> nat list list \<Rightarrow> nat \<Rightarrow> task_heap \<times> 'z
   \<Rightarrow> (unit result \<times> task_heap \<times> 'z) option" where
  "definer_round L Z poll new_pointer rand order noExecutorThreads taskReceiverSocket taskSenderSockets threadNo s =
     (case s of (heap, w) \<Rightarrow>
        (case poll taskReceiverSocket w of
           (Inl e, w1) \<Rightarrow> Some (Inl e, heap, w1)
         | (Inr pollin, w1) \<Rightarrow>
             if pollin then
               (case receiveQueuedMessages Z taskReceiverSocket (-1) w1 of
                  None \<Rightarrow> None
                | Some (Inl e, w2) \<Rightarrow> Some (Inl e, heap, w2)
                | Some (Inr messages, w2) \<Rightarrow>
                    Some (processMessages L Z new_pointer rand order noExecutorThreads messages
                      taskSenderSockets threadNo (heap, w2)))
             else Some (Inr (), heap, w1)))"

fun definer_loop ::
  "(task_heap \<times> 'z \<Rightarrow> (unit result \<times> task_heap \<times> 'z) option) \<Rightarrow> bool list \<Rightarrow> task_heap \<times> 'z
   \<Rightarrow> thread_state \<times> task_heap \<times> 'z" where
  "definer_loop one_round [] s = (Running, s)"
| "definer_loop one_round (stopFlag # reads) s =
     (if stopFlag then (Stopped, s)
      else
        (case one_round s of
           None \<Rightarrow> (Hanging, s)
         | Some (Inl e, s1) \<Rightarrow> (Ended e, s1)
         | Some (Inr _, s1) \<Rightarrow> definer_loop one_round reads s1))"

definition definerWorkerThreadFunc ::
  "pb_lib \<Rightarrow> 'z zmq_lib \<Rightarrow> (nat \<Rightarrow> 'z \<Rightarrow> bool result \<times> 'z) \<Rightarrow> (task_heap \<Rightarrow> nat option) \<Rightarrow> (nat \<Rightarrow> nat)
   \<Rightarrow> (executor_task_map \<Rightarrow> nat list) \<Rightarrow> uint16 \<Rightarrow> uint16 \<Rightarrow> uint16 \<Rightarrow> bool list \<Rightarrow> task_heap \<times> 'z
   \<Rightarrow> thread_state \<times> task_heap \<times> 'z" where
  "definerWorkerThreadFunc L Z poll new_pointer rand order noDefinerThread noExecutorThreads threadNo reads s =
     (case s of (heap, w) \<Rightarrow>
        (case definer_sockets Z noDefinerThread noExecutorThreads threadNo w of
           (Inl e, w1) \<Rightarrow> (Ended e, heap, w1)
         | (Inr (taskReceiverSocket, taskSenderSockets), w1) \<Rightarrow>
             definer_loop
               (definer_round L Z poll new_pointer rand order noExecutorThreads taskReceiverSocket taskSenderSockets
                 (unat threadNo)) reads (heap, w1)))"

section \<open>The limiter of requests\<close>

definition resetTransactionMonitorCounterIfRequired :: "int \<Rightarrow> transaction_monitor \<Rightarrow> transaction_monitor" where
  "resetTransactionMonitorCounterIfRequired currentTime tm =
     (if currentTime > tm_lastFailedStart tm + 3 then
        tm\<lparr>tm_lastFailedStart := currentTime, tm_recent := 0, tm_recentFailed := 0\<rparr>
      else tm)"

text \<open>The quotient is an integer before it becomes a \<open>double\<close>. \<open>rand\<close> is the next random number.\<close>

definition percentFailed :: "transaction_monitor \<Rightarrow> int" where
  "percentFailed tm =
     (if sint (tm_recent tm) > 0 then sint (tm_recentFailed tm) sdiv sint (tm_recent tm) else 0)"

definition shouldIgnoreRequest :: "int \<Rightarrow> nat \<Rightarrow> transaction_monitor \<Rightarrow> bool \<times> transaction_monitor" where
  "shouldIgnoreRequest currentTime rand tm =
     (let tm1 = resetTransactionMonitorCounterIfRequired currentTime tm in
      (if percentFailed tm1 > 0 then int (rand mod 100) < percentFailed tm1 else False, tm1))"

lemma percentFailed_share:
  assumes "0 \<le> sint (tm_recentFailed tm)" "sint (tm_recentFailed tm) \<le> sint (tm_recent tm)"
  shows "percentFailed tm = (if 0 < sint (tm_recent tm) \<and> tm_recentFailed tm = tm_recent tm then 1 else 0)"
proof (cases "0 < sint (tm_recent tm)")
  case True
  show ?thesis
  proof (cases "tm_recentFailed tm = tm_recent tm")
    case True
    with \<open>0 < sint (tm_recent tm)\<close> show ?thesis
      by (simp add: percentFailed_def signed_divide_int_def)
  next
    case False
    then have "sint (tm_recentFailed tm) \<noteq> sint (tm_recent tm)" by (metis of_int_sint scast_id)
    with assms have "\<bar>sint (tm_recentFailed tm)\<bar> div \<bar>sint (tm_recent tm)\<bar> = 0" by simp
    with False show ?thesis
      by (auto simp: percentFailed_def signed_divide_int_def)
  qed
qed (simp add: percentFailed_def)

lemma not_recent: "tm_recent tm = 0 \<Longrightarrow> percentFailed tm = 0"
  by (simp add: percentFailed_def)

text \<open>
  As long as the failed transactions are among the counted ones, the limiter ignores a request
  only when every transaction since its last reset failed, and then only for one random number in a
  hundred: a share between 0 and 1 is compared as a percentage.
\<close>

lemma limiter_ignores_one_percent:
  assumes "0 \<le> sint (tm_recentFailed tm)" "sint (tm_recentFailed tm) \<le> sint (tm_recent tm)"
  shows "fst (shouldIgnoreRequest currentTime rand tm) \<longleftrightarrow>
    currentTime \<le> tm_lastFailedStart tm + 3 \<and> 0 < sint (tm_recent tm) \<and>
    tm_recentFailed tm = tm_recent tm \<and> rand mod 100 = 0"
  using percentFailed_share [OF assms]
  by (auto simp: shouldIgnoreRequest_def resetTransactionMonitorCounterIfRequired_def not_recent Let_def split: if_splits)

section \<open>Where an executor is reached and where it replies\<close>

lemma or_throw_Inr: "or_throw Z (ok, w) = (Inr (), w1) \<longleftrightarrow> ok \<and> w1 = w"
  by (auto simp: or_throw_def)

lemma socket_bind_Inr:
  "socket_bind Z sock addr w = (Inr u, w1) \<longleftrightarrow> zmq_bind Z sock (c_str addr) w = (True, w1)"
  by (cases "zmq_bind Z sock (c_str addr) w") (auto simp: socket_bind_def or_throw_def)

lemma socket_connect_Inr:
  "socket_connect Z sock addr w = (Inr u, w1) \<longleftrightarrow> zmq_connect Z sock (c_str addr) w = (True, w1)"
  by (cases "zmq_connect Z sock (c_str addr) w") (auto simp: socket_connect_def or_throw_def)

lemma bind_io_Inr: "bind_io r f = (Inr y, w1) \<longleftrightarrow> (\<exists>x w. r = (Inr x, w) \<and> f x w = (Inr y, w1))"
  by (cases r) (auto simp: bind_io_def split: sum.splits)

lemma of_nat_unat_mod: "word_of_nat (unat a mod unat b) = (a mod b :: 'a::len word)"
  by (metis unat_mod of_nat_unat ucast_id)

lemma replyWorker_Inr:
  assumes "replyWorker noDefinerThread threadNo = Inr worker"
  shows "noDefinerThread \<noteq> 0" "worker = threadNo mod noDefinerThread" "worker < noDefinerThread"
proof -
  from assms show nd: "noDefinerThread \<noteq> 0" by (simp add: replyWorker_def split: if_splits)
  with assms show worker: "worker = threadNo mod noDefinerThread"
    by (simp add: replyWorker_def of_nat_unat_mod)
  have "unat noDefinerThread > 0" using nd by (simp add: unat_gt_0)
  then show "worker < noDefinerThread" unfolding worker by (simp add: word_less_nat_alt unat_mod_distrib)
qed

lemma executor_sockets_Inr:
  assumes "executor_sockets Z noDefinerThread threadNo w = (Inr (receiver, sender), w5)"
  shows "\<exists>w1 w2 w4 worker. replyWorker noDefinerThread threadNo = Inr worker \<and>
    zmq_bind Z receiver (getSinkName EXECUTOR_SINK_NAME threadNo) w1 = (True, w2) \<and>
    zmq_connect Z sender (getSinkName SERVER_SINK_NAME worker) w4 = (True, w5)"
proof -
  have names: "c_str (getSinkName EXECUTOR_SINK_NAME i) = getSinkName EXECUTOR_SINK_NAME i"
    "c_str (getSinkName SERVER_SINK_NAME i) = getSinkName SERVER_SINK_NAME i" for i
    by (simp_all add: c_str_getSinkName EXECUTOR_SINK_NAME_def SERVER_SINK_NAME_def)
  from assms show ?thesis
    by (auto simp: executor_sockets_def bind_io_Inr socket_bind_Inr socket_connect_Inr names)
qed

lemma worker_sockets_Inr:
  assumes "worker_sockets Z threadNo w = (Inr (workerSocket, sinkSocket), w7)"
  shows "\<exists>w6. zmq_bind Z sinkSocket (getSinkName SERVER_SINK_NAME threadNo) w6 = (True, w7)"
  using assms c_str_getSinkName [of SERVER_SINK_NAME threadNo]
  by (auto simp: worker_sockets_def bind_io_Inr socket_bind_Inr SERVER_SINK_NAME_def)

text \<open>
  An executor thread that comes up has bound the endpoint named after its number and connected to
  the endpoint of one worker below the number of workers, a name no other worker binds and which that
  worker binds when it comes up. So without workers no executor comes up: the remainder divides by zero.
\<close>

lemma executor_endpoints:
  assumes "executor_sockets Z noDefinerThread threadNo w = (Inr (receiver, sender), w5)"
  shows "\<exists>worker < noDefinerThread.
    (\<exists>w1 w2. zmq_bind Z receiver (getSinkName EXECUTOR_SINK_NAME threadNo) w1 = (True, w2)) \<and>
    (\<exists>w4. zmq_connect Z sender (getSinkName SERVER_SINK_NAME worker) w4 = (True, w5)) \<and>
    (\<forall>other. getSinkName SERVER_SINK_NAME other = getSinkName SERVER_SINK_NAME worker \<longrightarrow> other = worker) \<and>
    (\<forall>v workerSocket sinkSocket v7. worker_sockets Z worker v = (Inr (workerSocket, sinkSocket), v7) \<longrightarrow>
      (\<exists>v6. zmq_bind Z sinkSocket (getSinkName SERVER_SINK_NAME worker) v6 = (True, v7)))"
proof -
  from executor_sockets_Inr [OF assms] obtain w1 w2 w4 worker where
    "replyWorker noDefinerThread threadNo = Inr worker"
    "zmq_bind Z receiver (getSinkName EXECUTOR_SINK_NAME threadNo) w1 = (True, w2)"
    "zmq_connect Z sender (getSinkName SERVER_SINK_NAME worker) w4 = (True, w5)"
    by blast
  with replyWorker_Inr(3) [of noDefinerThread threadNo worker] show ?thesis
    by (intro exI [of _ worker]) (auto simp: getSinkName_inject intro: worker_sockets_Inr)
qed

lemma executor_endpoints_witness:
  "\<exists>worker::uint16. worker < 3 \<and>
    (\<exists>w1 w2. zmq_bind ref_zmq_lib 2 (getSinkName EXECUTOR_SINK_NAME 7) w1 = (True, w2)) \<and>
    (\<exists>w4. zmq_connect ref_zmq_lib 3 (getSinkName SERVER_SINK_NAME worker) w4 =
      (True, sample_sockets\<lparr>rz_fresh := 4\<rparr>))"
proof -
  have "executor_sockets ref_zmq_lib 3 7 sample_sockets = (Inr (2, 3), sample_sockets\<lparr>rz_fresh := 4\<rparr>)"
    by (simp add: executor_sockets_def socket_new_def socket_bind_def socket_connect_def or_throw_def
        replyWorker_def sample_sockets_def)
  from executor_endpoints [OF this] show ?thesis by blast
qed

end
