(* ===== verification/StoreStartUp.thy ===== *)
theory StoreStartUp
  imports Prelude
begin

text \<open>
  The wait of \<open>Store::run\<close> for its executor threads: \<open>waitForExecutorsToInitialize\<close> in the main
  thread against \<open>addExecutorInitializationCount\<close> in each executor (\<open>volodbserver/Store/Store.cpp\<close>).
  Both hold the mutex from one step to the next, and waiting on the condition variable gives it up,
  so each rule is one critical section. A thread whose start-up throws ends without counting.
\<close>

datatype main_phase =
    Checking
  | Waiting
  | Proceeding

datatype executor_phase =
    Starting
  | Counted
  | Failed

record start_up =
  su_main :: main_phase
  su_count :: nat
  su_executors :: "executor_phase list"

definition start_up_begin :: "nat \<Rightarrow> start_up" where
  "start_up_begin n = \<lparr>su_main = Checking, su_count = 0, su_executors = replicate n Starting\<rparr>"

text \<open>\<open>notify_all\<close> lets a waiting main thread look again; so may the condition variable by itself.\<close>

definition notify_all :: "main_phase \<Rightarrow> main_phase" where
  "notify_all m = (if m = Waiting then Checking else m)"

definition wait_check :: "start_up \<Rightarrow> start_up" where
  "wait_check s = s\<lparr>su_main := (if su_count s < length (su_executors s) then Waiting else Proceeding)\<rparr>"

definition addExecutorInitializationCount :: "nat \<Rightarrow> start_up \<Rightarrow> start_up" where
  "addExecutorInitializationCount i s =
     s\<lparr>su_count := su_count s + 1, su_main := notify_all (su_main s),
       su_executors := (su_executors s)[i := Counted]\<rparr>"

inductive start_up_step :: "start_up \<Rightarrow> start_up \<Rightarrow> bool" where
  check: "su_main s = Checking \<Longrightarrow> start_up_step s (wait_check s)"
| spurious: "su_main s = Waiting \<Longrightarrow> start_up_step s (s\<lparr>su_main := Checking\<rparr>)"
| counted: "i < length (su_executors s) \<Longrightarrow> su_executors s ! i = Starting \<Longrightarrow>
    start_up_step s (addExecutorInitializationCount i s)"
| failed: "i < length (su_executors s) \<Longrightarrow> su_executors s ! i = Starting \<Longrightarrow>
    start_up_step s (s\<lparr>su_executors := (su_executors s)[i := Failed]\<rparr>)"

inductive_cases start_up_stepE: "start_up_step s t"

section \<open>The invariant\<close>

definition counted_executors :: "start_up \<Rightarrow> nat" where
  "counted_executors s = length (filter (\<lambda>e. e = Counted) (su_executors s))"

definition start_up_inv :: "nat \<Rightarrow> start_up \<Rightarrow> bool" where
  "start_up_inv n s \<longleftrightarrow> length (su_executors s) = n \<and> su_count s = counted_executors s \<and>
     (su_main s = Waiting \<longrightarrow> su_count s < n) \<and> (su_main s = Proceeding \<longrightarrow> su_count s = n)"

lemma filter_update:
  assumes "i < length xs" "\<not> P (xs ! i)"
  shows "length (filter P (xs[i := x])) = length (filter P xs) + (if P x then 1 else 0)"
  using assms by (induction xs arbitrary: i) (auto split: nat.split simp: nth_Cons)

lemma counted_bound: "counted_executors s \<le> length (su_executors s)"
  by (simp add: counted_executors_def)

lemma start_up_begin_inv: "start_up_inv n (start_up_begin n)"
  by (simp add: start_up_inv_def start_up_begin_def counted_executors_def)

lemma start_up_step_inv:
  assumes "start_up_step s t" "start_up_inv n s"
  shows "start_up_inv n t"
  using assms
proof (induction rule: start_up_step.induct)
  case (check s)
  then show ?case using counted_bound [of s] by (auto simp: start_up_inv_def wait_check_def counted_executors_def)
next
  case (spurious s)
  then show ?case by (simp add: start_up_inv_def counted_executors_def)
next
  case (counted i s)
  let ?t = "addExecutorInitializationCount i s"
  have count: "counted_executors ?t = counted_executors s + 1"
    using counted filter_update [of i "su_executors s" "\<lambda>e. e = Counted" Counted]
    by (simp add: counted_executors_def addExecutorInitializationCount_def)
  from counted_bound [of ?t] count counted show ?case
    by (auto simp: start_up_inv_def addExecutorInitializationCount_def notify_all_def split: if_splits)
next
  case (failed i s)
  then show ?case
    using filter_update [of i "su_executors s" "\<lambda>e. e = Counted" Failed]
    by (auto simp: start_up_inv_def counted_executors_def)
qed

lemma start_up_reachable_inv: "start_up_step\<^sup>*\<^sup>* (start_up_begin n) s \<Longrightarrow> start_up_inv n s"
  by (induction rule: rtranclp_induct) (auto intro: start_up_begin_inv start_up_step_inv)

lemma all_counted: "counted_executors s = length (su_executors s) \<longleftrightarrow> (\<forall>e \<in> set (su_executors s). e = Counted)"
proof
  assume all: "counted_executors s = length (su_executors s)"
  show "\<forall>e \<in> set (su_executors s). e = Counted"
  proof (rule ccontr)
    assume "\<not> (\<forall>e \<in> set (su_executors s). e = Counted)"
    then obtain e where "e \<in> set (su_executors s)" "e \<noteq> Counted" by blast
    then have "length (filter (\<lambda>e. e = Counted) (su_executors s)) < length (su_executors s)"
      by (rule length_filter_less)
    with all show False by (simp add: counted_executors_def)
  qed
qed (simp add: counted_executors_def)

lemma failed_stays: "start_up_step\<^sup>*\<^sup>* s t \<Longrightarrow> Failed \<in> set (su_executors s) \<Longrightarrow> Failed \<in> set (su_executors t)"
proof (induction rule: rtranclp_induct)
  case (step t u)
  then obtain j where j: "j < length (su_executors t)" "su_executors t ! j = Failed" by (auto simp: in_set_conv_nth)
  from step.hyps(2) show ?case
  proof cases
    case (counted i)
    with j have "i \<noteq> j" by auto
    with j counted show ?thesis by (auto simp: addExecutorInitializationCount_def in_set_conv_nth intro!: exI [of _ j])
  next
    case (failed i)
    with j have "i \<noteq> j" by auto
    with j failed show ?thesis by (auto simp: in_set_conv_nth intro!: exI [of _ j])
  qed (use step in \<open>auto simp: wait_check_def\<close>)
qed simp

text \<open>
  C16: \<open>run\<close> only gets past its wait when every executor thread has counted itself ready, and it is
  never left waiting when they all have: no wake-up is lost.
\<close>

theorem wait_for_all_executors:
  assumes "start_up_step\<^sup>*\<^sup>* (start_up_begin n) s"
  shows "(su_main s = Proceeding \<longrightarrow> (\<forall>e \<in> set (su_executors s). e = Counted)) \<and>
    (su_main s = Waiting \<longrightarrow> (\<exists>e \<in> set (su_executors s). e \<noteq> Counted)) \<and>
    su_count s = counted_executors s"
  using start_up_reachable_inv [OF assms] all_counted [of s] by (auto simp: start_up_inv_def)

definition sample_started :: start_up where
  "sample_started = \<lparr>su_main = Proceeding, su_count = 1, su_executors = [Counted]\<rparr>"

lemma sample_started_reachable: "start_up_step\<^sup>*\<^sup>* (start_up_begin 1) sample_started"
proof -
  let ?waiting = "wait_check (start_up_begin 1)"
  let ?counted = "addExecutorInitializationCount 0 ?waiting"
  have "start_up_step (start_up_begin 1) ?waiting" by (rule start_up_step.check) (simp add: start_up_begin_def)
  moreover have "start_up_step ?waiting ?counted"
    by (rule start_up_step.counted) (simp_all add: start_up_begin_def wait_check_def)
  moreover have "start_up_step ?counted (wait_check ?counted)"
    by (rule start_up_step.check)
      (simp add: start_up_begin_def wait_check_def addExecutorInitializationCount_def notify_all_def)
  moreover have "wait_check ?counted = sample_started"
    by (simp add: sample_started_def start_up_begin_def wait_check_def addExecutorInitializationCount_def)
  ultimately show ?thesis by (metis converse_rtranclp_into_rtranclp rtranclp.rtrancl_refl)
qed

theorem wait_for_all_executors_witness:
  "su_executors sample_started ! 0 = Counted \<and> su_count sample_started = counted_executors sample_started"
  using wait_for_all_executors [OF sample_started_reachable] by (simp add: sample_started_def)

lemma failed_blocks:
  assumes "start_up_step\<^sup>*\<^sup>* (start_up_begin n) s" "Failed \<in> set (su_executors s)" "start_up_step\<^sup>*\<^sup>* s t"
  shows "su_main t \<noteq> Proceeding"
proof
  assume "su_main t = Proceeding"
  moreover from assms(1,3) have "start_up_step\<^sup>*\<^sup>* (start_up_begin n) t" by simp
  ultimately have "\<forall>e \<in> set (su_executors t). e = Counted"
    using start_up_reachable_inv [of n t] all_counted [of t] by (auto simp: start_up_inv_def)
  with failed_stays [OF assms(3,2)] show False by blast
qed

section \<open>Start-up can finish\<close>

lemma counted_step:
  assumes "Failed \<notin> set (su_executors s)" "counted_executors s < length (su_executors s)"
  obtains i where "start_up_step s (addExecutorInitializationCount i s)"
    "Failed \<notin> set (su_executors (addExecutorInitializationCount i s))"
    "su_count (addExecutorInitializationCount i s) = su_count s + 1"
proof -
  from assms(2) all_counted [of s] obtain e where e: "e \<in> set (su_executors s)" "e \<noteq> Counted" by auto
  with assms(1) have "e = Starting" by (cases e) auto
  with e(1) obtain i where i: "i < length (su_executors s)" "su_executors s ! i = Starting"
    by (auto simp: in_set_conv_nth)
  have "set ((su_executors s)[i := Counted]) \<subseteq> insert Counted (set (su_executors s))"
    by (rule set_update_subset_insert)
  with assms(1) have "Failed \<notin> set ((su_executors s)[i := Counted])" by auto
  with start_up_step.counted [OF i] show thesis
    by (intro that [of i]) (simp_all add: addExecutorInitializationCount_def)
qed

lemma proceeds_when_all_counted:
  assumes "start_up_inv n s" "su_count s = n"
  shows "\<exists>t. start_up_step\<^sup>*\<^sup>* s t \<and> su_main t = Proceeding"
proof (cases "su_main s")
  case Checking
  then have "start_up_step\<^sup>*\<^sup>* s (wait_check s)" by (intro r_into_rtranclp start_up_step.check)
  moreover from assms have "su_main (wait_check s) = Proceeding" by (simp add: wait_check_def start_up_inv_def)
  ultimately show ?thesis by blast
next
  case Waiting
  with assms show ?thesis by (simp add: start_up_inv_def)
qed auto

lemma can_proceed:
  assumes "start_up_inv n s" "Failed \<notin> set (su_executors s)"
  shows "\<exists>t. start_up_step\<^sup>*\<^sup>* s t \<and> su_main t = Proceeding"
  using assms
proof (induction "n - su_count s" arbitrary: s rule: less_induct)
  case less
  from less.prems(1) counted_bound [of s] have bound: "su_count s \<le> n" by (simp add: start_up_inv_def)
  show ?case
  proof (cases "su_count s = n")
    case True
    with less.prems(1) show ?thesis by (rule proceeds_when_all_counted)
  next
    case False
    with bound less.prems(1) have "counted_executors s < length (su_executors s)" by (simp add: start_up_inv_def)
    with less.prems(2) obtain i where i: "start_up_step s (addExecutorInitializationCount i s)"
      "Failed \<notin> set (su_executors (addExecutorInitializationCount i s))"
      "su_count (addExecutorInitializationCount i s) = su_count s + 1"
      by (rule counted_step)
    have "n - su_count (addExecutorInitializationCount i s) < n - su_count s" using False bound i(3) by simp
    from less.hyps [OF this start_up_step_inv [OF i(1) less.prems(1)] i(2)] obtain t
      where "start_up_step\<^sup>*\<^sup>* (addExecutorInitializationCount i s) t" "su_main t = Proceeding" by blast
    with i(1) show ?thesis by (blast intro: converse_rtranclp_into_rtranclp)
  qed
qed

text \<open>
  C15: from any state of the start-up, \<open>run\<close> can still get past its wait exactly if no executor thread
  has ended before counting itself: one that failed blocks it for ever, whatever the others do.
\<close>

theorem run_proceeds_iff:
  assumes "start_up_step\<^sup>*\<^sup>* (start_up_begin n) s"
  shows "(\<exists>t. start_up_step\<^sup>*\<^sup>* s t \<and> su_main t = Proceeding) \<longleftrightarrow> Failed \<notin> set (su_executors s)"
  using failed_blocks [OF assms] can_proceed [OF start_up_reachable_inv [OF assms]] by blast

theorem run_proceeds_iff_witness:
  "\<not> (\<exists>t. start_up_step\<^sup>*\<^sup>* ((start_up_begin 2)\<lparr>su_executors := [Failed, Starting]\<rparr>) t \<and> su_main t = Proceeding)"
proof -
  have "start_up_step (start_up_begin 2) ((start_up_begin 2)\<lparr>su_executors := (su_executors (start_up_begin 2))[0 := Failed]\<rparr>)"
    by (rule start_up_step.failed) (simp_all add: start_up_begin_def)
  then have "start_up_step\<^sup>*\<^sup>* (start_up_begin 2) ((start_up_begin 2)\<lparr>su_executors := [Failed, Starting]\<rparr>)"
    by (simp add: start_up_begin_def r_into_rtranclp numeral_2_eq_2)
  from run_proceeds_iff [OF this] show ?thesis by simp
qed

end
