(* ===== verification/StoreServing.thy ===== *)
theory StoreServing
  imports StoreStartUp
begin

text \<open>
  Requests during the start of a server. \<open>Store::run\<close> opens the transport and starts the executor
  threads before it waits for them and lets \<open>_initDB\<close> connect to the cluster; only then
  \<open>NDBMessageExecutor::initialize\<close> stores the arrays of \<open>Ndb\<close> objects and MySQL connections in the static
  members every execution reads through (\<open>volodbserver/Store/Store.cpp\<close>). An executor takes requests from
  the moment it has counted itself.
\<close>

section \<open>The steps\<close>

text \<open>\<open>sg_executed\<close> are the executors that executed a task in order, each with whether the arrays were there.\<close>

record serving =
  sg_startUp :: start_up
  sg_handles :: bool
  sg_executed :: "(nat \<times> bool) list"

definition serving_begin :: "nat \<Rightarrow> serving" where
  "serving_begin n = \<lparr>sg_startUp = start_up_begin n, sg_handles = False, sg_executed = []\<rparr>"

definition executes_task :: "nat \<Rightarrow> serving \<Rightarrow> serving" where
  "executes_task i s = s\<lparr>sg_executed := sg_executed s @ [(i, sg_handles s)]\<rparr>"

inductive serving_step :: "serving \<Rightarrow> serving \<Rightarrow> bool" where
  comes_up: "start_up_step (sg_startUp s) u \<Longrightarrow> serving_step s (s\<lparr>sg_startUp := u\<rparr>)"
| initDB: "su_main (sg_startUp s) = Proceeding \<Longrightarrow> serving_step s (s\<lparr>sg_handles := True\<rparr>)"
| executed: "i < length (su_executors (sg_startUp s)) \<Longrightarrow> su_executors (sg_startUp s) ! i = Counted \<Longrightarrow>
    serving_step s (executes_task i s)"

inductive_cases serving_stepE: "serving_step s t"

section \<open>What is executed with and without a connection\<close>

lemma serving_comes_up:
  "start_up_step\<^sup>*\<^sup>* (sg_startUp s) u \<Longrightarrow> serving_step\<^sup>*\<^sup>* s (s\<lparr>sg_startUp := u\<rparr>)"
proof (induction rule: rtranclp_induct)
  case (step u v)
  have "serving_step (s\<lparr>sg_startUp := u\<rparr>) (s\<lparr>sg_startUp := u\<rparr>\<lparr>sg_startUp := v\<rparr>)"
    by (rule comes_up) (simp add: step.hyps(2))
  with step.IH show ?case by (simp add: rtranclp.rtrancl_into_rtrancl)
qed simp

text \<open>Every executor can be given a task before the arrays are there: it then reads through a null pointer.\<close>

lemma executes_without_handles:
  assumes "i < n"
  shows "\<exists>s. serving_step\<^sup>*\<^sup>* (serving_begin n) s \<and> sg_executed s = [(i, False)]"
proof -
  let ?u = "addExecutorInitializationCount i (start_up_begin n)"
  let ?s = "(serving_begin n)\<lparr>sg_startUp := ?u\<rparr>"
  have "serving_step (serving_begin n) ?s"
    by (rule comes_up) (use assms in \<open>simp add: serving_begin_def start_up_begin_def start_up_step.counted\<close>)
  moreover have "serving_step ?s (executes_task i ?s)"
    by (rule executed)
      (use assms in \<open>simp_all add: serving_begin_def start_up_begin_def addExecutorInitializationCount_def\<close>)
  ultimately have "serving_step\<^sup>*\<^sup>* (serving_begin n) (executes_task i ?s)" by (meson converse_rtranclp_into_rtranclp rtranclp.rtrancl_refl)
  then show ?thesis by (force simp: executes_task_def serving_begin_def)
qed

text \<open>Once they are there, all executors have counted themselves and every further task finds them.\<close>

lemma handles_stay:
  assumes "serving_step\<^sup>*\<^sup>* s t" "sg_handles s"
  shows "sg_handles t \<and> (\<exists>tasks. sg_executed t = sg_executed s @ tasks \<and> list_all snd tasks)"
  using assms
proof (induction rule: rtranclp_induct)
  case (step t u)
  then obtain tasks where t: "sg_handles t" "sg_executed t = sg_executed s @ tasks" "list_all snd tasks" by blast
  from step.hyps(2) show ?case
  proof cases
    case (executed i)
    with t show ?thesis by (auto simp: executes_task_def intro!: exI [of _ "tasks @ [(i, True)]"])
  qed (use t in auto)
qed simp

lemma start_up_while_serving: "serving_step\<^sup>*\<^sup>* (serving_begin n) s \<Longrightarrow> start_up_step\<^sup>*\<^sup>* (start_up_begin n) (sg_startUp s)"
proof (induction rule: rtranclp_induct)
  case base
  then show ?case by (simp add: serving_begin_def)
next
  case (step s t)
  from step.hyps(2) show ?case
    by cases (use step.IH in \<open>auto simp: executes_task_def intro: rtranclp.rtrancl_into_rtrancl\<close>)
qed

lemma proceeding_stays: "start_up_step u v \<Longrightarrow> su_main u = Proceeding \<Longrightarrow> start_up_inv n u \<Longrightarrow> su_main v = Proceeding"
proof (induction rule: start_up_step.induct)
  case (counted i s)
  then show ?case by (simp add: addExecutorInitializationCount_def notify_all_def)
qed simp_all

lemma handles_after_wait:
  assumes "serving_step\<^sup>*\<^sup>* (serving_begin n) s" "sg_handles s"
  shows "su_main (sg_startUp s) = Proceeding"
  using assms
proof (induction rule: rtranclp_induct)
  case base
  then show ?case by (simp add: serving_begin_def)
next
  case (step s t)
  from step.hyps(2) show ?case
  proof cases
    case (comes_up u)
    with step proceeding_stays [OF _ _ start_up_reachable_inv [OF start_up_while_serving [OF step.hyps(1)]]] show ?thesis by simp
  next
    case initDB
    then show ?thesis by simp
  next
    case (executed i)
    with step show ?thesis by (simp add: executes_task_def)
  qed
qed

lemma handles_after_all_executors:
  assumes "serving_step\<^sup>*\<^sup>* (serving_begin n) s" "sg_handles s"
  shows "su_executors (sg_startUp s) = replicate n Counted"
proof -
  note inv = start_up_reachable_inv [OF start_up_while_serving [OF assms(1)]]
  with handles_after_wait [OF assms] have "counted_executors (sg_startUp s) = length (su_executors (sg_startUp s))"
    by (simp add: start_up_inv_def)
  with inv show ?thesis unfolding all_counted start_up_inv_def by (metis replicate_length_same)
qed

end
