(* ===== verification/StoreLife.thy ===== *)
theory StoreLife
  imports ServerTransport StoreTasks
begin

text \<open>
  The life of a \<open>Store\<close> (\<open>volodbserver/Store/Store.cpp\<close>): its construction, the start of its threads,
  the wait until every executor is ready, the connection to the cluster, stopping and destruction.
  The threads \<open>run\<close> starts and its wait for them are a step relation of their own; \<open>run\<close> itself is
  told which executors come up.
\<close>

section \<open>The store and its construction\<close>

text \<open>
  \<open>_ndbDefiners\<close> and \<open>_ndbExecutors\<close> are arrays of \<open>Ndb\<close> objects or null; of each object the model keeps
  the number of the cluster connection it was made on.
\<close>

record store =
  sto_noDefinerThread :: uint16
  sto_noExecutorThreads :: uint16
  sto_totalClusterConnections :: nat
  sto_serverTransport :: "server_transport option"
  sto_isRunning :: bool
  sto_stopFlag :: bool
  sto_currentExecutorInitCount :: nat
  sto_taskSenderSockets :: "nat list list"
  sto_definerThreads :: "uint16 list"
  sto_executorThreads :: "uint16 list"
  sto_clusterConnections :: nat
  sto_ndbDefiners :: "nat list option"
  sto_ndbExecutors :: "nat list option"

definition Store_new :: "uint16 \<Rightarrow> uint16 \<Rightarrow> bool \<Rightarrow> store" where
  "Store_new noDefinerThread noExecutorThreads singleClusterConnection =
     \<lparr>sto_noDefinerThread = noDefinerThread, sto_noExecutorThreads = noExecutorThreads,
      sto_totalClusterConnections = (if singleClusterConnection then 1 else unat noExecutorThreads),
      sto_serverTransport = Some (ServerTransport_new noDefinerThread), sto_isRunning = False,
      sto_stopFlag = False, sto_currentExecutorInitCount = 0, sto_taskSenderSockets = [],
      sto_definerThreads = [], sto_executorThreads = [], sto_clusterConnections = 0,
      sto_ndbDefiners = None, sto_ndbExecutors = None\<rparr>"

section \<open>The cluster\<close>

text \<open>\<open>ready i\<close> is whether the \<open>i\<close>-th \<open>Ndb\<close> object is ready in time; otherwise the process exits.\<close>

fun initNDB_loop :: "(nat \<Rightarrow> bool) \<Rightarrow> nat \<Rightarrow> nat list \<Rightarrow> nat list result" where
  "initNDB_loop ready totalClusterConnections [] = Inr []"
| "initNDB_loop ready totalClusterConnections (i # rest) =
     (let connection = (if i < totalClusterConnections then i else 0) in
      if \<not> ready i then Inl ProcessExit
      else bind_result (initNDB_loop ready totalClusterConnections rest) (\<lambda>ndb. Inr (connection # ndb)))"

definition initNDB :: "(nat \<Rightarrow> bool) \<Rightarrow> nat \<Rightarrow> nat \<Rightarrow> nat list result" where
  "initNDB ready totalClusterConnections n = initNDB_loop ready totalClusterConnections [0..<n]"

fun connectAll :: "(nat \<Rightarrow> bool) \<Rightarrow> nat list \<Rightarrow> unit result" where
  "connectAll connects [] = Inr ()"
| "connectAll connects (i # rest) = (if \<not> connects i then Inl ProcessExit else connectAll connects rest)"

definition initDB :: "(nat \<Rightarrow> bool) \<Rightarrow> (nat \<Rightarrow> bool) \<Rightarrow> store \<Rightarrow> store result" where
  "initDB connects ready st =
     (let st1 = st\<lparr>sto_clusterConnections := sto_totalClusterConnections st\<rparr> in
      bind_result (connectAll connects [0..<sto_totalClusterConnections st1]) (\<lambda>_.
      bind_result (initNDB ready (sto_totalClusterConnections st1) (unat (sto_noExecutorThreads st1))) (\<lambda>ndb.
        Inr (st1\<lparr>sto_ndbExecutors := Some ndb\<rparr>))))"

section \<open>Running and stopping\<close>

text \<open>
  \<open>comesUp i\<close> is whether the thread of executor \<open>i\<close> reaches \<open>addExecutorInitializationCount\<close>. The wait
  ends when the count has reached the number of threads, and never if it does not (\<open>None\<close>).
\<close>

definition waitForExecutors :: "(nat \<Rightarrow> bool) \<Rightarrow> store \<Rightarrow> store option" where
  "waitForExecutors comesUp st =
     (let n = unat (sto_noExecutorThreads st);
          st1 = st\<lparr>sto_currentExecutorInitCount :=
            sto_currentExecutorInitCount st + length (filter comesUp [0..<n])\<rparr>
      in if sto_currentExecutorInitCount st1 < n then None else Some st1)"

definition store_run ::
  "'z zmq_lib \<Rightarrow> (nat \<Rightarrow> bool) \<Rightarrow> (nat \<Rightarrow> bool) \<Rightarrow> (nat \<Rightarrow> bool) \<Rightarrow> store \<times> 'z \<Rightarrow> (store \<times> 'z) run" where
  "store_run Z connects ready comesUp s =
     (case s of (st, w) \<Rightarrow>
        if \<not> sto_isRunning st then
          (case sto_serverTransport st of
             None \<Rightarrow> Some (Inl NullDereference)
           | Some serverTransport \<Rightarrow>
               (case createExecutorTaskSenderSockets Z (sto_noDefinerThread st) (sto_noExecutorThreads st) w of
                  (Inl e, w1) \<Rightarrow> Some (Inl e)
                | (Inr sockets, w1) \<Rightarrow>
                    (let st1 = st\<lparr>sto_taskSenderSockets := sockets,
                           sto_serverTransport := Some (transport_start serverTransport),
                           sto_executorThreads := sto_executorThreads st @
                             map word_of_nat [0..<unat (sto_noExecutorThreads st)]\<rparr>
                     in case waitForExecutors comesUp st1 of
                          None \<Rightarrow> None
                        | Some st2 \<Rightarrow>
                            (case initDB connects ready st2 of
                               Inl e \<Rightarrow> Some (Inl e)
                             | Inr st3 \<Rightarrow> Some (Inr (st3\<lparr>sto_isRunning := True\<rparr>, w1))))))
        else Some (Inr (st, w)))"

text \<open>
  The vector of threads is passed by value: the threads it joins, and what is left of its own copy.
  Clearing that does not reach the member.
\<close>

definition stopWorkerThreads :: "uint16 list \<Rightarrow> uint16 list \<times> uint16 list" where
  "stopWorkerThreads workerThreads = (workerThreads, [])"

definition store_cleanUp :: "store \<Rightarrow> store result" where
  "store_cleanUp st =
     (let st1 = st\<lparr>sto_stopFlag := True\<rparr>;
          (joinedDefiners, _) = stopWorkerThreads (sto_definerThreads st1);
          (joinedExecutors, _) = stopWorkerThreads (sto_executorThreads st1);
          st2 = st1\<lparr>sto_stopFlag := False, sto_taskSenderSockets := []\<rparr>
      in case sto_serverTransport st2 of
           None \<Rightarrow> Inr st2
         | Some serverTransport \<Rightarrow>
             bind_result (ServerTransport_destroy serverTransport)
               (\<lambda>_. Inr (st2\<lparr>sto_serverTransport := None\<rparr>)))"

definition store_stop :: "store \<Rightarrow> store result" where
  "store_stop st =
     (if sto_isRunning st then bind_result (store_cleanUp st) (\<lambda>st1. Inr (st1\<lparr>sto_isRunning := False\<rparr>))
      else Inr st)"

text \<open>\<open>delete ndb.get()[i]\<close> for every \<open>i\<close> below the total, through a pointer that may be null.\<close>

definition clearNDb :: "nat list option \<Rightarrow> nat \<Rightarrow> unit result" where
  "clearNDb ndb n =
     (if n = 0 then Inr ()
      else case ndb of
             None \<Rightarrow> Inl NullDereference
           | Some xs \<Rightarrow> if n \<le> length xs then Inr () else Inl IndexOutOfRange)"

definition Store_destroy :: "store \<Rightarrow> unit result" where
  "Store_destroy st =
     bind_result (store_stop st) (\<lambda>st1.
     bind_result (clearNDb (sto_ndbDefiners st1) (unat (sto_noDefinerThread st1))) (\<lambda>_.
       clearNDb (sto_ndbExecutors st1) (unat (sto_noExecutorThreads st1))))"

section \<open>Properties of the life cycle\<close>

lemma initNDB_loop_connections:
  "initNDB_loop ready c is = Inr ndb \<Longrightarrow> ndb = map (\<lambda>i. if i < c then i else 0) is"
  by (induction "is" arbitrary: ndb) (auto simp: Let_def bind_result_Inr_iff split: if_splits)

lemma store_run_started:
  assumes "store_run Z connects ready comesUp (Store_new nd ne single, w) = Some (Inr (st, w1))"
  shows "sto_isRunning st" "sto_serverTransport st = Some (transport_start (ServerTransport_new nd))"
    "sto_noDefinerThread st = nd" "sto_noExecutorThreads st = ne" "sto_ndbDefiners st = None"
    "sto_ndbExecutors st = Some (map (\<lambda>i. if single then 0 else i) [0..<unat ne])"
    "sto_clusterConnections st = (if single then 1 else unat ne)"
    "sto_executorThreads st = map word_of_nat [0..<unat ne]"
    "\<forall>i < unat ne. comesUp i"
proof -
  from assms obtain sockets where sockets: "createExecutorTaskSenderSockets Z nd ne w = (Inr sockets, w1)"
    by (auto simp: store_run_def Store_new_def Let_def split: prod.splits sum.splits option.splits)
  with assms obtain st2 st3 where wait: "waitForExecutors comesUp ((Store_new nd ne single)\<lparr>sto_taskSenderSockets := sockets,
        sto_serverTransport := Some (transport_start (ServerTransport_new nd)),
        sto_executorThreads := map word_of_nat [0..<unat ne]\<rparr>) = Some st2"
    and db: "initDB connects ready st2 = Inr st3" and st: "st = st3\<lparr>sto_isRunning := True\<rparr>"
    by (auto simp: store_run_def Store_new_def Let_def split: sum.splits option.splits)
  from wait have st2: "st2 = (Store_new nd ne single)\<lparr>sto_taskSenderSockets := sockets,
        sto_serverTransport := Some (transport_start (ServerTransport_new nd)),
        sto_executorThreads := map word_of_nat [0..<unat ne],
        sto_currentExecutorInitCount := length (filter comesUp [0..<unat ne])\<rparr>"
    and all: "unat ne \<le> length (filter comesUp [0..<unat ne])"
    by (auto simp: waitForExecutors_def Store_new_def Let_def split: if_splits)
  from db obtain ndb where ndb: "initNDB ready (sto_totalClusterConnections st2) (unat ne) = Inr ndb"
    and st3: "st3 = st2\<lparr>sto_clusterConnections := sto_totalClusterConnections st2, sto_ndbExecutors := Some ndb\<rparr>"
    by (auto simp: initDB_def st2 Store_new_def Let_def bind_result_Inr_iff)
  have "ndb = map (\<lambda>i. if single then 0 else i) [0..<unat ne]"
    using initNDB_loop_connections [OF ndb [unfolded initNDB_def]] by (auto simp: st2 Store_new_def)
  then show "sto_isRunning st" "sto_serverTransport st = Some (transport_start (ServerTransport_new nd))"
    "sto_noDefinerThread st = nd" "sto_noExecutorThreads st = ne" "sto_ndbDefiners st = None"
    "sto_ndbExecutors st = Some (map (\<lambda>i. if single then 0 else i) [0..<unat ne])"
    "sto_clusterConnections st = (if single then 1 else unat ne)"
    "sto_executorThreads st = map word_of_nat [0..<unat ne]"
    by (simp_all add: st st3 st2 Store_new_def)
  show "\<forall>i < unat ne. comesUp i"
  proof (intro allI impI, rule ccontr)
    fix i assume "i < unat ne" "\<not> comesUp i"
    then have "length (filter comesUp [0..<unat ne]) < length [0..<unat ne]" by (intro length_filter_less [of i]) simp_all
    with all show False by simp
  qed
qed

text \<open>
  C29: a store that has started has one \<open>Ndb\<close> object per executor, each on a cluster connection that
  exists: the first one for all with a single connection, otherwise its own; and it has only started
  if every executor came up.
\<close>

theorem started_store_connected:
  assumes "store_run Z connects ready comesUp (Store_new nd ne single, w) = Some (Inr (st, w1))"
  shows "\<exists>ndb. sto_ndbExecutors st = Some ndb \<and> length ndb = unat ne \<and>
    (\<forall>i < unat ne. ndb ! i = (if single then 0 else i) \<and> ndb ! i < sto_clusterConnections st \<and> comesUp i)"
  using store_run_started [OF assms] by auto

lemma upt_two: "[0..<2] = [0, 1::nat]"
  by (simp add: upt_rec)

lemma sample_store_runs:
  "store_run ref_zmq_lib (\<lambda>_. True) (\<lambda>_. True) (\<lambda>_. True) (Store_new 1 2 False, sample_sockets) =
    Some (Inr ((Store_new 1 2 False)\<lparr>sto_taskSenderSockets := [[2, 3]],
        sto_serverTransport := Some (transport_start (ServerTransport_new 1)),
        sto_executorThreads := [0, 1], sto_currentExecutorInitCount := 2, sto_clusterConnections := 2,
        sto_ndbExecutors := Some [0, 1], sto_isRunning := True\<rparr>, sample_sockets\<lparr>rz_fresh := 4\<rparr>))"
  by (simp add: store_run_def Store_new_def createExecutorTaskSenderSockets_def socket_new_def socket_connect_def
      or_throw_def waitForExecutors_def initDB_def initNDB_def Let_def sample_sockets_def upt_two)

theorem started_store_connected_witness:
  "\<exists>ndb. sto_ndbExecutors ((Store_new 1 2 False)\<lparr>sto_taskSenderSockets := [[2, 3]],
        sto_serverTransport := Some (transport_start (ServerTransport_new 1)),
        sto_executorThreads := [0, 1], sto_currentExecutorInitCount := 2, sto_clusterConnections := 2,
        sto_ndbExecutors := Some [0, 1], sto_isRunning := True\<rparr>) = Some ndb \<and> length ndb = 2 \<and>
    ndb ! 1 = 1 \<and> ndb ! 1 < 2"
  using started_store_connected [OF sample_store_runs] by simp

lemma store_runs_once:
  assumes "store_run Z connects ready comesUp (Store_new nd ne single, w) = Some (Inr (st, w1))"
  shows "\<exists>st1. store_stop st = Inr st1 \<and> \<not> sto_isRunning st1 \<and> sto_taskSenderSockets st1 = [] \<and>
    sto_serverTransport st1 = None \<and> sto_noDefinerThread st1 = nd \<and> sto_ndbDefiners st1 = None \<and>
    length (sto_executorThreads st1) = unat ne \<and>
    store_run Z connects ready comesUp (st1, w1) = Some (Inl NullDereference)"
  using store_run_started [OF assms]
  by (simp add: store_stop_def store_cleanUp_def stopWorkerThreads_def ServerTransport_destroy_def transport_close_def
      transport_cleanUp_def transport_start_def ServerTransport_new_def store_run_def Let_def)

lemma stopped_destruction:
  assumes "nd \<noteq> 0" "\<not> sto_isRunning st" "sto_noDefinerThread st = nd" "sto_ndbDefiners st = None"
  shows "Store_destroy st = Inl NullDereference"
proof -
  have "unat nd \<noteq> 0" using assms(1) by (simp add: unat_eq_0)
  with assms show ?thesis by (simp add: Store_destroy_def store_stop_def clearNDb_def)
qed

lemma running_destruction:
  assumes "sto_isRunning st" "store_stop st = Inr st1" "\<not> sto_isRunning st1"
  shows "Store_destroy st = Store_destroy st1"
  using assms by (simp add: Store_destroy_def store_stop_def)

text \<open>
  A store can be run only once: stopping a running store succeeds, clears its sockets and gives up
  its transport, but keeps the joined threads in their vector, and running it again dereferences the
  transport that is gone. And destroying a store with at least one definer thread dereferences the
  null array of the definers' \<open>Ndb\<close> objects, whether it was never run, is running or was stopped.
\<close>

lemma store_life:
  assumes "nd \<noteq> 0" "store_run Z connects ready comesUp (Store_new nd ne single, w) = Some (Inr (st, w1))"
  shows "Store_destroy (Store_new nd ne single) = Inl NullDereference \<and> Store_destroy st = Inl NullDereference \<and>
    (\<exists>st1. store_stop st = Inr st1 \<and> \<not> sto_isRunning st1 \<and> sto_taskSenderSockets st1 = [] \<and>
      sto_serverTransport st1 = None \<and> length (sto_executorThreads st1) = unat ne \<and>
      store_run Z connects ready comesUp (st1, w1) = Some (Inl NullDereference) \<and>
      Store_destroy st1 = Inl NullDereference)"
proof -
  from store_runs_once [OF assms(2)] obtain st1 where st1: "store_stop st = Inr st1" "\<not> sto_isRunning st1"
    "sto_taskSenderSockets st1 = []" "sto_serverTransport st1 = None" "sto_noDefinerThread st1 = nd"
    "sto_ndbDefiners st1 = None" "length (sto_executorThreads st1) = unat ne"
    "store_run Z connects ready comesUp (st1, w1) = Some (Inl NullDereference)"
    by blast
  have stopped: "Store_destroy st1 = Inl NullDereference" using assms(1) st1 by (intro stopped_destruction)
  with running_destruction [OF store_run_started(1) [OF assms(2)] st1(1,2)]
  have "Store_destroy st = Inl NullDereference" by simp
  moreover have "Store_destroy (Store_new nd ne single) = Inl NullDereference"
    using assms(1) by (intro stopped_destruction) (simp_all add: Store_new_def)
  ultimately show ?thesis using st1 stopped by blast
qed

lemma store_life_witness:
  "\<exists>st1. store_stop ((Store_new 1 2 False)\<lparr>sto_taskSenderSockets := [[2, 3]],
        sto_serverTransport := Some (transport_start (ServerTransport_new 1)),
        sto_executorThreads := [0, 1], sto_currentExecutorInitCount := 2, sto_clusterConnections := 2,
        sto_ndbExecutors := Some [0, 1], sto_isRunning := True\<rparr>) = Inr st1 \<and>
    store_run ref_zmq_lib (\<lambda>_. True) (\<lambda>_. True) (\<lambda>_. True) (st1, sample_sockets\<lparr>rz_fresh := 4\<rparr>) =
      Some (Inl NullDereference) \<and> Store_destroy st1 = Inl NullDereference"
proof -
  have "(1::uint16) \<noteq> 0" by simp
  from store_life [OF this sample_store_runs] show ?thesis by blast
qed

end
