(* ===== verification/StoreProperties.thy ===== *)
theory StoreProperties
  imports StoreTasks ExecutorProperties
begin

text \<open>
  The store between the transport and the executors: what a worker received is handed to the
  executors without loss, and what an executor finds is answered.
\<close>

definition sample_pointer :: "task_heap \<Rightarrow> nat option" where
  "sample_pointer heap = List.find (\<lambda>p. heap p = None) [4096, 8192]"

definition sample_order :: "executor_task_map \<Rightarrow> nat list" where
  "sample_order m = sorted_list_of_set (dom m)"

definition sample_request :: bytes where
  "sample_request = Frame_Serialize ref_lib (request_frame ref_lib [sample_set, sample_drop] [''t1''] True)"

lemma sample_pointer_allocates: "allocates sample_pointer"
  by (auto simp: allocates_def sample_pointer_def domIff split: if_splits)

lemma sample_order_lists: "finite (dom m) \<Longrightarrow> distinct (sample_order m) \<and> set (sample_order m) = dom m"
  by (simp add: sample_order_def)

lemma sample_request_decoded: "decode ref_lib sample_request (Some ''c7'') = [(''t1'', ''c7'', [sample_set, sample_drop])]"
proof -
  have "length sample_request < total_bytes_limit" "deliverable ref_lib [sample_set, sample_drop]"
    by (simp_all add: sample_request_def sample_eval)
  with atomic_request_decoded [OF reference.protobuf_wire_axioms, of "[sample_set, sample_drop]" "[''t1'']" "''c7''"]
    protobuf_wire.execute_many_sends [OF reference.protobuf_wire_axioms, of "[sample_set, sample_drop]" "[''t1'']" True]
  show ?thesis by (auto simp: sample_request_def)
qed

lemma sample_processed:
  assumes "decode ref_lib request (Some ''c7'') = [t]"
  shows "processMessages ref_lib ref_zmq_lib sample_pointer (\<lambda>i. i + 3) sample_order 2 [''c7'', request]
     [[5, 6]] 0 (Map.empty, sample_sockets) =
   (Inr (), [4096 \<mapsto> [t]], sample_sockets\<lparr>rz_sent := [(6, le_bytes 8 4096, False)]\<rparr>)"
  by (simp add: processMessages_def assms processForExecutor_def addToExecutorList_def
      sample_order_def getResponsibleExecutorTaskSenderSocket_def index_def sendTaskToExecutor_def
      sample_pointer_def socket_send_def bucket_def sample_sockets_def del: le_bytes.simps)

text \<open>
  C13: when the store has processed what a worker received, every decoded transaction has been put
  into exactly one task list, each list has been sent as one pointer to the socket of its executor,
  the executors find just these lists behind the pointers, and no list handed over earlier changed.
\<close>

theorem tasks_handed_over:
  assumes "zmq_sending Z sent" "allocates new_pointer" "\<And>m. finite (dom m) \<Longrightarrow> distinct (order m) \<and> set (order m) = dom m"
    and "0 < noExecutorThreads" "finite (dom heap)"
    and "processMessages L Z new_pointer rand order noExecutorThreads messages sockets threadNo (heap, w) =
      (Inr (), heap1, w1)"
  shows "\<exists>decoded m pointers. decode_all L messages True = Inr decoded \<and>
    processForExecutor rand decoded (unat noExecutorThreads) = Inr m \<and>
    sent w1 = sent w @ task_parts sockets threadNo (order m) pointers \<and> length pointers = length (order m) \<and>
    takeTasks heap1 (map (le_bytes 8) pointers) = Inr (map (bucket m) (order m)) \<and>
    mset (concat (map (bucket m) (order m))) = mset decoded \<and>
    (\<forall>p. p \<in> dom heap \<longrightarrow> heap1 p = heap p)"
  using assms by (rule processMessages_handed)

theorem tasks_handed_over_witness:
  "\<exists>decoded m pointers. decode_all ref_lib [''c7'', sample_request] True = Inr decoded \<and>
    processForExecutor (\<lambda>i. i + 3) decoded (unat (2::uint16)) = Inr m \<and>
    rz_sent (sample_sockets\<lparr>rz_sent := [(6, le_bytes 8 4096, False)]\<rparr>) =
      rz_sent sample_sockets @ task_parts [[5, 6]] 0 (sample_order m) pointers \<and>
    length pointers = length (sample_order m) \<and>
    takeTasks [4096 \<mapsto> [(''t1'', ''c7'', [sample_set, sample_drop])]] (map (le_bytes 8) pointers) =
      Inr (map (bucket m) (sample_order m)) \<and>
    mset (concat (map (bucket m) (sample_order m))) = mset decoded"
proof -
  have "0 < (2::uint16)" "finite (dom (Map.empty :: task_heap))" by simp_all
  from tasks_handed_over [OF reference_sockets.zmq_sending_axioms sample_pointer_allocates sample_order_lists
      this sample_processed [OF sample_request_decoded]]
  show ?thesis by blast
qed

lemma executor_round_answered:
  assumes "ndb_cluster A prepared patience rowsLeft"
    and "executor_idle A prepared threadNo s"
    and "delivered Z sock w messages w1" "zmq_msg_recv Z sock True w1 = (None, w2)" "zmq_errno Z w2 = EAGAIN Z"
    and "messages \<noteq> []" "length messages < 1024"
    and "takeTasks heap messages = Inr taskLists" "list_all (list_all (safe_tuple A)) taskLists"
  shows "\<exists>s1. executor_round L A Z threadNo sock (heap, s, w) =
      Some (Inr (heap |` (- set (map le_value messages)), s1, w2)) \<and>
    executor_idle A prepared threadNo s1 \<and>
    answered s1 = answered s + \<Sum>\<^sub># (mset (map expected_replies (concat taskLists)))"
proof -
  from assms(2) have "ndb_cluster.settled A prepared threadNo s" "sv_pending s = Map.empty"
    unfolding ndb_cluster.idle_settled [OF assms(1)] by blast+
  from ndb_cluster.executeBatch_accounts [OF assms(1) this assms(9)] obtain s1 where
    batch: "executeBatch L A threadNo taskLists s = Some (Inr s1)" and s1: "executor_idle A prepared threadNo s1"
    "answered s1 = answered s + \<Sum>\<^sub># (mset (map expected_replies (concat taskLists)))"
    unfolding ndb_cluster.idle_settled [OF assms(1)] by blast
  have "receiveQueuedMessages Z sock MAX_TRANSACTIONS w = Some (Inr messages, w2)"
    using limited_delivery [OF assms(3-5), of "[]" MAX_TRANSACTIONS] assms(7)
    by (simp add: receiveQueuedMessages_def MAX_TRANSACTIONS_def)
  then have "executor_round L A Z threadNo sock (heap, s, w) =
      Some (Inr (heap |` (- set (map le_value messages)), s1, w2))"
    using assms(6,8) batch by (simp add: executor_round_def)
  with s1 show ?thesis by blast
qed

text \<open>
  C14: an executor that finds messages in its socket takes the task lists out of the heap, executes
  them, frees exactly them and keeps every other list; when the round ends every client of these
  tasks has been answered and no transaction is under way.
\<close>

theorem executor_round_answers:
  assumes "ndb_cluster A prepared patience rowsLeft"
    and "executor_idle A prepared threadNo s"
    and "delivered Z sock w messages w1" "zmq_msg_recv Z sock True w1 = (None, w2)" "zmq_errno Z w2 = EAGAIN Z"
    and "messages \<noteq> []" "length messages < 1024"
    and "takeTasks heap messages = Inr taskLists" "list_all (list_all (safe_tuple A)) taskLists"
  shows "\<exists>s1. executor_round L A Z threadNo sock (heap, s, w) =
      Some (Inr (heap |` (- set (map le_value messages)), s1, w2)) \<and>
    executor_idle A prepared threadNo s1 \<and>
    answered s1 = answered s + \<Sum>\<^sub># (mset (map expected_replies (concat taskLists)))"
  using assms by (rule executor_round_answered)

definition task_sockets :: ref_zmq where
  "task_sockets = \<lparr>rz_fresh = 9, rz_waiting = (\<lambda>_. [])(7 := [le_bytes 8 4096]), rz_sent = []\<rparr>"

theorem executor_round_answers_witness:
  "\<exists>s1. executor_round ref_lib ref_cluster_api ref_zmq_lib 0 7
        ([4096 \<mapsto> [(''t1'', ''c1'', [sample_row, sample_read])]], server_start, task_sockets) =
      Some (Inr ([4096 \<mapsto> [(''t1'', ''c1'', [sample_row, sample_read])]] |` (- set (map le_value [le_bytes 8 4096])),
        s1, task_sockets\<lparr>rz_waiting := (rz_waiting task_sockets)(7 := [])\<rparr>)) \<and>
    executor_idle ref_cluster_api (\<lambda>w. set (rc_prepared w)) 0 s1 \<and>
    answered s1 = answered server_start +
      \<Sum>\<^sub># (mset (map expected_replies (concat [[(''t1'', ''c1'', [sample_row, sample_read])]])))"
proof (rule executor_round_answers [OF reference_cluster.ndb_cluster_axioms server_start_idle])
  show "delivered ref_zmq_lib 7 task_sockets [le_bytes 8 4096]
      (task_sockets\<lparr>rz_waiting := (rz_waiting task_sockets)(7 := [])\<rparr>)"
    using ref_delivered [of 7 task_sockets] by (simp add: task_sockets_def)
  show "takeTasks [4096 \<mapsto> [(''t1'', ''c1'', [sample_row, sample_read])]] [le_bytes 8 4096] =
      Inr [[(''t1'', ''c1'', [sample_row, sample_read])]]"
    by (simp del: le_bytes.simps)
  show "list_all (list_all (safe_tuple ref_cluster_api)) [[(''t1'', ''c1'', [sample_row, sample_read])]]"
    using sample_requests_safe by (simp add: sample_requests_def)
qed simp_all

end
