(* ===== verification/RequestPath.thy ===== *)
theory RequestPath
  imports StoreProperties
begin

text \<open>
  The whole way of one request: what the client library writes, the worker of the transport that
  receives it, the executor it is handed to, and the answer.
\<close>

lemma single_bucket:
  assumes "mset (concat (map (bucket m) keys)) = {#t#}" "\<forall>e \<in> set keys. bucket m e \<noteq> []"
  shows "\<exists>e. keys = [e] \<and> bucket m e = [t]"
proof -
  from assms(1) have t: "concat (map (bucket m) keys) = [t]" by (metis mset_single_iff_right)
  show ?thesis
  proof (cases keys)
    case Nil
    with t show ?thesis by simp
  next
    case (Cons e rest)
    with t assms(2) have "bucket m e = [t]" "concat (map (bucket m) rest) = []"
      by (auto simp: append_eq_Cons_conv)
    with Cons assms(2) show ?thesis by (cases rest) auto
  qed
qed

lemma single_request_handed:
  assumes "zmq_sending Z sent" "allocates new_pointer" "\<And>m. finite (dom m) \<Longrightarrow> distinct (order m) \<and> set (order m) = dom m"
    and "0 < noExecutorThreads" "finite (dom heap)" "decode_all L messages True = Inr [t]"
    and "processMessages L Z new_pointer rand order noExecutorThreads messages sockets threadNo (heap, w) =
      (Inr (), heap1, w1)"
  shows "\<exists>e pointer. e < unat noExecutorThreads \<and>
    sent w1 = sent w @ [(sockets ! threadNo ! e, le_bytes 8 pointer, False)] \<and>
    takeTasks heap1 [le_bytes 8 pointer] = Inr [[t]] \<and> (\<forall>p. p \<in> dom heap \<longrightarrow> heap1 p = heap p)"
proof -
  from processMessages_handed [OF assms(1-5,7)] obtain m pointers where
    m: "processForExecutor rand [t] (unat noExecutorThreads) = Inr m"
    and sent: "sent w1 = sent w @ task_parts sockets threadNo (order m) pointers" "length pointers = length (order m)"
    and tasks: "takeTasks heap1 (map (le_bytes 8) pointers) = Inr (map (bucket m) (order m))"
    and all: "mset (concat (map (bucket m) (order m))) = {#t#}" and old: "\<forall>p. p \<in> dom heap \<longrightarrow> heap1 p = heap p"
    using assms(6) by auto
  have "0 < unat noExecutorThreads" using assms(4) by (simp add: word_less_nat_alt)
  from processForExecutor_partition [OF this, of rand "[t]"] m
  have bound: "dom m \<subseteq> {..<unat noExecutorThreads}" and nonempty: "\<forall>e. m e \<noteq> Some []" by auto
  then have keys: "set (order m) = dom m" using assms(3) [of m] finite_subset by blast
  have "\<forall>e \<in> set (order m). bucket m e \<noteq> []" using nonempty keys by (auto simp: bucket_def split: option.split)
  from single_bucket [OF all this] obtain e where e: "order m = [e]" "bucket m e = [t]" by blast
  with sent(2) obtain pointer where pointer: "pointers = [pointer]" by (cases pointers) auto
  from e(1) keys bound have "e < unat noExecutorThreads" by auto
  with sent(1) tasks old e pointer show ?thesis by (auto simp: task_parts_def simp del: le_bytes.simps)
qed


definition sample_set_request :: bytes where
  "sample_set_request = Frame_Serialize ref_lib (request_frame ref_lib [sample_set] [''t1''] True)"

lemma sample_set_sendable:
  "deliverable ref_lib [sample_set]" "length sample_set_request < total_bytes_limit"
  "safe_tuple ref_cluster_api (hd [''t1''], ''c7'', [sample_set])"
  by (simp_all add: sample_set_request_def sample_eval safe_tuple_def homogeneous_def safe_message_def accessors)

lemma sample_set_framed: "execute_many ref_lib [sample_set] [''t1''] True = Inr sample_set_request"
  using protobuf_wire.execute_many_sends [OF reference.protobuf_wire_axioms sample_set_sendable(1), of "[''t1'']" True]
    sample_set_sendable(2)
  by (simp add: sample_set_request_def)

lemma sample_set_decoded: "decode ref_lib sample_set_request (Some ''c7'') = [(''t1'', ''c7'', [sample_set])]"
  using atomic_request_decoded [OF reference.protobuf_wire_axioms sample_set_sendable(1), of "[''t1'']" "''c7''"]
    sample_set_sendable(2) sample_set_framed
  by (auto simp: sample_set_request_def)


end
