(* ===== verification/ReplyPath.thy ===== *)
theory ReplyPath
  imports ReadYourWrites ServerTransport ClientTransport ReplyMessages
begin

text \<open>
  The way of the replies: from the list an executor sends, through the sink of a worker of the server
  transport and the \<open>ROUTER\<close> socket, to the delegate of the client they are meant for.
\<close>

section \<open>Replies on sockets\<close>

text \<open>The parts of replies as a sink delivers them, and the frames among them that are for one client.\<close>

definition parts_of :: "(bytes \<times> bytes) list \<Rightarrow> bytes list" where
  "parts_of replies = concat (map (\<lambda>(identity, frame). [identity, frame]) replies)"

definition addressed :: "bytes \<Rightarrow> (bytes \<times> bytes) list \<Rightarrow> (bytes \<times> bytes) list" where
  "addressed client replies = filter (\<lambda>(identity, frame). identity = client) replies"

text \<open>
  What a \<open>ROUTER\<close> is documented to do with messages of two parts, handed to it by \<open>zmq::proxy\<close>: the
  first names the peer, which gets the second.
\<close>

fun routed :: "bytes \<Rightarrow> (nat \<times> bytes \<times> bool) list \<Rightarrow> bytes list" where
  "routed client ((_, identity, True) # (_, frame, False) # log) =
     (if identity = client then frame # routed client log else routed client log)"
| "routed client log = []"

lemma enveloped_parts: "enveloped sock (parts_of replies) = socket_log sock replies"
  by (induction replies) (auto simp: parts_of_def socket_log_def message_parts_def)

lemma parts_of_log: "parts_of replies = map (fst \<circ> snd) (socket_log sock replies)"
  by (induction replies) (auto simp: parts_of_def socket_log_def message_parts_def)

lemma routed_log: "routed client (socket_log sock replies) = map snd (addressed client replies)"
  by (induction replies) (auto simp: addressed_def socket_log_def message_parts_def)

lemma addressed_reply_parts:
  "addressed client (concat (map (reply_parts L client) rs)) = concat (map (reply_parts L client) rs)"
  by (induction rs) (auto simp: addressed_def reply_parts_def split: option.splits)

lemma reply_parts_frames:
  assumes "protobuf_wire L" "list_all (replyable L) rs"
  shows "map snd (concat (map (reply_parts L client) rs)) = map (\<lambda>r. Frame_Serialize L (reply_frame L r)) rs"
  using assms(2) protobuf_wire.reply_bytes [OF assms(1)]
  by (induction rs) (auto simp: reply_parts_def RowTransactions.reply_bytes_def)

text \<open>A round of a worker relays what its sink has to give.\<close>

lemma server_round_relays:
  assumes "zmq_sending Z sent" "takeRequests Z delegate workerSocket w = Some (Inr (), w1)"
    and "delivered Z sinkSocket w1 msgs w2" "zmq_msg_recv Z sinkSocket True w2 = (None, w3)" "zmq_errno Z w3 = EAGAIN Z"
    and "server_round Z delegate workerSocket sinkSocket w = Some (Inr (), w4)"
  shows "sent w4 = sent w1 @ enveloped workerSocket msgs"
proof -
  have "receiveQueuedMessages Z sinkSocket (-1) w1 = Some (Inr msgs, w3)"
    using receive_loop_unlimited [OF assms(3,4), of "-1" "[]"] assms(5) by (simp add: receiveQueuedMessages_def)
  with assms(2,6) have "relayReplies Z workerSocket msgs w3 = (Inr (), w4)" by (simp add: server_round_def)
  with zmq_sending.relayReplies_sent [OF assms(1)] have "sent w4 = sent w3 @ enveloped workerSocket msgs" by blast
  moreover have "sent w3 = sent w1"
    using zmq_sending.delivered_sent [OF assms(1,3)] zmq_sending.recv_sends_nothing [OF assms(1), of sinkSocket True w2] assms(4)
    by simp
  ultimately show ?thesis by simp
qed

section \<open>A reply reaches its client\<close>

text \<open>
  C6: among the replies a worker finds in its sink, in whatever order the executors put them there, those to
  one client reach this client: if they are the replies with the results \<open>rs\<close>, the round relays them through the \<open>ROUTER\<close>, and the client's next round hands its delegate, in one call,
  messages that the client library decodes into exactly \<open>rs\<close>, in order.
\<close>

theorem replies_reach_client:
  assumes "protobuf_wire L" "zmq_sending Z sent" "list_all (replyable L) rs" "rs \<noteq> []"
    and "addressed client replies = concat (map (reply_parts L client) rs)"
    and "takeRequests Z didReceive workerSocket w = Some (Inr (), w1)"
    and "delivered Z sinkSocket w1 (parts_of replies) w2" "zmq_msg_recv Z sinkSocket True w2 = (None, w3)"
      "zmq_errno Z w3 = EAGAIN Z"
    and "server_round Z didReceive workerSocket sinkSocket w = Some (Inr (), w4)"
    and "delivered C clientSocket v (routed client (drop (length (sent w1)) (sent w4))) v1"
      "zmq_msg_recv C clientSocket True v1 = (None, v2)" "zmq_errno C v2 = EAGAIN C"
  shows "\<exists>messages. didReceiveMessage L True messages = Inr (Some rs) \<and>
    (\<forall>delegate. client_receiveQueuedMessages C (Some delegate) clientSocket None v =
      Some (bind_io (delegate messages v2) (\<lambda>_ v3. (Inr (zmq_errno C v3 = EAGAIN C), v3))))"
proof (intro exI conjI allI)
  let ?messages = "map (\<lambda>r. Frame_Serialize L (reply_frame L r)) rs"
  have "sent w4 = sent w1 @ socket_log workerSocket replies"
    using server_round_relays [OF assms(2,6-10)] by (simp add: enveloped_parts)
  then have bodies: "routed client (drop (length (sent w1)) (sent w4)) = ?messages"
    using reply_parts_frames [OF assms(1,3), of client] assms(5) by (simp add: routed_log)
  show "didReceiveMessage L True ?messages = Inr (Some rs)"
    using assms(4) protobuf_wire.replies_received [OF assms(1,3)]
    by (simp add: didReceiveMessage_def decode_all_unidentified Let_def del: map_map)
  show "client_receiveQueuedMessages C (Some delegate) clientSocket None v =
      Some (bind_io (delegate ?messages v2) (\<lambda>_ v3. (Inr (zmq_errno C v3 = EAGAIN C), v3)))" for delegate
    using client_drain_delivered [OF assms(11-13), of "[]"] assms(4)
    by (simp add: client_receiveQueuedMessages_def bodies)
qed

definition sample_replies :: "(bytes \<times> bytes) list" where
  "sample_replies = [(''c2'', ''other''), (''c1'', Frame_Serialize ref_lib (reply_frame ref_lib sample_result))]"

definition sample_worker :: ref_zmq where
  "sample_worker = sample_sockets\<lparr>rz_waiting := (\<lambda>_. [])(1 := parts_of sample_replies)\<rparr>"

definition sample_client :: ref_zmq where
  "sample_client = sample_sockets\<lparr>rz_waiting := (\<lambda>_. [])(0 := map snd (addressed ''c1'' sample_replies))\<rparr>"

lemma sample_result_replyable: "list_all (replyable ref_lib) [sample_result]"
  by (simp add: replyable_def reply_frame_def sample_eval)

lemma sample_addressed: "addressed ''c1'' sample_replies = concat (map (reply_parts ref_lib ''c1'') [sample_result])"
  using protobuf_wire.reply_bytes [OF reference.protobuf_wire_axioms, of sample_result] sample_result_replyable
  by (simp add: addressed_def sample_replies_def reply_parts_def RowTransactions.reply_bytes_def)

lemma ref_delivered_all:
  "rz_waiting w sock = msgs \<Longrightarrow> delivered ref_zmq_lib sock w msgs (w\<lparr>rz_waiting := (rz_waiting w)(sock := [])\<rparr>)"
  using ref_delivered [of sock w] by simp

lemma ref_relayReplies:
  "relayReplies ref_zmq_lib sock (parts_of replies) w =
    (Inr (), w\<lparr>rz_sent := rz_sent w @ socket_log sock replies\<rparr>)"
  by (induction replies arbitrary: w)
    (auto simp: parts_of_def socket_log_def message_parts_def socket_send_def)

theorem replies_reach_client_witness:
  "\<exists>messages. didReceiveMessage ref_lib True messages = Inr (Some [sample_result]) \<and>
    (\<forall>delegate. client_receiveQueuedMessages ref_zmq_lib (Some delegate) 0 None sample_client =
      Some (bind_io (delegate messages (sample_client\<lparr>rz_waiting := (rz_waiting sample_client)(0 := [])\<rparr>))
        (\<lambda>_ v3. (Inr (zmq_errno ref_zmq_lib v3 = EAGAIN ref_zmq_lib), v3))))"
proof -
  let ?w2 = "sample_worker\<lparr>rz_waiting := (rz_waiting sample_worker)(1 := [])\<rparr>"
  let ?w4 = "?w2\<lparr>rz_sent := rz_sent ?w2 @ socket_log 0 sample_replies\<rparr>"
  let ?v1 = "sample_client\<lparr>rz_waiting := (rz_waiting sample_client)(0 := [])\<rparr>"
  have taken: "takeRequests ref_zmq_lib None 0 sample_worker = Some (Inr (), sample_worker)"
    by (simp add: takeRequests_def)
  have sink: "delivered ref_zmq_lib 1 sample_worker (parts_of sample_replies) ?w2"
    by (rule ref_delivered_all) (simp add: sample_worker_def)
  have empty: "zmq_msg_recv ref_zmq_lib 1 True ?w2 = (None, ?w2)" "zmq_msg_recv ref_zmq_lib 0 True ?v1 = (None, ?v1)" by simp_all
  have again: "zmq_errno ref_zmq_lib w = EAGAIN ref_zmq_lib" for w by simp
  have drained: "receiveQueuedMessages ref_zmq_lib 1 (-1) sample_worker = Some (Inr (parts_of sample_replies), ?w2)"
    using receive_loop_unlimited [OF sink empty(1), of "-1" "[]"] by (simp add: receiveQueuedMessages_def)
  have relayed: "server_round ref_zmq_lib None 0 1 sample_worker = Some (Inr (), ?w4)"
    by (simp add: server_round_def taken drained ref_relayReplies del: One_nat_def)
  have "routed ''c1'' (drop (length (rz_sent sample_worker)) (rz_sent ?w4)) = map snd (addressed ''c1'' sample_replies)"
    by (simp add: routed_log sample_worker_def)
  then have client: "delivered ref_zmq_lib 0 sample_client
      (routed ''c1'' (drop (length (rz_sent sample_worker)) (rz_sent ?w4))) ?v1"
    by (intro ref_delivered_all) (simp add: sample_client_def)
  have some: "[sample_result] \<noteq> []" by simp
  show ?thesis
    by (rule replies_reach_client [OF reference.protobuf_wire_axioms reference_sockets.zmq_sending_axioms
        sample_result_replyable some sample_addressed taken sink empty(1) again relayed client empty(2) again])
qed

end
