(* ===== verification/Settings.thy ===== *)
theory Settings
  imports Prelude "HOL-Library.List_Lexorder" "HOL-Library.Char_ord"
begin

text \<open>
  The configuration of the server: \<open>volodb-common/Config/ConfigFileReader.cpp\<close> on top of the INI parser
  of Boost, and the conversions of \<open>volodb-common/Utils/Utils.cpp\<close>. A \<open>std::map\<close> with string keys is the
  list of its entries in key order, which is the order its loops visit them; \<open>std::string\<close> compares
  characters as unsigned numbers, as the order on \<open>char\<close> does.
\<close>

section \<open>Ordered maps\<close>

type_synonym 'a string_map = "(string \<times> 'a) list"

text \<open>\<open>m[k] = v\<close>\<close>

fun map_put :: "string \<Rightarrow> 'a \<Rightarrow> 'a string_map \<Rightarrow> 'a string_map" where
  "map_put k v [] = [(k, v)]"
| "map_put k v ((k1, v1) # m) =
     (if k = k1 then (k, v) # m else if k < k1 then (k, v) # (k1, v1) # m else (k1, v1) # map_put k v m)"

text \<open>\<open>m.at(k)\<close>\<close>

definition map_at :: "'a string_map \<Rightarrow> string \<Rightarrow> 'a result" where
  "map_at m k = (case map_of m k of None \<Rightarrow> Inl (Thrown ''map::at'') | Some v \<Rightarrow> Inr v)"

definition ordered :: "'a string_map \<Rightarrow> bool" where
  "ordered m \<longleftrightarrow> sorted_wrt (<) (map fst m)"

lemma ordered_Nil [simp]: "ordered []"
  by (simp add: ordered_def)

lemma ordered_Cons [simp]: "ordered ((k, v) # m) \<longleftrightarrow> (\<forall>k1 \<in> fst ` set m. k < k1) \<and> ordered m"
  by (simp add: ordered_def)

lemma map_put_keys: "fst ` set (map_put k v m) = insert k (fst ` set m)"
  by (induction m rule: map_put.induct) auto

lemma map_put_ordered: "ordered m \<Longrightarrow> ordered (map_put k v m)"
proof (induction m rule: map_put.induct)
  case (2 k v k1 v1 m)
  then show ?case using map_put_keys [of k v m] by (auto dest: less_trans)
qed simp

lemma ordered_below: "ordered ((k1, v1) # m) \<Longrightarrow> k \<le> k1 \<Longrightarrow> map_of m k = None"
  by (auto simp: map_of_eq_None_iff)

lemma map_put_lookup: "ordered m \<Longrightarrow> map_of (map_put k v m) = (map_of m)(k \<mapsto> v)"
  by (induction m rule: map_put.induct) (auto simp: fun_eq_iff dest: ordered_below)

lemma map_put_values: "set (map_put k v m) \<subseteq> insert (k, v) (set m)"
  by (induction m rule: map_put.induct) auto

section \<open>The reader\<close>

type_synonym settings = "string string_map string_map"

text \<open>
  What \<open>read_ini\<close> delivers: the children of the tree in order, each with the values of its own
  children; or it throws.
\<close>

type_synonym ptree = "(string \<times> (string \<times> string) list) list"

definition read_section :: "(string \<times> string) list \<Rightarrow> string string_map" where
  "read_section keys = fold (\<lambda>(k, v). map_put k v) keys []"

definition read_sections :: "ptree \<Rightarrow> settings" where
  "read_sections pt = fold (\<lambda>(name, keys). map_put name (read_section keys)) pt []"

text \<open>An exception leaves the settings as they were: they are cleared after the file has been parsed.\<close>

definition ConfigFileReader_read :: "(string \<Rightarrow> ptree result) \<Rightarrow> string \<Rightarrow> settings \<Rightarrow> unit result \<times> settings" where
  "ConfigFileReader_read read_ini path s =
     (case read_ini path of Inl e \<Rightarrow> (Inl e, s) | Inr pt \<Rightarrow> (Inr (), read_sections pt))"

definition getSettings :: "settings \<Rightarrow> settings" where
  "getSettings s = s"

definition setValueForAllSections :: "string \<Rightarrow> string \<Rightarrow> settings \<Rightarrow> settings" where
  "setValueForAllSections attribute value s = map (\<lambda>(name, section). (name, map_put attribute value section)) s"

definition getSectionMap :: "settings \<Rightarrow> string \<Rightarrow> string string_map result" where
  "getSectionMap s section = map_at s section"

definition getValue :: "settings \<Rightarrow> string \<Rightarrow> string \<Rightarrow> string result" where
  "getValue s section attribute = bind_result (map_at s section) (\<lambda>m. map_at m attribute)"

text \<open>Only exceptions are caught.\<close>

definition catch_exception :: "'a result \<Rightarrow> 'a \<Rightarrow> 'a result" where
  "catch_exception r otherwise =
     (case r of Inl (Thrown what) \<Rightarrow> Inr otherwise | _ \<Rightarrow> r)"

definition getValueOr :: "settings \<Rightarrow> string \<Rightarrow> string \<Rightarrow> string \<Rightarrow> string result" where
  "getValueOr s section attribute defaultValue = catch_exception (getValue s section attribute) defaultValue"

definition print_section :: "string string_map \<Rightarrow> string" where
  "print_section section = concat (map (\<lambda>(k, v). k @ ''='' @ v @ [CHR 0x0A]) section)"

definition ConfigFileReader_print :: "settings \<Rightarrow> string" where
  "ConfigFileReader_print s = concat (map (\<lambda>(name, section). ''['' @ name @ '']'' @ [CHR 0x0A] @ print_section section) s)"

section \<open>Conversions\<close>

text \<open>\<open>std::stoi\<close> in base 10: blanks, a sign, digits, and anything after them.\<close>

definition is_space :: "char \<Rightarrow> bool" where
  "is_space c \<longleftrightarrow> c \<in> {CHR '' '', CHR 0x09, CHR 0x0A, CHR 0x0B, CHR 0x0C, CHR 0x0D}"

definition is_digit :: "char \<Rightarrow> bool" where
  "is_digit c \<longleftrightarrow> 48 \<le> (of_char c :: nat) \<and> (of_char c :: nat) \<le> 57"

definition digits_value :: "string \<Rightarrow> nat" where
  "digits_value ds = foldl (\<lambda>a c. 10 * a + (of_char c - 48)) 0 ds"

definition signed_digits :: "string \<Rightarrow> bool \<times> string" where
  "signed_digits str =
     (case str of
        c # rest \<Rightarrow> if c = CHR ''-'' then (True, rest) else if c = CHR ''+'' then (False, rest) else (False, str)
      | [] \<Rightarrow> (False, []))"

definition stoi :: "string \<Rightarrow> int result" where
  "stoi str =
     (case signed_digits (dropWhile is_space str) of
        (negative, rest) \<Rightarrow>
          (let ds = takeWhile is_digit rest;
               value = (if negative then - int (digits_value ds) else int (digits_value ds))
           in if ds = [] then Inl (Thrown ''stoi'')
              else if value < - (2 ^ 31) \<or> 2 ^ 31 \<le> value then Inl (Thrown ''stoi'')
              else Inr value))"

definition getValueInt :: "settings \<Rightarrow> string \<Rightarrow> string \<Rightarrow> int \<Rightarrow> int result" where
  "getValueInt s section attribute defaultValue =
     catch_exception (bind_result (getValue s section attribute) stoi) defaultValue"

text \<open>\<open>tolower\<close> in the C locale.\<close>

definition to_lower :: "char \<Rightarrow> char" where
  "to_lower c = (if 65 \<le> (of_char c :: nat) \<and> (of_char c :: nat) \<le> 90 then char_of ((of_char c :: nat) + 32) else c)"

definition toLower :: "string \<Rightarrow> string" where
  "toLower str = map to_lower str"

definition toBool :: "string \<Rightarrow> bool" where
  "toBool str =
     (let lowerCaseStr = toLower str
      in lowerCaseStr = ''true'' \<or> lowerCaseStr = ''1'' \<or> lowerCaseStr = ''yes'')"

section \<open>The maps stay ordered\<close>

definition settings_ok :: "settings \<Rightarrow> bool" where
  "settings_ok s \<longleftrightarrow> ordered s \<and> (\<forall>section \<in> snd ` set s. ordered section)"

lemma read_section_ordered: "ordered (read_section keys)"
proof -
  have "ordered m \<Longrightarrow> ordered (fold (\<lambda>(k, v). map_put k v) keys m)" for m
    by (induction keys arbitrary: m) (auto simp: map_put_ordered)
  then show ?thesis by (simp add: read_section_def)
qed

lemma map_put_settings_ok: "settings_ok s \<Longrightarrow> ordered section \<Longrightarrow> settings_ok (map_put name section s)"
  by (fastforce simp: settings_ok_def map_put_ordered dest: subsetD [OF map_put_values])

lemma read_sections_ok: "settings_ok (read_sections pt)"
proof -
  have "settings_ok m \<Longrightarrow> settings_ok (fold (\<lambda>(name, keys). map_put name (read_section keys)) pt m)" for m
    by (induction pt arbitrary: m) (auto simp: map_put_settings_ok read_section_ordered)
  from this [of "[]"] show ?thesis by (simp add: read_sections_def settings_ok_def)
qed

lemma setValueForAllSections_keys: "map fst (setValueForAllSections attribute value s) = map fst s"
  by (simp add: setValueForAllSections_def split_def)

lemma setValueForAllSections_ok:
  assumes "settings_ok s"
  shows "settings_ok (setValueForAllSections attribute value s)"
proof -
  have "ordered (setValueForAllSections attribute value s)"
    using assms by (simp add: settings_ok_def ordered_def setValueForAllSections_keys)
  moreover have "\<forall>section \<in> snd ` set (setValueForAllSections attribute value s). ordered section"
    using assms by (auto simp: settings_ok_def setValueForAllSections_def map_put_ordered)
  ultimately show ?thesis by (simp add: settings_ok_def)
qed


definition sample_settings :: settings where
  "sample_settings = [(''settings'', [(''log_level'', ''INFO''), (''store_port'', ''5570'')])]"


section \<open>Looking values up\<close>

lemma getValue_Inr: "getValue s name attribute = Inr v \<longleftrightarrow>
    (\<exists>m. map_of s name = Some m \<and> map_of m attribute = Some v)"
  by (auto simp: getValue_def map_at_def bind_result_Inr_iff split: option.splits)

lemma getValueOr_cases: "getValueOr s name attribute v = Inr (case getValue s name attribute of Inl _ \<Rightarrow> v | Inr x \<Rightarrow> x)"
  by (auto simp: getValueOr_def catch_exception_def getValue_def map_at_def split: option.split)

lemma stoi_faults: "stoi str = Inl e \<Longrightarrow> e = Thrown ''stoi''"
  by (auto simp: stoi_def Let_def split: prod.splits if_splits)

lemma stoi_range: "stoi str = Inr i \<Longrightarrow> - (2 ^ 31) \<le> i \<and> i < 2 ^ 31"
  by (auto simp: stoi_def Let_def split: prod.splits if_splits)

lemma setValueForAllSections_lookup:
  "map_of (setValueForAllSections attribute value s) name = map_option (map_put attribute value) (map_of s name)"
  by (induction s) (auto simp: setValueForAllSections_def)

text \<open>The values a file gives to a key of a section: later entries of a section, later sections, win.\<close>

definition file_value :: "ptree \<Rightarrow> string \<Rightarrow> string \<Rightarrow> string option" where
  "file_value pt name attribute =
     (case map_of (rev pt) name of None \<Rightarrow> None | Some keys \<Rightarrow> map_of (rev keys) attribute)"

lemma fold_map_put:
  "ordered m \<Longrightarrow> map_of (fold (\<lambda>(k, v). map_put k (f v)) kvs m) k =
    (case map_of (rev kvs) k of None \<Rightarrow> map_of m k | Some v \<Rightarrow> Some (f v))"
proof (induction kvs arbitrary: m)
  case (Cons kv kvs)
  obtain k1 v1 where "kv = (k1, v1)" by (rule prod.exhaust)
  with Cons.IH [OF map_put_ordered [OF Cons.prems]] show ?case
    by (auto simp: map_put_lookup [OF Cons.prems] map_add_def split: option.split)
qed simp

lemma read_section_lookup: "map_of (read_section keys) k = map_of (rev keys) k"
  using fold_map_put [of "[]" "\<lambda>v. v" keys k] by (simp add: read_section_def split: option.split)

lemma read_sections_lookup: "map_of (read_sections pt) k = map_option read_section (map_of (rev pt) k)"
  using fold_map_put [of "[]" read_section pt k] by (simp add: read_sections_def split: option.split)

lemma read_sections_value: "getValue (read_sections pt) name attribute =
    (case file_value pt name attribute of None \<Rightarrow> Inl (Thrown ''map::at'') | Some v \<Rightarrow> Inr v)"
  by (simp add: getValue_def map_at_def read_sections_lookup file_value_def read_section_lookup split: option.split)

text \<open>
  After a file has been read, a value is what the last section of that name gives its last entry
  of that key, and the default where there is none; an integer value is the default also when the
  text is not a number of 32 bits; and setting a value for all sections changes exactly that key, in
  exactly the sections the file has.
\<close>

lemma settings_lookup:
  assumes "read_ini path = Inr pt"
  shows "ConfigFileReader_read read_ini path s = (Inr (), read_sections pt) \<and>
    getValueOr (read_sections pt) name attribute v =
      Inr (case file_value pt name attribute of None \<Rightarrow> v | Some x \<Rightarrow> x) \<and>
    getValueInt (read_sections pt) name attribute i =
      Inr (case file_value pt name attribute of None \<Rightarrow> i
           | Some x \<Rightarrow> (case stoi x of Inl _ \<Rightarrow> i | Inr n \<Rightarrow> n)) \<and>
    getValue (setValueForAllSections key x (read_sections pt)) name attribute =
      (if attribute = key \<and> name \<in> fst ` set pt then Inr x else getValue (read_sections pt) name attribute)"
proof (intro conjI)
  show "ConfigFileReader_read read_ini path s = (Inr (), read_sections pt)"
    by (simp add: ConfigFileReader_read_def assms)
  show "getValueOr (read_sections pt) name attribute v =
      Inr (case file_value pt name attribute of None \<Rightarrow> v | Some x \<Rightarrow> x)"
    by (simp add: getValueOr_cases read_sections_value split: option.split)
  show "getValueInt (read_sections pt) name attribute i =
      Inr (case file_value pt name attribute of None \<Rightarrow> i
           | Some x \<Rightarrow> (case stoi x of Inl _ \<Rightarrow> i | Inr n \<Rightarrow> n))"
    by (auto simp: getValueInt_def read_sections_value catch_exception_def dest: stoi_faults split: option.split sum.split)
  have section_ordered: "ordered m" if "map_of (read_sections pt) name = Some m" for m
    using that read_sections_ok [of pt] by (force simp: settings_ok_def dest: map_of_SomeD)
  have "map_of (read_sections pt) name = None \<longleftrightarrow> name \<notin> fst ` set pt"
    by (simp add: read_sections_lookup map_of_eq_None_iff)
  then show "getValue (setValueForAllSections key x (read_sections pt)) name attribute =
      (if attribute = key \<and> name \<in> fst ` set pt then Inr x else getValue (read_sections pt) name attribute)"
    using section_ordered
    by (cases "map_of (read_sections pt) name")
      (auto simp: getValue_def map_at_def setValueForAllSections_lookup map_put_lookup split: option.split)
qed

section \<open>Numbers\<close>

lemma is_digit_char: "m < (10::nat) \<Longrightarrow> is_digit (char_of (48 + m))"
  using char_of_digit [of m] by (simp add: is_digit_def)

lemma digits_all: "list_all is_digit (digits n)"
proof (induction n rule: digits.induct)
  case (1 n)
  then show ?case by (subst digits.simps) (simp add: is_digit_char)
qed

lemma digits_value_digits: "digits_value (digits n) = n"
proof (induction n rule: digits.induct)
  case (1 n)
  show ?case
  proof (cases "n < 10")
    case True
    then show ?thesis by (subst digits.simps) (simp add: digits_value_def char_of_digit)
  next
    case False
    with 1 show ?thesis by (subst digits.simps) (simp add: digits_value_def char_of_digit)
  qed
qed

lemma digit_not: "is_digit c \<Longrightarrow> c \<noteq> CHR ''-'' \<and> c \<noteq> CHR ''+'' \<and> \<not> is_space c"
  by (auto simp: is_digit_def is_space_def)

lemma takeWhile_digits: "\<not> (rest \<noteq> [] \<and> is_digit (hd rest)) \<Longrightarrow> takeWhile is_digit (digits n @ rest) = digits n"
  using digits_all [of n] by (cases rest) (auto simp: takeWhile_append list_all_iff)

lemma stoi_to_string_append:
  assumes "- (2 ^ 31) \<le> i" "i < 2 ^ 31" "\<not> (rest \<noteq> [] \<and> is_digit (hd rest))"
  shows "stoi (to_string i @ rest) = Inr i"
proof -
  obtain c cs where digits: "digits (nat \<bar>i\<bar>) = c # cs" using digits_not_empty by (cases "digits (nat \<bar>i\<bar>)") auto
  then have c: "is_digit c" using digits_all [of "nat \<bar>i\<bar>"] by simp
  show ?thesis
  proof (cases "i < 0")
    case True
    then have "nat (- i) = nat \<bar>i\<bar>" by simp
    with True assms show ?thesis
      using takeWhile_digits [OF assms(3), of "nat \<bar>i\<bar>"]
      by (simp add: stoi_def to_string_def is_space_def signed_digits_def digits_value_digits digits_not_empty)
  next
    case False
    with assms digits digit_not [OF c] show ?thesis
      using takeWhile_digits [OF assms(3), of "nat i"] digits_value_digits [of "nat i"] digits_not_empty [of "nat i"]
      by (simp add: stoi_def to_string_def signed_digits_def)
  qed
qed

end
