(* ===== verification/Logging.thy ===== *)
theory Logging
  imports Prelude
begin

text \<open>
  The log of the server and of the client library (\<open>volodb-common/Logging/log1.h\<close>), and the older
  header \<open>log.h\<close> beside it, which no file includes. A line is the text that reaches the stream; the
  time is an argument.
\<close>

section \<open>Levels\<close>

datatype log_level =
    logOFF
  | logERROR
  | logWARNING
  | logINFO
  | logDEBUG
  | logDEBUG1
  | logDEBUG2
  | logDEBUG3
  | logDEBUG4

fun level_number :: "log_level \<Rightarrow> nat" where
  "level_number logOFF = 0"
| "level_number logERROR = 1"
| "level_number logWARNING = 2"
| "level_number logINFO = 3"
| "level_number logDEBUG = 4"
| "level_number logDEBUG1 = 5"
| "level_number logDEBUG2 = 6"
| "level_number logDEBUG3 = 7"
| "level_number logDEBUG4 = 8"

lemma level_number_inject: "level_number l = level_number k \<longleftrightarrow> l = k"
  by (cases l; cases k) simp_all

instantiation log_level :: linorder
begin

definition less_eq_log_level :: "log_level \<Rightarrow> log_level \<Rightarrow> bool" where
  "less_eq_log_level l k \<longleftrightarrow> level_number l \<le> level_number k"

definition less_log_level :: "log_level \<Rightarrow> log_level \<Rightarrow> bool" where
  "less_log_level l k \<longleftrightarrow> level_number l < level_number k"

instance
  by standard (auto simp: less_eq_log_level_def less_log_level_def level_number_inject)

end

fun log_ToString :: "log_level \<Rightarrow> string" where
  "log_ToString logOFF = ''OFF''"
| "log_ToString logERROR = ''ERROR''"
| "log_ToString logWARNING = ''WARNING''"
| "log_ToString logINFO = ''INFO''"
| "log_ToString logDEBUG = ''DEBUG''"
| "log_ToString logDEBUG1 = ''DEBUG1''"
| "log_ToString logDEBUG2 = ''DEBUG2''"
| "log_ToString logDEBUG3 = ''DEBUG3''"
| "log_ToString logDEBUG4 = ''DEBUG4''"

section \<open>Lines\<close>

text \<open>
  \<open>percentX\<close> is what \<open>strftime\<close> left in the buffer. The milliseconds are printed with at least three
  digits.
\<close>

definition NowTime :: "string \<Rightarrow> nat \<Rightarrow> string" where
  "NowTime percentX tv_usec =
     (let milliseconds = digits (tv_usec div 1000)
      in c_str percentX @ ''.'' @ replicate (3 - length milliseconds) CHR ''0'' @ milliseconds)"

definition log_Get :: "string \<Rightarrow> log_level \<Rightarrow> string" where
  "log_Get now level =
     ''- '' @ now @ '' '' @ log_ToString level @ '': '' @
     replicate (if level > logDEBUG then level_number level - level_number logDEBUG else 0) CHR 0x09"

text \<open>The destructor writes the line with \<open>%s\<close>.\<close>

definition log_destroy :: "string \<Rightarrow> string" where
  "log_destroy os = c_str (os @ [CHR 0x0A])"

definition FILE_LOG :: "log_level \<Rightarrow> string \<Rightarrow> log_level \<Rightarrow> string \<Rightarrow> string" where
  "FILE_LOG ReportingLevel now level msg =
     (if level > ReportingLevel then [] else log_destroy (log_Get now level @ msg))"

text \<open>The level a name stands for, and what the lookup itself writes, whatever the reporting level is.\<close>

definition log_FromString :: "string \<Rightarrow> string \<Rightarrow> log_level \<times> string" where
  "log_FromString now level =
     (if level = ''DEBUG4'' then (logDEBUG4, [])
      else if level = ''DEBUG3'' then (logDEBUG3, [])
      else if level = ''DEBUG2'' then (logDEBUG2, [])
      else if level = ''DEBUG1'' then (logDEBUG1, [])
      else if level = ''DEBUG'' then (logDEBUG, [])
      else if level = ''INFO'' then (logINFO, [])
      else if level = ''WARNING'' then (logWARNING, [])
      else if level = ''ERROR'' then (logERROR, [])
      else if level = ''OFF'' then (logOFF, [])
      else (logINFO, log_destroy (log_Get now logWARNING @
              ''Unknown logging level '' @ [CHR 0x27] @ level @ [CHR 0x27] @
              ''. Using INFO level as default.'')))"

definition initial_ReportingLevel :: log_level where
  "initial_ReportingLevel = logDEBUG4"

section \<open>The older header\<close>

text \<open>Its levels have no \<open>OFF\<close>; a level is its number, from 0 to 7.\<close>

definition old_names :: "string list" where
  "old_names = [''ERROR'', ''WARNING'', ''INFO'', ''DEBUG'', ''DEBUG1'', ''DEBUG2'', ''DEBUG3'', ''DEBUG4'']"

definition old_ToString :: "nat \<Rightarrow> string result" where
  "old_ToString level = index old_names level"

definition old_Get :: "string \<Rightarrow> nat \<Rightarrow> string result" where
  "old_Get now level =
     bind_result (old_ToString level) (\<lambda>str.
       Inr (''- '' @ now @ '' '' @ str @ '': '' @ replicate (if level > 3 then level - 3 else 0) CHR 0x09))"

text \<open>\<open>Output2FILE::Output\<close> on a stream that may be null.\<close>

definition Output2FILE_Output :: "bool \<Rightarrow> string \<Rightarrow> string" where
  "Output2FILE_Output stream msg = (if \<not> stream then [] else c_str msg)"

definition old_destroy :: "bool \<Rightarrow> string \<Rightarrow> string" where
  "old_destroy stream os = Output2FILE_Output stream (os @ [CHR 0x0A])"

definition FILELOG_MAX_LEVEL :: nat where "FILELOG_MAX_LEVEL = 7"

definition old_FILE_LOG :: "bool \<Rightarrow> nat \<Rightarrow> string \<Rightarrow> nat \<Rightarrow> string \<Rightarrow> string result" where
  "old_FILE_LOG stream ReportingLevel now level msg =
     (if level > FILELOG_MAX_LEVEL then Inr []
      else if level > ReportingLevel \<or> \<not> stream then Inr []
      else bind_result (old_Get now level) (\<lambda>prefix. Inr (old_destroy stream (prefix @ msg))))"

definition old_FromString :: "bool \<Rightarrow> string \<Rightarrow> string \<Rightarrow> (nat \<times> string) result" where
  "old_FromString stream now level =
     (if level = ''DEBUG4'' then Inr (7, [])
      else if level = ''DEBUG3'' then Inr (6, [])
      else if level = ''DEBUG2'' then Inr (5, [])
      else if level = ''DEBUG1'' then Inr (4, [])
      else if level = ''DEBUG'' then Inr (3, [])
      else if level = ''INFO'' then Inr (2, [])
      else if level = ''WARNING'' then Inr (1, [])
      else if level = ''ERROR'' then Inr (0, [])
      else bind_result (old_Get now 1) (\<lambda>prefix. Inr (2, old_destroy stream (prefix @
             ''Unknown logging level '' @ [CHR 0x27] @ level @ [CHR 0x27] @
             ''. Using INFO level as default.''))))"

section \<open>Properties\<close>

lemma FromString_ToString: "log_FromString now (log_ToString l) = (l, [])"
  by (cases l) (simp_all add: log_FromString_def)

text \<open>The lines of a sequence of log statements.\<close>

definition log_lines :: "log_level \<Rightarrow> (string \<times> log_level \<times> string) list \<Rightarrow> string" where
  "log_lines reporting msgs = concat (map (\<lambda>(now, level, msg). FILE_LOG reporting now level msg) msgs)"

lemma log_lines_filter:
  "log_lines reporting msgs = log_lines logDEBUG4 (filter (\<lambda>(now, level, msg). level \<le> reporting) msgs)"
proof -
  have "\<not> logDEBUG4 < level" for level
    by (cases level) (simp_all add: less_log_level_def)
  then show ?thesis
    by (induction msgs) (auto simp: log_lines_def FILE_LOG_def simp flip: not_less)
qed

text \<open>
  The name of a level is read back as that level without a word, any other name is \<open>INFO\<close> with a
  warning; and the log under a level is the full log without the statements above the level.
\<close>

lemma log_levels:
  "log_FromString now (log_ToString l) = (l, []) \<and>
   (name \<notin> range log_ToString \<longrightarrow> fst (log_FromString now name) = logINFO \<and> snd (log_FromString now name) \<noteq> []) \<and>
   log_lines reporting msgs = log_lines initial_ReportingLevel (filter (\<lambda>(now, level, msg). level \<le> reporting) msgs)"
proof (intro conjI impI)
  assume unknown: "name \<notin> range log_ToString"
  have "name \<noteq> log_ToString l" for l using unknown by blast
  from this [of logOFF] this [of logERROR] this [of logWARNING] this [of logINFO] this [of logDEBUG]
    this [of logDEBUG1] this [of logDEBUG2] this [of logDEBUG3] this [of logDEBUG4]
  show "fst (log_FromString now name) = logINFO" "snd (log_FromString now name) \<noteq> []"
    by (simp_all add: log_FromString_def log_destroy_def log_Get_def c_str_def)
qed (simp_all add: FromString_ToString initial_ReportingLevel_def log_lines_filter [of reporting])

lemma log_levels_witness:
  "fst (log_FromString ''10:00:00.000'' ''VERBOSE'') = logINFO \<and> snd (log_FromString ''10:00:00.000'' ''VERBOSE'') \<noteq> []"
proof (rule log_levels [THEN conjunct2, THEN conjunct1, THEN mp])
  show "''VERBOSE'' \<notin> range log_ToString"
  proof
    assume "''VERBOSE'' \<in> range log_ToString"
    then obtain l where "''VERBOSE'' = log_ToString l" by blast
    then show False by (cases l) simp_all
  qed
qed

text \<open>Where the two headers differ: only in the level \<open>OFF\<close>.\<close>

lemma headers_agree:
  assumes "level_number l = Suc n"
  shows "old_ToString n = Inr (log_ToString l)" "old_Get now n = Inr (log_Get now l)"
    "old_FromString True now (log_ToString l) = Inr (n, [])"
    "level_number k = Suc m \<Longrightarrow> old_FILE_LOG True m now n msg = Inr (FILE_LOG k now l msg)"
proof -
  show name: "old_ToString n = Inr (log_ToString l)"
    using assms by (cases l) (simp_all add: old_ToString_def old_names_def index_def)
  show get: "old_Get now n = Inr (log_Get now l)"
    using assms name by (cases l) (simp_all add: old_Get_def log_Get_def less_log_level_def)
  show "old_FromString True now (log_ToString l) = Inr (n, [])"
    using assms by (cases l) (simp_all add: old_FromString_def)
  have "n \<le> FILELOG_MAX_LEVEL" using assms by (cases l) (simp_all add: FILELOG_MAX_LEVEL_def)
  then show "level_number k = Suc m \<Longrightarrow> old_FILE_LOG True m now n msg = Inr (FILE_LOG k now l msg)"
    using assms get
    by (auto simp: old_FILE_LOG_def FILE_LOG_def less_log_level_def old_destroy_def Output2FILE_Output_def log_destroy_def)
qed

end
