(* ===== verification/ServerMain.thy ===== *)
theory ServerMain
  imports StoreLife StoreThreads Settings Logging TestStats
begin

text \<open>
  The entry point of the server (\<open>volodbserver/main.cpp\<close>): options, settings with their defaults, test
  modes, the log level, and the store. What the command line holds is the parsed options, or the
  exception of the parser; what destructors of static objects do after \<open>main\<close> is not followed.
\<close>

section \<open>Settings\<close>

record server_settings =
  cfg_noDefinerThreads :: int
  cfg_noExecutorThreads :: int
  cfg_singleClusterConnection :: bool
  cfg_transportPollWait :: int
  cfg_storePollWait :: int
  cfg_storePort :: int
  cfg_mySQLAddress :: string
  cfg_mySQLPort :: "32 word"
  cfg_ndbConnectString :: string
  cfg_ndbPort :: "32 word"
  cfg_userName :: string
  cfg_password :: string
  cfg_database :: string
  cfg_logLevel :: string

definition SETTINGS_SECTION :: string where "SETTINGS_SECTION = ''settings''"
definition TEST_SECTION :: string where "TEST_SECTION = ''test''"

definition read_int :: "settings \<Rightarrow> string \<Rightarrow> string \<Rightarrow> string \<Rightarrow> int result" where
  "read_int s name attribute defaultValue = bind_result (getValueOr s name attribute defaultValue) stoi"

definition read_server_settings :: "settings \<Rightarrow> server_settings result" where
  "read_server_settings s =
     bind_result (read_int s SETTINGS_SECTION ''no_definer_threads'' ''5'') (\<lambda>noDefinerThreads.
     bind_result (read_int s SETTINGS_SECTION ''no_executor_threads'' ''30'') (\<lambda>noExecutorThreads.
     bind_result (getValueOr s SETTINGS_SECTION ''single_cluster_connection'' ''1'') (\<lambda>singleClusterConnection.
     bind_result (read_int s SETTINGS_SECTION ''transport_poll_wait'' ''10'') (\<lambda>transportPollWait.
     bind_result (read_int s SETTINGS_SECTION ''store_poll_wait'' ''10'') (\<lambda>storePollWait.
     bind_result (read_int s SETTINGS_SECTION ''store_port'' ''5570'') (\<lambda>storePort.
     bind_result (getValueOr s SETTINGS_SECTION ''mysql_server_ip'' ''localhost'') (\<lambda>mySQLAddress.
     bind_result (read_int s SETTINGS_SECTION ''mysql_port'' ''3306'') (\<lambda>mySQLPort.
     bind_result (getValueOr s SETTINGS_SECTION ''ndb_connect_string'' ''localhost'') (\<lambda>ndbConnectString.
     bind_result (read_int s SETTINGS_SECTION ''ndb_port'' ''1186'') (\<lambda>ndbPort.
     bind_result (getValueOr s SETTINGS_SECTION ''mysql_user_name'' ''hop'') (\<lambda>userName.
     bind_result (getValueOr s SETTINGS_SECTION ''mysql_password'' ''hop'') (\<lambda>password.
     bind_result (getValueOr s SETTINGS_SECTION ''database'' ''vdb'') (\<lambda>database.
     bind_result (getValueOr s SETTINGS_SECTION ''log_level'' ''INFO'') (\<lambda>logLevel.
       Inr \<lparr>cfg_noDefinerThreads = noDefinerThreads, cfg_noExecutorThreads = noExecutorThreads,
            cfg_singleClusterConnection = toBool singleClusterConnection,
            cfg_transportPollWait = transportPollWait, cfg_storePollWait = storePollWait,
            cfg_storePort = storePort, cfg_mySQLAddress = mySQLAddress, cfg_mySQLPort = word_of_int mySQLPort,
            cfg_ndbConnectString = ndbConnectString, cfg_ndbPort = word_of_int ndbPort,
            cfg_userName = userName, cfg_password = password, cfg_database = database,
            cfg_logLevel = logLevel\<rparr>))))))))))))))"

section \<open>The store that is started\<close>

record main_options =
  opt_config_path :: string
  opt_test :: bool
  opt_test_throughput :: bool

definition runs_test :: "main_options \<Rightarrow> bool" where
  "runs_test options = (if opt_test_throughput options \<and> opt_test options then False else opt_test options)"

text \<open>\<open>new int[n]\<close> throws for a negative number; \<open>memory\<close> is what the new array holds.\<close>

definition new_stats :: "bool \<Rightarrow> int \<Rightarrow> int \<Rightarrow> int \<Rightarrow> int32 list \<Rightarrow> test_stats \<Rightarrow> test_stats result" where
  "new_stats doRun numberOfExecutors wTime tTime memory ts =
     (if numberOfExecutors < 0 then Inl (Thrown ''std::bad_array_new_length'')
      else Inr (TestStats_init doRun (nat numberOfExecutors) wTime tTime memory ts))"

definition main_stats :: "main_options \<Rightarrow> settings \<Rightarrow> int \<Rightarrow> int32 list \<Rightarrow> test_stats \<Rightarrow> test_stats result" where
  "main_stats options s noExecutorThreads memory ts =
     (if runs_test options then
        bind_result (read_int s TEST_SECTION ''warmup_time'' ''4'') (\<lambda>testWarmupTime.
        bind_result (read_int s TEST_SECTION ''total_time'' ''5'') (\<lambda>testTotalTime.
          new_stats True noExecutorThreads testWarmupTime testTotalTime memory ts))
      else if opt_test_throughput options then new_stats False noExecutorThreads 0 0 memory ts
      else Inr ts)"

text \<open>The thread counts become \<open>unsigned short\<close> and the ports \<open>int\<close> in the constructor's arguments.\<close>

definition main_store :: "server_settings \<Rightarrow> store" where
  "main_store cfg =
     Store_new (word_of_int (cfg_noDefinerThreads cfg)) (word_of_int (cfg_noExecutorThreads cfg))
       (cfg_singleClusterConnection cfg)"

definition main_login :: "server_settings \<Rightarrow> mysql_login" where
  "main_login cfg =
     \<lparr>my_address = cfg_mySQLAddress cfg, my_port = cfg_mySQLPort cfg, my_userName = cfg_userName cfg,
      my_password = cfg_password cfg, my_database = cfg_database cfg\<rparr>"

definition connectionString :: "server_settings \<Rightarrow> string" where
  "connectionString cfg = c_str (cfg_ndbConnectString cfg @ '':'' @ to_string (sint (cfg_ndbPort cfg)))"

section \<open>main\<close>

text \<open>\<open>waitTillNotRunning\<close> does not return while the store runs, and no thread of the server stops it.\<close>

definition waitTillNotRunning :: "store \<Rightarrow> unit run" where
  "waitTillNotRunning st = (if sto_isRunning st then None else Some (Inr ()))"

datatype main_outcome =
    ReturnCode int
  | ExitFailure
  | Undefined fault
  | NeverReturns

definition main_catch :: "unit run \<Rightarrow> main_outcome" where
  "main_catch r =
     (case r of
        None \<Rightarrow> NeverReturns
      | Some (Inl (Thrown what)) \<Rightarrow> ReturnCode 1
      | Some (Inl ProcessExit) \<Rightarrow> ExitFailure
      | Some (Inl e) \<Rightarrow> Undefined e
      | Some (Inr _) \<Rightarrow> ReturnCode 0)"

definition main_configure ::
  "(string \<Rightarrow> ptree result) \<Rightarrow> string \<Rightarrow> int32 list \<Rightarrow> main_options
   \<Rightarrow> (server_settings \<times> test_stats \<times> log_level \<times> string) result" where
  "main_configure read_ini now memory options =
     (let s = snd (ConfigFileReader_read read_ini (opt_config_path options) []) in
      bind_result (read_server_settings s) (\<lambda>cfg.
      bind_result (main_stats options s (cfg_noExecutorThreads cfg) memory TestStats_initial) (\<lambda>ts.
        let (level, warning) = log_FromString now (cfg_logLevel cfg)
        in Inr (cfg, ts, level, warning @ FILE_LOG level now logINFO ''Starting Server...''))))"

definition server_main ::
  "'z zmq_lib \<Rightarrow> (nat \<Rightarrow> bool) \<Rightarrow> (nat \<Rightarrow> bool) \<Rightarrow> (nat \<Rightarrow> bool) \<Rightarrow> (string \<Rightarrow> ptree result) \<Rightarrow> string
   \<Rightarrow> int32 list \<Rightarrow> main_options result \<Rightarrow> 'z \<Rightarrow> main_outcome" where
  "server_main Z connects ready comesUp read_ini now memory options w =
     main_catch
       (bind_run (Some options) (\<lambda>vm.
        bind_run (Some (main_configure read_ini now memory vm)) (\<lambda>(cfg, ts, level, logged).
        bind_run (store_run Z connects ready comesUp (main_store cfg, w)) (\<lambda>(st, w1).
        bind_run (if opt_test_throughput vm then startContinuous ts else Some (Inr ts)) (\<lambda>ts1.
        bind_run (waitTillNotRunning st) (\<lambda>_. Some (Store_destroy st)))))))"

section \<open>Reading back what was configured\<close>

definition default_settings :: server_settings where
  "default_settings =
     \<lparr>cfg_noDefinerThreads = 5, cfg_noExecutorThreads = 30, cfg_singleClusterConnection = True,
      cfg_transportPollWait = 10, cfg_storePollWait = 10, cfg_storePort = 5570,
      cfg_mySQLAddress = ''localhost'', cfg_mySQLPort = 3306, cfg_ndbConnectString = ''localhost'',
      cfg_ndbPort = 1186, cfg_userName = ''hop'', cfg_password = ''hop'', cfg_database = ''vdb'',
      cfg_logLevel = ''INFO''\<rparr>"

text \<open>The entries of a settings section that says the given settings.\<close>

definition settings_entries :: "server_settings \<Rightarrow> (string \<times> string) list" where
  "settings_entries c =
     [(''no_definer_threads'', to_string (cfg_noDefinerThreads c)),
      (''no_executor_threads'', to_string (cfg_noExecutorThreads c)),
      (''single_cluster_connection'', if cfg_singleClusterConnection c then ''true'' else ''false''),
      (''transport_poll_wait'', to_string (cfg_transportPollWait c)),
      (''store_poll_wait'', to_string (cfg_storePollWait c)),
      (''store_port'', to_string (cfg_storePort c)),
      (''mysql_server_ip'', cfg_mySQLAddress c),
      (''mysql_port'', to_string (uint (cfg_mySQLPort c))),
      (''ndb_connect_string'', cfg_ndbConnectString c),
      (''ndb_port'', to_string (uint (cfg_ndbPort c))),
      (''mysql_user_name'', cfg_userName c),
      (''mysql_password'', cfg_password c),
      (''database'', cfg_database c),
      (''log_level'', cfg_logLevel c)]"

definition chosen :: "(string \<Rightarrow> bool) \<Rightarrow> string \<Rightarrow> (server_settings \<Rightarrow> 'a) \<Rightarrow> server_settings \<Rightarrow> 'a" where
  "chosen keep k field c = (if keep k then field c else field default_settings)"

definition or_default :: "(string \<Rightarrow> bool) \<Rightarrow> server_settings \<Rightarrow> server_settings" where
  "or_default keep c =
     \<lparr>cfg_noDefinerThreads = chosen keep ''no_definer_threads'' cfg_noDefinerThreads c,
      cfg_noExecutorThreads = chosen keep ''no_executor_threads'' cfg_noExecutorThreads c,
      cfg_singleClusterConnection = chosen keep ''single_cluster_connection'' cfg_singleClusterConnection c,
      cfg_transportPollWait = chosen keep ''transport_poll_wait'' cfg_transportPollWait c,
      cfg_storePollWait = chosen keep ''store_poll_wait'' cfg_storePollWait c,
      cfg_storePort = chosen keep ''store_port'' cfg_storePort c,
      cfg_mySQLAddress = chosen keep ''mysql_server_ip'' cfg_mySQLAddress c,
      cfg_mySQLPort = chosen keep ''mysql_port'' cfg_mySQLPort c,
      cfg_ndbConnectString = chosen keep ''ndb_connect_string'' cfg_ndbConnectString c,
      cfg_ndbPort = chosen keep ''ndb_port'' cfg_ndbPort c,
      cfg_userName = chosen keep ''mysql_user_name'' cfg_userName c,
      cfg_password = chosen keep ''mysql_password'' cfg_password c,
      cfg_database = chosen keep ''database'' cfg_database c,
      cfg_logLevel = chosen keep ''log_level'' cfg_logLevel c\<rparr>"

definition is_int :: "int \<Rightarrow> bool" where
  "is_int i \<longleftrightarrow> - (2 ^ 31) \<le> i \<and> i < 2 ^ 31"

definition settings_in_range :: "server_settings \<Rightarrow> bool" where
  "settings_in_range c \<longleftrightarrow>
     is_int (cfg_noDefinerThreads c) \<and> is_int (cfg_noExecutorThreads c) \<and> is_int (cfg_transportPollWait c) \<and>
     is_int (cfg_storePollWait c) \<and> is_int (cfg_storePort c) \<and> is_int (uint (cfg_mySQLPort c)) \<and>
     is_int (uint (cfg_ndbPort c))"

lemma stoi_to_string: "is_int i \<Longrightarrow> stoi (to_string i) = Inr i"
  using stoi_to_string_append [of i "[]"] by (simp add: is_int_def)

lemma settings_entries_keys: "distinct (map fst (filter (\<lambda>(k, v). keep k) (settings_entries c)))"
  by (rule distinct_map_filter) (simp add: settings_entries_def)

lemma map_of_filter_keys: "map_of (filter (\<lambda>(k, v). keep k) kvs) k = (if keep k then map_of kvs k else None)"
  by (induction kvs) auto

lemma map_of_rev_distinct: "distinct (map fst kvs) \<Longrightarrow> map_of (rev kvs) = map_of kvs"
  by (rule map_of_inject_set [THEN iffD2]) (simp_all flip: rev_map)

definition written :: "(string \<Rightarrow> bool) \<Rightarrow> server_settings \<Rightarrow> settings" where
  "written keep c = read_sections [(''settings'', filter (\<lambda>(k, v). keep k) (settings_entries c))]"

lemma written_text:
  assumes "map_of (settings_entries c) k = Some x"
  shows "getValueOr (written keep c) SETTINGS_SECTION k v = Inr (if keep k then x else v)"
  using assms
  by (simp add: written_def getValueOr_cases read_sections_value file_value_def SETTINGS_SECTION_def
      map_of_rev_distinct [OF settings_entries_keys] map_of_filter_keys)

lemma written_chosen:
  "map_of (settings_entries c) k = Some (field c) \<Longrightarrow>
    getValueOr (written keep c) SETTINGS_SECTION k (field default_settings) = Inr (chosen keep k field c)"
  by (simp add: written_text chosen_def)

lemma written_int:
  assumes "map_of (settings_entries c) k = Some (to_string (field c))" "is_int (field c)"
    "stoi v = Inr (field default_settings)"
  shows "read_int (written keep c) SETTINGS_SECTION k v = Inr (chosen keep k field c)"
  using assms by (simp add: read_int_def written_text stoi_to_string chosen_def)

lemma default_numbers:
  "stoi ''5'' = Inr 5" "stoi ''30'' = Inr 30" "stoi ''10'' = Inr 10" "stoi ''5570'' = Inr 5570"
  "stoi ''3306'' = Inr 3306" "stoi ''1186'' = Inr 1186"
  by (simp_all add: stoi_def signed_digits_def is_space_def is_digit_def digits_value_def Let_def)

lemma default_flags: "toBool ''1''" "toBool ''true''" "\<not> toBool ''false''"
  by (simp_all add: toBool_def toLower_def to_lower_def)

lemmas settings_eval = settings_entries_def settings_in_range_def default_settings_def default_numbers

lemma written_numbers:
  assumes "settings_in_range c"
  shows "read_int (written keep c) SETTINGS_SECTION ''no_definer_threads'' ''5'' =
      Inr (chosen keep ''no_definer_threads'' cfg_noDefinerThreads c)"
    and "read_int (written keep c) SETTINGS_SECTION ''no_executor_threads'' ''30'' =
      Inr (chosen keep ''no_executor_threads'' cfg_noExecutorThreads c)"
    and "read_int (written keep c) SETTINGS_SECTION ''transport_poll_wait'' ''10'' =
      Inr (chosen keep ''transport_poll_wait'' cfg_transportPollWait c)"
    and "read_int (written keep c) SETTINGS_SECTION ''store_poll_wait'' ''10'' =
      Inr (chosen keep ''store_poll_wait'' cfg_storePollWait c)"
    and "read_int (written keep c) SETTINGS_SECTION ''store_port'' ''5570'' =
      Inr (chosen keep ''store_port'' cfg_storePort c)"
    and "read_int (written keep c) SETTINGS_SECTION ''mysql_port'' ''3306'' =
      Inr (chosen keep ''mysql_port'' (\<lambda>c. uint (cfg_mySQLPort c)) c)"
    and "read_int (written keep c) SETTINGS_SECTION ''ndb_port'' ''1186'' =
      Inr (chosen keep ''ndb_port'' (\<lambda>c. uint (cfg_ndbPort c)) c)"
  using assms
  by - (rule written_int, simp_all add: settings_eval)+

lemma written_texts:
  "getValueOr (written keep c) SETTINGS_SECTION ''mysql_server_ip'' ''localhost'' =
    Inr (chosen keep ''mysql_server_ip'' cfg_mySQLAddress c)"
  "getValueOr (written keep c) SETTINGS_SECTION ''ndb_connect_string'' ''localhost'' =
    Inr (chosen keep ''ndb_connect_string'' cfg_ndbConnectString c)"
  "getValueOr (written keep c) SETTINGS_SECTION ''mysql_user_name'' ''hop'' =
    Inr (chosen keep ''mysql_user_name'' cfg_userName c)"
  "getValueOr (written keep c) SETTINGS_SECTION ''mysql_password'' ''hop'' =
    Inr (chosen keep ''mysql_password'' cfg_password c)"
  "getValueOr (written keep c) SETTINGS_SECTION ''database'' ''vdb'' =
    Inr (chosen keep ''database'' cfg_database c)"
  "getValueOr (written keep c) SETTINGS_SECTION ''log_level'' ''INFO'' =
    Inr (chosen keep ''log_level'' cfg_logLevel c)"
  using written_chosen [of c "''mysql_server_ip''" cfg_mySQLAddress keep]
    written_chosen [of c "''ndb_connect_string''" cfg_ndbConnectString keep]
    written_chosen [of c "''mysql_user_name''" cfg_userName keep]
    written_chosen [of c "''mysql_password''" cfg_password keep]
    written_chosen [of c "''database''" cfg_database keep]
    written_chosen [of c "''log_level''" cfg_logLevel keep]
  by (simp_all add: settings_eval)

lemma written_flag:
  "getValueOr (written keep c) SETTINGS_SECTION ''single_cluster_connection'' ''1'' =
    Inr (if keep ''single_cluster_connection'' then if cfg_singleClusterConnection c then ''true'' else ''false'' else ''1'')"
  by (rule written_text) (simp add: settings_entries_def)

lemma chosen_port: "word_of_int (chosen keep k (\<lambda>c. uint (field c)) c) = (chosen keep k field c :: 32 word)"
  by (simp add: chosen_def)

text \<open>
  C32: a settings section that states any part of a configuration is read back as that configuration
  with the documented defaults for the rest; and when the file cannot be read, all of them are the
  defaults.
\<close>

theorem settings_read_back:
  assumes "settings_in_range c"
    and "read_ini path = Inr [(''settings'', filter (\<lambda>(k, v). keep k) (settings_entries c))]"
  shows "read_server_settings (snd (ConfigFileReader_read read_ini path [])) = Inr (or_default keep c) \<and>
    read_server_settings (snd (ConfigFileReader_read (\<lambda>_. Inl e) path [])) = Inr default_settings"
proof
  have "toBool (if keep ''single_cluster_connection'' then if cfg_singleClusterConnection c then ''true'' else ''false'' else ''1'') =
      chosen keep ''single_cluster_connection'' cfg_singleClusterConnection c"
    by (simp add: chosen_def default_settings_def default_flags)
  then show "read_server_settings (snd (ConfigFileReader_read read_ini path [])) = Inr (or_default keep c)"
    unfolding ConfigFileReader_read_def assms(2) sum.case snd_conv written_def [symmetric]
      read_server_settings_def written_numbers [OF assms(1)] written_texts written_flag bind_result_simps
      or_default_def chosen_port
    by simp
  show "read_server_settings (snd (ConfigFileReader_read (\<lambda>_. Inl e) path [])) = Inr default_settings"
    by (simp add: ConfigFileReader_read_def read_server_settings_def read_int_def getValueOr_cases getValue_def
        map_at_def default_settings_def default_numbers default_flags)
qed

definition sample_config :: server_settings where
  "sample_config = default_settings\<lparr>cfg_noExecutorThreads := 2, cfg_singleClusterConnection := False, cfg_logLevel := ''DEBUG''\<rparr>"

theorem settings_read_back_witness:
  "read_server_settings (snd (ConfigFileReader_read
      (\<lambda>_. Inr [(''settings'', filter (\<lambda>(k, v). k \<noteq> ''store_port'') (settings_entries sample_config))]) ''volodb.conf'' [])) =
    Inr (or_default (\<lambda>k. k \<noteq> ''store_port'') sample_config) \<and>
   read_server_settings (snd (ConfigFileReader_read (\<lambda>_. Inl (Thrown ''cannot open file'')) ''volodb.conf'' [])) =
    Inr default_settings"
  by (rule settings_read_back) (simp_all add: settings_in_range_def sample_config_def default_settings_def is_int_def)

section \<open>How main ends\<close>

lemma main_catch_zero: "main_catch r = ReturnCode 0 \<longleftrightarrow> (\<exists>u. r = Some (Inr u))"
  by (auto simp: main_catch_def split: option.split sum.split fault.split)

lemma main_stats_thread: "main_stats vm s n memory ts = Inr ts1 \<Longrightarrow> ts_thread ts1 = ts_thread ts"
  by (auto simp: main_stats_def new_stats_def TestStats_init_def bind_result_Inr_iff split: if_splits)

lemma main_configure_thread:
  assumes "main_configure read_ini now memory vm = Inr (cfg, ts, level, logged)"
  shows "ts_thread ts = NoThread"
proof -
  from assms obtain s n where "main_stats vm s n memory TestStats_initial = Inr ts"
    by (auto simp: main_configure_def bind_result_Inr_iff Let_def split_def)
  then show ?thesis by (simp add: main_stats_thread TestStats_initial_def)
qed

text \<open>
  C33: the server never ends in success: it waits for ever, returns 1 for an exception, exits for a
  cluster that is not there, or runs into undefined behaviour; and when all its executors come up
  and it is connected to the cluster it waits for ever, with the store running, whatever test mode
  it is in.
\<close>

theorem server_never_ends_well:
  "server_main Z connects ready comesUp read_ini now memory options w \<noteq> ReturnCode 0 \<and>
   (\<forall>vm cfg ts level logged st w1.
      options = Inr vm \<and> main_configure read_ini now memory vm = Inr (cfg, ts, level, logged) \<and>
      store_run Z connects ready comesUp (main_store cfg, w) = Some (Inr (st, w1)) \<longrightarrow>
      sto_isRunning st \<and> server_main Z connects ready comesUp read_ini now memory options w = NeverReturns)"
proof -
  have running: "sto_isRunning st"
    if "store_run Z connects ready comesUp (main_store cfg, w) = Some (Inr (st, w1))" for cfg st w1
    using that unfolding main_store_def by (rule store_run_started(1))
  then have "server_main Z connects ready comesUp read_ini now memory options w \<noteq> ReturnCode 0"
    by (auto simp: server_main_def main_catch_zero bind_run_Some_Inr_iff waitTillNotRunning_def)
  moreover have "server_main Z connects ready comesUp read_ini now memory options w = NeverReturns"
    if "options = Inr vm" "main_configure read_ini now memory vm = Inr (cfg, ts, level, logged)"
      "store_run Z connects ready comesUp (main_store cfg, w) = Some (Inr (st, w1))" for vm cfg ts level logged st w1
    using that running [OF that(3)] main_configure_thread [OF that(2)]
    by (simp add: server_main_def main_catch_def waitTillNotRunning_def startContinuous_def)
  ultimately show ?thesis using running by blast
qed

theorem server_never_ends_well_witness:
  "server_main ref_zmq_lib (\<lambda>_. True) (\<lambda>_. True) (\<lambda>_. True) (\<lambda>_. Inr [(''settings'',
      [(''no_definer_threads'', ''1''), (''no_executor_threads'', ''2''), (''single_cluster_connection'', ''no'')])])
     ''10:00:00.000'' [] (Inr \<lparr>opt_config_path = ''volodb.conf'', opt_test = False, opt_test_throughput = False\<rparr>)
     sample_sockets = NeverReturns"
proof -
  let ?file = "\<lambda>_::string. Inr [(''settings'', [(''no_definer_threads'', ''1''), (''no_executor_threads'', ''2''),
      (''single_cluster_connection'', ''no'')])] :: ptree result"
  let ?vm = "\<lparr>opt_config_path = ''volodb.conf'', opt_test = False, opt_test_throughput = False\<rparr>"
  let ?cfg = "default_settings\<lparr>cfg_noDefinerThreads := 1, cfg_noExecutorThreads := 2, cfg_singleClusterConnection := False\<rparr>"
  have "stoi ''1'' = Inr 1" "stoi ''2'' = Inr 2" "\<not> toBool ''no''"
    by (simp_all add: stoi_def signed_digits_def is_space_def is_digit_def digits_value_def toBool_def toLower_def
        to_lower_def Let_def)
  then have "\<exists>ts level logged. main_configure ?file ''10:00:00.000'' [] ?vm = Inr (?cfg, ts, level, logged)"
    by (simp add: main_configure_def ConfigFileReader_read_def read_server_settings_def read_int_def getValueOr_cases
        read_sections_value file_value_def SETTINGS_SECTION_def main_stats_def runs_test_def default_settings_def
        default_numbers default_flags split: prod.split)
  then obtain ts level logged where
    "main_configure ?file ''10:00:00.000'' [] ?vm = Inr (?cfg, ts, level, logged)" by blast
  moreover have "main_store ?cfg = Store_new 1 2 False" by (simp add: main_store_def)
  ultimately show ?thesis
    using server_never_ends_well [THEN conjunct2, rule_format, of "Inr ?vm" ?vm ?file "''10:00:00.000''" "[]" ?cfg ts level
        logged ref_zmq_lib "\<lambda>_. True" "\<lambda>_. True" "\<lambda>_. True" sample_sockets] sample_store_runs
    by simp
qed

end
