(* ===== verification/ResultPrinting.thy ===== *)
theory ResultPrinting
  imports ClientExecutor Columns
begin

text \<open>
  \<open>Executor::printResult\<close> (\<open>volodb-client/Executor/Executor.cpp\<close>): the text of a result. How a stream
  shows a floating-point number is an argument, on its bit pattern.
\<close>

record float_text =
  show_float :: "32 word \<Rightarrow> string"
  show_double :: "64 word \<Rightarrow> string"

definition line_end :: string where "line_end = [CHR 0x0A]"

definition shown :: "('a \<Rightarrow> string) \<Rightarrow> 'a result \<Rightarrow> string result" where
  "shown f r = bind_result r (\<lambda>x. Inr (f x))"

fun column_text :: "float_text \<Rightarrow> column_type \<Rightarrow> column_value \<Rightarrow> string result" where
  "column_text F Column_Type_BOOL c = shown (\<lambda>b. if b then ''1'' else ''0'') (getBool c)"
| "column_text F Column_Type_INT32 c = shown (\<lambda>i. to_string (sint i)) (getInt32 c)"
| "column_text F Column_Type_UINT32 c = shown (\<lambda>i. to_string (uint i)) (getUInt32 c)"
| "column_text F Column_Type_INT64 c = shown (\<lambda>i. to_string (sint i)) (getInt64 c)"
| "column_text F Column_Type_UINT64 c = shown (\<lambda>i. to_string (uint i)) (getUInt64 c)"
| "column_text F Column_Type_FLOAT c = shown (show_float F) (getFloat c)"
| "column_text F Column_Type_DOUBLE c = shown (show_double F) (getDouble c)"
| "column_text F Column_Type_CHAR c = Inr (getChar c)"
| "column_text F Column_Type_VARCHAR c = getVarChar c"
| "column_text F Column_Type_VARBINARY c = getVarBinary c"

definition print_column :: "float_text \<Rightarrow> column_value \<Rightarrow> string result" where
  "print_column F columnValue =
     bind_result (column_text F (ColumnValue_type columnValue) columnValue)
       (\<lambda>str. Inr (ColumnValue_name columnValue @ '': '' @ str @ line_end))"

text \<open>One output after another, as far as none of them fails.\<close>

fun print_all :: "(nat \<Rightarrow> 'a \<Rightarrow> string result) \<Rightarrow> nat \<Rightarrow> 'a list \<Rightarrow> string result" where
  "print_all f i [] = Inr []"
| "print_all f i (x # xs) = bind_result (f i x) (\<lambda>str. bind_result (print_all f (i + 1) xs) (\<lambda>rest. Inr (str @ rest)))"

definition print_row :: "float_text \<Rightarrow> nat \<Rightarrow> row \<Rightarrow> string result" where
  "print_row F j r =
     bind_result (print_all (\<lambda>_. print_column F) 0 (rw_column r))
       (\<lambda>str. Inr (''Row # '' @ digits j @ line_end @ str @ line_end @ line_end))"

definition print_operation :: "float_text \<Rightarrow> nat \<Rightarrow> operation_result \<Rightarrow> string result" where
  "print_operation F i r =
     bind_result (print_all (print_row F) 0 (opr_row r))
       (\<lambda>str. Inr (''Operation # '' @ digits i @ line_end @ str))"

definition printResult :: "float_text \<Rightarrow> message \<Rightarrow> string result" where
  "printResult F response =
     (case response of
        ResultMessage r \<Rightarrow>
          bind_result (print_all (print_operation F) 0 (rs_result r))
            (\<lambda>str. Inr (''Transaction ID # '' @ Result_transaction_identifier r @ line_end @ str))
      | _ \<Rightarrow> Inl NullDereference)"

end
