(* ===== verification/LoadTasks.thy ===== *)
theory LoadTasks
  imports ResultProto
begin

text \<open>
  The clients of the load tests: \<open>volodb-common/Test/TaskBase.h\<close> with the two tasks of
  \<open>volodbclientapp/Test\<close> that send through it, \<open>BasicTaskExecution.h\<close> and \<open>BasicTransportTask.h\<close>. A
  task sends its requests in bulks, counts the responses and ends when there are as many as it asked
  for; the wait for that end is a step relation.
\<close>

section \<open>Counting\<close>

record load_task =
  lt_instanceNo :: int
  lt_serverNo :: int
  lt_clientNo :: int
  lt_noRequests :: int
  lt_requestSize :: int
  lt_bulkSize :: int
  lt_responsesReceived :: "64 word"
  lt_totalBytesReceived :: "64 word"
  lt_endFlag :: bool

text \<open>The two counters are not initialised: \<open>memory\<close> is what they hold.\<close>

definition TaskBase_new :: "int \<Rightarrow> int \<Rightarrow> int \<Rightarrow> int \<Rightarrow> int \<Rightarrow> int \<Rightarrow> 64 word \<times> 64 word \<Rightarrow> load_task" where
  "TaskBase_new instanceNo serverNo clientNo noRequests requestSize bulkSize memory =
     \<lparr>lt_instanceNo = instanceNo, lt_serverNo = serverNo, lt_clientNo = clientNo, lt_noRequests = noRequests,
      lt_requestSize = requestSize, lt_bulkSize = bulkSize, lt_responsesReceived = fst memory,
      lt_totalBytesReceived = snd memory, lt_endFlag = False\<rparr>"

definition getTotalBytesReceived :: "load_task \<Rightarrow> int" where
  "getTotalBytesReceived t = sint (lt_totalBytesReceived t)"

text \<open>The product is taken in \<open>size_t\<close>. \<open>notifyToEnd\<close> also wakes the waiting thread, see below.\<close>

definition notifyToEnd :: "load_task \<Rightarrow> load_task" where
  "notifyToEnd t = t\<lparr>lt_endFlag := True\<rparr>"

definition updateStats :: "nat \<Rightarrow> int \<Rightarrow> load_task \<Rightarrow> load_task" where
  "updateStats totalMessages totalBytesOfMessages t =
     (let t1 = t\<lparr>lt_responsesReceived := lt_responsesReceived t + word_of_nat totalMessages * word_of_int (lt_bulkSize t),
                 lt_totalBytesReceived := lt_totalBytesReceived t + word_of_int totalBytesOfMessages\<rparr>
      in if sint (lt_responsesReceived t1) \<ge> lt_noRequests t1 then notifyToEnd t1 else t1)"

text \<open>The delegates of the two tasks.\<close>

definition execution_didReceiveResponse :: "pb_lib \<Rightarrow> server_result list \<Rightarrow> load_task \<Rightarrow> load_task" where
  "execution_didReceiveResponse L result t =
     updateStats (length result) (sum_list (map (\<lambda>res. int (Result_ByteSize L res)) result)) t"

definition transport_didReceiveMessage :: "bytes list \<Rightarrow> load_task \<Rightarrow> load_task" where
  "transport_didReceiveMessage messages t =
     updateStats (length messages) (sum_list (map (\<lambda>message. int (length message)) messages)) t"

section \<open>Sending\<close>

text \<open>The loop of \<open>run\<close> over the request numbers: the bulks it hands to \<open>sendData\<close>.\<close>

fun send_bulks :: "(int \<Rightarrow> int \<Rightarrow> 'a) \<Rightarrow> int \<Rightarrow> int list \<Rightarrow> 'a list \<Rightarrow> int \<Rightarrow> 'a list list" where
  "send_bulks getData bulkSize [] preparedMessages counter =
     (if length preparedMessages > 0 then [preparedMessages] else [])"
| "send_bulks getData bulkSize (i # is) preparedMessages counter =
     (if counter = bulkSize - 1 then
        (preparedMessages @ [getData i counter]) # send_bulks getData bulkSize is [] 0
      else send_bulks getData bulkSize is (preparedMessages @ [getData i counter]) (counter + 1))"

definition run_begin_task :: "load_task \<Rightarrow> load_task" where
  "run_begin_task t = t\<lparr>lt_responsesReceived := 0\<rparr>"

definition task_run :: "(int \<Rightarrow> int \<Rightarrow> 'a) \<Rightarrow> load_task \<Rightarrow> 'a list list \<times> load_task" where
  "task_run getData t =
     (send_bulks getData (lt_bulkSize t) [0..lt_noRequests t - 1] [] 0, run_begin_task t)"

lemma next_counter:
  assumes "1 \<le> (b::int)" "0 \<le> m"
  shows "(m + 1) mod b = (if m mod b = b - 1 then 0 else m mod b + 1)"
proof -
  have m: "0 \<le> m mod b" "m mod b < b" using assms by simp_all
  have "(m + 1) mod b = (m mod b + 1) mod b" by (simp add: mod_add_left_eq)
  with m show ?thesis by (cases "m mod b = b - 1") (simp_all add: mod_pos_pos_trivial)
qed

lemma send_bulks_concat:
  assumes "1 \<le> b" "0 \<le> m"
  shows "concat (send_bulks getData b [m..n] prepared (m mod b)) = prepared @ map (\<lambda>i. getData i (i mod b)) [m..n]"
  using assms
proof (induction "nat (n + 1 - m)" arbitrary: m prepared)
  case 0
  then show ?case by simp
next
  case (Suc k)
  then have first: "[m..n] = m # [m + 1..n]" by (simp add: upto.simps)
  from Suc have "k = nat (n + 1 - (m + 1))" "0 \<le> m + 1" by simp_all
  note IH = Suc.hyps(1) [OF this(1) Suc.prems(1) this(2)]
  show ?case
    using IH [of "[]"] IH [of "prepared @ [getData m (m mod b)]"] next_counter [OF Suc.prems]
    by (cases "m mod b = b - 1") (simp_all add: first)
qed

lemma send_bulks_sizes:
  assumes "length prepared < b" "bulk \<in> set (send_bulks getData (int b) is prepared (int (length prepared)))"
  shows "0 < length bulk \<and> length bulk \<le> b"
  using assms
proof (induction "is" arbitrary: prepared)
  case (Cons i "is")
  let ?more = "prepared @ [getData i (int (length prepared))]"
  show ?case
  proof (cases "length prepared + 1 = b")
    case True
    with Cons.prems Cons.IH [of "[]"] show ?thesis by auto
  next
    case False
    with Cons.prems Cons.IH [of ?more] show ?thesis by (auto simp: add.commute split: if_splits)
  qed
qed (auto split: if_splits)

lemma send_bulks_number:
  assumes "length prepared < b"
  shows "length (send_bulks getData (int b) is prepared (int (length prepared))) = (length prepared + length is + b - 1) div b"
  using assms
proof (induction "is" arbitrary: prepared)
  case Nil
  then show ?case
  proof (cases prepared)
    case (Cons p ps)
    with Nil have "length ps < b" "0 < b" by simp_all
    then have "(length ps + b) div b = 1" by (simp add: div_add_self2)
    with Cons show ?thesis by simp
  qed simp
next
  case (Cons i "is")
  let ?more = "prepared @ [getData i (int (length prepared))]"
  show ?case
  proof (cases "length prepared + 1 = b")
    case True
    have "(length prepared + length (i # is) + b - 1) div b = (b + (length is + b - 1)) div b"
      using True by (intro arg_cong [of _ _ "\<lambda>x. x div b"]) simp
    also have "\<dots> = (length is + b - 1) div b + 1" using Cons.prems by (simp only: div_add_self1)
    finally show ?thesis using True Cons.IH [of "[]"] Cons.prems by simp
  next
    case False
    with Cons.prems Cons.IH [of ?more] show ?thesis by (auto simp: add.commute)
  qed
qed

section \<open>The end of a task\<close>

text \<open>The responses to the first \<open>k\<close> bulks, one response of the given size each.\<close>

fun answered_bulks :: "int list \<Rightarrow> load_task \<Rightarrow> load_task" where
  "answered_bulks [] t = t"
| "answered_bulks (bytes # sizes) t = answered_bulks sizes (updateStats 1 bytes t)"

lemma updateStats_fields [simp]:
  "lt_noRequests (updateStats n bytes t) = lt_noRequests t" "lt_bulkSize (updateStats n bytes t) = lt_bulkSize t"
  "lt_responsesReceived (updateStats n bytes t) = lt_responsesReceived t + word_of_nat n * word_of_int (lt_bulkSize t)"
  by (simp_all add: updateStats_def notifyToEnd_def Let_def)

lemma updateStats_end:
  "lt_endFlag (updateStats n bytes t) \<longleftrightarrow>
    lt_endFlag t \<or> lt_noRequests t \<le> sint (lt_responsesReceived t + word_of_nat n * word_of_int (lt_bulkSize t))"
  by (auto simp: updateStats_def notifyToEnd_def Let_def)

lemma answered_bulks_end:
  assumes "0 \<le> lt_bulkSize t" "sint (lt_responsesReceived t) = r" "0 \<le> r"
    and "r + int (length sizes) * lt_bulkSize t < 2 ^ 63"
  shows "lt_endFlag (answered_bulks sizes t) \<longleftrightarrow>
    lt_endFlag t \<or> (sizes \<noteq> [] \<and> lt_noRequests t \<le> r + int (length sizes) * lt_bulkSize t)"
  using assms
proof (induction sizes arbitrary: t r)
  case (Cons bytes sizes)
  let ?t = "updateStats 1 bytes t"
  have total: "r + lt_bulkSize t + int (length sizes) * lt_bulkSize t < 2 ^ 63"
    using Cons.prems(4) by (simp add: algebra_simps)
  moreover have "0 \<le> int (length sizes) * lt_bulkSize t" using Cons.prems(1) by simp
  ultimately have small: "r + lt_bulkSize t < 2 ^ 63" by linarith
  have "lt_responsesReceived t = word_of_int r" using Cons.prems(2) by (metis of_int_sint scast_id)
  then have "sint (lt_responsesReceived ?t) = sint (word_of_int (r + lt_bulkSize t) :: 64 word)" by simp
  also have "\<dots> = r + lt_bulkSize t"
    using small Cons.prems(1,3) by (simp only: sint_sbintrunc') (simp add: signed_take_bit_int_eq_self)
  finally have r: "sint (lt_responsesReceived ?t) = r + lt_bulkSize t" .
  have "0 \<le> r + lt_bulkSize t" using Cons.prems(1,3) by simp
  moreover have "0 \<le> lt_bulkSize ?t" "r + lt_bulkSize t + int (length sizes) * lt_bulkSize ?t < 2 ^ 63"
    using Cons.prems(1) total by simp_all
  ultimately have "lt_endFlag (answered_bulks sizes ?t) \<longleftrightarrow>
      lt_endFlag ?t \<or> (sizes \<noteq> [] \<and> lt_noRequests ?t \<le> r + lt_bulkSize t + int (length sizes) * lt_bulkSize ?t)"
    using r by (intro Cons.IH)
  moreover have "lt_endFlag ?t \<longleftrightarrow> lt_endFlag t \<or> lt_noRequests t \<le> r + lt_bulkSize t"
    using r by (simp add: updateStats_end)
  moreover have "0 \<le> int (length sizes) * lt_bulkSize t" using Cons.prems(1) by simp
  ultimately show ?case by (cases "sizes = []") (auto simp: algebra_simps)
qed simp

lemma bulks_cover:
  assumes "0 < (b::nat)"
  shows "n \<le> k * b \<longleftrightarrow> (n + b - 1) div b \<le> k"
proof -
  have "(n + b - 1) div b < k + 1 \<longleftrightarrow> n + b - 1 < (k + 1) * b" by (rule div_less_iff_less_mult [OF assms])
  also have "\<dots> \<longleftrightarrow> n \<le> k * b" using assms by (simp add: algebra_simps) linarith
  finally show ?thesis by (simp add: less_Suc_eq_le)
qed

text \<open>
  C30: a task sends all of its requests in order, in bulks that are never larger than the bulk size,
  and when every bulk is answered by one response it ends with the response to the last bulk and not
  before, whatever the size of that bulk.
\<close>

theorem task_ends_with_last_bulk:
  assumes "1 \<le> lt_bulkSize t" "1 \<le> lt_noRequests t" "lt_noRequests t + lt_bulkSize t < 2 ^ 63" "\<not> lt_endFlag t"
    and "task_run getData t = (bulks, t1)" "length sizes \<le> length bulks"
  shows "concat bulks = map (\<lambda>i. getData i (i mod lt_bulkSize t)) [0..lt_noRequests t - 1] \<and>
    list_all (\<lambda>bulk. 0 < length bulk \<and> int (length bulk) \<le> lt_bulkSize t) bulks \<and>
    (lt_endFlag (answered_bulks sizes t1) \<longleftrightarrow> length sizes = length bulks)"
proof -
  let ?b = "nat (lt_bulkSize t)" and ?n = "nat (lt_noRequests t)"
  have b: "int ?b = lt_bulkSize t" "0 < ?b" and n: "int ?n = lt_noRequests t" using assms(1,2) by simp_all
  from assms(5) have bulks: "bulks = send_bulks getData (int ?b) [0..lt_noRequests t - 1] [] 0"
    and t1: "t1 = t\<lparr>lt_responsesReceived := 0\<rparr>"
    using b(1) by (simp_all add: task_run_def run_begin_task_def)
  have "concat bulks = map (\<lambda>i. getData i (i mod lt_bulkSize t)) [0..lt_noRequests t - 1]"
    using send_bulks_concat [OF assms(1), of 0 getData "lt_noRequests t - 1" "[]"] b(1) bulks by simp
  moreover have "list_all (\<lambda>bulk. 0 < length bulk \<and> int (length bulk) \<le> lt_bulkSize t) bulks"
  proof (unfold list_all_iff, rule ballI)
    fix bulk assume "bulk \<in> set bulks"
    with send_bulks_sizes [of "[]" ?b bulk getData "[0..lt_noRequests t - 1]"] bulks b
    have "0 < length bulk" "length bulk \<le> ?b" by simp_all
    with b(1) show "0 < length bulk \<and> int (length bulk) \<le> lt_bulkSize t" by linarith
  qed
  moreover have "lt_endFlag (answered_bulks sizes t1) \<longleftrightarrow> length sizes = length bulks"
  proof -
    have number: "length bulks = (?n + ?b - 1) div ?b"
      using send_bulks_number [of "[]" ?b getData "[0..lt_noRequests t - 1]"] bulks b n by simp
    have product: "int (length sizes) * lt_bulkSize t = int (length sizes * ?b)" using b(1) by simp
    have "length sizes * ?b \<le> length bulks * ?b" using assms(6) by simp
    also have "\<dots> \<le> ?n + ?b - 1" unfolding number by (rule div_times_less_eq_dividend)
    also have "\<dots> < ?n + ?b" using b(2) by simp
    finally have "int (length sizes * ?b) < int ?n + int ?b" by linarith
    then have "int (length sizes * ?b) < 2 ^ 63" using assms(3) b(1) n by linarith
    then have small: "0 + int (length sizes) * lt_bulkSize t1 < 2 ^ 63" using assms(1) by (simp add: t1)
    have zero: "sint (lt_responsesReceived t1) = 0" "0 \<le> lt_bulkSize t1" using assms(1) by (simp_all add: t1)
    have "lt_endFlag (answered_bulks sizes t1) \<longleftrightarrow> sizes \<noteq> [] \<and> lt_noRequests t \<le> int (length sizes) * lt_bulkSize t"
      using answered_bulks_end [OF zero(2,1) order_refl small] assms(4) by (simp add: t1)
    also have "\<dots> \<longleftrightarrow> lt_noRequests t \<le> int (length sizes * ?b)"
      using assms(2) by (cases "sizes = []") (simp_all only: product, simp_all)
    also have "\<dots> \<longleftrightarrow> ?n \<le> length sizes * ?b"
      using n by linarith
    also have "\<dots> \<longleftrightarrow> length sizes = length bulks"
      using bulks_cover [OF b(2)] assms(6) number by auto
    finally show ?thesis .
  qed
  ultimately show ?thesis by blast
qed

theorem task_ends_with_last_bulk_witness:
  "lt_endFlag (answered_bulks [10, 10] ((TaskBase_new 0 0 0 3 1 2 (7, 7))\<lparr>lt_responsesReceived := 0\<rparr>))"
  using task_ends_with_last_bulk [of "TaskBase_new 0 0 0 3 1 2 (7, 7)" "\<lambda>i c. i" "[[0, 1], [2]]"
      "(TaskBase_new 0 0 0 3 1 2 (7, 7))\<lparr>lt_responsesReceived := 0\<rparr>" "[10, 10]"]
  by (simp add: TaskBase_new_def task_run_def run_begin_task_def upto.simps)

text \<open>A task without requests sends nothing, and so is never told to end.\<close>

lemma no_requests: "lt_noRequests t \<le> 0 \<Longrightarrow> fst (task_run getData t) = []"
  by (simp add: task_run_def)

text \<open>A bulk size below 1 makes one bulk, whose response counts for nothing.\<close>

lemma bulk_size_zero:
  assumes "lt_bulkSize t = 0" "1 \<le> lt_noRequests t" "sint (lt_responsesReceived t) < lt_noRequests t" "\<not> lt_endFlag t"
  shows "\<not> lt_endFlag (updateStats n bytes t)"
  using assms by (simp add: updateStats_end)

section \<open>Waiting for the end\<close>

text \<open>
  \<open>waitTillEnd\<close> holds the mutex while it looks at the flag and until it waits; \<open>notifyToEnd\<close> sets the
  flag and notifies without it. \<open>ew_calls\<close> is the number of calls of \<open>notifyToEnd\<close> still to come.
\<close>

datatype end_waiter =
    Looks
  | SawFalse
  | Sleeps
  | Ended

record end_wait =
  ew_waiter :: end_waiter
  ew_endFlag :: bool
  ew_notifying :: bool
  ew_calls :: nat

definition end_wait_begin :: "nat \<Rightarrow> end_wait" where
  "end_wait_begin calls = \<lparr>ew_waiter = Looks, ew_endFlag = False, ew_notifying = False, ew_calls = calls\<rparr>"

inductive end_step :: "end_wait \<Rightarrow> end_wait \<Rightarrow> bool" where
  look: "ew_waiter s = Looks \<Longrightarrow> end_step s (s\<lparr>ew_waiter := (if ew_endFlag s then Ended else SawFalse)\<rparr>)"
| sleep: "ew_waiter s = SawFalse \<Longrightarrow> end_step s (s\<lparr>ew_waiter := Sleeps\<rparr>)"
| wake: "ew_waiter s = Sleeps \<Longrightarrow> end_step s (s\<lparr>ew_waiter := Looks\<rparr>)" \<comment> \<open>spurious\<close>
| set_flag: "\<not> ew_notifying s \<Longrightarrow> 0 < ew_calls s \<Longrightarrow>
    end_step s (s\<lparr>ew_endFlag := True, ew_notifying := True, ew_calls := ew_calls s - 1\<rparr>)"
| notify: "ew_notifying s \<Longrightarrow>
    end_step s (s\<lparr>ew_notifying := False, ew_waiter := (if ew_waiter s = Sleeps then Looks else ew_waiter s)\<rparr>)"

inductive_cases end_stepE: "end_step s t"

definition lost_wake_up :: end_wait where
  "lost_wake_up = \<lparr>ew_waiter = Sleeps, ew_endFlag = True, ew_notifying = False, ew_calls = 0\<rparr>"

lemma lost_wake_up_reached: "end_step\<^sup>*\<^sup>* (end_wait_begin 1) lost_wake_up"
proof -
  let ?saw = "\<lparr>ew_waiter = SawFalse, ew_endFlag = False, ew_notifying = False, ew_calls = 1\<rparr>"
  let ?set = "\<lparr>ew_waiter = SawFalse, ew_endFlag = True, ew_notifying = True, ew_calls = 0\<rparr>"
  let ?notified = "\<lparr>ew_waiter = SawFalse, ew_endFlag = True, ew_notifying = False, ew_calls = 0\<rparr>"
  have "end_step (end_wait_begin 1) ?saw" using end_step.look [of "end_wait_begin 1"] by (simp add: end_wait_begin_def)
  moreover have "end_step ?saw ?set" using end_step.set_flag [of ?saw] by simp
  moreover have "end_step ?set ?notified" using end_step.notify [of ?set] by simp
  moreover have "end_step ?notified lost_wake_up" using end_step.sleep [of ?notified] by (simp add: lost_wake_up_def)
  ultimately show ?thesis by (meson converse_rtranclp_into_rtranclp rtranclp.rtrancl_refl)
qed

text \<open>
  C31: the last wake-up can be lost: the flag can be set and the notification sent between the waiting
  thread's look at the flag and its wait, and then nothing but a spurious wake-up ever ends the wait.
\<close>

theorem wake_up_can_be_lost:
  "\<exists>s. end_step\<^sup>*\<^sup>* (end_wait_begin 1) s \<and> ew_waiter s = Sleeps \<and> ew_endFlag s \<and>
    Collect (end_step s) = {s\<lparr>ew_waiter := Looks\<rparr>}"
proof (intro exI [of _ lost_wake_up] conjI lost_wake_up_reached)
  show "Collect (end_step lost_wake_up) = {lost_wake_up\<lparr>ew_waiter := Looks\<rparr>}"
    using end_step.wake [of lost_wake_up] by (auto simp: lost_wake_up_def elim: end_stepE)
qed (simp_all add: lost_wake_up_def)

end
