(* ===== verification/ClientTests.thy ===== *)
theory ClientTests
  imports LoadTasks Messages Columns Settings "HOL-Library.Signed_Division"
begin

text \<open>
  The load tests of the client application (\<open>volodbclientapp\<close>, \<open>volodb-common/Test/TestBase.cpp\<close>): what
  each test sends, how a test case of the configuration is chosen and configured, and the entry point.
\<close>

section \<open>What the tests send\<close>

definition test_store_name :: "int \<Rightarrow> int \<Rightarrow> bytes" where
  "test_store_name clientNo requestNo = ''Test_'' @ to_string clientNo @ ''_'' @ to_string requestNo"

definition CreateStoreTest_getData :: "int \<Rightarrow> int \<Rightarrow> message" where
  "CreateStoreTest_getData requestNo clientNo =
     CreateStoreMessage
       (CreateStoreOperation_add_column (\<lambda>c. ColumnInfo_set_type Column_Type_FLOAT (ColumnInfo_set_name ''col5'' c))
       (CreateStoreOperation_add_column (\<lambda>c. ColumnInfo_set_type Column_Type_INT64
         (ColumnInfo_set_name ''col4'' (ColumnInfo_set_primary_key True c)))
       (CreateStoreOperation_add_column (\<lambda>c. ColumnInfo_set_type Column_Type_UINT64
         (ColumnInfo_set_name ''col3'' (ColumnInfo_set_primary_key True c)))
       (CreateStoreOperation_add_column (\<lambda>c. ColumnInfo_set_distribution_key True
         (ColumnInfo_set_type Column_Type_INT32 (ColumnInfo_set_name ''col2'' (ColumnInfo_set_primary_key True c))))
       (CreateStoreOperation_add_column (\<lambda>c. ColumnInfo_set_type Column_Type_UINT32
         (ColumnInfo_set_primary_key True (ColumnInfo_set_name ''col1'' c)))
       (CreateStoreOperation_mutable_store_info (StoreInfo_set_store_name (test_store_name clientNo requestNo))
         CreateStoreOperation_new))))))"

definition DropStoreTest_getData :: "int \<Rightarrow> int \<Rightarrow> message" where
  "DropStoreTest_getData requestNo clientNo =
     DropStoreMessage (DropStoreOperation_mutable_store_info
       (StoreInfo_set_store_name (test_store_name clientNo requestNo)) DropStoreOperation_new)"

text \<open>The key columns that four of the tests build, converted to the width of their columns.\<close>

definition test_keys :: "int \<Rightarrow> int \<Rightarrow> int \<Rightarrow> int \<Rightarrow> column_value list result" where
  "test_keys instanceNo serverNo requestNo clientNo =
     bind_result (addUInt32Column ''col1'' (word_of_int serverNo) True False \<lparr>cvb_columns = []\<rparr>) (\<lambda>b1.
     bind_result (addInt32Column ''col2'' (word_of_int requestNo) True True b1) (\<lambda>b2.
     bind_result (addUInt64Column ''col3'' (word_of_int clientNo) True False b2) (\<lambda>b3.
     bind_result (addInt64Column ''col4'' (word_of_int instanceNo) True False b3) (\<lambda>b4.
       Inr (getColumns b4)))))"

text \<open>\<open>(float)5.35\<close> in IEEE single precision.\<close>

definition SetTest_getData :: "int \<Rightarrow> int \<Rightarrow> int \<Rightarrow> int \<Rightarrow> message result" where
  "SetTest_getData instanceNo serverNo requestNo clientNo =
     bind_result (test_keys instanceNo serverNo requestNo clientNo) (\<lambda>keys.
     bind_result (addFloatColumn ''col5'' 0x40AB3333 False False \<lparr>cvb_columns = []\<rparr>) (\<lambda>values.
       Inr (SetMessage (SetValues SetOperation_add_value
         (SetPrimaryKeys SetOperation_add_primary_key
           (SetOperation_add_store_info (StoreInfo_set_store_name ''Test_0_0'') SetOperation_new) keys)
         (getColumns values)))))"

definition GetTest_getData :: "int \<Rightarrow> int \<Rightarrow> int \<Rightarrow> int \<Rightarrow> message result" where
  "GetTest_getData instanceNo serverNo requestNo clientNo =
     bind_result (test_keys instanceNo serverNo requestNo clientNo) (\<lambda>keys.
       Inr (GetMessage (SetPrimaryKeys GetOperation_add_primary_key
         (GetOperation_add_store_info (StoreInfo_set_store_name ''Test_0_0'') GetOperation_new) keys)))"

definition DeleteTest_getData :: "int \<Rightarrow> int \<Rightarrow> int \<Rightarrow> int \<Rightarrow> message result" where
  "DeleteTest_getData instanceNo serverNo requestNo clientNo =
     bind_result (test_keys instanceNo serverNo requestNo clientNo) (\<lambda>keys.
       Inr (DeleteMessage (SetPrimaryKeys DeleteOperation_add_primary_key
         (DeleteOperation_add_store_info (StoreInfo_set_store_name ''Test_0_0'') DeleteOperation_new) keys)))"

definition PruneIndexScan_getData :: "int \<Rightarrow> message result" where
  "PruneIndexScan_getData requestNo =
     bind_result (addInt32Column ''col2'' (word_of_int requestNo) True True \<lparr>cvb_columns = []\<rparr>) (\<lambda>keys.
       Inr (GetMessage (SetPrimaryKeys GetOperation_add_primary_key
         (GetOperation_add_store_info (StoreInfo_set_store_name ''Test_0_0'') GetOperation_new) (getColumns keys))))"

section \<open>Choosing the tests\<close>

definition endsWith :: "string \<Rightarrow> string \<Rightarrow> bool" where
  "endsWith str ending =
     (if length ending > length str then False else rev ending = take (length ending) (rev str))"

definition startsWith :: "string \<Rightarrow> string \<Rightarrow> bool" where
  "startsWith a b = (if length a > length b then take (length b) a = b else take (length a) b = a)"

datatype test_case =
    ClientTransportTest
  | CreateStoreTestAllTypes
  | DropStoreTestAllTypes
  | SetTestSimple
  | DeleteTestSimple
  | GetTestSimple
  | PruneIndexScan

definition select_test :: "string \<Rightarrow> test_case option" where
  "select_test name =
     (if endsWith name ''TransportTest'' then Some ClientTransportTest
      else if endsWith name ''CreateStoreTest-AllTypes'' then Some CreateStoreTestAllTypes
      else if endsWith name ''DropStoreTest-AllTypes'' then Some DropStoreTestAllTypes
      else if endsWith name ''SetTest-Simple'' then Some SetTestSimple
      else if endsWith name ''DeleteTest-Simple'' then Some DeleteTestSimple
      else if endsWith name ''GetTest-Simple'' then Some GetTestSimple
      else if endsWith name ''PruneIndexScan'' then Some PruneIndexScan
      else None)"

text \<open>The tests \<open>TestExecutor::handle\<close> selects, in order, each with its settings.\<close>

fun TestExecutor_handle :: "settings \<Rightarrow> (test_case \<times> string \<times> string string_map) list" where
  "TestExecutor_handle [] = []"
| "TestExecutor_handle ((name, attributes) # testCases) =
     (if map_of attributes ''disabled'' \<noteq> None then TestExecutor_handle testCases
      else case select_test name of
             None \<Rightarrow> TestExecutor_handle testCases
           | Some test \<Rightarrow> (test, name, attributes) # TestExecutor_handle testCases)"

section \<open>Configuring a test\<close>

record test_config =
  tc_noClients :: int
  tc_noWorkerThreads :: int
  tc_noRequests :: int
  tc_serverAddress :: string
  tc_requestSize :: int
  tc_bulkSize :: int

text \<open>\<open>settings[k]\<close> of a key that is not there is an empty string.\<close>

definition map_index :: "string string_map \<Rightarrow> string \<Rightarrow> string" where
  "map_index m k = (case map_of m k of None \<Rightarrow> [] | Some v \<Rightarrow> v)"

definition optional_int :: "string string_map \<Rightarrow> string \<Rightarrow> int \<Rightarrow> int result" where
  "optional_int m k otherwise = (case map_of m k of None \<Rightarrow> Inr otherwise | Some v \<Rightarrow> stoi v)"

definition TestBase_start :: "string string_map \<Rightarrow> test_config result" where
  "TestBase_start m =
     bind_result (stoi (map_index m ''no_clients'')) (\<lambda>noClients.
     bind_result (stoi (map_index m ''transport_worker_threads'')) (\<lambda>noWorkerThreads.
     bind_result (stoi (map_index m ''no_requests'')) (\<lambda>noRequests.
     bind_result (optional_int m ''request_size'' 1) (\<lambda>requestSize.
     bind_result (optional_int m ''bulk_size'' 1) (\<lambda>bulkSize.
       Inr \<lparr>tc_noClients = noClients, tc_noWorkerThreads = noWorkerThreads, tc_noRequests = noRequests,
            tc_serverAddress = map_index m ''server_address'', tc_requestSize = requestSize,
            tc_bulkSize = bulkSize\<rparr>)))))"

text \<open>The clients a test starts, one thread each; \<open>memory\<close> is what their counters hold at first.\<close>

definition BasicTest_clients ::
  "(int \<Rightarrow> 64 word \<times> 64 word) \<Rightarrow> string string_map \<Rightarrow> load_task list result" where
  "BasicTest_clients memory m =
     bind_result (TestBase_start m) (\<lambda>tc.
     bind_result (stoi (map_index m ''instance_no'')) (\<lambda>instanceNo.
     bind_result (stoi (map_index m ''server_no'')) (\<lambda>serverNo.
       Inr (map (\<lambda>clientNo. TaskBase_new instanceNo serverNo clientNo (tc_noRequests tc) (tc_requestSize tc)
              (tc_bulkSize tc) (memory clientNo)) [0..tc_noClients tc - 1]))))"

text \<open>
  The rate of the footer; the product of two \<open>int\<close>s must be one. The second that the clients sleep
  before they start is taken off the time.
\<close>

definition printFooter_rate :: "test_config \<Rightarrow> int \<Rightarrow> int" where
  "printFooter_rate tc duration =
     (let totalSecondsTaken = duration - 1
      in (tc_noRequests tc * tc_noClients tc) sdiv (if totalSecondsTaken = 0 then 1 else totalSecondsTaken))"

text \<open>What \<open>run\<close> hands to \<open>sendData\<close> is a bulk, and only one of the two tasks overrides that overload.\<close>

definition execution_sendData :: "'a list \<Rightarrow> 'a list option" where
  "execution_sendData bulk = Some bulk"

definition transport_sendData :: "'a list \<Rightarrow> 'a list option" where
  "transport_sendData bulk = None"

definition requests_sent :: "('a list \<Rightarrow> 'a list option) \<Rightarrow> (int \<Rightarrow> int \<Rightarrow> 'a) \<Rightarrow> load_task \<Rightarrow> 'a list list" where
  "requests_sent sendData getData t = List.map_filter sendData (fst (task_run getData t))"

section \<open>The entry point\<close>

record client_options =
  co_test_config_path :: string
  co_instance_no :: string
  co_server_address :: string
  co_server_no :: string

definition client_settings :: "client_options \<Rightarrow> settings \<Rightarrow> settings" where
  "client_settings vm s =
     setValueForAllSections ''server_no'' (co_server_no vm)
       (setValueForAllSections ''server_address'' (co_server_address vm)
         (setValueForAllSections ''instance_no'' (co_instance_no vm) s))"

text \<open>
  The tests that are started, each with its clients, and how the loop ended: a test whose settings are
  not numbers throws, and nothing catches that before \<open>main\<close>.
\<close>

fun run_tests ::
  "(int \<Rightarrow> 64 word \<times> 64 word) \<Rightarrow> (test_case \<times> string \<times> string string_map) list
   \<Rightarrow> (test_case \<times> load_task list) list \<times> unit result" where
  "run_tests memory [] = ([], Inr ())"
| "run_tests memory ((test, name, attributes) # tests) =
     (case BasicTest_clients memory attributes of
        Inl e \<Rightarrow> ([], Inl e)
      | Inr clients \<Rightarrow> (case run_tests memory tests of (started, r) \<Rightarrow> ((test, clients) # started, r)))"

definition client_main ::
  "(int \<Rightarrow> 64 word \<times> 64 word) \<Rightarrow> (string \<Rightarrow> ptree result) \<Rightarrow> client_options result
   \<Rightarrow> int \<times> (test_case \<times> load_task list) list" where
  "client_main memory read_ini options =
     (case options of
        Inl e \<Rightarrow> (1, [])
      | Inr vm \<Rightarrow>
          (case ConfigFileReader_read read_ini (co_test_config_path vm) [] of
             (Inl e, s) \<Rightarrow> (1, [])
           | (Inr _, s) \<Rightarrow>
               (case run_tests memory (TestExecutor_handle (client_settings vm s)) of
                  (started, Inl e) \<Rightarrow> (1, started)
                | (started, Inr _) \<Rightarrow> (0, started))))"

section \<open>The tests fit together\<close>

lemma test_keys_columns:
  "\<exists>keys. test_keys instanceNo serverNo requestNo clientNo = Inr keys \<and>
    map (\<lambda>c. (cv_name c, cv_type c, cv_primary_key c, cv_distribution_key c)) keys =
      [(Some ''col1'', Some Column_Type_UINT32, Some True, Some False),
       (Some ''col2'', Some Column_Type_INT32, Some True, Some True),
       (Some ''col3'', Some Column_Type_UINT64, Some True, Some False),
       (Some ''col4'', Some Column_Type_INT64, Some True, Some False)]"
  by (simp add: test_keys_def addUInt32Column_def addInt32Column_def addUInt64Column_def addInt64Column_def
      addColumnInternal_exact getColumns_def del: le_bytes.simps)

text \<open>A set request names the store, the columns and the types that the first creating client declares.\<close>

lemma set_test_fits:
  "\<exists>create set. CreateStoreTest_getData 0 0 = CreateStoreMessage create \<and>
    SetTest_getData instanceNo serverNo requestNo clientNo = Inr (SetMessage set) \<and>
    map si_store_name (so_store_info set) = [si_store_name (CreateStoreOperation_store_info create)] \<and>
    map (\<lambda>c. (cv_name c, cv_type c)) (so_primary_key set @ so_value set) =
      map (\<lambda>c. (ci_name c, ci_type c)) (cs_column create) \<and>
    map cv_name (so_primary_key set) = map ci_name (filter (\<lambda>c. ci_primary_key c = Some True) (cs_column create))"
proof -
  obtain keys where keys: "test_keys instanceNo serverNo requestNo clientNo = Inr keys"
    and columns: "map (\<lambda>c. (cv_name c, cv_type c, cv_primary_key c, cv_distribution_key c)) keys =
      [(Some ''col1'', Some Column_Type_UINT32, Some True, Some False),
       (Some ''col2'', Some Column_Type_INT32, Some True, Some True),
       (Some ''col3'', Some Column_Type_UINT64, Some True, Some False),
       (Some ''col4'', Some Column_Type_INT64, Some True, Some False)]"
    using test_keys_columns [of instanceNo serverNo requestNo clientNo] by (elim exE conjE) (rule that)
  have digits: "to_string 0 = ''0''" by code_simp
  from columns have named: "map (\<lambda>c. (cv_name c, cv_type c)) keys = [(Some ''col1'', Some Column_Type_UINT32),
      (Some ''col2'', Some Column_Type_INT32), (Some ''col3'', Some Column_Type_UINT64), (Some ''col4'', Some Column_Type_INT64)]"
    "map cv_name keys = [Some ''col1'', Some ''col2'', Some ''col3'', Some ''col4'']"
    by auto
  show ?thesis
    unfolding SetTest_getData_def keys CreateStoreTest_getData_def
    by (simp add: addFloatColumn_def addColumnInternal_exact getColumns_def SetPrimaryKeys_set SetValues_set named
        test_store_name_def digits accessors SetOperation_new_def CreateStoreOperation_new_def StoreInfo_new_def
        ColumnInfo_new_def del: le_bytes.simps)
qed

text \<open>The transport test never sends a request, and the other tests send every bulk of their task.\<close>

lemma transport_test_sends_nothing: "requests_sent transport_sendData getData t = []"
  by (simp add: requests_sent_def transport_sendData_def List.map_filter_def)

lemma execution_test_sends_all: "requests_sent execution_sendData getData t = fst (task_run getData t)"
  by (simp add: requests_sent_def execution_sendData_def List.map_filter_def comp_def)

lemma endsWith_suffix: "endsWith str ending \<longleftrightarrow> (\<exists>start. str = start @ ending)"
proof
  assume ends: "endsWith str ending"
  then have "rev str = rev ending @ drop (length ending) (rev str)"
    by (metis append_take_drop_id endsWith_def)
  then have "str = rev (drop (length ending) (rev str)) @ ending" by (metis rev_append rev_rev_ident)
  then show "\<exists>start. str = start @ ending" by blast
qed (auto simp: endsWith_def)

end
