(* ===== verification/TestRuns.thy ===== *)
theory TestRuns
  imports ClientTests
begin

text \<open>
  A run of a load test (\<open>TestBase::run\<close> and the end of \<open>BasicTest::start\<close> in \<open>volodb-common/Test\<close> and
  \<open>volodbclientapp/Test\<close>): what it logs, the seconds it takes for itself and the bytes it adds up once
  the threads of its clients have been joined.
\<close>

section \<open>Header and footer\<close>

definition ruler :: string where "ruler = ''-------------------------------''"

definition printHeader :: "string \<Rightarrow> string string_map \<Rightarrow> string list" where
  "printHeader name m =
     [ruler, ''Test Case: '' @ name] @ map (\<lambda>(key, value). key @ '' : '' @ value) m @ [ruler]"

text \<open>Arithmetic on \<open>int\<close> and \<open>long long\<close> that leaves their range is undefined, here no result.\<close>

definition in_bits :: "nat \<Rightarrow> int \<Rightarrow> int option" where
  "in_bits n x = (if - (2 ^ (n - 1)) \<le> x \<and> x < 2 ^ (n - 1) then Some x else None)"

definition printFooter :: "test_config \<Rightarrow> int \<Rightarrow> string list option" where
  "printFooter tc duration =
     (case in_bits 32 (tc_noRequests tc * tc_noClients tc) of
        None \<Rightarrow> None
      | Some _ \<Rightarrow>
          Some [''Results:'', ''Time Taken: '' @ to_string (duration - 1) @ '' seconds'',
            ''Transactions per second: '' @ to_string (printFooter_rate tc duration), [CHR 0x0A]])"

section \<open>Adding up\<close>

fun add_bytes :: "load_task list \<Rightarrow> int \<Rightarrow> int option" where
  "add_bytes [] totalBytesReceived = Some totalBytesReceived"
| "add_bytes (task # tasks) totalBytesReceived =
     (case in_bits 64 (totalBytesReceived + getTotalBytesReceived task) of
        None \<Rightarrow> None
      | Some amount \<Rightarrow> add_bytes tasks amount)"

definition totalDataSentReceived :: "test_config \<Rightarrow> load_task list \<Rightarrow> int option" where
  "totalDataSentReceived tc tasks =
     (case add_bytes tasks 0 of
        None \<Rightarrow> None
      | Some totalBytesReceived \<Rightarrow>
          (case in_bits 32 (tc_requestSize tc * tc_noRequests tc) of
             None \<Rightarrow> None
           | Some bytes \<Rightarrow>
               (case in_bits 32 (bytes * tc_noClients tc) of
                  None \<Rightarrow> None
                | Some sent \<Rightarrow> in_bits 64 (sent + totalBytesReceived))))"

section \<open>A run\<close>

text \<open>
  \<open>joined\<close> are the tasks as their threads left them, \<open>duration\<close> the whole seconds between the two looks
  at the clock. An exception of \<open>start\<close> leaves the header behind. The result is the lines of the log and
  the two totals, or \<open>None\<close> where the arithmetic is undefined.
\<close>

definition TestBase_run ::
  "(int \<Rightarrow> 64 word \<times> 64 word) \<Rightarrow> (load_task list \<Rightarrow> load_task list) \<Rightarrow> int \<Rightarrow> string \<Rightarrow> string string_map
   \<Rightarrow> (string list \<times> (int \<times> int) result) option" where
  "TestBase_run memory joined duration name m =
     (case (TestBase_start m, BasicTest_clients memory m) of
        (Inr tc, Inr clients) \<Rightarrow>
          (case (totalDataSentReceived tc (joined clients), printFooter tc duration) of
             (Some amount, Some footer) \<Rightarrow> Some (printHeader name m @ footer, Inr (amount, duration - 1))
           | _ \<Rightarrow> None)
      | (Inl e, _) \<Rightarrow> Some (printHeader name m, Inl e)
      | (_, Inl e) \<Rightarrow> Some (printHeader name m, Inl e))"

lemma in_bits_Some [simp]: "in_bits n x = Some y \<longleftrightarrow> y = x \<and> - (2 ^ (n - 1)) \<le> x \<and> x < 2 ^ (n - 1)"
  by (auto simp: in_bits_def)

lemma add_bytes_sum: "add_bytes tasks n = Some amount \<Longrightarrow> amount = n + sum_list (map getTotalBytesReceived tasks)"
proof (induction tasks arbitrary: n)
  case (Cons task tasks)
  then show ?case by (fastforce split: option.splits simp: add.assoc)
qed simp

lemma totalDataSentReceived_exact:
  "totalDataSentReceived tc tasks = Some amount \<Longrightarrow>
    amount = tc_requestSize tc * tc_noRequests tc * tc_noClients tc + sum_list (map getTotalBytesReceived tasks)"
  using add_bytes_sum [of tasks 0] by (auto simp: totalDataSentReceived_def split: option.splits)

text \<open>A run that starts logs its settings between two rulers and counts one second less than passed.\<close>

lemma run_reports:
  assumes "TestBase_run memory joined duration name m = Some (lines, Inr (amount, seconds))"
  shows "\<exists>tc clients. TestBase_start m = Inr tc \<and> BasicTest_clients memory m = Inr clients \<and>
    take (length m + 3) lines = printHeader name m \<and> seconds = duration - 1 \<and>
    amount = tc_requestSize tc * tc_noRequests tc * tc_noClients tc + sum_list (map getTotalBytesReceived (joined clients))"
proof -
  from assms obtain tc clients where started: "TestBase_start m = Inr tc" "BasicTest_clients memory m = Inr clients"
    by (auto simp: TestBase_run_def split: sum.splits option.splits)
  with assms obtain footer where footer: "totalDataSentReceived tc (joined clients) = Some amount"
    "lines = printHeader name m @ footer" "seconds = duration - 1"
    by (auto simp: TestBase_run_def split: option.splits)
  moreover have "length (printHeader name m) = length m + 3" by (simp add: printHeader_def)
  ultimately show ?thesis using started totalDataSentReceived_exact [OF footer(1)] by simp
qed

text \<open>Two products of \<open>int\<close>s are undefined from \<open>2\<^sup>3\<^sup>1\<close> on, with \<open>long long\<close> members or not.\<close>

lemma run_undefined:
  assumes "TestBase_start m = Inr tc" "BasicTest_clients memory m = Inr clients" "2 ^ 31 \<le> tc_noRequests tc * tc_noClients tc"
  shows "TestBase_run memory joined duration name m = None"
  using assms by (auto simp: TestBase_run_def printFooter_def in_bits_def split: option.splits)

end
