(* ===== verification/Spec2Isabelle.thy ===== *)
theory Spec2Isabelle
  imports Prelude ProtoWire ProtoReference OperationProto ColumnProto DefinitionProto ManipulationProto
    FrameProto ResultProto Messages WireProperties FrameUtils FrameBuilder FrameDecoder ClientExecutor Columns
    NdbApi NdbReference TableInfoCache TableCacheSteps TestStats NdbCluster NDBMessageProcessor ServerReply
    StoreOperations RowOperations NDBMessageExecutor BatchAccounting ExecutorProperties
    RowStore NdbDatabase MemoryDatabase RowRequests RowAcceptance RowTransactions RowRefinement BatchSerial RowProperties ReadYourWrites
    ZmqHandles ZmqSockets ZmqMessages ReplyMessages ServerTransport ClientTransport StoreTasks StoreThreads StoreStartUp StoreServing StoreLife StoreProperties
    RequestPath ReplyPath Settings Logging ServerMain ResultPrinting LoadTasks ClientTests TestRuns
begin

text \<open>
  VoloDB is a key-value store over MySQL Cluster: a client library that frames requests as protocol
  buffers and sends them over ZeroMQ, and a server that decodes them, distributes them over executor
  threads and executes them through the asynchronous NDB interface, or as SQL statements for the
  operations that define stores. This development models both in the order a request takes.

  \<^bold>\<open>The wire format\<close> (\<open>volodb-common/ProtoBuf\<close>, \<open>volodb-common/Frame\<close>). \<open>ProtoWire\<close> is the runtime of
  the generated code as a record of functions, with its documented behaviour as the locale
  \<open>protobuf_wire\<close> and the parse loop every class shares; \<open>ProtoReference\<close> interprets the locale on the
  base-128 encoding. The six theories \<open>OperationProto\<close>, \<open>ColumnProto\<close>, \<open>DefinitionProto\<close>,
  \<open>ManipulationProto\<close>, \<open>FrameProto\<close> and \<open>ResultProto\<close> hold the fifteen classes, one record with its
  accessors, \<open>Clear\<close>, \<open>MergeFrom\<close>, sizes, both serialisers and the parse step each. \<open>Messages\<close> is their
  sum and \<open>WireProperties\<close> its round trip, termination, sizes and required fields. \<open>FrameUtils\<close>,
  \<open>FrameBuilder\<close> and \<open>FrameDecoder\<close> are the classes of these names.

  \<^bold>\<open>The client\<close> (\<open>volodb-client\<close>, \<open>volodb-common/AttributeUtils\<close>). \<open>ClientExecutor\<close> has the requests and
  responses of \<open>Executor.cpp\<close> and shows that the server decodes what the client frames; \<open>Columns\<close> the
  typed values of a row and what reading them back gives; \<open>ResultPrinting\<close> the text of a result;
  \<open>ClientTransport\<close> the sockets and worker threads. \<open>LoadTasks\<close> and \<open>ClientTests\<close> are the load tests of
  \<open>volodbclientapp\<close> and \<open>volodb-common/Test\<close>: how a client sends in bulks, counts responses and ends,
  what each test sends, and how tests are chosen and configured; \<open>TestRuns\<close> is what a run logs and adds up.

  \<^bold>\<open>The sockets\<close> (\<open>volodb-common/Transport/zmq.hpp\<close>, \<open>volodbserver/Utils\<close>). \<open>ZmqSockets\<close> has the library
  as a record of calls over a state of its own, the members of \<open>zmq::socket_t\<close> the program uses, and
  the loop that drains a socket; the locale \<open>zmq_sending\<close> states what a send does to a log of what the
  library accepted. \<open>ZmqHandles\<close> has the constructors, moves and destructors of contexts and sockets as
  a step relation: no handle is closed twice, and none is left open once the objects are gone.
  \<open>ZmqMessages\<close> has \<open>message_t\<close> over the locale \<open>zmq_messages\<close>, and \<open>ReplyMessages\<close> shows that the executor's
  replies, which copy the identity of the client because a send empties it, are the replies of the model.

  \<^bold>\<open>The server\<close> (\<open>volodbserver\<close>). \<open>ServerTransport\<close> has the workers between the clients and the store.
  \<open>NDBMessageProcessor\<close> distributes decoded transactions over the executors;
  \<open>TableInfoCache\<close> is the cache of table information with its own contract, the locale
  \<open>table_cache\<close>, and \<open>TableCacheSteps\<close> its accesses by the executor threads as
  a step relation, with the race of a lookup with a drop. \<open>NdbApi\<close> is the interface of
  MySQL and NDB as a record of calls; \<open>NdbCluster\<close> states in the locale
  \<open>ndb_cluster\<close> what the executor relies on and interprets it on the small cluster of
  \<open>NdbReference\<close>. \<open>ServerReply\<close>, \<open>StoreOperations\<close>,
  \<open>RowOperations\<close> and \<open>NDBMessageExecutor\<close> are the parts of
  \<open>NDBMessageExecutor.cpp\<close>: results and the execution callback, store definitions, row
  operations and the control of requests and batches; \<open>BatchAccounting\<close> and
  \<open>ExecutorProperties\<close> show that every request is answered as often as it asks for and that
  no transaction is left over. The next section is
  on what they do to rows. \<open>StoreTasks\<close>,
  \<open>StoreThreads\<close>, \<open>StoreStartUp\<close> and \<open>StoreLife\<close> are the parts of \<open>Store.cpp\<close>: handing tasks to the
  executors over a heap of task lists, the threads and their endpoints, the wait of \<open>run\<close> as a step
  relation, and construction, start, stop and destruction. \<open>StoreProperties\<close> has the theorems on the
  handover, \<open>RequestPath\<close> follows one request from the client's bytes to its answer, and \<open>ReplyPath\<close> the
  replies from the executors through the transport to the delegate of their client. \<open>StoreServing\<close> has
  the requests that arrive while the server starts: an executor may execute one before the connections
  to the cluster are there, and after that none is executed without.
  \<open>TestStats\<close> counts throughput.

  \<^bold>\<open>The rows of the database.\<close> \<open>RowStore\<close> is an abstract store of rows and what one operation, a
  transaction and a sequence of them mean on it. The locale \<open>ndb_database\<close> (\<open>NdbDatabase\<close>) extends
  \<open>ndb_cluster\<close> by what the calls of NDB are documented to do to the rows and to the operations under
  definition; \<open>MemoryDatabase\<close> interprets it on a database in memory, with the asynchronous execution
  of transactions. \<open>RowRequests\<close> gives each set, delete and get operation its meaning and shows that
  the code of \<open>executeSet\<close>, \<open>executeDelete\<close> and \<open>executeGet\<close> defines exactly that; \<open>RowTransactions\<close> lifts
  it to a request and \<open>RowRefinement\<close> to the callback that reports its outcome; \<open>BatchSerial\<close> is the
  simulation over the waits of a batch. When a call may fail is a promise of the cluster, a parameter of
  the locale; \<open>RowAcceptance\<close> shows that no call fails on a request the promise covers.
  \<open>RowProperties\<close> has the conclusions: a batch acts like a serial execution of its requests, of which only
  those fail that the promise lets fail; what was set is read back, what was deleted is gone, and a scan
  finds exactly the matching rows. \<open>ReadYourWrites\<close> takes this from the bytes of the client to the
  results its delegate is handed.

  \<^bold>\<open>Configuration\<close> (\<open>volodb-common/Config\<close>, \<open>volodb-common/Logging\<close>, \<open>volodbserver/main.cpp\<close>). \<open>Settings\<close>
  has the reader of the configuration file and the conversions, \<open>Logging\<close> the two log headers, and
  \<open>ServerMain\<close> the entry point with its settings, test modes and outcomes.

  \<^bold>\<open>Conventions.\<close> A record has the fields of its class, a routine that can fail returns \<open>fault + 'a\<close>, one
  that may not end an \<open>option\<close> of that; undefined behaviour is a fault of its own (\<open>Prelude\<close>). Fields of
  fixed width are words. Libraries are records of functions the definitions take as arguments, with
  their documented behaviour in a locale; random numbers, the order of an unordered map, addresses of
  the allocator, the time and successive reads of flags other threads write are arguments too.

  \<^bold>\<open>Loops and bounds.\<close> The parse loop has one unit of fuel for each byte and one more, and each round
  consumes at least a byte (\<open>message_parse_terminates\<close>). The drain loops and the wait for callbacks are
  partial functions into options, so that not returning is a value: \<open>receive_bounded\<close>,
  \<open>batch_answers_all\<close> and \<open>scan_rows_complete\<close> show that they return under the stated conditions. A
  thread's outer loop runs over the list of the flag values it reads.

  \<^bold>\<open>Not modelled.\<close> Descriptors, reflection and memory management of the generated classes; the proxy
  \<open>zmq::proxy\<close>, monitors and the moves of message objects in the ZeroMQ header; interleavings inside a
  round of a thread (a round is one step; the start-up and the end of a load client are modelled step by
  step); destructors of static objects after \<open>main\<close>; the transport test of the server, which nothing
  calls; the helpers of \<open>zhelpers.hpp\<close>, which nothing includes; build files and binaries.
\<close>

end
